(* ===== verification/Spw_Prelude.thy ===== *)
theory Spw_Prelude
  imports Main "HOL-Library.Word"
begin

text \<open>
  Shared vocabulary of the development: the machine integer types of the C code, byte
  buffers and the way \<open>memcpy\<close> changes them, and the big-endian byte lemmas on which
  both wire codecs (\<open>src/backends/ethernet/vspw_tp.c\<close> and
  \<open>src/backends/device/vspw_device_protocol.c\<close>) rest.

  Conventions used by every theory:
  \<^item> \<open>uintN_t\<close> is \<open>N word\<close>; arithmetic on it wraps, as in C;
  \<^item> a buffer together with its size argument is one list, its length being the size;
    a pointer that the code compares with \<open>NULL\<close> is an \<open>option\<close>;
  \<^item> \<open>size_t\<close> values that index or count inside such a buffer are \<open>nat\<close>; where the
    source computes with \<open>SIZE_MAX\<close> they are \<open>64 word\<close>.
\<close>

unbundle bit_operations_syntax

type_synonym u8 = "8 word"
type_synonym u16 = "16 word"
type_synonym u32 = "32 word"
type_synonym u64 = "64 word"
type_synonym bytes = "8 word list"

named_theorems be_simps \<open>big-endian reads and writes\<close>
named_theorems buf_simps \<open>length and contents of updated buffers\<close>

named_theorems guard_simps \<open>chains of early error returns\<close>

section \<open>Early returns\<close>

text \<open>
  A C function that returns an error code behind a guard is \<open>if c then (error, state) else rest\<close>;
  the outcome \<open>k\<close> of the whole is then an outcome of the rest.
\<close>

lemma guard_pair_iff [guard_simps]:
  "e \<noteq> k \<Longrightarrow> ((if c then (e, x) else r) = (k, y)) \<longleftrightarrow> \<not> c \<and> r = (k, y)"
  by auto

lemma guard_fst_iff [guard_simps]:
  "e \<noteq> k \<Longrightarrow> (fst (if c then (e, x) else r) = k) \<longleftrightarrow> \<not> c \<and> fst r = k"
  by auto

section \<open>Byte buffers\<close>

text \<open>\<open>memcpy (dst + off, src, n)\<close> on a buffer with room for it.\<close>

definition memcpy :: "bytes \<Rightarrow> nat \<Rightarrow> bytes \<Rightarrow> nat \<Rightarrow> bytes" where
  "memcpy dst off src n = take off dst @ take n src @ drop (off + n) dst"

lemma length_memcpy [simp, buf_simps]:
  "off + n \<le> length dst \<Longrightarrow> n \<le> length src \<Longrightarrow> length (memcpy dst off src n) = length dst"
  by (simp add: memcpy_def)

lemma nth_memcpy [buf_simps]:
  assumes "off + n \<le> length dst" and "n \<le> length src" and "i < length dst"
  shows "memcpy dst off src n ! i = (if off \<le> i \<and> i < off + n then src ! (i - off) else dst ! i)"
proof -
  consider "i < off" | "off \<le> i" "i < off + n" | "off + n \<le> i" by linarith
  then show ?thesis
    using assms by cases (auto simp: memcpy_def nth_append min_absorb1 min_absorb2)
qed

lemma memcpy_zero [simp]: "memcpy dst off src 0 = dst"
  by (simp add: memcpy_def)

lemma take_memcpy_front [buf_simps]: "n \<le> length src \<Longrightarrow> take n (memcpy dst 0 src n) = take n src"
  by (simp add: memcpy_def)

section \<open>Words as numbers\<close>

lemma unat_ucast_widen:
  assumes "LENGTH('a) \<le> LENGTH('b)"
  shows "unat (ucast (x :: 'a::len word) :: 'b::len word) = unat x"
proof -
  have "unat x < 2 ^ LENGTH('a)" by (rule unsigned_less)
  also have "\<dots> \<le> 2 ^ LENGTH('b)" using assms by simp
  finally show ?thesis by (simp add: unsigned_ucast_eq take_bit_nat_eq_self)
qed

lemma unat_add_small: "unat a + unat b < 2 ^ LENGTH('a) \<Longrightarrow> unat (a + b :: 'a::len word) = unat a + unat b"
  by (rule unat_add_lem [THEN iffD1])

lemma unat_mult_small: "unat a * unat b < 2 ^ LENGTH('a) \<Longrightarrow> unat (a * b :: 'a::len word) = unat a * unat b"
  by (rule unat_mult_lem [THEN iffD1])

section \<open>Big-endian bytes\<close>

lemma and_ff_take_bit: "(x :: 'a::len word) AND 0xff = take_bit 8 x"
  by (simp add: take_bit_eq_mask mask_numeral)

lemma ucast_and_ff [be_simps]: "(ucast ((x :: 'a::len word) AND 0xff) :: u8) = ucast x"
  by (rule bit_word_eqI) (simp add: and_ff_take_bit bit_ucast_iff bit_take_bit_iff)

lemma ucast_and_ffffffff [be_simps]: "(ucast ((x :: u64) AND 0xffffffff) :: u32) = ucast x"
proof -
  have "x AND 0xffffffff = take_bit 32 x" by (simp add: take_bit_eq_mask mask_numeral)
  then show ?thesis
    by (auto intro!: bit_word_eqI simp: bit_ucast_iff bit_take_bit_iff)
qed

definition be16 :: "u8 \<Rightarrow> u8 \<Rightarrow> u16" where
  "be16 a b = push_bit 8 (ucast a) OR ucast b"

definition be32 :: "u8 \<Rightarrow> u8 \<Rightarrow> u8 \<Rightarrow> u8 \<Rightarrow> u32" where
  "be32 a b c d = push_bit 24 (ucast a) OR push_bit 16 (ucast b) OR push_bit 8 (ucast c) OR ucast d"

definition be64 :: "u32 \<Rightarrow> u32 \<Rightarrow> u64" where
  "be64 a b = push_bit 32 (ucast a) OR ucast b"

lemmas bit_field_simps = bit_or_iff bit_push_bit_iff bit_ucast_iff bit_take_bit_iff bit_drop_bit_eq

lemma be16_split [be_simps]: "be16 (ucast (drop_bit 8 v)) (ucast v) = v"
proof (rule bit_word_eqI)
  fix n assume "n < LENGTH(16)"
  then consider "n < 8" | "8 \<le> n" "n < 16" by fastforce
  then show "bit (be16 (ucast (drop_bit 8 v)) (ucast v)) n = bit v n"
    by cases (auto simp: be16_def bit_field_simps)
qed

lemma be32_split [be_simps]:
  "be32 (ucast (drop_bit 24 v)) (ucast (drop_bit 16 v)) (ucast (drop_bit 8 v)) (ucast v) = v"
proof (rule bit_word_eqI)
  fix n assume "n < LENGTH(32)"
  then consider "n < 8" | "8 \<le> n" "n < 16" | "16 \<le> n" "n < 24" | "24 \<le> n" "n < 32" by fastforce
  then show "bit (be32 (ucast (drop_bit 24 v)) (ucast (drop_bit 16 v)) (ucast (drop_bit 8 v))
      (ucast v)) n = bit v n"
    by cases (auto simp add: be32_def bit_field_simps)
qed

lemma be64_split [be_simps]: "be64 (ucast (drop_bit 32 v)) (ucast v) = v"
proof (rule bit_word_eqI)
  fix n assume "n < LENGTH(64)"
  then consider "n < 32" | "32 \<le> n" "n < 64" by fastforce
  then show "bit (be64 (ucast (drop_bit 32 v)) (ucast v)) n = bit v n"
    by cases (auto simp: be64_def bit_field_simps)
qed

lemma be16_hi [be_simps]: "(ucast (drop_bit 8 (be16 a b)) :: u8) = a"
  by (rule bit_word_eqI) (auto simp: be16_def bit_field_simps dest: bit_imp_le_length)

lemma be16_lo [be_simps]: "(ucast (be16 a b) :: u8) = b"
  by (rule bit_word_eqI) (auto simp: be16_def bit_field_simps dest: bit_imp_le_length)

lemma be32_b3 [be_simps]: "(ucast (drop_bit 24 (be32 a b c d)) :: u8) = a"
  by (rule bit_word_eqI) (auto simp: be32_def bit_field_simps dest: bit_imp_le_length)

lemma be32_b2 [be_simps]: "(ucast (drop_bit 16 (be32 a b c d)) :: u8) = b"
  by (rule bit_word_eqI) (auto simp: be32_def bit_field_simps dest: bit_imp_le_length)

lemma be32_b1 [be_simps]: "(ucast (drop_bit 8 (be32 a b c d)) :: u8) = c"
  by (rule bit_word_eqI) (auto simp: be32_def bit_field_simps dest: bit_imp_le_length)

lemma be32_b0 [be_simps]: "(ucast (be32 a b c d) :: u8) = d"
  by (rule bit_word_eqI) (auto simp: be32_def bit_field_simps dest: bit_imp_le_length)

lemma be64_hi [be_simps]: "(ucast (drop_bit 32 (be64 a b)) :: u32) = a"
  by (rule bit_word_eqI) (auto simp: be64_def bit_field_simps dest: bit_imp_le_length)

lemma be64_lo [be_simps]: "(ucast (be64 a b) :: u32) = b"
  by (rule bit_word_eqI) (auto simp: be64_def bit_field_simps dest: bit_imp_le_length)

end
