(* ===== verification/Spw_Types.thy ===== *)
theory Spw_Types
  imports Spw_Prelude
begin

text \<open>
  The public data model (\<open>include/spwkit/types.h\<close>): result codes, terminators, link
  states, capability bits, packets, time codes and statistics. Result codes are a datatype
  with one constructor per code; the other enumerations stay the small integers the C code
  (and the wire) uses, named by abbreviations.
\<close>

datatype spw_result =
    SPW_OK
  | SPW_ERR_INVALID_ARGUMENT
  | SPW_ERR_INVALID_STATE
  | SPW_ERR_TIMEOUT
  | SPW_ERR_UNSUPPORTED
  | SPW_ERR_RESOURCE_EXHAUSTED
  | SPW_ERR_LINK_UNAVAILABLE
  | SPW_ERR_BUFFER_TOO_SMALL
  | SPW_ERR_INVALID_PACKET
  | SPW_ERR_BACKEND

abbreviation SPW_TIMEOUT_IMMEDIATE :: u64 where "SPW_TIMEOUT_IMMEDIATE \<equiv> 0"
abbreviation SPW_TIMEOUT_INFINITE :: u64 where "SPW_TIMEOUT_INFINITE \<equiv> - 1"

abbreviation SPW_TERMINATOR_EOP :: u8 where "SPW_TERMINATOR_EOP \<equiv> 0"
abbreviation SPW_TERMINATOR_EEP :: u8 where "SPW_TERMINATOR_EEP \<equiv> 1"

abbreviation SPW_LINK_ERROR_RESET :: u8 where "SPW_LINK_ERROR_RESET \<equiv> 0"
abbreviation SPW_LINK_ERROR_WAIT :: u8 where "SPW_LINK_ERROR_WAIT \<equiv> 1"
abbreviation SPW_LINK_READY :: u8 where "SPW_LINK_READY \<equiv> 2"
abbreviation SPW_LINK_STARTED :: u8 where "SPW_LINK_STARTED \<equiv> 3"
abbreviation SPW_LINK_CONNECTING :: u8 where "SPW_LINK_CONNECTING \<equiv> 4"
abbreviation SPW_LINK_RUN :: u8 where "SPW_LINK_RUN \<equiv> 5"

abbreviation SPW_CAP_EEP :: u64 where "SPW_CAP_EEP \<equiv> 1"
abbreviation SPW_CAP_TIME_CODE :: u64 where "SPW_CAP_TIME_CODE \<equiv> 2"
abbreviation SPW_CAP_LINK_CONTROL :: u64 where "SPW_CAP_LINK_CONTROL \<equiv> 4"
abbreviation SPW_CAP_STATISTICS :: u64 where "SPW_CAP_STATISTICS \<equiv> 8"
abbreviation SPW_CAP_RATE_CONTROL :: u64 where "SPW_CAP_RATE_CONTROL \<equiv> 16"
abbreviation SPW_CAP_FAULT_INJECTION :: u64 where "SPW_CAP_FAULT_INJECTION \<equiv> 32"
abbreviation SPW_CAP_ZERO_COPY :: u64 where "SPW_CAP_ZERO_COPY \<equiv> 64"
abbreviation SPW_CAP_READINESS :: u64 where "SPW_CAP_READINESS \<equiv> 128"

abbreviation SPW_READY_NONE :: u32 where "SPW_READY_NONE \<equiv> 0"
abbreviation SPW_READY_RX_PACKET :: u32 where "SPW_READY_RX_PACKET \<equiv> 1"
abbreviation SPW_READY_RX_TIME_CODE :: u32 where "SPW_READY_RX_TIME_CODE \<equiv> 2"
abbreviation SPW_READY_ALL :: u32 where "SPW_READY_ALL \<equiv> 3"

record spw_capabilities =
  cap_bits :: u64
  cap_max_packet_size :: nat
  cap_tx_queue_depth :: nat
  cap_rx_queue_depth :: nat
  cap_buffer_alignment :: nat

text \<open>
  A packet descriptor of copied I/O. For transmission \<open>pk_data\<close> holds the caller's
  bytes, for reception it is the caller's writable storage; \<open>None\<close> is a null pointer.
\<close>

record spw_packet =
  pk_data :: "bytes option"
  pk_length :: nat
  pk_capacity :: nat
  pk_terminator :: u8

record spw_time_code =
  time_count :: u8
  control_flags :: u8

record spw_statistics =
  tx_packets :: u64
  rx_packets :: u64
  tx_bytes :: u64
  rx_bytes :: u64
  tx_time_codes :: u64
  rx_time_codes :: u64
  eep_packets :: u64
  link_errors :: u64
  dropped_packets :: u64

record spw_fault_statistics =
  transport_drops :: u64
  transport_duplicates :: u64
  transport_reorders :: u64
  transport_delays :: u64
  spacewire_eep_injections :: u64

text \<open>\<open>memset (&statistics, 0, sizeof)\<close>.\<close>

definition zero_statistics :: spw_statistics where
  "zero_statistics = \<lparr>tx_packets = 0, rx_packets = 0, tx_bytes = 0, rx_bytes = 0,
     tx_time_codes = 0, rx_time_codes = 0, eep_packets = 0, link_errors = 0, dropped_packets = 0\<rparr>"

definition zero_fault_statistics :: spw_fault_statistics where
  "zero_fault_statistics = \<lparr>transport_drops = 0, transport_duplicates = 0, transport_reorders = 0,
     transport_delays = 0, spacewire_eep_injections = 0\<rparr>"

text \<open>The logical content of a SpaceWire packet: its bytes and its terminator.\<close>

type_synonym logical_packet = "bytes \<times> u8"

text \<open>What a caller of a copied-I/O operation owes: the storage behind the pointer.\<close>

definition tx_packet_ok :: "spw_packet \<Rightarrow> bool" where
  "tx_packet_ok p \<longleftrightarrow> (case pk_data p of None \<Rightarrow> pk_length p = 0 | Some d \<Rightarrow> pk_length p \<le> length d)"

definition rx_packet_ok :: "spw_packet \<Rightarrow> bool" where
  "rx_packet_ok p \<longleftrightarrow> (case pk_data p of None \<Rightarrow> True | Some d \<Rightarrow> pk_capacity p \<le> length d)"

definition packet_bytes :: "spw_packet \<Rightarrow> bytes" where
  "packet_bytes p = (case pk_data p of None \<Rightarrow> [] | Some d \<Rightarrow> take (pk_length p) d)"

definition logical_of :: "spw_packet \<Rightarrow> logical_packet" where
  "logical_of p = (packet_bytes p, pk_terminator p)"

lemma length_packet_bytes [simp]: "tx_packet_ok p \<Longrightarrow> length (packet_bytes p) = pk_length p"
  by (simp add: tx_packet_ok_def packet_bytes_def split: option.splits)

end
