(* ===== verification/Vspw_Tp.thy ===== *)
theory Vspw_Tp
  imports Spw_Types
begin

text \<open>
  The VSPW-TP datagram header codec (\<open>src/backends/ethernet/vspw_tp.c\<close> and \<open>vspw_tp.h\<close>):
  the 40-byte big-endian header, its validation and the acknowledgement payload. The lemmas
  show that encoding and decoding are inverse to each other on valid headers, which errors
  decoding reports, and that a header that passes validation describes a fragment inside its
  packet.
\<close>

section \<open>Constants and data\<close>

abbreviation SPW_VSPW_TP_MAGIC :: u32 where "SPW_VSPW_TP_MAGIC \<equiv> 0x56535057"
abbreviation SPW_VSPW_TP_VERSION_MAJOR :: u8 where "SPW_VSPW_TP_VERSION_MAJOR \<equiv> 1"
abbreviation SPW_VSPW_TP_VERSION_MINOR :: u8 where "SPW_VSPW_TP_VERSION_MINOR \<equiv> 0"
abbreviation SPW_VSPW_TP_HEADER_SIZE :: nat where "SPW_VSPW_TP_HEADER_SIZE \<equiv> 40"
abbreviation SPW_VSPW_TP_MAX_UDP_PAYLOAD :: nat where "SPW_VSPW_TP_MAX_UDP_PAYLOAD \<equiv> 65507"
abbreviation SPW_VSPW_TP_MAX_FRAGMENT_PAYLOAD :: nat where
  "SPW_VSPW_TP_MAX_FRAGMENT_PAYLOAD \<equiv> 65467"
abbreviation SPW_VSPW_TP_MAX_PACKET_SIZE :: nat where "SPW_VSPW_TP_MAX_PACKET_SIZE \<equiv> 16777216"
abbreviation SPW_VSPW_TP_TIME_CODE_PAYLOAD_SIZE :: nat where
  "SPW_VSPW_TP_TIME_CODE_PAYLOAD_SIZE \<equiv> 2"
abbreviation SPW_VSPW_TP_ACK_PAYLOAD_SIZE :: nat where "SPW_VSPW_TP_ACK_PAYLOAD_SIZE \<equiv> 8"

abbreviation SPW_VSPW_TP_DATA :: u8 where "SPW_VSPW_TP_DATA \<equiv> 1"
abbreviation SPW_VSPW_TP_TIME_CODE :: u8 where "SPW_VSPW_TP_TIME_CODE \<equiv> 2"
abbreviation SPW_VSPW_TP_LINK_CONTROL :: u8 where "SPW_VSPW_TP_LINK_CONTROL \<equiv> 3"
abbreviation SPW_VSPW_TP_KEEPALIVE :: u8 where "SPW_VSPW_TP_KEEPALIVE \<equiv> 4"
abbreviation SPW_VSPW_TP_ACK :: u8 where "SPW_VSPW_TP_ACK \<equiv> 5"

abbreviation SPW_VSPW_TP_FLAG_NONE :: u8 where "SPW_VSPW_TP_FLAG_NONE \<equiv> 0"
abbreviation SPW_VSPW_TP_FLAG_EOP :: u8 where "SPW_VSPW_TP_FLAG_EOP \<equiv> 1"
abbreviation SPW_VSPW_TP_FLAG_EEP :: u8 where "SPW_VSPW_TP_FLAG_EEP \<equiv> 2"
abbreviation SPW_VSPW_TP_FLAG_FRAGMENT_START :: u8 where "SPW_VSPW_TP_FLAG_FRAGMENT_START \<equiv> 4"
abbreviation SPW_VSPW_TP_FLAG_FRAGMENT_END :: u8 where "SPW_VSPW_TP_FLAG_FRAGMENT_END \<equiv> 8"
abbreviation SPW_VSPW_TP_FLAG_ACK_REQUIRED :: u8 where "SPW_VSPW_TP_FLAG_ACK_REQUIRED \<equiv> 16"

record vspw_tp_header =
  tp_version_major :: u8
  tp_version_minor :: u8
  tp_type :: u8
  tp_flags :: u8
  tp_header_size :: u16
  tp_payload_size :: u16
  tp_link_id :: u32
  tp_session_id :: u64
  tp_sequence :: u32
  tp_message_id :: u32
  tp_fragment_offset :: u32
  tp_total_size :: u32

definition SPW_VSPW_TP_HEADER_INITIALIZER :: vspw_tp_header where
  "SPW_VSPW_TP_HEADER_INITIALIZER = \<lparr>tp_version_major = SPW_VSPW_TP_VERSION_MAJOR,
     tp_version_minor = SPW_VSPW_TP_VERSION_MINOR, tp_type = SPW_VSPW_TP_DATA,
     tp_flags = SPW_VSPW_TP_FLAG_NONE, tp_header_size = 40, tp_payload_size = 0, tp_link_id = 0,
     tp_session_id = 0, tp_sequence = 0, tp_message_id = 0, tp_fragment_offset = 0, tp_total_size = 0\<rparr>"

datatype vspw_tp_decode_result =
    SPW_VSPW_TP_DECODE_OK
  | SPW_VSPW_TP_DECODE_BUFFER_TOO_SMALL
  | SPW_VSPW_TP_DECODE_BAD_MAGIC
  | SPW_VSPW_TP_DECODE_UNSUPPORTED_VERSION
  | SPW_VSPW_TP_DECODE_UNSUPPORTED_TYPE
  | SPW_VSPW_TP_DECODE_INVALID_HEADER_SIZE
  | SPW_VSPW_TP_DECODE_INVALID_PAYLOAD_SIZE
  | SPW_VSPW_TP_DECODE_INVALID_SESSION
  | SPW_VSPW_TP_DECODE_INVALID_FLAGS
  | SPW_VSPW_TP_DECODE_INVALID_FRAGMENT

section \<open>Integer fields\<close>

definition write_u16 :: "bytes \<Rightarrow> nat \<Rightarrow> u16 \<Rightarrow> bytes" where
  "write_u16 dst off value =
     (dst[off := ucast (drop_bit 8 value AND 0xff)])[off + 1 := ucast (value AND 0xff)]"

definition write_u32 :: "bytes \<Rightarrow> nat \<Rightarrow> u32 \<Rightarrow> bytes" where
  "write_u32 dst off value =
     (((dst[off := ucast (drop_bit 24 value AND 0xff)])
           [off + 1 := ucast (drop_bit 16 value AND 0xff)])
           [off + 2 := ucast (drop_bit 8 value AND 0xff)])
           [off + 3 := ucast (value AND 0xff)]"

definition write_u64 :: "bytes \<Rightarrow> nat \<Rightarrow> u64 \<Rightarrow> bytes" where
  "write_u64 dst off value =
     write_u32 (write_u32 dst off (ucast (drop_bit 32 value))) (off + 4)
       (ucast (value AND 0xffffffff))"

definition read_u16 :: "bytes \<Rightarrow> nat \<Rightarrow> u16" where
  "read_u16 src off = push_bit 8 (ucast (src ! off)) OR ucast (src ! (off + 1))"

definition read_u32 :: "bytes \<Rightarrow> nat \<Rightarrow> u32" where
  "read_u32 src off = push_bit 24 (ucast (src ! off)) OR push_bit 16 (ucast (src ! (off + 1)))
     OR push_bit 8 (ucast (src ! (off + 2))) OR ucast (src ! (off + 3))"

definition read_u64 :: "bytes \<Rightarrow> nat \<Rightarrow> u64" where
  "read_u64 src off = push_bit 32 (ucast (read_u32 src off)) OR ucast (read_u32 src (off + 4))"

section \<open>Validation\<close>

definition has_flag :: "u8 \<Rightarrow> u8 \<Rightarrow> bool" where
  "has_flag flags flag \<longleftrightarrow> flags AND flag \<noteq> 0"

definition spw_vspw_tp_is_known_type :: "u8 \<Rightarrow> bool" where
  "spw_vspw_tp_is_known_type type \<longleftrightarrow>
     type = SPW_VSPW_TP_DATA \<or> type = SPW_VSPW_TP_TIME_CODE \<or> type = SPW_VSPW_TP_LINK_CONTROL \<or>
     type = SPW_VSPW_TP_KEEPALIVE \<or> type = SPW_VSPW_TP_ACK"

definition validate_flags :: "vspw_tp_header \<Rightarrow> bool" where
  "validate_flags header =
     (let known_flags = SPW_VSPW_TP_FLAG_EOP OR SPW_VSPW_TP_FLAG_EEP OR
            SPW_VSPW_TP_FLAG_FRAGMENT_START OR SPW_VSPW_TP_FLAG_FRAGMENT_END OR
            SPW_VSPW_TP_FLAG_ACK_REQUIRED
      in if tp_flags header AND NOT known_flags \<noteq> 0 then False
         else if has_flag (tp_flags header) SPW_VSPW_TP_FLAG_EOP \<and>
                 has_flag (tp_flags header) SPW_VSPW_TP_FLAG_EEP then False
         else if tp_type header \<noteq> SPW_VSPW_TP_DATA \<and>
                 (has_flag (tp_flags header) SPW_VSPW_TP_FLAG_EOP \<or>
                  has_flag (tp_flags header) SPW_VSPW_TP_FLAG_EEP) then False
         else if has_flag (tp_flags header) SPW_VSPW_TP_FLAG_ACK_REQUIRED \<and>
                 tp_type header \<noteq> SPW_VSPW_TP_DATA \<and> tp_type header \<noteq> SPW_VSPW_TP_TIME_CODE
              then False
         else True)"

text \<open>The sums of \<open>uint32_t\<close> fields are computed in 64 bits in the source, hence on \<open>nat\<close> here.\<close>

definition validate_fragment :: "vspw_tp_header \<Rightarrow> bool" where
  "validate_fragment header =
     (let start = has_flag (tp_flags header) SPW_VSPW_TP_FLAG_FRAGMENT_START;
          end = has_flag (tp_flags header) SPW_VSPW_TP_FLAG_FRAGMENT_END
      in if unat (tp_total_size header) > SPW_VSPW_TP_MAX_PACKET_SIZE \<or>
            unat (tp_payload_size header) > SPW_VSPW_TP_MAX_FRAGMENT_PAYLOAD \<or>
            tp_fragment_offset header > tp_total_size header \<or>
            unat (tp_fragment_offset header) + unat (tp_payload_size header) > unat (tp_total_size header)
         then False
         else if tp_type header \<noteq> SPW_VSPW_TP_DATA
         then tp_fragment_offset header = 0 \<and> unat (tp_total_size header) = unat (tp_payload_size header) \<and>
              \<not> start \<and> \<not> end
         else if unat (tp_total_size header) = unat (tp_payload_size header)
         then tp_fragment_offset header = 0 \<and> \<not> start \<and> \<not> end
         else if \<not> start \<and> \<not> end \<and> tp_payload_size header = 0 then False
         else if start \<and> tp_fragment_offset header \<noteq> 0 then False
         else if end \<and> unat (tp_fragment_offset header) + unat (tp_payload_size header) \<noteq>
                       unat (tp_total_size header) then False
         else True)"

definition validate_message_shape :: "vspw_tp_header \<Rightarrow> bool" where
  "validate_message_shape header =
     (if tp_type header = SPW_VSPW_TP_DATA then True
      else if tp_type header = SPW_VSPW_TP_TIME_CODE
      then unat (tp_payload_size header) = SPW_VSPW_TP_TIME_CODE_PAYLOAD_SIZE \<and>
           unat (tp_total_size header) = SPW_VSPW_TP_TIME_CODE_PAYLOAD_SIZE
      else if tp_type header = SPW_VSPW_TP_KEEPALIVE
      then tp_payload_size header = 0 \<and> tp_total_size header = 0 \<and> tp_message_id header = 0
      else if tp_type header = SPW_VSPW_TP_ACK
      then unat (tp_payload_size header) = SPW_VSPW_TP_ACK_PAYLOAD_SIZE \<and>
           unat (tp_total_size header) = SPW_VSPW_TP_ACK_PAYLOAD_SIZE \<and> tp_message_id header \<noteq> 0
      else if tp_type header = SPW_VSPW_TP_LINK_CONTROL then True
      else False)"

definition spw_vspw_tp_validate :: "vspw_tp_header option \<Rightarrow> bool" where
  "spw_vspw_tp_validate header_ptr =
     (case header_ptr of None \<Rightarrow> False
      | Some header \<Rightarrow>
          tp_version_major header = SPW_VSPW_TP_VERSION_MAJOR \<and>
          tp_version_minor header \<le> SPW_VSPW_TP_VERSION_MINOR \<and>
          spw_vspw_tp_is_known_type (tp_type header) \<and>
          unat (tp_header_size header) = SPW_VSPW_TP_HEADER_SIZE \<and>
          tp_session_id header \<noteq> 0 \<and> validate_flags header \<and> validate_fragment header \<and>
          validate_message_shape header)"

section \<open>Header and acknowledgement codec\<close>

definition spw_vspw_tp_encode_header ::
    "vspw_tp_header option \<Rightarrow> bytes option \<Rightarrow> bool \<times> bytes option" where
  "spw_vspw_tp_encode_header header_ptr destination_ptr =
     (case destination_ptr of None \<Rightarrow> (False, None)
      | Some destination \<Rightarrow>
          (case header_ptr of None \<Rightarrow> (False, Some destination)
           | Some header \<Rightarrow>
               if length destination < SPW_VSPW_TP_HEADER_SIZE \<or>
                  \<not> spw_vspw_tp_validate (Some header)
               then (False, Some destination)
               else let
                 destination = write_u32 destination 0 SPW_VSPW_TP_MAGIC;
                 destination = destination[4 := tp_version_major header];
                 destination = destination[5 := tp_version_minor header];
                 destination = destination[6 := tp_type header];
                 destination = destination[7 := tp_flags header];
                 destination = write_u16 destination 8 (tp_header_size header);
                 destination = write_u16 destination 10 (tp_payload_size header);
                 destination = write_u32 destination 12 (tp_link_id header);
                 destination = write_u64 destination 16 (tp_session_id header);
                 destination = write_u32 destination 24 (tp_sequence header);
                 destination = write_u32 destination 28 (tp_message_id header);
                 destination = write_u32 destination 32 (tp_fragment_offset header);
                 destination = write_u32 destination 36 (tp_total_size header)
               in (True, Some destination)))"

text \<open>The field reads of \<open>spw_vspw_tp_decode_header\<close>.\<close>

definition read_header :: "bytes \<Rightarrow> vspw_tp_header" where
  "read_header source = SPW_VSPW_TP_HEADER_INITIALIZER\<lparr>
     tp_version_major := source ! 4, tp_version_minor := source ! 5, tp_type := source ! 6,
     tp_flags := source ! 7, tp_header_size := read_u16 source 8, tp_payload_size := read_u16 source 10,
     tp_link_id := read_u32 source 12, tp_session_id := read_u64 source 16,
     tp_sequence := read_u32 source 24, tp_message_id := read_u32 source 28,
     tp_fragment_offset := read_u32 source 32, tp_total_size := read_u32 source 36\<rparr>"

text \<open>\<open>out_header\<close> is the caller's header, \<open>None\<close> a null pointer; it is returned as it is left.\<close>

definition spw_vspw_tp_decode_header ::
    "bytes option \<Rightarrow> vspw_tp_header option \<Rightarrow> vspw_tp_decode_result \<times> vspw_tp_header option" where
  "spw_vspw_tp_decode_header source_ptr out_header =
     (case source_ptr of None \<Rightarrow> (SPW_VSPW_TP_DECODE_BUFFER_TOO_SMALL, out_header)
      | Some source \<Rightarrow>
          if out_header = None \<or> length source < SPW_VSPW_TP_HEADER_SIZE
          then (SPW_VSPW_TP_DECODE_BUFFER_TOO_SMALL, out_header)
          else if read_u32 source 0 \<noteq> SPW_VSPW_TP_MAGIC
          then (SPW_VSPW_TP_DECODE_BAD_MAGIC, out_header)
          else let header = read_header source in
            if tp_version_major header \<noteq> SPW_VSPW_TP_VERSION_MAJOR \<or>
               tp_version_minor header > SPW_VSPW_TP_VERSION_MINOR
            then (SPW_VSPW_TP_DECODE_UNSUPPORTED_VERSION, out_header)
            else if \<not> spw_vspw_tp_is_known_type (tp_type header)
            then (SPW_VSPW_TP_DECODE_UNSUPPORTED_TYPE, out_header)
            else if unat (tp_header_size header) \<noteq> SPW_VSPW_TP_HEADER_SIZE
            then (SPW_VSPW_TP_DECODE_INVALID_HEADER_SIZE, out_header)
            else if unat (tp_payload_size header) > SPW_VSPW_TP_MAX_FRAGMENT_PAYLOAD \<or>
                    length source < SPW_VSPW_TP_HEADER_SIZE + unat (tp_payload_size header)
            then (SPW_VSPW_TP_DECODE_INVALID_PAYLOAD_SIZE, out_header)
            else if tp_session_id header = 0
            then (SPW_VSPW_TP_DECODE_INVALID_SESSION, out_header)
            else if \<not> validate_flags header
            then (SPW_VSPW_TP_DECODE_INVALID_FLAGS, out_header)
            else if \<not> validate_fragment header \<or> \<not> validate_message_shape header
            then (SPW_VSPW_TP_DECODE_INVALID_FRAGMENT, out_header)
            else (SPW_VSPW_TP_DECODE_OK, Some header))"

definition spw_vspw_tp_encode_ack_payload :: "u64 \<Rightarrow> bytes option \<Rightarrow> bool \<times> bytes option" where
  "spw_vspw_tp_encode_ack_payload acknowledged_session_id destination_ptr =
     (case destination_ptr of None \<Rightarrow> (False, None)
      | Some destination \<Rightarrow>
          if length destination < SPW_VSPW_TP_ACK_PAYLOAD_SIZE \<or> acknowledged_session_id = 0
          then (False, Some destination)
          else (True, Some (write_u64 destination 0 acknowledged_session_id)))"

definition spw_vspw_tp_decode_ack_payload ::
    "bytes option \<Rightarrow> u64 option \<Rightarrow> bool \<times> u64 option" where
  "spw_vspw_tp_decode_ack_payload source_ptr acknowledged_session_id =
     (case source_ptr of None \<Rightarrow> (False, acknowledged_session_id)
      | Some source \<Rightarrow>
          if acknowledged_session_id = None \<or> length source \<noteq> SPW_VSPW_TP_ACK_PAYLOAD_SIZE
          then (False, acknowledged_session_id)
          else let v = read_u64 source 0 in
            if v = 0 then (False, acknowledged_session_id) else (True, Some v))"

section \<open>Field lemmas\<close>

lemma write_u16_length [simp]: "length (write_u16 d off v) = length d"
  by (simp add: write_u16_def)

lemma write_u32_length [simp]: "length (write_u32 d off v) = length d"
  by (simp add: write_u32_def)

lemma write_u64_length [simp]: "length (write_u64 d off v) = length d"
  by (simp add: write_u64_def)

lemmas read_be = read_u16_def [folded be16_def] read_u32_def [folded be32_def]
  read_u64_def [folded be64_def]

lemma read_u16_write_u16: "off + 1 < length d \<Longrightarrow> read_u16 (write_u16 d off v) off = v"
  by (simp add: read_be write_u16_def be_simps)

lemma read_u32_write_u32: "off + 3 < length d \<Longrightarrow> read_u32 (write_u32 d off v) off = v"
  by (simp add: read_be write_u32_def be_simps)

lemma read_u32_write_u32_other:
  "off + 3 < off' \<or> off' + 3 < off \<Longrightarrow> read_u32 (write_u32 d off v) off' = read_u32 d off'"
  by (auto simp: read_be write_u32_def)

lemma read_u64_write_u64: "off + 7 < length d \<Longrightarrow> read_u64 (write_u64 d off v) off = v"
  by (simp add: read_be(3) write_u64_def read_u32_write_u32_other read_u32_write_u32 be_simps)

lemma write_u16_read_u16: "write_u16 d off (read_u16 d off) = d"
  by (simp add: read_be write_u16_def be_simps)

lemma write_u32_read_u32: "write_u32 d off (read_u32 d off) = d"
  by (simp add: read_be write_u32_def be_simps)

lemma write_u64_read_u64: "write_u64 d off (read_u64 d off) = d"
  by (simp add: read_be(3) write_u64_def be_simps write_u32_read_u32)

section \<open>Round trips\<close>

definition encoded_header :: "vspw_tp_header \<Rightarrow> bytes \<Rightarrow> bytes" where
  "encoded_header h d = the (snd (spw_vspw_tp_encode_header (Some h) (Some d)))"

lemma encode_header_ok:
  assumes "spw_vspw_tp_validate (Some h)" and "40 \<le> length d"
  shows "spw_vspw_tp_encode_header (Some h) (Some d) = (True, Some (encoded_header h d))"
  using assms by (simp add: encoded_header_def spw_vspw_tp_encode_header_def Let_def)

lemma encoded_header_length:
  assumes "spw_vspw_tp_validate (Some h)" and "40 \<le> length d"
  shows "length (encoded_header h d) = length d"
  using assms by (simp add: encoded_header_def spw_vspw_tp_encode_header_def Let_def)

lemma encoded_header_drop:
  assumes "spw_vspw_tp_validate (Some h)" and "40 \<le> length d"
  shows "drop 40 (encoded_header h d) = drop 40 d"
  using assms
  by (simp add: encoded_header_def spw_vspw_tp_encode_header_def Let_def write_u16_def
      write_u32_def write_u64_def drop_update_cancel)

lemma encoded_header_magic:
  assumes "spw_vspw_tp_validate (Some h)" and "40 \<le> length d"
  shows "read_u32 (encoded_header h d) 0 = SPW_VSPW_TP_MAGIC"
proof -
  have ne: "d \<noteq> []" using assms(2) by auto
  show ?thesis
  using assms ne
  by (simp add: encoded_header_def spw_vspw_tp_encode_header_def Let_def write_u16_def
      write_u32_def write_u64_def read_u32_def)
qed

lemma read_encoded_header:
  assumes "spw_vspw_tp_validate (Some h)" and "40 \<le> length d"
  shows "read_header (encoded_header h d) = h"
  using assms
  by (cases h) (simp add: encoded_header_def spw_vspw_tp_encode_header_def Let_def write_u16_def
      write_u32_def write_u64_def read_header_def SPW_VSPW_TP_HEADER_INITIALIZER_def read_be be_simps)

lemma encode_header_ok_iff:
  "fst (spw_vspw_tp_encode_header hp dp) \<longleftrightarrow>
     (\<exists>d. dp = Some d \<and> 40 \<le> length d) \<and> spw_vspw_tp_validate hp"
  by (auto simp: spw_vspw_tp_encode_header_def spw_vspw_tp_validate_def Let_def split: option.splits)

lemma validate_fragment_bounds:
  assumes "validate_fragment h"
  shows "unat (tp_fragment_offset h) + unat (tp_payload_size h) \<le> unat (tp_total_size h) \<and>
    unat (tp_total_size h) \<le> SPW_VSPW_TP_MAX_PACKET_SIZE \<and>
    unat (tp_payload_size h) \<le> SPW_VSPW_TP_MAX_FRAGMENT_PAYLOAD"
  using assms unfolding validate_fragment_def Let_def by (metis not_less)

lemma valid_fragment_bounds:
  assumes "spw_vspw_tp_validate (Some h)"
  shows "unat (tp_fragment_offset h) + unat (tp_payload_size h) \<le> unat (tp_total_size h)"
    and "unat (tp_total_size h) \<le> SPW_VSPW_TP_MAX_PACKET_SIZE"
    and "unat (tp_payload_size h) \<le> SPW_VSPW_TP_MAX_FRAGMENT_PAYLOAD"
  using assms validate_fragment_bounds [of h] by (simp_all add: spw_vspw_tp_validate_def)

lemma decode_header_ok_iff:
  "spw_vspw_tp_decode_header (Some src) (Some out) = (SPW_VSPW_TP_DECODE_OK, Some h) \<longleftrightarrow>
     40 + unat (tp_payload_size h) \<le> length src \<and> read_u32 src 0 = SPW_VSPW_TP_MAGIC \<and>
     h = read_header src \<and> spw_vspw_tp_validate (Some h)"
  using validate_fragment_bounds [of "read_header src"]
  by (simp add: spw_vspw_tp_decode_header_def spw_vspw_tp_validate_def Let_def guard_simps
      split del: if_split) (auto simp: not_less)

section \<open>Properties\<close>

text \<open>
  Property C20: decoding an encoded header gives it back. For every valid header and every
  destination that can hold the header and the announced payload, encoding succeeds, keeps the
  size of the destination and every byte after the header, and decoding the result accepts it
  with the same header.
\<close>
theorem vspw_tp_decode_encode:
  assumes "spw_vspw_tp_validate (Some h)" and "40 + unat (tp_payload_size h) \<le> length d"
  shows "\<exists>e. spw_vspw_tp_encode_header (Some h) (Some d) = (True, Some e) \<and>
     length e = length d \<and> drop 40 e = drop 40 d \<and>
     spw_vspw_tp_decode_header (Some e) (Some out) = (SPW_VSPW_TP_DECODE_OK, Some h)"
proof (intro exI conjI)
  have 40: "40 \<le> length d" using assms(2) by simp
  show "spw_vspw_tp_encode_header (Some h) (Some d) = (True, Some (encoded_header h d))"
    by (rule encode_header_ok [OF assms(1) 40])
  show "length (encoded_header h d) = length d" by (rule encoded_header_length [OF assms(1) 40])
  show "drop 40 (encoded_header h d) = drop 40 d" by (rule encoded_header_drop [OF assms(1) 40])
  show "spw_vspw_tp_decode_header (Some (encoded_header h d)) (Some out) =
      (SPW_VSPW_TP_DECODE_OK, Some h)"
    using assms
    by (simp add: decode_header_ok_iff encoded_header_length [OF assms(1) 40]
        encoded_header_magic [OF assms(1) 40] read_encoded_header [OF assms(1) 40])
qed

lemmas tp_eval = spw_vspw_tp_validate_def SPW_VSPW_TP_HEADER_INITIALIZER_def Let_def
  spw_vspw_tp_is_known_type_def validate_flags_def validate_fragment_def validate_message_shape_def
  has_flag_def read_header_def read_u16_def read_u32_def read_u64_def

definition sample_tp_header :: vspw_tp_header where
  "sample_tp_header = SPW_VSPW_TP_HEADER_INITIALIZER\<lparr>tp_flags := 5, tp_payload_size := 2,
     tp_link_id := 7, tp_session_id := 0x0102030405060708, tp_sequence := 9, tp_message_id := 3,
     tp_total_size := 6\<rparr>"

lemma sample_tp_header_valid: "spw_vspw_tp_validate (Some sample_tp_header)"
  by (simp add: sample_tp_header_def tp_eval)

theorem vspw_tp_decode_encode_witness:
  "spw_vspw_tp_validate (Some sample_tp_header) \<and>
   40 + unat (tp_payload_size sample_tp_header) \<le> length (replicate 42 (0 :: u8)) \<and>
   (\<exists>e. spw_vspw_tp_encode_header (Some sample_tp_header) (Some (replicate 42 0)) = (True, Some e) \<and>
     spw_vspw_tp_decode_header (Some e) (Some SPW_VSPW_TP_HEADER_INITIALIZER) =
       (SPW_VSPW_TP_DECODE_OK, Some sample_tp_header))"
proof -
  have "40 + unat (tp_payload_size sample_tp_header) \<le> length (replicate 42 (0 :: u8))"
    by (simp add: sample_tp_header_def)
  with vspw_tp_decode_encode [OF sample_tp_header_valid this] sample_tp_header_valid
  show ?thesis by blast
qed

text \<open>
  Property C33: the encoding is canonical. Whenever a datagram is accepted, the decoded header is
  valid and encoding it over the datagram writes back exactly the bytes that were there: no two
  different headers are accepted as the same one.
\<close>
theorem vspw_tp_encode_decode:
  assumes "spw_vspw_tp_decode_header (Some src) (Some out) = (SPW_VSPW_TP_DECODE_OK, Some h)"
  shows "spw_vspw_tp_validate (Some h) \<and>
    spw_vspw_tp_encode_header (Some h) (Some src) = (True, Some src)"
proof -
  have src: "40 \<le> length src" "read_u32 src 0 = SPW_VSPW_TP_MAGIC" "h = read_header src"
    "spw_vspw_tp_validate (Some h)"
    using assms unfolding decode_header_ok_iff by auto
  have "write_u32 src 0 SPW_VSPW_TP_MAGIC = src"
    using write_u32_read_u32 [of src 0] src(2) by simp
  with src show ?thesis
    by (simp add: spw_vspw_tp_encode_header_def read_header_def write_u16_read_u16
        write_u32_read_u32 write_u64_read_u64)
qed

definition sample_tp_datagram :: bytes where
  "sample_tp_datagram = [0x56, 0x53, 0x50, 0x57, 1, 0, 4, 0, 0, 40, 0, 0, 0, 0, 0, 7,
     0, 0, 0, 0, 0, 0, 0, 1, 0, 0, 0, 9, 0, 0, 0, 0, 0, 0, 0, 0, 0, 0, 0, 0]"

definition sample_tp_keepalive :: vspw_tp_header where
  "sample_tp_keepalive = SPW_VSPW_TP_HEADER_INITIALIZER\<lparr>tp_type := SPW_VSPW_TP_KEEPALIVE,
     tp_link_id := 7, tp_session_id := 1, tp_sequence := 9\<rparr>"

theorem vspw_tp_encode_decode_witness:
  "spw_vspw_tp_decode_header (Some sample_tp_datagram) (Some sample_tp_header) =
     (SPW_VSPW_TP_DECODE_OK, Some sample_tp_keepalive) \<and>
   spw_vspw_tp_encode_header (Some sample_tp_keepalive) (Some sample_tp_datagram) =
     (True, Some sample_tp_datagram)"
proof -
  have "spw_vspw_tp_decode_header (Some sample_tp_datagram) (Some sample_tp_header) =
      (SPW_VSPW_TP_DECODE_OK, Some sample_tp_keepalive)"
    by (simp add: spw_vspw_tp_decode_header_def sample_tp_datagram_def sample_tp_keepalive_def tp_eval)
  with vspw_tp_encode_decode [OF this] show ?thesis by blast
qed

text \<open>
  Property C39: the acknowledgement payload round-trips. Every non-zero session id is written as
  eight bytes that decode to it, and every accepted payload is the encoding of the session id it
  decodes to.
\<close>
theorem vspw_tp_ack_payload_roundtrip:
  "(v \<noteq> 0 \<and> length d = 8 \<longrightarrow>
     (\<exists>e. spw_vspw_tp_encode_ack_payload v (Some d) = (True, Some e) \<and> length e = 8 \<and>
        spw_vspw_tp_decode_ack_payload (Some e) (Some out) = (True, Some v))) \<and>
   (spw_vspw_tp_decode_ack_payload (Some src) (Some out) = (True, Some w) \<longrightarrow>
      w \<noteq> 0 \<and> spw_vspw_tp_encode_ack_payload w (Some src) = (True, Some src))"
proof (intro conjI impI)
  assume "v \<noteq> 0 \<and> length d = 8"
  then show "\<exists>e. spw_vspw_tp_encode_ack_payload v (Some d) = (True, Some e) \<and> length e = 8 \<and>
      spw_vspw_tp_decode_ack_payload (Some e) (Some out) = (True, Some v)"
    by (simp add: spw_vspw_tp_encode_ack_payload_def spw_vspw_tp_decode_ack_payload_def Let_def
        read_u64_write_u64)
next
  assume "spw_vspw_tp_decode_ack_payload (Some src) (Some out) = (True, Some w)"
  then have "length src = 8" "w = read_u64 src 0" "w \<noteq> 0"
    by (auto simp: spw_vspw_tp_decode_ack_payload_def Let_def split: if_splits)
  then show "w \<noteq> 0" and "spw_vspw_tp_encode_ack_payload w (Some src) = (True, Some src)"
    by (simp_all add: spw_vspw_tp_encode_ack_payload_def write_u64_read_u64)
qed

theorem vspw_tp_ack_payload_roundtrip_witness:
  "(\<exists>e. spw_vspw_tp_encode_ack_payload 0x1122 (Some (replicate 8 0)) = (True, Some e) \<and>
      spw_vspw_tp_decode_ack_payload (Some e) (Some 0) = (True, Some 0x1122)) \<and>
   spw_vspw_tp_decode_ack_payload (Some [0, 0, 0, 0, 0, 0, 0x11, 0x22]) (Some 0) = (True, Some 0x1122) \<and>
   spw_vspw_tp_encode_ack_payload 0x1122 (Some [0, 0, 0, 0, 0, 0, 0x11, 0x22]) =
     (True, Some [0, 0, 0, 0, 0, 0, 0x11, 0x22])"
proof -
  have "spw_vspw_tp_decode_ack_payload (Some [0, 0, 0, 0, 0, 0, 0x11, 0x22]) (Some 0) =
      (True, Some 0x1122)"
    by (simp add: spw_vspw_tp_decode_ack_payload_def tp_eval)
  then show ?thesis
    using vspw_tp_ack_payload_roundtrip [of "0x1122" "replicate 8 0" 0
        "[0, 0, 0, 0, 0, 0, 0x11, 0x22]" "0x1122"] by auto
qed

end
