(* ===== verification/Fragment_Reassembler.thy ===== *)
theory Fragment_Reassembler
  imports Vspw_Tp
begin

text \<open>
  Reassembly of fragmented VSPW-TP packets (\<open>src/backends/ethernet/fragment_reassembler.c\<close>).
  The model keeps the code's coverage bitmap in 64-bit words, the word-at-a-time fast path and the
  byte-at-a-time fallback. The abstract view is a partial map from positions to received bytes;
  the lemmas show that every push refines the obvious update of that map, that the partial clear
  of a reset is a full clear, and that fragments of one packet reassemble to it in any order.
\<close>

section \<open>State\<close>

datatype reassembly_result =
    SPW_REASSEMBLY_ACCEPTED
  | SPW_REASSEMBLY_DUPLICATE
  | SPW_REASSEMBLY_COMPLETE
  | SPW_REASSEMBLY_CONFLICT
  | SPW_REASSEMBLY_INVALID

record fragment_reassembler =
  fr_data :: "bytes option"
  fr_coverage :: "u64 list option"
  fr_capacity :: nat
  fr_coverage_words :: nat
  fr_covered_bytes :: nat
  fr_message_id :: u32
  fr_total_size :: u32
  fr_terminator_flags :: u8
  fr_ack_required :: bool
  fr_seen_start :: bool
  fr_seen_end :: bool
  fr_active :: bool

definition SPW_FRAGMENT_COVERAGE_WORDS :: "nat \<Rightarrow> nat" where
  "SPW_FRAGMENT_COVERAGE_WORDS capacity = (capacity + 63) div 64"

section \<open>The coverage bitmap\<close>

definition covered :: "u64 list \<Rightarrow> nat \<Rightarrow> bool" where
  "covered coverage position =
     (let word = position div 64; b = position mod 64
      in coverage ! word AND push_bit b 1 \<noteq> 0)"

definition mark_covered :: "u64 list \<Rightarrow> nat \<Rightarrow> u64 list" where
  "mark_covered coverage position =
     (let word = position div 64; b = position mod 64
      in coverage[word := coverage ! word OR push_bit b 1])"

definition coverage_mask :: "nat \<Rightarrow> nat \<Rightarrow> u64" where
  "coverage_mask b count =
     (let low_bits = if count = 64 then - 1 else push_bit count 1 - 1 in push_bit b low_bits)"

text \<open>The number of bits of the current word a pass of the two loops below handles.\<close>

definition word_step :: "nat \<Rightarrow> nat \<Rightarrow> nat" where
  "word_step position stop =
     (let b = position mod 64; remaining = stop - position
      in if remaining < 64 - b then remaining else 64 - b)"

lemma word_step_pos: "position < stop \<Longrightarrow> 0 < word_step position stop"
  by (simp add: word_step_def Let_def)

lemma word_step_le: "position < stop \<Longrightarrow> position + word_step position stop \<le> stop"
  by (auto simp: word_step_def Let_def)

function coverage_clear_from :: "u64 list \<Rightarrow> nat \<Rightarrow> nat \<Rightarrow> bool" where
  "coverage_clear_from coverage position stop =
     (if position < stop
      then let count = word_step position stop;
               mask = coverage_mask (position mod 64) count
           in if coverage ! (position div 64) AND mask \<noteq> 0 then False
              else coverage_clear_from coverage (position + count) stop
      else True)"
  by pat_completeness auto
termination
proof (relation "measure (\<lambda>(c, p, e). e - p)", goal_cases)
  case (2 coverage position stop x xa)
  then show ?case
    using word_step_pos [of position stop] by auto
qed simp

definition coverage_range_is_clear :: "u64 list \<Rightarrow> nat \<Rightarrow> nat \<Rightarrow> bool" where
  "coverage_range_is_clear coverage offset len = coverage_clear_from coverage offset (offset + len)"

function mark_coverage_from :: "u64 list \<Rightarrow> nat \<Rightarrow> nat \<Rightarrow> u64 list" where
  "mark_coverage_from coverage position stop =
     (if position < stop
      then let count = word_step position stop; word = position div 64
           in mark_coverage_from
                (coverage[word := coverage ! word OR coverage_mask (position mod 64) count])
                (position + count) stop
      else coverage)"
  by pat_completeness auto
termination
proof (relation "measure (\<lambda>(c, p, e). e - p)", goal_cases)
  case (2 coverage position stop x xa)
  then show ?case
    using word_step_pos [of position stop] by auto
qed simp

definition mark_coverage_range :: "u64 list \<Rightarrow> nat \<Rightarrow> nat \<Rightarrow> u64 list" where
  "mark_coverage_range coverage offset len = mark_coverage_from coverage offset (offset + len)"

declare coverage_clear_from.simps [simp del] mark_coverage_from.simps [simp del]

section \<open>Operations\<close>

definition spw_fragment_reassembler_init ::
    "bytes option \<Rightarrow> nat \<Rightarrow> u64 list option \<Rightarrow> nat \<Rightarrow> fragment_reassembler" where
  "spw_fragment_reassembler_init data capacity coverage coverage_words =
     \<lparr>fr_data = data,
      fr_coverage = (case coverage of None \<Rightarrow> None
        | Some c \<Rightarrow> Some (if coverage_words \<noteq> 0
             then replicate coverage_words 0 @ drop coverage_words c else c)),
      fr_capacity = capacity, fr_coverage_words = coverage_words, fr_covered_bytes = 0,
      fr_message_id = 0, fr_total_size = 0, fr_terminator_flags = 0, fr_ack_required = False,
      fr_seen_start = False, fr_seen_end = False, fr_active = False\<rparr>"

text \<open>
  Here the macro is applied to the 32-bit \<open>total_size\<close>, so its addition wraps at 32 bits, unlike the
  one on the capacity, which is a \<open>size_t\<close>.
\<close>

definition words_to_clear :: "fragment_reassembler \<Rightarrow> nat" where
  "words_to_clear r =
     (if fr_active r \<and> unat (fr_total_size r) \<le> fr_capacity r
      then let w = unat ((fr_total_size r + 63) div 64)
           in if w > fr_coverage_words r then fr_coverage_words r else w
      else fr_coverage_words r)"

definition spw_fragment_reassembler_reset :: "fragment_reassembler \<Rightarrow> fragment_reassembler" where
  "spw_fragment_reassembler_reset r =
     r\<lparr>fr_coverage := (case fr_coverage r of None \<Rightarrow> None
          | Some c \<Rightarrow> Some (if words_to_clear r \<noteq> 0
               then replicate (words_to_clear r) 0 @ drop (words_to_clear r) c else c)),
       fr_covered_bytes := 0, fr_message_id := 0, fr_total_size := 0, fr_terminator_flags := 0,
       fr_ack_required := False, fr_seen_start := False, fr_seen_end := False,
       fr_active := False\<rparr>"

text \<open>The first loop of the fallback: a covered byte with another value is a conflict.\<close>

function byte_conflict :: "bytes \<Rightarrow> u64 list \<Rightarrow> bytes \<Rightarrow> nat \<Rightarrow> nat \<Rightarrow> nat \<Rightarrow> bool" where
  "byte_conflict data coverage payload offset n i =
     (if i < n
      then if covered coverage (offset + i) \<and> data ! (offset + i) \<noteq> payload ! i then True
           else byte_conflict data coverage payload offset n (i + 1)
      else False)"
  by pat_completeness auto
termination by (relation "measure (\<lambda>(d, c, p, off, n, i). n - i)") auto

text \<open>The second loop stores the bytes not yet covered; it also counts them.\<close>

function store_bytes ::
    "bytes \<Rightarrow> u64 list \<Rightarrow> bytes \<Rightarrow> nat \<Rightarrow> nat \<Rightarrow> nat \<Rightarrow> nat \<Rightarrow> bytes \<times> u64 list \<times> nat" where
  "store_bytes data coverage payload offset n i added =
     (if i < n
      then if \<not> covered coverage (offset + i)
           then store_bytes (data[offset + i := payload ! i]) (mark_covered coverage (offset + i))
                  payload offset n (i + 1) (added + 1)
           else store_bytes data coverage payload offset n (i + 1) added
      else (data, coverage, added))"
  by pat_completeness auto
termination by (relation "measure (\<lambda>(d, c, p, off, n, i, a). n - i)") auto

declare byte_conflict.simps [simp del] store_bytes.simps [simp del]

text \<open>The guard of \<open>spw_fragment_reassembler_push\<close>.\<close>

definition push_arguments_invalid ::
    "fragment_reassembler \<Rightarrow> vspw_tp_header \<Rightarrow> bytes option \<Rightarrow> bool" where
  "push_arguments_invalid r header payload \<longleftrightarrow>
     fr_data r = None \<or> fr_coverage r = None \<or>
     fr_coverage_words r < SPW_FRAGMENT_COVERAGE_WORDS (fr_capacity r) \<or>
     tp_type header \<noteq> SPW_VSPW_TP_DATA \<or>
     unat (tp_total_size header) = unat (tp_payload_size header) \<or>
     tp_total_size header = 0 \<or> unat (tp_total_size header) > fr_capacity r \<or>
     tp_message_id header = 0 \<or>
     tp_payload_size header \<noteq> 0 \<and> payload = None \<or>
     unat (tp_fragment_offset header) + unat (tp_payload_size header) > unat (tp_total_size header)"

text \<open>
  Storing the payload: the word-wise path when the range is clear, the byte-wise path otherwise.
  \<open>None\<close> is the early return with \<open>SPW_REASSEMBLY_CONFLICT\<close>; the number is \<open>added\<close>.
\<close>

definition store_payload ::
    "bytes \<Rightarrow> u64 list \<Rightarrow> bytes \<Rightarrow> nat \<Rightarrow> nat \<Rightarrow> (bytes \<times> u64 list \<times> nat) option" where
  "store_payload data coverage payload offset n =
     (if n \<noteq> 0 \<and> coverage_range_is_clear coverage offset n
      then Some (memcpy data offset payload n, mark_coverage_range coverage offset n, n)
      else if byte_conflict data coverage payload offset n 0 then None
      else Some (store_bytes data coverage payload offset n 0 0))"

definition payload_bytes :: "bytes option \<Rightarrow> bytes" where
  "payload_bytes payload = (case payload of None \<Rightarrow> [] | Some p \<Rightarrow> p)"

text \<open>An inactive reassembler adopts the message of the fragment.\<close>

definition begin_message :: "vspw_tp_header \<Rightarrow> fragment_reassembler \<Rightarrow> fragment_reassembler" where
  "begin_message h r = (if \<not> fr_active r
     then r\<lparr>fr_active := True, fr_message_id := tp_message_id h, fr_total_size := tp_total_size h,
            fr_terminator_flags := tp_flags h AND (SPW_VSPW_TP_FLAG_EOP OR SPW_VSPW_TP_FLAG_EEP),
            fr_ack_required := (tp_flags h AND SPW_VSPW_TP_FLAG_ACK_REQUIRED \<noteq> 0)\<rparr>
     else r)"

text \<open>The rest of the function: store the payload, update the marks, choose the result.\<close>

definition store_fragment ::
    "vspw_tp_header \<Rightarrow> bytes \<Rightarrow> fragment_reassembler \<Rightarrow> reassembly_result \<times> fragment_reassembler" where
  "store_fragment h payload r =
     (case store_payload (the (fr_data r)) (the (fr_coverage r)) payload
             (unat (tp_fragment_offset h)) (unat (tp_payload_size h)) of
        None \<Rightarrow> (SPW_REASSEMBLY_CONFLICT, r)
      | Some (data, coverage, added) \<Rightarrow>
          let r = r\<lparr>fr_data := Some data, fr_coverage := Some coverage,
                    fr_covered_bytes := fr_covered_bytes r + added,
                    fr_seen_start := fr_seen_start r \<or>
                      tp_flags h AND SPW_VSPW_TP_FLAG_FRAGMENT_START \<noteq> 0,
                    fr_seen_end := fr_seen_end r \<or>
                      tp_flags h AND SPW_VSPW_TP_FLAG_FRAGMENT_END \<noteq> 0\<rparr>
          in (if fr_covered_bytes r = unat (fr_total_size r) \<and> fr_seen_start r \<and> fr_seen_end r
              then SPW_REASSEMBLY_COMPLETE
              else if added = 0 then SPW_REASSEMBLY_DUPLICATE else SPW_REASSEMBLY_ACCEPTED, r))"

text \<open>\<open>reassembler\<close> itself is the address of a field of the backend, hence never null.\<close>

definition spw_fragment_reassembler_push ::
    "fragment_reassembler \<Rightarrow> vspw_tp_header option \<Rightarrow> bytes option \<Rightarrow>
     reassembly_result \<times> fragment_reassembler" where
  "spw_fragment_reassembler_push r header_ptr payload =
     (case header_ptr of None \<Rightarrow> (SPW_REASSEMBLY_INVALID, r)
      | Some header \<Rightarrow>
        if push_arguments_invalid r header payload then (SPW_REASSEMBLY_INVALID, r)
        else let
          terminator_flags = tp_flags header AND (SPW_VSPW_TP_FLAG_EOP OR SPW_VSPW_TP_FLAG_EEP);
          ack_required = (tp_flags header AND SPW_VSPW_TP_FLAG_ACK_REQUIRED \<noteq> 0)
        in if fr_active r \<and>
              (tp_message_id header \<noteq> fr_message_id r \<or> tp_total_size header \<noteq> fr_total_size r \<or>
               terminator_flags \<noteq> fr_terminator_flags r \<or> ack_required \<noteq> fr_ack_required r)
        then (SPW_REASSEMBLY_CONFLICT, r)
        else store_fragment header (payload_bytes payload) (begin_message header r))"

section \<open>Bitmap lemmas\<close>

definition cov_bit :: "u64 list \<Rightarrow> nat \<Rightarrow> bool" where
  "cov_bit coverage p \<longleftrightarrow> bit (coverage ! (p div 64)) (p mod 64)"

lemma covered_cov_bit [simp]: "covered coverage p = cov_bit coverage p"
  by (simp add: covered_def cov_bit_def Let_def and_exp_eq_0_iff_not_bit)

lemma bit_coverage_mask:
  assumes "b + count \<le> 64"
  shows "bit (coverage_mask b count) n \<longleftrightarrow> b \<le> n \<and> n < b + count"
proof -
  have "(push_bit count 1 - 1 :: u64) = mask count"
    by (simp add: mask_eq_exp_minus_1)
  then show ?thesis
    using assms
    by (cases "count = 64") (auto simp: coverage_mask_def bit_push_bit_iff bit_mask_iff)
qed

lemma coverage_mask_disjoint:
  assumes "b + count \<le> 64"
  shows "w AND coverage_mask b count = 0 \<longleftrightarrow> (\<forall>n. b \<le> n \<and> n < b + count \<longrightarrow> \<not> bit w n)"
proof -
  have "w AND coverage_mask b count = 0 \<longleftrightarrow> (\<forall>n. \<not> (bit w n \<and> bit (coverage_mask b count) n))"
    by (auto simp: bit_eq_iff bit_and_iff ) (use bit_imp_le_length [of w] in fastforce)
  then show ?thesis unfolding bit_coverage_mask [OF assms] by blast
qed

lemma word_step_fits: "position mod 64 + word_step position stop \<le> 64"
  by (auto simp: word_step_def Let_def)

lemma same_word:
  assumes "position \<le> p" and "p < position + word_step position stop"
  shows "p div 64 = position div 64" and "p mod 64 = position mod 64 + (p - position)"
proof -
  have lt: "position mod 64 + (p - position) < 64"
    using assms word_step_fits [of position stop] by linarith
  have d: "position div 64 * 64 + position mod 64 = position" by (rule div_mult_mod_eq)
  show dv: "p div 64 = position div 64"
  proof (rule div_nat_eqI)
    show "64 * (position div 64) \<le> p" using d assms(1) by linarith
    show "p < 64 * Suc (position div 64)"
      unfolding mult_Suc_right using lt assms(1) d by linarith
  qed
  show "p mod 64 = position mod 64 + (p - position)"
    using d div_mult_mod_eq [of p 64] assms(1) unfolding dv by linarith
qed

lemma other_word:
  assumes "\<not> (position \<le> p \<and> p < position + word_step position stop)"
    and "p div 64 = position div 64"
  shows "\<not> (position mod 64 \<le> p mod 64 \<and> p mod 64 < position mod 64 + word_step position stop)"
proof
  assume "position mod 64 \<le> p mod 64 \<and> p mod 64 < position mod 64 + word_step position stop"
  then have "position \<le> p \<and> p < position + word_step position stop"
    using assms(2) div_mult_mod_eq [of p 64] div_mult_mod_eq [of position 64] by linarith
  with assms(1) show False by simp
qed

lemma word_clear_iff:
  "coverage ! (position div 64) AND coverage_mask (position mod 64) (word_step position stop) = 0 \<longleftrightarrow>
     (\<forall>p. position \<le> p \<and> p < position + word_step position stop \<longrightarrow> \<not> cov_bit coverage p)"
  (is "?L \<longleftrightarrow> ?R")
proof
  assume L: ?L
  show ?R
  proof (intro allI impI)
    fix p assume p: "position \<le> p \<and> p < position + word_step position stop"
    have "position mod 64 \<le> p mod 64 \<and> p mod 64 < position mod 64 + word_step position stop"
      using p same_word(2) [of position p stop] by auto
    then show "\<not> cov_bit coverage p"
      using L p same_word(1) [of position p stop]
      by (simp add: coverage_mask_disjoint [OF word_step_fits] cov_bit_def)
  qed
next
  assume R: ?R
  show ?L
    unfolding coverage_mask_disjoint [OF word_step_fits]
  proof (intro allI impI)
    fix n
    assume n: "position mod 64 \<le> n \<and> n < position mod 64 + word_step position stop"
    let ?p = "position + (n - position mod 64)"
    have "position \<le> ?p" "?p < position + word_step position stop" using n by auto
    with R same_word [of position ?p stop] n show "\<not> bit (coverage ! (position div 64)) n"
      by (auto simp: cov_bit_def)
  qed
qed

lemma coverage_clear_from_iff:
  "coverage_clear_from coverage position stop \<longleftrightarrow>
     (\<forall>p. position \<le> p \<and> p < stop \<longrightarrow> \<not> cov_bit coverage p)"
proof (induction coverage position stop rule: coverage_clear_from.induct)
  case (1 coverage position stop)
  show ?case
  proof (cases "position < stop")
    case True
    let ?c = "word_step position stop"
    have le: "position + ?c \<le> stop" by (rule word_step_le [OF True])
    have range: "position \<le> p \<and> p < stop \<longleftrightarrow>
        position \<le> p \<and> p < position + ?c \<or> position + ?c \<le> p \<and> p < stop" for p
      using le by linarith
    have "coverage_clear_from coverage position stop \<longleftrightarrow>
        coverage ! (position div 64) AND coverage_mask (position mod 64) ?c = 0 \<and>
        coverage_clear_from coverage (position + ?c) stop"
      using True by (subst coverage_clear_from.simps) (simp add: Let_def)
    also have "\<dots> \<longleftrightarrow> (\<forall>p. position \<le> p \<and> p < position + ?c \<longrightarrow> \<not> cov_bit coverage p) \<and>
        (\<forall>p. position + ?c \<le> p \<and> p < stop \<longrightarrow> \<not> cov_bit coverage p)"
      using 1 [OF True refl refl] unfolding word_clear_iff by blast
    also have "\<dots> \<longleftrightarrow> (\<forall>p. position \<le> p \<and> p < stop \<longrightarrow> \<not> cov_bit coverage p)"
      unfolding range by blast
    finally show ?thesis .
  qed (auto simp: coverage_clear_from.simps)
qed

lemma length_mark_coverage_from [simp]:
  "length (mark_coverage_from coverage position stop) = length coverage"
  by (induction coverage position stop rule: mark_coverage_from.induct)
    (subst mark_coverage_from.simps, simp add: Let_def)

lemma cov_bit_mark_word:
  assumes "position < stop" and "stop \<le> 64 * length coverage"
  shows "cov_bit (coverage[position div 64 := coverage ! (position div 64) OR
      coverage_mask (position mod 64) (word_step position stop)]) p \<longleftrightarrow>
    cov_bit coverage p \<or> position \<le> p \<and> p < position + word_step position stop"
proof (cases "p div 64 = position div 64")
  case True
  then show ?thesis
    using assms other_word [of position p stop] same_word [of position p stop]
    by (auto simp: cov_bit_def bit_or_iff bit_coverage_mask [OF word_step_fits])
next
  case False
  then show ?thesis
    using same_word(1) [of position p stop] by (auto simp: cov_bit_def)
qed

lemma cov_bit_mark_coverage_from:
  assumes "stop \<le> 64 * length coverage"
  shows "cov_bit (mark_coverage_from coverage position stop) p \<longleftrightarrow>
     cov_bit coverage p \<or> position \<le> p \<and> p < stop"
  using assms
proof (induction coverage position stop rule: mark_coverage_from.induct)
  case (1 coverage position stop)
  show ?case
  proof (cases "position < stop")
    case True
    let ?c = "word_step position stop"
    have le: "position + ?c \<le> stop" by (rule word_step_le [OF True])
    show ?thesis
      using 1(1) [OF True refl refl] 1(2) True le cov_bit_mark_word [OF True 1(2), of p]
      by (subst mark_coverage_from.simps) (auto simp: Let_def)
  qed (auto simp: mark_coverage_from.simps)
qed

lemma length_mark_covered [simp]: "length (mark_covered coverage p) = length coverage"
  by (simp add: mark_covered_def Let_def)

lemma cov_bit_mark_covered:
  assumes "q < 64 * length coverage"
  shows "cov_bit (mark_covered coverage q) p \<longleftrightarrow> cov_bit coverage p \<or> p = q"
proof -
  have "p = q" if "p div 64 = q div 64" "p mod 64 = q mod 64"
    using that by (metis div_mod_decomp)
  then show ?thesis
    using assms
    by (auto simp: mark_covered_def Let_def cov_bit_def nth_list_update bit_or_iff bit_push_bit_iff
        less_mult_imp_div_less mult.commute bit_exp_iff)
qed

section \<open>Received bytes as a partial map\<close>

definition got :: "bytes \<Rightarrow> u64 list \<Rightarrow> nat \<rightharpoonup> u8" where
  "got data coverage p = (if p < length data \<and> cov_bit coverage p then Some (data ! p) else None)"

definition fragment_map :: "nat \<Rightarrow> bytes \<Rightarrow> nat \<Rightarrow> nat \<rightharpoonup> u8" where
  "fragment_map offset payload n p =
     (if offset \<le> p \<and> p < offset + n then Some (payload ! (p - offset)) else None)"

definition maps_conflict :: "('a \<rightharpoonup> 'b) \<Rightarrow> ('a \<rightharpoonup> 'b) \<Rightarrow> bool" where
  "maps_conflict f g \<longleftrightarrow> (\<exists>p b b'. f p = Some b \<and> g p = Some b' \<and> b \<noteq> b')"

lemma dom_fragment_map [simp]: "dom (fragment_map offset payload n) = {offset..<offset + n}"
  by (auto simp: fragment_map_def dom_def)

lemma byte_conflict_iff:
  "byte_conflict data coverage payload offset n i \<longleftrightarrow>
     (\<exists>j. i \<le> j \<and> j < n \<and> cov_bit coverage (offset + j) \<and> data ! (offset + j) \<noteq> payload ! j)"
proof (induction data coverage payload offset n i rule: byte_conflict.induct)
  case (1 data coverage payload offset n i)
  show ?case
  proof (cases "i < n")
    case True
    have next_j: "i \<le> j \<longleftrightarrow> j = i \<or> i + 1 \<le> j" for j by auto
    show ?thesis
    proof (cases "covered coverage (offset + i) \<and> data ! (offset + i) \<noteq> payload ! i")
      case False
      have "byte_conflict data coverage payload offset n i =
          byte_conflict data coverage payload offset n (i + 1)"
        using True False by (subst byte_conflict.simps) auto
      also note 1 [OF True False]
      finally show ?thesis using False unfolding next_j [of "_"] covered_cov_bit by blast
    qed (use True in \<open>auto simp: byte_conflict.simps [of data]\<close>)
  qed (auto simp: byte_conflict.simps)
qed

definition fresh_positions :: "u64 list \<Rightarrow> nat \<Rightarrow> nat \<Rightarrow> nat set" where
  "fresh_positions coverage lo hi = {p. lo \<le> p \<and> p < hi \<and> \<not> cov_bit coverage p}"

lemma finite_fresh_positions [simp]: "finite (fresh_positions coverage lo hi)"
  by (rule finite_subset [of _ "{..<hi}"]) (auto simp: fresh_positions_def)

lemma fresh_positions_step:
  assumes "lo < hi" and "\<not> cov_bit coverage lo" and "lo < 64 * length coverage"
  shows "card (fresh_positions coverage lo hi) =
    Suc (card (fresh_positions (mark_covered coverage lo) (lo + 1) hi))"
proof -
  have "fresh_positions coverage lo hi =
      insert lo (fresh_positions (mark_covered coverage lo) (lo + 1) hi)"
    using assms by (auto simp: fresh_positions_def cov_bit_mark_covered)
  moreover have "lo \<notin> fresh_positions (mark_covered coverage lo) (lo + 1) hi"
    by (simp add: fresh_positions_def)
  ultimately show ?thesis by simp
qed

lemma fresh_positions_skip:
  assumes "cov_bit coverage lo"
  shows "fresh_positions coverage lo hi = fresh_positions coverage (lo + 1) hi"
  using assms by (auto simp: fresh_positions_def) (metis Suc_leI le_eq_less_or_eq)

lemma store_bytes_spec:
  assumes "store_bytes data coverage payload offset n i added = (data', coverage', added')"
    and "offset + n \<le> length data" and "offset + n \<le> 64 * length coverage"
  shows "length data' = length data \<and> length coverage' = length coverage \<and>
    (\<forall>p. cov_bit coverage' p \<longleftrightarrow> cov_bit coverage p \<or> offset + i \<le> p \<and> p < offset + n) \<and>
    (\<forall>p. data' ! p = (if p \<in> fresh_positions coverage (offset + i) (offset + n)
        then payload ! (p - offset) else data ! p)) \<and>
    added' = added + card (fresh_positions coverage (offset + i) (offset + n))"
  using assms
proof (induction data coverage payload offset n i added arbitrary: data' coverage' added'
    rule: store_bytes.induct)
  case (1 data coverage payload offset n i added)
  let ?o = "offset + i" and ?e = "offset + n"
  consider (finish) "\<not> i < n" | (fresh) "i < n" "\<not> cov_bit coverage ?o" | (dup) "i < n" "cov_bit coverage ?o"
    by blast
  then show ?case
  proof cases
    case finish
    then show ?thesis using 1(3) by (auto simp: store_bytes.simps fresh_positions_def)
  next
    case fresh
    let ?d = "data[?o := payload ! i]" and ?c = "mark_covered coverage ?o"
    have o: "?o < 64 * length coverage" "?o < length data" using 1(4,5) fresh by simp_all
    have eq: "store_bytes ?d ?c payload offset n (i + 1) (added + 1) = (data', coverage', added')"
      using 1(3) fresh by (simp add: store_bytes.simps [of data])
    have IH: "length data' = length data" "length coverage' = length coverage"
      "\<And>p. cov_bit coverage' p \<longleftrightarrow> cov_bit ?c p \<or> ?o + 1 \<le> p \<and> p < ?e"
      "\<And>p. data' ! p = (if p \<in> fresh_positions ?c (?o + 1) ?e then payload ! (p - offset) else ?d ! p)"
      "added' = added + 1 + card (fresh_positions ?c (?o + 1) ?e)"
      using 1(1) [OF fresh(1) _ eq] fresh 1(4,5) by (simp_all add: add.assoc)
    have "data' ! p = (if p \<in> fresh_positions coverage ?o ?e then payload ! (p - offset) else data ! p)" for p
      using IH(4) [of p] fresh o
      by (cases "p = ?o") (auto simp: fresh_positions_def cov_bit_mark_covered)
    moreover have "cov_bit coverage' p \<longleftrightarrow> cov_bit coverage p \<or> ?o \<le> p \<and> p < ?e" for p
      using IH(3) [of p] fresh o by (cases "p = ?o") (auto simp: cov_bit_mark_covered)
    ultimately show ?thesis
      using IH(1,2,5) fresh_positions_step [OF _ fresh(2) o(1), of ?e] fresh(1) by simp
  next
    case dup
    have eq: "store_bytes data coverage payload offset n (i + 1) added = (data', coverage', added')"
      using 1(3) dup by (simp add: store_bytes.simps [of data])
    have IH: "length data' = length data" "length coverage' = length coverage"
      "\<And>p. cov_bit coverage' p \<longleftrightarrow> cov_bit coverage p \<or> ?o + 1 \<le> p \<and> p < ?e"
      "\<And>p. data' ! p = (if p \<in> fresh_positions coverage (?o + 1) ?e then payload ! (p - offset) else data ! p)"
      "added' = added + card (fresh_positions coverage (?o + 1) ?e)"
      using 1(2) [OF dup(1) _ eq] dup 1(4,5) by (simp_all add: add.assoc)
    have "cov_bit coverage' p \<longleftrightarrow> cov_bit coverage p \<or> ?o \<le> p \<and> p < ?e" for p
      using IH(3) [of p] dup by (cases "p = ?o") auto
    then show ?thesis
      using IH(1,2,4,5) fresh_positions_skip [OF dup(2)] by simp
  qed
qed

lemma store_payload_conflict:
  assumes "offset + n \<le> length data"
  shows "store_payload data coverage payload offset n = None \<longleftrightarrow>
    maps_conflict (got data coverage) (fragment_map offset payload n)"
proof -
  have "byte_conflict data coverage payload offset n 0 \<longleftrightarrow>
      maps_conflict (got data coverage) (fragment_map offset payload n)"
  proof
    assume "byte_conflict data coverage payload offset n 0"
    then obtain j where "j < n" "cov_bit coverage (offset + j)" "data ! (offset + j) \<noteq> payload ! j"
      by (auto simp: byte_conflict_iff)
    then show "maps_conflict (got data coverage) (fragment_map offset payload n)"
      using assms unfolding maps_conflict_def
      by (intro exI [of _ "offset + j"]) (simp add: got_def fragment_map_def)
  next
    assume "maps_conflict (got data coverage) (fragment_map offset payload n)"
    then obtain p where "offset \<le> p" "p < offset + n" "cov_bit coverage p" "data ! p \<noteq> payload ! (p - offset)"
      by (auto simp: maps_conflict_def got_def fragment_map_def split: if_splits)
    then show "byte_conflict data coverage payload offset n 0"
      unfolding byte_conflict_iff by (intro exI [of _ "p - offset"]) auto
  qed
  moreover have "\<not> byte_conflict data coverage payload offset n 0"
    if "coverage_range_is_clear coverage offset n"
    using that by (auto simp: coverage_range_is_clear_def coverage_clear_from_iff byte_conflict_iff)
  ultimately show ?thesis by (auto simp: store_payload_def)
qed

lemma store_payload_ok:
  assumes "store_payload data coverage payload offset n = Some (data', coverage', added)"
    and "offset + n \<le> length data" and "length data \<le> 64 * length coverage" and "n \<le> length payload"
  shows "length data' = length data" and "length coverage' = length coverage"
    and "\<And>p. cov_bit coverage' p \<longleftrightarrow> cov_bit coverage p \<or> offset \<le> p \<and> p < offset + n"
    and "got data' coverage' = got data coverage ++ fragment_map offset payload n"
    and "added = card (fresh_positions coverage offset (offset + n))"
proof -
  have fits: "offset + n \<le> 64 * length coverage" using assms(2,3) by simp
  have no_conflict: "\<not> maps_conflict (got data coverage) (fragment_map offset payload n)"
    using assms(1) store_payload_conflict [OF assms(2), of coverage payload] by simp
  have main: "length data' = length data \<and> length coverage' = length coverage \<and>
    (\<forall>p. cov_bit coverage' p \<longleftrightarrow> cov_bit coverage p \<or> offset \<le> p \<and> p < offset + n) \<and>
    (\<forall>p<length data. data' ! p = (if p \<in> fresh_positions coverage offset (offset + n)
        then payload ! (p - offset) else data ! p)) \<and>
    added = card (fresh_positions coverage offset (offset + n))"
  proof (cases "n \<noteq> 0 \<and> coverage_range_is_clear coverage offset n")
    case True
    then have fresh: "fresh_positions coverage offset (offset + n) = {offset..<offset + n}"
      by (auto simp: fresh_positions_def coverage_range_is_clear_def coverage_clear_from_iff)
    from True assms fits show ?thesis
      unfolding fresh
      by (auto simp: store_payload_def mark_coverage_range_def cov_bit_mark_coverage_from nth_memcpy)
  next
    case False
    then have "store_bytes data coverage payload offset n 0 0 = (data', coverage', added)"
      using assms(1) by (auto simp: store_payload_def split: if_splits)
    from store_bytes_spec [OF this assms(2) fits] show ?thesis by simp
  qed
  then show "length data' = length data" "length coverage' = length coverage"
    "\<And>p. cov_bit coverage' p \<longleftrightarrow> cov_bit coverage p \<or> offset \<le> p \<and> p < offset + n"
    "added = card (fresh_positions coverage offset (offset + n))"
    by blast+
  show "got data' coverage' = got data coverage ++ fragment_map offset payload n"
  proof
    fix p
    show "got data' coverage' p = (got data coverage ++ fragment_map offset payload n) p"
    proof (cases "offset \<le> p \<and> p < offset + n")
      case True
      then have "p < length data" using assms(2) by simp
      with True main no_conflict show ?thesis
        by (auto simp: got_def fragment_map_def map_add_def fresh_positions_def maps_conflict_def
            split: if_splits)
    next
      case False
      with main show ?thesis
        by (auto simp: got_def fragment_map_def map_add_def fresh_positions_def)
    qed
  qed
qed

section \<open>Invariant and abstraction\<close>

definition reassembler_inv :: "fragment_reassembler \<Rightarrow> bool" where
  "reassembler_inv r \<longleftrightarrow>
     (\<exists>d c. fr_data r = Some d \<and> fr_coverage r = Some c \<and> length d = fr_capacity r \<and>
        length c = fr_coverage_words r \<and>
        SPW_FRAGMENT_COVERAGE_WORDS (fr_capacity r) \<le> fr_coverage_words r \<and>
        fr_covered_bytes r = card (dom (got d c)) \<and>
        (\<forall>p < 64 * length c. cov_bit c p \<longrightarrow> fr_active r \<and> p < unat (fr_total_size r))) \<and>
     unat (fr_total_size r) \<le> fr_capacity r \<and> (fr_active r \<longrightarrow> fr_total_size r \<noteq> 0) \<and>
     (\<not> fr_active r \<longrightarrow> \<not> fr_seen_start r \<and> \<not> fr_seen_end r)"

text \<open>The abstract state: the message being received, the received bytes, the two marks.\<close>

record reassembly =
  ra_message :: "(u32 \<times> u32 \<times> u8 \<times> bool) option"
  ra_bytes :: "nat \<rightharpoonup> u8"
  ra_start :: bool
  ra_end :: bool

definition reassembly_of :: "fragment_reassembler \<Rightarrow> reassembly" where
  "reassembly_of r =
     \<lparr>ra_message = (if fr_active r
        then Some (fr_message_id r, fr_total_size r, fr_terminator_flags r, fr_ack_required r) else None),
      ra_bytes = got (the (fr_data r)) (the (fr_coverage r)),
      ra_start = fr_seen_start r, ra_end = fr_seen_end r\<rparr>"

definition message_key :: "vspw_tp_header \<Rightarrow> u32 \<times> u32 \<times> u8 \<times> bool" where
  "message_key h = (tp_message_id h, tp_total_size h,
     tp_flags h AND (SPW_VSPW_TP_FLAG_EOP OR SPW_VSPW_TP_FLAG_EEP),
     has_flag (tp_flags h) SPW_VSPW_TP_FLAG_ACK_REQUIRED)"

definition header_fragment :: "vspw_tp_header \<Rightarrow> bytes \<Rightarrow> nat \<rightharpoonup> u8" where
  "header_fragment h payload =
     fragment_map (unat (tp_fragment_offset h)) payload (unat (tp_payload_size h))"

text \<open>What a push means: one map update, unless the fragment contradicts what is known.\<close>

definition reassembly_push ::
    "vspw_tp_header \<Rightarrow> bytes \<Rightarrow> reassembly \<Rightarrow> reassembly_result \<times> reassembly" where
  "reassembly_push h payload a =
     (if ra_message a \<noteq> None \<and> ra_message a \<noteq> Some (message_key h)
      then (SPW_REASSEMBLY_CONFLICT, a)
      else if maps_conflict (ra_bytes a) (header_fragment h payload)
      then (SPW_REASSEMBLY_CONFLICT, a\<lparr>ra_message := Some (message_key h)\<rparr>)
      else let a' = a\<lparr>ra_message := Some (message_key h),
               ra_bytes := ra_bytes a ++ header_fragment h payload,
               ra_start := ra_start a \<or> has_flag (tp_flags h) SPW_VSPW_TP_FLAG_FRAGMENT_START,
               ra_end := ra_end a \<or> has_flag (tp_flags h) SPW_VSPW_TP_FLAG_FRAGMENT_END\<rparr>
        in (if dom (ra_bytes a') = {..<unat (tp_total_size h)} \<and> ra_start a' \<and> ra_end a'
            then SPW_REASSEMBLY_COMPLETE
            else if dom (ra_bytes a') = dom (ra_bytes a) then SPW_REASSEMBLY_DUPLICATE
            else SPW_REASSEMBLY_ACCEPTED, a'))"

section \<open>Refinement\<close>

lemma dom_got: "dom (got d c) = {p. p < length d \<and> cov_bit c p}"
  by (auto simp: got_def dom_def)

lemma finite_dom_got [simp]: "finite (dom (got d c))"
  by (rule finite_subset [of _ "{..<length d}"]) (auto simp: dom_got)

lemma fresh_positions_dom:
  assumes "hi \<le> length d"
  shows "fresh_positions c lo hi = {lo..<hi} - dom (got d c)"
  using assms by (auto simp: fresh_positions_def dom_got)

lemma coverage_words_enough: "capacity \<le> 64 * SPW_FRAGMENT_COVERAGE_WORDS capacity"
  by (simp add: SPW_FRAGMENT_COVERAGE_WORDS_def)

lemma card_dom_grow:
  fixes D F :: "nat set"
  assumes "finite D" and "finite F" and "D \<union> F \<subseteq> {..<t}"
  shows "card D + card (F - D) = t \<longleftrightarrow> D \<union> F = {..<t}"
    and "card (F - D) = 0 \<longleftrightarrow> D \<union> F = D"
proof -
  have "card (D \<union> F) = card D + card (F - D)"
    using assms card_Un_disjoint [of D "F - D"] by (simp add: Un_Diff_cancel Int_Diff)
  then show "card D + card (F - D) = t \<longleftrightarrow> D \<union> F = {..<t}"
    using card_subset_eq [of "{..<t}" "D \<union> F"] assms(3) by auto
  show "card (F - D) = 0 \<longleftrightarrow> D \<union> F = D"
    using assms(2) by auto
qed

lemma push_split:
  assumes "\<not> push_arguments_invalid r h payload"
  shows "spw_fragment_reassembler_push r (Some h) payload =
    (if ra_message (reassembly_of r) \<noteq> None \<and> ra_message (reassembly_of r) \<noteq> Some (message_key h)
     then (SPW_REASSEMBLY_CONFLICT, r) else store_fragment h (payload_bytes payload) (begin_message h r))"
  using assms
  by (auto simp: spw_fragment_reassembler_push_def reassembly_of_def message_key_def has_flag_def
      Let_def)

lemma begin_message_inv:
  assumes "reassembler_inv r" and "\<not> push_arguments_invalid r h payload"
    and "ra_message (reassembly_of r) = None \<or> ra_message (reassembly_of r) = Some (message_key h)"
  shows "reassembler_inv (begin_message h r)"
    and "reassembly_of (begin_message h r) = (reassembly_of r)\<lparr>ra_message := Some (message_key h)\<rparr>"
    and "fr_active (begin_message h r)" and "fr_total_size (begin_message h r) = tp_total_size h"
    and "fr_capacity (begin_message h r) = fr_capacity r"
  using assms
  by (auto simp: begin_message_def reassembler_inv_def reassembly_of_def message_key_def has_flag_def
      push_arguments_invalid_def split: if_splits)

lemma store_fragment_ok:
  assumes "store_payload (the (fr_data r)) (the (fr_coverage r)) payload
      (unat (tp_fragment_offset h)) (unat (tp_payload_size h)) = Some (d', c', added)"
    and "store_fragment h payload r = (res, r')"
  shows "r' = r\<lparr>fr_data := Some d', fr_coverage := Some c',
      fr_covered_bytes := fr_covered_bytes r + added,
      fr_seen_start := fr_seen_start r \<or> has_flag (tp_flags h) SPW_VSPW_TP_FLAG_FRAGMENT_START,
      fr_seen_end := fr_seen_end r \<or> has_flag (tp_flags h) SPW_VSPW_TP_FLAG_FRAGMENT_END\<rparr>"
    and "res = (if fr_covered_bytes r + added = unat (fr_total_size r) \<and>
        (fr_seen_start r \<or> has_flag (tp_flags h) SPW_VSPW_TP_FLAG_FRAGMENT_START) \<and>
        (fr_seen_end r \<or> has_flag (tp_flags h) SPW_VSPW_TP_FLAG_FRAGMENT_END)
      then SPW_REASSEMBLY_COMPLETE
      else if added = 0 then SPW_REASSEMBLY_DUPLICATE else SPW_REASSEMBLY_ACCEPTED)"
  using assms by (simp_all add: store_fragment_def Let_def has_flag_def)

lemma store_fragment_refines:
  assumes inv: "reassembler_inv r" and act: "fr_active r"
    and tot: "fr_total_size r = tp_total_size h"
    and msg: "ra_message (reassembly_of r) = Some (message_key h)"
    and frag: "unat (tp_fragment_offset h) + unat (tp_payload_size h) \<le> unat (tp_total_size h)"
    and len: "unat (tp_payload_size h) \<le> length payload"
    and push: "store_fragment h payload r = (res, r')"
  shows "reassembler_inv r' \<and> fr_capacity r' = fr_capacity r \<and>
    (res, reassembly_of r') = reassembly_push h payload (reassembly_of r)"
proof -
  let ?o = "unat (tp_fragment_offset h)" and ?n = "unat (tp_payload_size h)"
    and ?t = "unat (tp_total_size h)"
  obtain d c where dc: "fr_data r = Some d" "fr_coverage r = Some c" "length d = fr_capacity r"
    "length c = fr_coverage_words r" "SPW_FRAGMENT_COVERAGE_WORDS (fr_capacity r) \<le> fr_coverage_words r"
    "fr_covered_bytes r = card (dom (got d c))"
    "\<forall>p < 64 * length c. cov_bit c p \<longrightarrow> fr_active r \<and> p < unat (fr_total_size r)"
    using inv unfolding reassembler_inv_def by blast
  then have dcs: "the (fr_data r) = d" "the (fr_coverage r) = c" by simp_all
  have t: "?t \<le> length d" and t0: "tp_total_size h \<noteq> 0"
    using inv tot dc(3) act by (auto simp: reassembler_inv_def)
  have fit: "length d \<le> 64 * length c"
    using coverage_words_enough [of "length d"] dc(3,4,5) by simp
  have on: "?o + ?n \<le> length d" using frag t by simp
  show ?thesis
  proof (cases "store_payload d c payload ?o ?n")
    case None
    then have "maps_conflict (got d c) (header_fragment h payload)"
      using store_payload_conflict [OF on, of c payload] by (simp add: header_fragment_def)
    then show ?thesis
      using None push dc(1,2) inv msg by (auto simp: store_fragment_def reassembly_push_def reassembly_of_def)
  next
    case (Some x)
    then obtain d' c' added where st: "store_payload d c payload ?o ?n = Some (d', c', added)"
      by (cases x) auto
    note sp = store_payload_ok [OF st on fit len]
    have nc: "\<not> maps_conflict (got d c) (header_fragment h payload)"
      using store_payload_conflict [OF on, of c payload] st by (simp add: header_fragment_def)
    have sub: "dom (got d c) \<union> {?o..<?o + ?n} \<subseteq> {..<?t}"
      using dc(7) fit frag tot by (auto simp: dom_got)
    have added: "added = card ({?o..<?o + ?n} - dom (got d c))"
      using sp(5) fresh_positions_dom [OF on] by simp
    note grow = card_dom_grow [OF finite_dom_got finite_atLeastLessThan sub, folded added]
    have dom': "dom (got d' c') = dom (got d c) \<union> {?o..<?o + ?n}"
      unfolding sp(4) by (auto simp: dom_def map_add_def fragment_map_def split: option.splits)
    have grow': "card (dom (got d c)) + added = ?t \<longleftrightarrow> dom (got d' c') = {..<?t}"
      "added = 0 \<longleftrightarrow> dom (got d' c') = dom (got d c)"
      using grow unfolding dom' by simp_all
    have "card (dom (got d' c')) = card (dom (got d c)) + added"
      unfolding dom' added using card_Un_disjoint [of "dom (got d c)" "{?o..<?o + ?n} - dom (got d c)"]
      by (simp add: Un_Diff_cancel Int_Diff)
    moreover have "\<forall>p < 64 * length c'. cov_bit c' p \<longrightarrow> p < ?t"
      using sp(2,3) dc(7) frag tot by auto
    moreover have "{p. p < 64 * length c \<and> cov_bit c p} \<subseteq> {..<?t}"
      using dc(7) tot by auto
    moreover note r' = store_fragment_ok [OF st [folded dcs] push]
    ultimately have inv': "reassembler_inv r'"
      unfolding reassembler_inv_def
      using inv dc(3-6) sp(1,2) tot t t0 act by (simp add: r'(1) reassembler_inv_def)
    have "res = fst (reassembly_push h payload (reassembly_of r))"
      unfolding r'(2) using msg nc act
      by (simp add: reassembly_push_def Let_def reassembly_of_def header_fragment_def dc(6) tot dcs
          grow' sp(4) [symmetric] del: dom_map_add) blast
    moreover have "reassembly_of r' = snd (reassembly_push h payload (reassembly_of r))"
      using msg nc act dcs sp(4)
      by (simp add: r'(1) reassembly_push_def Let_def reassembly_of_def header_fragment_def has_flag_def)
    moreover have "fr_capacity r' = fr_capacity r" by (simp add: r'(1))
    ultimately show ?thesis using inv' by (simp add: prod_eq_iff)
  qed
qed

lemma push_refines:
  assumes inv: "reassembler_inv r"
    and len: "\<forall>p. payload = Some p \<longrightarrow> unat (tp_payload_size h) \<le> length p"
    and push: "spw_fragment_reassembler_push r (Some h) payload = (res, r')"
  shows "reassembler_inv r' \<and> fr_capacity r' = fr_capacity r \<and>
    (res, reassembly_of r') =
      (if push_arguments_invalid r h payload then (SPW_REASSEMBLY_INVALID, reassembly_of r)
       else reassembly_push h (payload_bytes payload) (reassembly_of r))"
proof (cases "push_arguments_invalid r h payload")
  case True
  with inv push show ?thesis by (auto simp: spw_fragment_reassembler_push_def)
next
  case False
  let ?a = "reassembly_of r"
  show ?thesis
  proof (cases "ra_message ?a \<noteq> None \<and> ra_message ?a \<noteq> Some (message_key h)")
    case True
    with inv push push_split [OF False] False show ?thesis by (simp add: reassembly_push_def)
  next
    case ok: False
    note ad = begin_message_inv [OF inv False, of]
    have frag: "unat (tp_fragment_offset h) + unat (tp_payload_size h) \<le> unat (tp_total_size h)"
      using False by (simp add: push_arguments_invalid_def)
    have "unat (tp_payload_size h) \<le> length (payload_bytes payload)"
      using False len by (auto simp: push_arguments_invalid_def payload_bytes_def split: option.splits)
    moreover have "store_fragment h (payload_bytes payload) (begin_message h r) = (res, r')"
      using push push_split [OF False] ok by auto
    moreover have adok: "ra_message ?a = None \<or> ra_message ?a = Some (message_key h)" using ok by blast
    ultimately have "reassembler_inv r' \<and> fr_capacity r' = fr_capacity r \<and>
        (res, reassembly_of r') =
          reassembly_push h (payload_bytes payload) (?a\<lparr>ra_message := Some (message_key h)\<rparr>)"
      using store_fragment_refines [OF ad(1) ad(3,4) _ frag] ad(2,5) by fastforce
    moreover have "reassembly_push h (payload_bytes payload) (?a\<lparr>ra_message := Some (message_key h)\<rparr>) =
        reassembly_push h (payload_bytes payload) ?a"
      using adok by (auto simp: reassembly_push_def Let_def)
    ultimately show ?thesis using False by simp
  qed
qed

lemma init_inv:
  assumes "length d = capacity" and "length c = coverage_words"
    and "SPW_FRAGMENT_COVERAGE_WORDS capacity \<le> coverage_words"
  shows "reassembler_inv (spw_fragment_reassembler_init (Some d) capacity (Some c) coverage_words)"
proof -
  have "\<not> cov_bit (replicate coverage_words 0) p" if "p < 64 * coverage_words" for p
    using that by (simp add: cov_bit_def less_mult_imp_div_less mult.commute)
  moreover have "d = [] \<or> coverage_words \<noteq> 0"
    using assms by (auto simp: SPW_FRAGMENT_COVERAGE_WORDS_def div_eq_0_iff)
  moreover have "dom (got d (replicate coverage_words 0)) = {}"
    using calculation(1) assms coverage_words_enough [of capacity] by (auto simp: dom_got)
  ultimately show ?thesis
    using assms by (auto simp: reassembler_inv_def spw_fragment_reassembler_init_def)
qed

section \<open>Fragments of one packet\<close>

fun push_all :: "fragment_reassembler \<Rightarrow> (vspw_tp_header \<times> bytes) list \<Rightarrow>
    reassembly_result list \<times> fragment_reassembler" where
  "push_all r [] = ([], r)"
| "push_all r ((h, p) # fs) =
     (let (res, r1) = spw_fragment_reassembler_push r (Some h) (Some p); (rs, r2) = push_all r1 fs
      in (res # rs, r2))"

fun fragment_of :: "bytes \<Rightarrow> u32 \<times> u32 \<times> u8 \<times> bool \<Rightarrow> vspw_tp_header \<times> bytes \<Rightarrow> bool" where
  "fragment_of packet key (h, p) \<longleftrightarrow>
     message_key h = key \<and> tp_type h = SPW_VSPW_TP_DATA \<and> tp_message_id h \<noteq> 0 \<and>
     unat (tp_total_size h) = length packet \<and>
     length p = unat (tp_payload_size h) \<and> length p < length packet \<and>
     unat (tp_fragment_offset h) + length p \<le> length packet \<and>
     p = take (unat (tp_payload_size h)) (drop (unat (tp_fragment_offset h)) packet)"

fun fragment_range :: "vspw_tp_header \<times> bytes \<Rightarrow> nat set" where
  "fragment_range (h, p) =
     {unat (tp_fragment_offset h)..<unat (tp_fragment_offset h) + unat (tp_payload_size h)}"

definition covered_by :: "(vspw_tp_header \<times> bytes) list \<Rightarrow> nat set" where
  "covered_by fs = \<Union> (fragment_range ` set fs)"

definition some_flag :: "u8 \<Rightarrow> (vspw_tp_header \<times> bytes) list \<Rightarrow> bool" where
  "some_flag flag fs \<longleftrightarrow> (\<exists>f \<in> set fs. has_flag (tp_flags (fst f)) flag)"

definition complete_set :: "bytes \<Rightarrow> (vspw_tp_header \<times> bytes) list \<Rightarrow> bool" where
  "complete_set packet fs \<longleftrightarrow> covered_by fs = {..<length packet} \<and>
     some_flag SPW_VSPW_TP_FLAG_FRAGMENT_START fs \<and> some_flag SPW_VSPW_TP_FLAG_FRAGMENT_END fs"

definition holds_fragments ::
    "bytes \<Rightarrow> u32 \<times> u32 \<times> u8 \<times> bool \<Rightarrow> (vspw_tp_header \<times> bytes) list \<Rightarrow> reassembly \<Rightarrow> bool" where
  "holds_fragments packet key fs a \<longleftrightarrow>
     ra_message a = (if fs = [] then None else Some key) \<and>
     ra_bytes a = (\<lambda>p. if p \<in> covered_by fs then Some (packet ! p) else None) \<and>
     ra_start a = some_flag SPW_VSPW_TP_FLAG_FRAGMENT_START fs \<and>
     ra_end a = some_flag SPW_VSPW_TP_FLAG_FRAGMENT_END fs"

lemma fragment_ofD:
  assumes "fragment_of packet key (h, p)"
  shows "message_key h = key" and "unat (tp_total_size h) = length packet"
    and "length p = unat (tp_payload_size h)"
    and "unat (tp_fragment_offset h) + unat (tp_payload_size h) \<le> length packet"
    and "p = take (unat (tp_payload_size h)) (drop (unat (tp_fragment_offset h)) packet)"
  using assms unfolding fragment_of.simps by (blast | metis)+

lemma covered_by_snoc [simp]: "covered_by (fs @ [f]) = covered_by fs \<union> fragment_range f"
  by (auto simp: covered_by_def)

lemma some_flag_snoc [simp]:
  "some_flag flag (fs @ [f]) \<longleftrightarrow> some_flag flag fs \<or> has_flag (tp_flags (fst f)) flag"
  by (auto simp: some_flag_def)

lemma header_fragment_of:
  assumes "fragment_of packet key (h, p)"
  shows "header_fragment h p = (\<lambda>i. if i \<in> fragment_range (h, p) then Some (packet ! i) else None)"
proof
  fix i
  let ?o = "unat (tp_fragment_offset h)"
  have "p ! (i - ?o) = packet ! i" if "?o \<le> i" "i < ?o + length p"
  proof -
    have "p ! (i - ?o) = take (unat (tp_payload_size h)) (drop ?o packet) ! (i - ?o)"
      by (rule arg_cong [OF fragment_ofD(5) [OF assms], of "\<lambda>l. l ! (i - ?o)"])
    also have "\<dots> = packet ! i" using that assms by simp
    finally show ?thesis .
  qed
  then show "header_fragment h p i = (if i \<in> fragment_range (h, p) then Some (packet ! i) else None)"
    using assms by (auto simp: header_fragment_def fragment_map_def)
qed

lemma push_same_packet:
  assumes "holds_fragments packet key fs a" and "fragment_of packet key (h, p)"
  shows "fst (reassembly_push h p a) =
      (if complete_set packet (fs @ [(h, p)]) then SPW_REASSEMBLY_COMPLETE
       else if fragment_range (h, p) \<subseteq> covered_by fs then SPW_REASSEMBLY_DUPLICATE
       else SPW_REASSEMBLY_ACCEPTED)"
    and "holds_fragments packet key (fs @ [(h, p)]) (snd (reassembly_push h p a))"
proof -
  note hf = header_fragment_of [OF assms(2)]
  have b: "ra_bytes a = (\<lambda>p. if p \<in> covered_by fs then Some (packet ! p) else None)"
    using assms(1) by (simp add: holds_fragments_def)
  have nc: "\<not> maps_conflict (ra_bytes a) (header_fragment h p)"
    unfolding maps_conflict_def b hf by (auto split: if_splits)
  have b': "ra_bytes a ++ header_fragment h p =
      (\<lambda>i. if i \<in> covered_by fs \<union> fragment_range (h, p) then Some (packet ! i) else None)"
    unfolding b hf by (auto simp: map_add_def)
  have d: "dom (ra_bytes a) = covered_by fs"
    "dom (ra_bytes a ++ header_fragment h p) = covered_by fs \<union> fragment_range (h, p)"
    unfolding b' by (auto simp: b dom_def simp del: fragment_range.simps split: if_splits)
  have push: "reassembly_push h p a = (let a' = a\<lparr>ra_message := Some (message_key h),
               ra_bytes := ra_bytes a ++ header_fragment h p,
               ra_start := ra_start a \<or> has_flag (tp_flags h) SPW_VSPW_TP_FLAG_FRAGMENT_START,
               ra_end := ra_end a \<or> has_flag (tp_flags h) SPW_VSPW_TP_FLAG_FRAGMENT_END\<rparr>
        in (if dom (ra_bytes a') = {..<unat (tp_total_size h)} \<and> ra_start a' \<and> ra_end a'
            then SPW_REASSEMBLY_COMPLETE
            else if dom (ra_bytes a') = dom (ra_bytes a) then SPW_REASSEMBLY_DUPLICATE
            else SPW_REASSEMBLY_ACCEPTED, a'))"
    using assms nc by (auto simp: reassembly_push_def holds_fragments_def split: if_splits)
  have t: "unat (tp_total_size h) = length packet" by (rule fragment_ofD(2) [OF assms(2)])
  have se: "ra_start a = some_flag SPW_VSPW_TP_FLAG_FRAGMENT_START fs"
    "ra_end a = some_flag SPW_VSPW_TP_FLAG_FRAGMENT_END fs"
    using assms(1) by (simp_all add: holds_fragments_def)
  show "fst (reassembly_push h p a) =
      (if complete_set packet (fs @ [(h, p)]) then SPW_REASSEMBLY_COMPLETE
       else if fragment_range (h, p) \<subseteq> covered_by fs then SPW_REASSEMBLY_DUPLICATE
       else SPW_REASSEMBLY_ACCEPTED)"
    by (simp add: push Let_def t complete_set_def d se sup.absorb_iff1
        del: dom_map_add fragment_range.simps) blast
  show "holds_fragments packet key (fs @ [(h, p)]) (snd (reassembly_push h p a))"
    unfolding push Let_def snd_conv holds_fragments_def
    by (simp add: b' se fragment_ofD(1) [OF assms(2)] del: fragment_range.simps)
qed

lemma fragment_of_not_invalid:
  assumes "reassembler_inv r" and "length packet \<le> fr_capacity r" and "fragment_of packet key (h, p)"
  shows "\<not> push_arguments_invalid r h (Some p)"
  using assms by (auto simp: reassembler_inv_def push_arguments_invalid_def)

lemma push_all_fragments:
  assumes "reassembler_inv r" and "length packet \<le> fr_capacity r"
    and "\<forall>f \<in> set fs. fragment_of packet key f"
    and "holds_fragments packet key pre (reassembly_of r)" and "push_all r fs = (rs, r')"
  shows "reassembler_inv r' \<and> fr_capacity r' = fr_capacity r \<and>
    holds_fragments packet key (pre @ fs) (reassembly_of r') \<and> length rs = length fs \<and>
    (\<forall>i < length fs. rs ! i =
       (if complete_set packet (pre @ take (Suc i) fs) then SPW_REASSEMBLY_COMPLETE
        else if fragment_range (fs ! i) \<subseteq> covered_by (pre @ take i fs) then SPW_REASSEMBLY_DUPLICATE
        else SPW_REASSEMBLY_ACCEPTED))"
  using assms
proof (induction fs arbitrary: r pre rs)
  case Nil
  then show ?case by simp
next
  case (Cons f fs)
  obtain h p where f: "f = (h, p)" by (cases f)
  obtain res r1 where push: "spw_fragment_reassembler_push r (Some h) (Some p) = (res, r1)"
    by (cases "spw_fragment_reassembler_push r (Some h) (Some p)")
  obtain rs1 where all: "push_all r1 fs = (rs1, r')" and rs: "rs = res # rs1"
    using Cons.prems(5) f push by (auto simp: Let_def split: prod.splits)
  have frag: "fragment_of packet key (h, p)" using Cons.prems(3) unfolding f by (meson list.set_intros(1))
  have "unat (tp_payload_size h) \<le> length p" using fragment_ofD(3) [OF frag] by simp
  then have r1: "reassembler_inv r1" "fr_capacity r1 = fr_capacity r"
    "(res, reassembly_of r1) = reassembly_push h p (reassembly_of r)"
    using push_refines [OF Cons.prems(1) _ push] fragment_of_not_invalid [OF Cons.prems(1,2) frag]
    by (simp_all add: payload_bytes_def)
  note same = push_same_packet [OF Cons.prems(4) frag, folded r1(3), unfolded fst_conv snd_conv, folded f]
  have "reassembler_inv r' \<and> fr_capacity r' = fr_capacity r1 \<and>
    holds_fragments packet key ((pre @ [f]) @ fs) (reassembly_of r') \<and> length rs1 = length fs \<and>
    (\<forall>i < length fs. rs1 ! i =
       (if complete_set packet ((pre @ [f]) @ take (Suc i) fs) then SPW_REASSEMBLY_COMPLETE
        else if fragment_range (fs ! i) \<subseteq> covered_by ((pre @ [f]) @ take i fs) then SPW_REASSEMBLY_DUPLICATE
        else SPW_REASSEMBLY_ACCEPTED))"
    using Cons.prems(2,3) r1(1,2) same(2) all by (intro Cons.IH) auto
  then show ?case
    using r1(2) same(1) by (auto simp: rs less_Suc_eq_0_disj)
qed

lemma take_complete_packet:
  assumes "reassembler_inv r" and "length packet \<le> fr_capacity r"
    and "holds_fragments packet key fs (reassembly_of r)" and "covered_by fs = {..<length packet}"
  shows "take (length packet) (the (fr_data r)) = packet"
proof (rule nth_equalityI)
  obtain d c where d: "fr_data r = Some d" "fr_coverage r = Some c" "length d = fr_capacity r"
    using assms(1) unfolding reassembler_inv_def by blast
  then show "length (take (length packet) (the (fr_data r))) = length packet" using assms(2) by simp
  fix i assume "i < length (take (length packet) (the (fr_data r)))"
  then have i: "i < length packet" by simp
  have "got d c i = Some (packet ! i)"
    using assms(3,4) i d unfolding holds_fragments_def reassembly_of_def by simp
  then show "take (length packet) (the (fr_data r)) ! i = packet ! i"
    using i d by (simp add: got_def split: if_splits)
qed

lemma inactive_holds_nothing:
  assumes "reassembler_inv r" and "\<not> fr_active r"
  shows "holds_fragments packet key [] (reassembly_of r)"
proof -
  obtain d c where d: "fr_data r = Some d" "fr_coverage r = Some c" "length d = fr_capacity r"
    "length c = fr_coverage_words r" "SPW_FRAGMENT_COVERAGE_WORDS (fr_capacity r) \<le> fr_coverage_words r"
    "\<forall>p < 64 * length c. cov_bit c p \<longrightarrow> fr_active r \<and> p < unat (fr_total_size r)"
    using assms(1) unfolding reassembler_inv_def by blast
  have "length d \<le> 64 * length c" using coverage_words_enough [of "length d"] d(3-5) by simp
  then have "got d c = (\<lambda>p. None)" using d(6) assms(2) by (auto simp: got_def)
  then show ?thesis
    using assms d(1,2)
    by (simp add: holds_fragments_def reassembly_of_def reassembler_inv_def some_flag_def covered_by_def)
qed

lemma words_beyond_total_clear:
  assumes "\<forall>p < 64 * length c. cov_bit c p \<longrightarrow> p < t"
    and "SPW_FRAGMENT_COVERAGE_WORDS t \<le> w" and "w < length c"
  shows "c ! w = 0"
proof (rule bit_eqI)
  fix n assume n: "possible_bit TYPE(64 word) n"
  then have "n < 64" by simp
  then have "(w * 64 + n) div 64 = w" "(w * 64 + n) mod 64 = n" by simp_all
  moreover have "t \<le> w * 64 + n"
    using coverage_words_enough [of t] assms(2) by linarith
  moreover have "w * 64 + n < 64 * length c" using \<open>n < 64\<close> assms(3) by linarith
  ultimately show "bit (c ! w) n = bit 0 n"
    using assms(1) unfolding cov_bit_def by (metis bit_0_eq bot_apply bot_bool_def not_less)
qed

lemma coverage_words_u32:
  "unat (t :: u32) + 63 < 2 ^ 32 \<Longrightarrow> unat ((t + 63) div 64) = SPW_FRAGMENT_COVERAGE_WORDS (unat t)"
  by (simp add: SPW_FRAGMENT_COVERAGE_WORDS_def unat_div unat_add_small)

text \<open>Within 63 bytes of the 32-bit limit the rounded-up word count wraps to zero and nothing is cleared.\<close>

lemma reset_clears_nothing_at_limit:
  assumes "fr_active r" and "2 ^ 32 - 63 \<le> unat (fr_total_size r)" and "unat (fr_total_size r) \<le> fr_capacity r"
  shows "words_to_clear r = 0 \<and> fr_coverage (spw_fragment_reassembler_reset r) = fr_coverage r"
proof -
  let ?t = "fr_total_size r"
  have "unat ?t < 2 ^ 32" using unsigned_less [where 'a = nat, of ?t] by simp
  then have "unat (?t + 63) < 64" using assms(2) by (simp add: unat_word_ariths le_mod_geq)
  then have "unat ((?t + 63) div 64) = 0" by (simp add: unat_div)
  then have "words_to_clear r = 0" using assms by (simp add: words_to_clear_def)
  then show ?thesis by (simp add: spw_fragment_reassembler_reset_def split: option.split)
qed

lemma reset_coverage:
  assumes "reassembler_inv r" and "fr_capacity r + 63 < 2 ^ 32"
  shows "fr_coverage (spw_fragment_reassembler_reset r) = Some (replicate (fr_coverage_words r) 0)"
proof -
  let ?w = "words_to_clear r"
  obtain d c where d: "fr_coverage r = Some c" "length c = fr_coverage_words r"
    "\<forall>p < 64 * length c. cov_bit c p \<longrightarrow> fr_active r \<and> p < unat (fr_total_size r)"
    "unat (fr_total_size r) \<le> fr_capacity r"
    using assms(1) unfolding reassembler_inv_def by blast
  have w: "unat ((fr_total_size r + 63) div 64) = SPW_FRAGMENT_COVERAGE_WORDS (unat (fr_total_size r))"
    using coverage_words_u32 d(4) assms(2) by simp
  have le: "?w \<le> length c" by (simp add: words_to_clear_def Let_def d(2))
  have zero: "c ! w = 0" if "?w \<le> w" "w < length c" for w
  proof (rule words_beyond_total_clear)
    show "\<forall>p < 64 * length c. cov_bit c p \<longrightarrow> p < unat (fr_total_size r)" using d(3) by blast
    show "w < length c" by (rule that(2))
    show "SPW_FRAGMENT_COVERAGE_WORDS (unat (fr_total_size r)) \<le> w"
      using that d(2,4) by (auto simp: words_to_clear_def Let_def w split: if_splits)
  qed
  have "replicate ?w 0 @ drop ?w c = replicate (length c) 0"
    using le zero by (intro nth_equalityI) (auto simp: nth_append)
  moreover have "?w = 0 \<Longrightarrow> c = replicate (length c) 0" using calculation by simp
  ultimately show ?thesis
    by (auto simp: spw_fragment_reassembler_reset_def d(1,2))
qed

lemma reset_inv:
  assumes "reassembler_inv r" and "fr_capacity r + 63 < 2 ^ 32"
  shows "reassembler_inv (spw_fragment_reassembler_reset r)"
proof -
  obtain d c where d: "fr_data r = Some d" "length d = fr_capacity r"
    "SPW_FRAGMENT_COVERAGE_WORDS (fr_capacity r) \<le> fr_coverage_words r"
    using assms(1) unfolding reassembler_inv_def by blast
  let ?c = "replicate (fr_coverage_words r) (0 :: u64)"
  have z: "\<not> cov_bit ?c p" if "p < 64 * fr_coverage_words r" for p
    using that by (simp add: cov_bit_def less_mult_imp_div_less mult.commute)
  moreover have "dom (got d ?c) = {}"
    using z coverage_words_enough [of "fr_capacity r"] d(2,3) by (auto simp: dom_got)
  ultimately show ?thesis
    using d reset_coverage [OF assms]
    by (auto simp: reassembler_inv_def) (auto simp: spw_fragment_reassembler_reset_def)
qed

section \<open>Properties\<close>

text \<open>
  Property C1: the reassembler implements its abstract meaning. In every state that satisfies the
  invariant and for every header and payload, a push keeps the invariant, and its result and new
  state are those of the abstract operation on the map of received bytes: the word-wise fast path
  and the byte-wise path with their bitmap both amount to one map update, a conflict is reported
  exactly when the fragment belongs to another message or contradicts a received byte, and
  completion exactly when every byte and both end marks have been seen.
\<close>
theorem reassembler_push_refines_map_update:
  assumes "reassembler_inv r"
    and "\<forall>p. payload = Some p \<longrightarrow> unat (tp_payload_size h) \<le> length p"
    and "spw_fragment_reassembler_push r (Some h) payload = (res, r')"
  shows "reassembler_inv r' \<and>
    (res, reassembly_of r') =
      (if push_arguments_invalid r h payload then (SPW_REASSEMBLY_INVALID, reassembly_of r)
       else reassembly_push h (payload_bytes payload) (reassembly_of r))"
  using push_refines [OF assms] by blast

definition sample_reassembler :: fragment_reassembler where
  "sample_reassembler = spw_fragment_reassembler_init (Some (replicate 8 0)) 8 (Some [7]) 1"

definition sample_fragment :: "u8 \<Rightarrow> u32 \<Rightarrow> u16 \<Rightarrow> vspw_tp_header" where
  "sample_fragment flags offset n = SPW_VSPW_TP_HEADER_INITIALIZER\<lparr>tp_flags := flags,
     tp_payload_size := n, tp_session_id := 1, tp_message_id := 3, tp_fragment_offset := offset,
     tp_total_size := 4\<rparr>"

lemma sample_reassembler_inv: "reassembler_inv sample_reassembler"
  unfolding sample_reassembler_def by (rule init_inv) (simp_all add: SPW_FRAGMENT_COVERAGE_WORDS_def)

lemma payload_length_Some: "n \<le> length q \<Longrightarrow> \<forall>p. Some q = Some p \<longrightarrow> n \<le> length p"
  by simp

theorem reassembler_push_refines_map_update_witness:
  "reassembler_inv sample_reassembler \<and>
   (case spw_fragment_reassembler_push sample_reassembler (Some (sample_fragment 5 0 2)) (Some [1, 2]) of
      (res, r') \<Rightarrow> reassembler_inv r' \<and>
        (res, reassembly_of r') =
          reassembly_push (sample_fragment 5 0 2) [1, 2] (reassembly_of sample_reassembler))"
proof -
  have "\<not> push_arguments_invalid sample_reassembler (sample_fragment 5 0 2) (Some [1, 2])"
    by (simp add: push_arguments_invalid_def sample_reassembler_def sample_fragment_def
        spw_fragment_reassembler_init_def SPW_FRAGMENT_COVERAGE_WORDS_def
        SPW_VSPW_TP_HEADER_INITIALIZER_def)
  moreover have "unat (tp_payload_size (sample_fragment 5 0 2)) \<le> length [1, 2 :: u8]"
    by (simp add: sample_fragment_def)
  ultimately show ?thesis
    using reassembler_push_refines_map_update [OF sample_reassembler_inv payload_length_Some]
      sample_reassembler_inv
    by (fastforce simp: payload_bytes_def split: prod.splits)
qed

text \<open>
  Property C19: order does not matter. Starting from an idle reassembler, any sequence of fragments
  of one packet, in any order, overlapping or repeated, is accepted without conflict: the i-th push
  answers COMPLETE exactly when the fragments so far cover the packet and include a start and an
  end mark, DUPLICATE when it adds no byte, ACCEPTED otherwise; and once every position is covered
  the buffer holds the packet.
\<close>
theorem reassembly_order_independent:
  assumes "reassembler_inv r" and "\<not> fr_active r" and "length packet \<le> fr_capacity r"
    and "\<forall>f \<in> set fs. fragment_of packet key f" and "push_all r fs = (rs, r')"
  shows "length rs = length fs \<and>
    (\<forall>i < length fs. rs ! i =
       (if complete_set packet (take (Suc i) fs) then SPW_REASSEMBLY_COMPLETE
        else if fragment_range (fs ! i) \<subseteq> covered_by (take i fs) then SPW_REASSEMBLY_DUPLICATE
        else SPW_REASSEMBLY_ACCEPTED)) \<and>
    (covered_by fs = {..<length packet} \<longrightarrow> take (length packet) (the (fr_data r')) = packet)"
proof -
  have all: "reassembler_inv r' \<and> fr_capacity r' = fr_capacity r \<and>
    holds_fragments packet key ([] @ fs) (reassembly_of r') \<and> length rs = length fs \<and>
    (\<forall>i < length fs. rs ! i =
       (if complete_set packet ([] @ take (Suc i) fs) then SPW_REASSEMBLY_COMPLETE
        else if fragment_range (fs ! i) \<subseteq> covered_by ([] @ take i fs) then SPW_REASSEMBLY_DUPLICATE
        else SPW_REASSEMBLY_ACCEPTED))"
    by (rule push_all_fragments [OF assms(1,3,4) inactive_holds_nothing [OF assms(1,2)] assms(5)])
  then show ?thesis
    using take_complete_packet [of r' packet key fs] assms(3) by auto
qed

theorem reassembly_order_independent_witness:
  "\<exists>r'. push_all sample_reassembler
      [(sample_fragment 9 2 2, [3, 4]), (sample_fragment 9 2 2, [3, 4]), (sample_fragment 5 0 2, [1, 2])] =
      ([SPW_REASSEMBLY_ACCEPTED, SPW_REASSEMBLY_DUPLICATE, SPW_REASSEMBLY_COMPLETE], r') \<and>
    take 4 (the (fr_data r')) = [1, 2, 3, 4]"
proof -
  define fa fb where "fa = (sample_fragment 9 2 2, [3, 4 :: u8])" and "fb = (sample_fragment 5 0 2, [1, 2 :: u8])"
  note f_defs = fa_def fb_def sample_fragment_def
  let ?fs = "[fa, fa, fb]" and ?p = "[1, 2, 3, 4 :: u8]"
  obtain rs r' where run: "push_all sample_reassembler ?fs = (rs, r')"
    by (cases "push_all sample_reassembler ?fs")
  have frags: "\<forall>f \<in> set ?fs. fragment_of ?p (3, 4, 1, False) f"
    by (simp add: f_defs SPW_VSPW_TP_HEADER_INITIALIZER_def message_key_def has_flag_def)
  have idle: "\<not> fr_active sample_reassembler" "length ?p \<le> fr_capacity sample_reassembler"
    by (simp_all add: sample_reassembler_def spw_fragment_reassembler_init_def)
  have ranges: "fragment_range fa = {2, 3}" "fragment_range fb = {0, 1}"
    by (auto simp: f_defs)
  have all: "{..<4 :: nat} = {0, 1, 2, 3}" by auto
  have sets: "covered_by [] = {}" "covered_by [fa] = {2, 3}" "covered_by ?fs = {..<length ?p}"
    by (auto simp: covered_by_def ranges all)
  have complete: "\<not> complete_set ?p [fa]" "\<not> complete_set ?p [fa, fa]" "complete_set ?p ?fs"
    using sets by (simp_all add: complete_set_def some_flag_def has_flag_def f_defs)
  note res = reassembly_order_independent [OF sample_reassembler_inv idle frags run]
  then have r: "length rs = length ?fs" "\<And>i. i < length ?fs \<Longrightarrow> rs ! i =
       (if complete_set ?p (take (Suc i) ?fs) then SPW_REASSEMBLY_COMPLETE
        else if fragment_range (?fs ! i) \<subseteq> covered_by (take i ?fs) then SPW_REASSEMBLY_DUPLICATE
        else SPW_REASSEMBLY_ACCEPTED)" "take (length ?p) (the (fr_data r')) = ?p"
    using sets(3) by blast+
  have "rs ! 0 = SPW_REASSEMBLY_ACCEPTED" "rs ! Suc 0 = SPW_REASSEMBLY_DUPLICATE"
    "rs ! Suc (Suc 0) = SPW_REASSEMBLY_COMPLETE"
    using r(2) [of 0] r(2) [of "Suc 0"] r(2) [of "Suc (Suc 0)"] complete sets(1,2) ranges by simp_all
  moreover have "length ?p = 4" by simp
  moreover have "rs = [rs ! 0, rs ! Suc 0, rs ! Suc (Suc 0)]"
    using r(1) by (auto simp: length_Suc_conv)
  ultimately have "rs = [SPW_REASSEMBLY_ACCEPTED, SPW_REASSEMBLY_DUPLICATE, SPW_REASSEMBLY_COMPLETE]"
    "take 4 (the (fr_data r')) = ?p"
    using r(3) by (metis, metis)
  with run show ?thesis unfolding fa_def fb_def by auto
qed

text \<open>
  Property C34: a reset leaves nothing behind. Although the reset of an active reassembler clears only
  the coverage words of the current packet, a count it computes in 32 bits, afterwards the whole
  bitmap is zero, the invariant holds and the reassembler is idle; the data buffer itself is left
  alone. The capacity is assumed to be at least 64 bytes below 4 GiB, as every capacity of the
  sources is: from there on the count would wrap.
\<close>
theorem reassembler_reset_clears_everything:
  assumes "reassembler_inv r" and "fr_capacity r + 63 < 2 ^ 32"
  shows "reassembler_inv (spw_fragment_reassembler_reset r) \<and>
    \<not> fr_active (spw_fragment_reassembler_reset r) \<and>
    fr_coverage (spw_fragment_reassembler_reset r) = Some (replicate (fr_coverage_words r) 0) \<and>
    fr_data (spw_fragment_reassembler_reset r) = fr_data r"
  using reset_inv [OF assms] reset_coverage [OF assms]
  by (simp add: spw_fragment_reassembler_reset_def)

text \<open>The witness resets a reassembler in the middle of a message.\<close>

definition busy_reassembler :: fragment_reassembler where
  "busy_reassembler = snd (spw_fragment_reassembler_push sample_reassembler
     (Some (sample_fragment 5 0 2)) (Some [1, 2]))"

lemma busy_reassembler_inv: "reassembler_inv busy_reassembler"
  using push_refines [OF sample_reassembler_inv payload_length_Some
      prod.collapse [symmetric, of "spw_fragment_reassembler_push sample_reassembler
        (Some (sample_fragment 5 0 2)) (Some [1, 2])"]]
  by (simp add: busy_reassembler_def sample_fragment_def)

lemma busy_reassembler_state:
  "fr_active busy_reassembler \<and> fr_capacity busy_reassembler = 8 \<and> fr_coverage_words busy_reassembler = 1 \<and>
   fr_coverage busy_reassembler = Some [3]"
  by code_simp

theorem reassembler_reset_clears_everything_witness:
  "fr_active busy_reassembler \<and> fr_coverage busy_reassembler = Some [3] \<and>
   fr_coverage (spw_fragment_reassembler_reset busy_reassembler) = Some [0] \<and>
   \<not> fr_active (spw_fragment_reassembler_reset busy_reassembler)"
  using reassembler_reset_clears_everything [OF busy_reassembler_inv] busy_reassembler_state
  by simp

end
