(* ===== verification/Link_Timing.thy ===== *)
theory Link_Timing
  imports Spw_Types
begin

text \<open>
  The simulated line timing of the UDP backend (\<open>src/backends/ethernet/virtual_link_timing.c\<close>),
  in 64-bit arithmetic. The property shows that no packet the transport can carry overflows the
  computation, so that the delay is the exact rounded-up serialization time plus the latency.
\<close>

abbreviation SPW_VIRTUAL_LINK_EVENT_DATA :: u8 where "SPW_VIRTUAL_LINK_EVENT_DATA \<equiv> 0"
abbreviation SPW_VIRTUAL_LINK_EVENT_TIME_CODE :: u8 where "SPW_VIRTUAL_LINK_EVENT_TIME_CODE \<equiv> 1"

record spw_virtual_link_timing =
  link_bps :: u64
  latency_us :: u32

definition spw_virtual_link_serialization_us ::
    "spw_virtual_link_timing option \<Rightarrow> u8 \<Rightarrow> u64 \<Rightarrow> u64" where
  "spw_virtual_link_serialization_us timing_ptr event payload_size =
     (case timing_ptr of None \<Rightarrow> 0
      | Some timing \<Rightarrow>
          if link_bps timing = 0 then 0
          else let
            effective_octets = (if event = SPW_VIRTUAL_LINK_EVENT_DATA then payload_size + 1 else 2);
            bit_microseconds = effective_octets * 8 * 1000000;
            whole = bit_microseconds div link_bps timing
          in whole + (if bit_microseconds mod link_bps timing \<noteq> 0 then 1 else 0))"

definition spw_virtual_link_delay_us :: "spw_virtual_link_timing option \<Rightarrow> u8 \<Rightarrow> u64 \<Rightarrow> u64" where
  "spw_virtual_link_delay_us timing_ptr event payload_size =
     (case timing_ptr of None \<Rightarrow> 0
      | Some timing \<Rightarrow>
          spw_virtual_link_serialization_us (Some timing) event payload_size +
            ucast (latency_us timing))"

section \<open>Exactness\<close>

text \<open>The octets on the line: a data packet with its terminator, or a time code.\<close>

definition line_octets :: "u8 \<Rightarrow> nat \<Rightarrow> nat" where
  "line_octets event n = (if event = SPW_VIRTUAL_LINK_EVENT_DATA then n + 1 else 2)"

definition ceil_div :: "nat \<Rightarrow> nat \<Rightarrow> nat" where
  "ceil_div a b = (a + b - 1) div b"

lemma ceil_div_eq:
  assumes "0 < b"
  shows "ceil_div a b = a div b + (if a mod b \<noteq> 0 then 1 else 0)"
proof -
  have split: "a = b * (a div b) + a mod b" by simp
  have r: "a mod b < b" using assms by simp
  show ?thesis
  proof (cases "a mod b = 0")
    case True
    have "(a + b - 1) div b = a div b"
      using assms split True by (intro div_nat_eqI; (unfold mult_Suc_right)?; linarith)
    with True show ?thesis by (simp add: ceil_div_def)
  next
    case False
    have "(a + b - 1) div b = Suc (a div b)"
      using assms split r False by (intro div_nat_eqI; (unfold mult_Suc_right)?; linarith)
    with False show ?thesis by (simp add: ceil_div_def)
  qed
qed

lemma ceil_div_le: "0 < b \<Longrightarrow> ceil_div a b \<le> a"
proof -
  assume b: "0 < b"
  show ?thesis
  proof (cases a)
    case (Suc m)
    then have "a + b - 1 = m + b" by simp
    then have "ceil_div a b = m div b + 1" unfolding ceil_div_def using b by (simp add: div_add_self2)
    also have "\<dots> \<le> a" using Suc by simp
    finally show ?thesis .
  qed (use b in \<open>simp add: ceil_div_def\<close>)
qed

lemma unat_octets:
  assumes "unat n < 2 ^ 40"
  shows "unat ((if event = SPW_VIRTUAL_LINK_EVENT_DATA then n + 1 else 2 :: u64) * 8 * 1000000) =
    8000000 * line_octets event (unat n)"
proof -
  define oct where "oct = (if event = SPW_VIRTUAL_LINK_EVENT_DATA then n + 1 else 2 :: u64)"
  have "unat (n + 1) = unat n + 1"
    using assms by (simp add: unat_add_small)
  then have o: "unat oct = line_octets event (unat n)" by (simp add: line_octets_def oct_def)
  have "line_octets event (unat n) \<le> 2 ^ 40" using assms by (auto simp: line_octets_def)
  then have "unat oct * unat (8000000 :: u64) < 2 ^ LENGTH(64)" using o by simp
  then have "unat (oct * 8000000) = unat oct * unat (8000000 :: u64)" by (rule unat_mult_small)
  moreover have "oct * 8 * 1000000 = oct * 8000000" by (simp add: mult.assoc)
  ultimately have "unat (oct * 8 * 1000000) = 8000000 * line_octets event (unat n)"
    using o by (simp add: mult.commute)
  then show ?thesis by (simp only: oct_def)
qed

lemma serialization_exact:
  assumes "unat n < 2 ^ 40" and "link_bps t \<noteq> 0"
  shows "unat (spw_virtual_link_serialization_us (Some t) event n) =
    ceil_div (8000000 * line_octets event (unat n)) (unat (link_bps t))"
proof -
  let ?b = "(if event = SPW_VIRTUAL_LINK_EVENT_DATA then n + 1 else 2 :: u64) * 8 * 1000000"
  let ?B = "8000000 * line_octets event (unat n)" and ?l = "unat (link_bps t)"
  have B: "unat ?b = ?B" by (rule unat_octets [OF assms(1)])
  have l: "0 < ?l" using assms(2) by (simp add: unat_gt_0)
  have dm: "unat (?b div link_bps t) = ?B div ?l" "unat (?b mod link_bps t) = ?B mod ?l"
    using B by (simp_all only: unat_div_distrib unat_mod_distrib)
  have le: "ceil_div ?B ?l \<le> ?B" by (rule ceil_div_le [OF l])
  have small: "?B < 2 ^ 64" using assms(1) by (auto simp: line_octets_def)
  have nz: "?b mod link_bps t \<noteq> 0 \<longleftrightarrow> ?B mod ?l \<noteq> 0" using dm(2) by (metis unat_eq_zero)
  have "unat (?b div link_bps t + (if ?b mod link_bps t \<noteq> 0 then 1 else 0)) =
      ?B div ?l + (if ?B mod ?l \<noteq> 0 then 1 else 0)"
  proof (cases "?B mod ?l = 0")
    case False
    then have "?B div ?l + 1 < 2 ^ 64" using le small ceil_div_eq [OF l, of ?B] by simp
    then have "unat (?b div link_bps t + 1) = ?B div ?l + 1"
      using dm(1) by (simp add: unat_add_small)
    with False nz show ?thesis by simp
  qed (use nz dm(1) in simp)
  then show ?thesis
    using assms(2) ceil_div_eq [OF l]
    by (simp add: spw_virtual_link_serialization_us_def Let_def)
qed

text \<open>
  Property C35: the simulated link delay is exact. For every payload below 2^40 bytes (packets are
  at most 16 MiB) no intermediate 64-bit product or sum wraps: the delay is the serialization time
  of the octets on the line at the configured bit rate, rounded up to whole microseconds, plus the
  configured latency, and just the latency when the bit rate is zero.
\<close>
theorem virtual_link_delay_exact:
  assumes "unat n < 2 ^ 40"
  shows "unat (spw_virtual_link_delay_us (Some t) event n) =
    (if link_bps t = 0 then 0
     else ceil_div (8000000 * line_octets event (unat n)) (unat (link_bps t))) +
    unat (latency_us t)"
proof (cases "link_bps t = 0")
  case True
  then show ?thesis
    by (simp add: spw_virtual_link_delay_us_def spw_virtual_link_serialization_us_def
        unat_ucast_widen)
next
  case False
  let ?s = "ceil_div (8000000 * line_octets event (unat n)) (unat (link_bps t))"
  have lat: "unat (latency_us t) < 2 ^ LENGTH(32)" by (rule unsigned_less)
  have "?s \<le> 8000000 * line_octets event (unat n)"
    using False by (intro ceil_div_le) (simp add: unat_gt_0)
  also have "\<dots> \<le> 8000000 * 2 ^ 40" using assms by (auto simp: line_octets_def)
  finally have "?s + unat (latency_us t) < 2 ^ 64"
    using lat by simp
  then have "unat (spw_virtual_link_serialization_us (Some t) event n + ucast (latency_us t)) =
      ?s + unat (latency_us t)"
    using serialization_exact [OF assms False]
    by (simp add: unat_add_small unat_ucast_widen)
  with False show ?thesis by (simp add: spw_virtual_link_delay_us_def)
qed

theorem virtual_link_delay_exact_witness:
  "unat (1000 :: u64) < 2 ^ 40 \<and>
   unat (spw_virtual_link_delay_us (Some \<lparr>link_bps = 10000000, latency_us = 5\<rparr>)
      SPW_VIRTUAL_LINK_EVENT_DATA 1000) = 806"
  using virtual_link_delay_exact [of 1000 "\<lparr>link_bps = 10000000, latency_us = 5\<rparr>" 0]
  by (simp add: line_octets_def ceil_div_def)

end
