(* ===== verification/Fault_Injector.thy ===== *)
theory Fault_Injector
  imports Vspw_Tp
begin

text \<open>
  Deterministic fault injection of the UDP backend
  (\<open>src/backends/ethernet/deterministic_faults.c\<close>, configuration data of
  \<open>include/spwkit/udp.h\<close>): rule validation, the per-rule xorshift generators and the two
  injection decisions. The lemmas show that no generator ever sticks at zero, that a rule never
  fires more often than its limit, and that a reset replays the same decisions.
\<close>

section \<open>Configuration\<close>

abbreviation SPW_UDP_FAULT_RULE_COUNT :: nat where "SPW_UDP_FAULT_RULE_COUNT \<equiv> 8"
abbreviation SPW_UDP_FAULT_PROBABILITY_SCALE :: nat where "SPW_UDP_FAULT_PROBABILITY_SCALE \<equiv> 10000"

abbreviation SPW_UDP_FAULT_ACTION_NONE :: u8 where "SPW_UDP_FAULT_ACTION_NONE \<equiv> 0"
abbreviation SPW_UDP_FAULT_ACTION_TRANSPORT_DROP :: u8 where "SPW_UDP_FAULT_ACTION_TRANSPORT_DROP \<equiv> 1"
abbreviation SPW_UDP_FAULT_ACTION_TRANSPORT_DUPLICATE :: u8 where
  "SPW_UDP_FAULT_ACTION_TRANSPORT_DUPLICATE \<equiv> 2"
abbreviation SPW_UDP_FAULT_ACTION_TRANSPORT_REORDER :: u8 where
  "SPW_UDP_FAULT_ACTION_TRANSPORT_REORDER \<equiv> 3"
abbreviation SPW_UDP_FAULT_ACTION_TRANSPORT_DELAY :: u8 where "SPW_UDP_FAULT_ACTION_TRANSPORT_DELAY \<equiv> 4"
abbreviation SPW_UDP_FAULT_ACTION_SPACEWIRE_EEP :: u8 where "SPW_UDP_FAULT_ACTION_SPACEWIRE_EEP \<equiv> 5"

abbreviation SPW_UDP_FAULT_TARGET_ANY :: u8 where "SPW_UDP_FAULT_TARGET_ANY \<equiv> 0"
abbreviation SPW_UDP_FAULT_TARGET_DATA :: u8 where "SPW_UDP_FAULT_TARGET_DATA \<equiv> 1"
abbreviation SPW_UDP_FAULT_TARGET_TIME_CODE :: u8 where "SPW_UDP_FAULT_TARGET_TIME_CODE \<equiv> 2"
abbreviation SPW_UDP_FAULT_TARGET_ACK :: u8 where "SPW_UDP_FAULT_TARGET_ACK \<equiv> 3"
abbreviation SPW_UDP_FAULT_TARGET_KEEPALIVE :: u8 where "SPW_UDP_FAULT_TARGET_KEEPALIVE \<equiv> 4"

record spw_udp_fault_rule =
  fault_action :: u8
  fault_target :: u8
  probability_per_10000 :: u16
  max_events :: u32
  fault_delay_us :: u32
  fault_reserved :: u32

definition SPW_UDP_FAULT_RULE_INITIALIZER :: spw_udp_fault_rule where
  "SPW_UDP_FAULT_RULE_INITIALIZER = \<lparr>fault_action = SPW_UDP_FAULT_ACTION_NONE,
     fault_target = SPW_UDP_FAULT_TARGET_ANY, probability_per_10000 = 0, max_events = 0,
     fault_delay_us = 0, fault_reserved = 0\<rparr>"

text \<open>Addresses are the characters of the fixed-size arrays, up to and including their padding.\<close>

record spw_udp_config =
  udp_struct_size :: u32
  udp_version :: u32
  local_address :: bytes
  local_port :: u16
  remote_address :: bytes
  remote_port :: u16
  udp_link_id :: u32
  fragment_payload_size :: u16
  max_retries :: u16
  ack_timeout_ms :: u32
  keepalive_interval_ms :: u32
  peer_timeout_ms :: u32
  virtual_link_bps :: u64
  virtual_latency_us :: u32
  fault_seed :: u64
  fault_rules :: "spw_udp_fault_rule list"
  udp_reserved :: u32

record spw_fault_decision =
  decision_action :: u8
  decision_delay_us :: u32

record spw_deterministic_fault_injector =
  fi_rules :: "spw_udp_fault_rule list"
  fi_states :: "u64 list"
  fi_injected_counts :: "u32 list"
  fi_seed :: u64

section \<open>Rules\<close>

definition is_transport_action :: "u8 \<Rightarrow> bool" where
  "is_transport_action action \<longleftrightarrow>
     action \<ge> SPW_UDP_FAULT_ACTION_TRANSPORT_DROP \<and> action \<le> SPW_UDP_FAULT_ACTION_TRANSPORT_DELAY"

definition target_matches :: "u8 \<Rightarrow> u8 \<Rightarrow> bool" where
  "target_matches configured actual \<longleftrightarrow>
     configured = SPW_UDP_FAULT_TARGET_ANY \<or> configured = actual"

definition target_for :: "u8 \<Rightarrow> u8" where
  "target_for type =
     (if type = SPW_VSPW_TP_DATA then SPW_UDP_FAULT_TARGET_DATA
      else if type = SPW_VSPW_TP_TIME_CODE then SPW_UDP_FAULT_TARGET_TIME_CODE
      else if type = SPW_VSPW_TP_ACK then SPW_UDP_FAULT_TARGET_ACK
      else if type = SPW_VSPW_TP_KEEPALIVE \<or> type = SPW_VSPW_TP_LINK_CONTROL
      then SPW_UDP_FAULT_TARGET_KEEPALIVE
      else SPW_UDP_FAULT_TARGET_ANY)"

definition spw_fault_rule_valid :: "spw_udp_fault_rule option \<Rightarrow> bool" where
  "spw_fault_rule_valid rule_ptr =
     (case rule_ptr of None \<Rightarrow> False
      | Some rule \<Rightarrow>
          if fault_reserved rule \<noteq> 0 \<or>
             unat (probability_per_10000 rule) > SPW_UDP_FAULT_PROBABILITY_SCALE \<or>
             fault_target rule > SPW_UDP_FAULT_TARGET_KEEPALIVE \<or>
             fault_action rule > SPW_UDP_FAULT_ACTION_SPACEWIRE_EEP then False
          else if fault_action rule = SPW_UDP_FAULT_ACTION_NONE
          then fault_target rule = SPW_UDP_FAULT_TARGET_ANY \<and> probability_per_10000 rule = 0 \<and>
               max_events rule = 0 \<and> fault_delay_us rule = 0
          else if probability_per_10000 rule = 0 then False
          else if fault_action rule = SPW_UDP_FAULT_ACTION_TRANSPORT_DELAY
          then fault_delay_us rule \<noteq> 0
          else if fault_delay_us rule \<noteq> 0 then False
          else if fault_action rule = SPW_UDP_FAULT_ACTION_SPACEWIRE_EEP
          then fault_target rule = SPW_UDP_FAULT_TARGET_DATA
          else True)"

section \<open>Injector\<close>

definition initial_state :: "u64 \<Rightarrow> nat \<Rightarrow> u64" where
  "initial_state seed i =
     (let state = seed XOR (0x9e3779b97f4a7c15 * of_nat (i + 1))
      in if state = 0 then 0xd1b54a32d192ed03 + of_nat i else state)"

definition spw_fault_injector_reset ::
    "spw_deterministic_fault_injector \<Rightarrow> spw_deterministic_fault_injector" where
  "spw_fault_injector_reset injector =
     injector\<lparr>fi_states := List.map (initial_state (fi_seed injector)) [0..<SPW_UDP_FAULT_RULE_COUNT],
       fi_injected_counts := replicate SPW_UDP_FAULT_RULE_COUNT 0\<rparr>"

definition spw_fault_injector_init :: "spw_udp_config \<Rightarrow> spw_deterministic_fault_injector" where
  "spw_fault_injector_init config =
     spw_fault_injector_reset
       \<lparr>fi_rules = fault_rules config, fi_states = replicate SPW_UDP_FAULT_RULE_COUNT 0,
        fi_injected_counts = replicate SPW_UDP_FAULT_RULE_COUNT 0, fi_seed = fault_seed config\<rparr>"

definition exhausted ::
    "spw_deterministic_fault_injector \<Rightarrow> nat \<Rightarrow> spw_udp_fault_rule \<Rightarrow> bool" where
  "exhausted injector index rule \<longleftrightarrow>
     max_events rule \<noteq> 0 \<and> fi_injected_counts injector ! index \<ge> max_events rule"

definition xorshift :: "u64 \<Rightarrow> u64" where
  "xorshift x =
     (let x = x XOR push_bit 13 x; x = x XOR drop_bit 7 x; x = x XOR push_bit 17 x in x)"

definition fires ::
    "spw_deterministic_fault_injector \<Rightarrow> nat \<Rightarrow> spw_udp_fault_rule \<Rightarrow>
     bool \<times> spw_deterministic_fault_injector" where
  "fires injector index rule =
     (let x = xorshift (fi_states injector ! index);
          injector = injector\<lparr>fi_states := (fi_states injector)[index := x]\<rparr>
      in if unat (probability_per_10000 rule) \<ge> SPW_UDP_FAULT_PROBABILITY_SCALE
         then (True, injector)
         else (unat x mod SPW_UDP_FAULT_PROBABILITY_SCALE < unat (probability_per_10000 rule), injector))"

definition count_injection ::
    "spw_deterministic_fault_injector \<Rightarrow> nat \<Rightarrow> spw_deterministic_fault_injector" where
  "count_injection injector i =
     injector\<lparr>fi_injected_counts := (fi_injected_counts injector)[i := fi_injected_counts injector ! i + 1]\<rparr>"

text \<open>The loop of \<open>spw_fault_inject_transport\<close> from rule \<open>i\<close> on.\<close>

function transport_from ::
    "spw_deterministic_fault_injector \<Rightarrow> u8 \<Rightarrow> nat \<Rightarrow>
     spw_fault_decision \<times> spw_deterministic_fault_injector" where
  "transport_from injector target i =
     (if i < SPW_UDP_FAULT_RULE_COUNT
      then let rule = fi_rules injector ! i in
        if \<not> is_transport_action (fault_action rule) \<or> \<not> target_matches (fault_target rule) target \<or>
           exhausted injector i rule
        then transport_from injector target (i + 1)
        else let (hit, injector) = fires injector i rule in
          if hit
          then (\<lparr>decision_action = fault_action rule, decision_delay_us = fault_delay_us rule\<rparr>,
                count_injection injector i)
          else transport_from injector target (i + 1)
      else (\<lparr>decision_action = SPW_UDP_FAULT_ACTION_NONE, decision_delay_us = 0\<rparr>, injector))"
  by pat_completeness auto
termination by (relation "measure (\<lambda>(fi, t, i). 8 - i)") auto

definition spw_fault_inject_transport ::
    "spw_deterministic_fault_injector \<Rightarrow> u8 \<Rightarrow>
     spw_fault_decision \<times> spw_deterministic_fault_injector" where
  "spw_fault_inject_transport injector type = transport_from injector (target_for type) 0"

function eep_from ::
    "spw_deterministic_fault_injector \<Rightarrow> nat \<Rightarrow> bool \<times> spw_deterministic_fault_injector" where
  "eep_from injector i =
     (if i < SPW_UDP_FAULT_RULE_COUNT
      then let rule = fi_rules injector ! i in
        if fault_action rule \<noteq> SPW_UDP_FAULT_ACTION_SPACEWIRE_EEP \<or>
           \<not> target_matches (fault_target rule) SPW_UDP_FAULT_TARGET_DATA \<or> exhausted injector i rule
        then eep_from injector (i + 1)
        else let (hit, injector) = fires injector i rule in
          if hit then (True, count_injection injector i) else eep_from injector (i + 1)
      else (False, injector))"
  by pat_completeness auto
termination by (relation "measure (\<lambda>(fi, i). 8 - i)") auto

definition spw_fault_inject_spacewire_eep ::
    "spw_deterministic_fault_injector \<Rightarrow> bool \<times> spw_deterministic_fault_injector" where
  "spw_fault_inject_spacewire_eep injector = eep_from injector 0"

declare transport_from.simps [simp del] eep_from.simps [simp del]

section \<open>The generators never stick at zero\<close>

lemma eq_push_bit_zero:
  fixes x :: u64
  assumes "x = push_bit k x" and "0 < k"
  shows "x = 0"
proof (rule bit_eqI)
  fix n
  have "\<not> bit x n"
  proof (induction n rule: less_induct)
    case (less n)
    have "bit x n \<longleftrightarrow> k \<le> n \<and> bit x (n - k) \<and> n < 64"
      by (subst (1) assms(1)) (auto simp: bit_push_bit_iff)
    with less assms(2) show ?case by (metis diff_less le_zero_eq not_gr_zero)
  qed
  then show "bit x n = bit 0 n" by simp
qed

lemma eq_drop_bit_zero:
  fixes x :: u64
  assumes "x = drop_bit k x" and "0 < k"
  shows "x = 0"
proof (rule bit_eqI)
  fix n
  have "bit x n = bit x (n + m * k)" for m
  proof (induction m)
    case (Suc m)
    have "bit x (n + m * k) = bit (drop_bit k x) (n + m * k)" using assms(1) by simp
    with Suc show ?case by (simp add: bit_drop_bit_eq algebra_simps)
  qed simp
  from this [of 64] have "bit x n = bit x (n + 64 * k)" .
  moreover have "\<not> bit x (n + 64 * k)" using assms(2) bit_imp_le_length [of x "n + 64 * k"] by auto
  ultimately show "bit x n = bit 0 n" by simp
qed

lemma xor_eq_0_iff_eq: "(a :: u64) XOR b = 0 \<longleftrightarrow> a = b"
  by (auto simp: bit_eq_iff bit_xor_iff)

lemma xorshift_nonzero:
  assumes "x \<noteq> 0"
  shows "xorshift x \<noteq> 0"
proof -
  let ?a = "x XOR push_bit 13 x"
  let ?b = "?a XOR drop_bit 7 ?a"
  have "?a \<noteq> 0" using eq_push_bit_zero [of x 13] assms xor_eq_0_iff_eq by auto
  then have "?b \<noteq> 0" using eq_drop_bit_zero [of ?a 7] xor_eq_0_iff_eq by auto
  then have "?b XOR push_bit 17 ?b \<noteq> 0" using eq_push_bit_zero [of ?b 17] xor_eq_0_iff_eq by auto
  then show ?thesis by (simp add: xorshift_def Let_def)
qed

lemma initial_state_nonzero: "i < 8 \<Longrightarrow> initial_state seed i \<noteq> 0"
proof -
  assume "i < 8"
  then consider "i = 0" | "i = 1" | "i = 2" | "i = 3" | "i = 4" | "i = 5" | "i = 6" | "i = 7"
    by linarith
  then show ?thesis by cases (simp_all add: initial_state_def Let_def)
qed

section \<open>Invariant\<close>

definition injector_inv :: "spw_deterministic_fault_injector \<Rightarrow> bool" where
  "injector_inv fi \<longleftrightarrow> length (fi_rules fi) = 8 \<and> length (fi_states fi) = 8 \<and>
     length (fi_injected_counts fi) = 8 \<and> (\<forall>i < 8. fi_states fi ! i \<noteq> 0) \<and>
     (\<forall>i < 8. max_events (fi_rules fi ! i) \<noteq> 0 \<longrightarrow>
        fi_injected_counts fi ! i \<le> max_events (fi_rules fi ! i))"

lemma reset_injector_inv: "length (fi_rules fi) = 8 \<Longrightarrow> injector_inv (spw_fault_injector_reset fi)"
  by (auto simp: injector_inv_def spw_fault_injector_reset_def initial_state_nonzero)

lemma init_injector_inv: "length (fault_rules c) = 8 \<Longrightarrow> injector_inv (spw_fault_injector_init c)"
  by (simp add: spw_fault_injector_init_def reset_injector_inv)

lemma fires_config [simp]:
  "fi_rules (snd (fires fi i rule)) = fi_rules fi" "fi_seed (snd (fires fi i rule)) = fi_seed fi"
  "fi_injected_counts (snd (fires fi i rule)) = fi_injected_counts fi"
  by (simp_all add: fires_def Let_def)

lemma count_config [simp]:
  "fi_rules (count_injection fi i) = fi_rules fi" "fi_seed (count_injection fi i) = fi_seed fi"
  by (simp_all add: count_injection_def)

lemma fires_inv: "injector_inv fi \<Longrightarrow> i < 8 \<Longrightarrow> injector_inv (snd (fires fi i rule))"
  by (auto simp: injector_inv_def fires_def Let_def nth_list_update xorshift_nonzero)

lemma inc_below_limit: "(a :: u32) < b \<Longrightarrow> a + 1 \<le> b"
  by (rule inc_le)

lemma count_inv:
  assumes "injector_inv fi" and "i < 8" and "\<not> exhausted fi i (fi_rules fi ! i)"
  shows "injector_inv (count_injection fi i)"
  using assms
  by (auto simp: injector_inv_def count_injection_def exhausted_def nth_list_update inc_below_limit not_le)

lemma exhausted_fires [simp]: "exhausted (snd (fires fi j r)) i rule = exhausted fi i rule"
  by (simp add: exhausted_def)

text \<open>One step of either decision, as the loops take it.\<close>

lemma transport_from_spec:
  assumes "transport_from fi target i = (dec, fi')" and "injector_inv fi"
  shows "injector_inv fi' \<and> fi_rules fi' = fi_rules fi \<and> fi_seed fi' = fi_seed fi \<and>
    (decision_action dec = SPW_UDP_FAULT_ACTION_NONE \<and> fi_injected_counts fi' = fi_injected_counts fi \<or>
     (\<exists>j < 8. is_transport_action (fault_action (fi_rules fi ! j)) \<and>
        target_matches (fault_target (fi_rules fi ! j)) target \<and>
        \<not> exhausted fi j (fi_rules fi ! j) \<and>
        dec = \<lparr>decision_action = fault_action (fi_rules fi ! j),
               decision_delay_us = fault_delay_us (fi_rules fi ! j)\<rparr> \<and>
        fi_injected_counts fi' =
          (fi_injected_counts fi)[j := fi_injected_counts fi ! j + 1]))"
  using assms
proof (induction fi target i arbitrary: dec fi' rule: transport_from.induct)
  case (1 fi target i)
  let ?rule = "fi_rules fi ! i"
  let ?skip = "\<not> is_transport_action (fault_action ?rule) \<or> \<not> target_matches (fault_target ?rule) target \<or>
    exhausted fi i ?rule"
  obtain hit fi1 where f: "fires fi i ?rule = (hit, fi1)" by (cases "fires fi i ?rule")
  then have f1: "fi_rules fi1 = fi_rules fi" "fi_seed fi1 = fi_seed fi"
    "fi_injected_counts fi1 = fi_injected_counts fi"
    "\<And>k r. exhausted fi1 k r = exhausted fi k r"
    using fires_config [of fi i ?rule] exhausted_fires [of fi i ?rule] by simp_all
  consider (stop) "\<not> i < 8" | (skip) "i < 8" ?skip | (hit) "i < 8" "\<not> ?skip" hit
    | (miss) "i < 8" "\<not> ?skip" "\<not> hit" by blast
  then show ?case
  proof cases
    case stop
    then show ?thesis using 1(3,4) by (auto simp: transport_from.simps)
  next
    case skip
    have "transport_from fi target (i + 1) = (dec, fi')"
      using 1(3) skip by (subst (asm) transport_from.simps) (simp add: Let_def)
    from 1(1) [OF skip(1) refl skip(2) this 1(4)] show ?thesis .
  next
    case hit
    have "dec = \<lparr>decision_action = fault_action ?rule, decision_delay_us = fault_delay_us ?rule\<rparr>"
      "fi' = count_injection fi1 i"
      using 1(3) hit f by (subst (asm) transport_from.simps, simp add: Let_def)+
    moreover have "injector_inv fi1" using fires_inv [OF 1(4) hit(1), of ?rule] f by simp
    ultimately show ?thesis
      using hit count_inv [of fi1 i] f1 by (auto simp: count_injection_def)
  next
    case miss
    have eq: "transport_from fi1 target (i + 1) = (dec, fi')"
      using 1(3) miss f by (subst (asm) transport_from.simps) (simp add: Let_def)
    have inv: "injector_inv fi1" using fires_inv [OF 1(4) miss(1), of ?rule] f by simp
    from 1(2) [OF miss(1) refl miss(2) f [symmetric] refl miss(3) eq inv] show ?thesis
      unfolding f1 .
  qed
qed

lemma eep_from_spec:
  assumes "eep_from fi i = (hit, fi')" and "injector_inv fi"
  shows "injector_inv fi' \<and> fi_rules fi' = fi_rules fi \<and> fi_seed fi' = fi_seed fi \<and>
    (\<not> hit \<and> fi_injected_counts fi' = fi_injected_counts fi \<or>
     hit \<and> (\<exists>j < 8. fault_action (fi_rules fi ! j) = SPW_UDP_FAULT_ACTION_SPACEWIRE_EEP \<and>
        \<not> exhausted fi j (fi_rules fi ! j) \<and>
        fi_injected_counts fi' = (fi_injected_counts fi)[j := fi_injected_counts fi ! j + 1]))"
  using assms
proof (induction fi i arbitrary: hit fi' rule: eep_from.induct)
  case (1 fi i)
  let ?rule = "fi_rules fi ! i"
  let ?skip = "fault_action ?rule \<noteq> SPW_UDP_FAULT_ACTION_SPACEWIRE_EEP \<or>
    \<not> target_matches (fault_target ?rule) SPW_UDP_FAULT_TARGET_DATA \<or> exhausted fi i ?rule"
  obtain fired fi1 where f: "fires fi i ?rule = (fired, fi1)" by (cases "fires fi i ?rule")
  then have f1: "fi_rules fi1 = fi_rules fi" "fi_seed fi1 = fi_seed fi"
    "fi_injected_counts fi1 = fi_injected_counts fi"
    "\<And>k r. exhausted fi1 k r = exhausted fi k r"
    using fires_config [of fi i ?rule] exhausted_fires [of fi i ?rule] by simp_all
  consider (stop) "\<not> i < 8" | (skip) "i < 8" ?skip | (hit) "i < 8" "\<not> ?skip" fired
    | (miss) "i < 8" "\<not> ?skip" "\<not> fired" by blast
  then show ?case
  proof cases
    case stop
    then show ?thesis using 1(3,4) by (auto simp: eep_from.simps)
  next
    case skip
    have "eep_from fi (i + 1) = (hit, fi')"
      using 1(3) skip by (subst (asm) eep_from.simps) (simp add: Let_def)
    from 1(1) [OF skip(1) refl skip(2) this 1(4)] show ?thesis .
  next
    case hit
    have "hit" "fi' = count_injection fi1 i"
      using 1(3) hit f by (subst (asm) eep_from.simps, simp add: Let_def)+
    moreover have "injector_inv fi1" using fires_inv [OF 1(4) hit(1), of ?rule] f by simp
    ultimately show ?thesis
      using hit count_inv [of fi1 i] f1 by (auto simp: count_injection_def)
  next
    case miss
    have eq: "eep_from fi1 (i + 1) = (hit, fi')"
      using 1(3) miss f by (subst (asm) eep_from.simps) (simp add: Let_def)
    have inv: "injector_inv fi1" using fires_inv [OF 1(4) miss(1), of ?rule] f by simp
    from 1(2) [OF miss(1) refl miss(2) f [symmetric] refl miss(3) eq inv] show ?thesis
      unfolding f1 .
  qed
qed

section \<open>The first live rule that hits\<close>

text \<open>
  A reference for the transport loop. A rule is live for a message while its budget is not used up; it
  hits when its probability is certain or the next number of its own generator falls below it. The
  decision belongs to the first rule that is live and hits, and the live rules up to it have drawn a
  number.
\<close>

definition transport_live :: "spw_deterministic_fault_injector \<Rightarrow> u8 \<Rightarrow> nat \<Rightarrow> bool" where
  "transport_live fi target i \<longleftrightarrow>
     SPW_UDP_FAULT_ACTION_TRANSPORT_DROP \<le> fault_action (fi_rules fi ! i) \<and>
     fault_action (fi_rules fi ! i) \<le> SPW_UDP_FAULT_ACTION_TRANSPORT_DELAY \<and>
     (fault_target (fi_rules fi ! i) = SPW_UDP_FAULT_TARGET_ANY \<or>
      fault_target (fi_rules fi ! i) = target) \<and>
     (max_events (fi_rules fi ! i) = 0 \<or>
      fi_injected_counts fi ! i < max_events (fi_rules fi ! i))"

definition rule_hits :: "spw_deterministic_fault_injector \<Rightarrow> nat \<Rightarrow> bool" where
  "rule_hits fi i \<longleftrightarrow>
     10000 \<le> unat (probability_per_10000 (fi_rules fi ! i)) \<or>
     unat (xorshift (fi_states fi ! i)) mod 10000 < unat (probability_per_10000 (fi_rules fi ! i))"

definition drawn ::
    "(nat \<Rightarrow> bool) \<Rightarrow> nat \<Rightarrow> nat \<Rightarrow> spw_deterministic_fault_injector \<Rightarrow>
     spw_deterministic_fault_injector" where
  "drawn live i n fi = fi\<lparr>fi_states :=
     List.map (\<lambda>k. if i \<le> k \<and> k < n \<and> live k then xorshift (fi_states fi ! k) else fi_states fi ! k)
       [0..<length (fi_states fi)]\<rparr>"

lemma fires_split:
  "fires fi i (fi_rules fi ! i) =
     (rule_hits fi i, fi\<lparr>fi_states := (fi_states fi)[i := xorshift (fi_states fi ! i)]\<rparr>)"
  by (simp add: fires_def rule_hits_def Let_def)

lemma transport_skip:
  "(\<not> is_transport_action (fault_action (fi_rules fi ! i)) \<or>
    \<not> target_matches (fault_target (fi_rules fi ! i)) target \<or> exhausted fi i (fi_rules fi ! i)) \<longleftrightarrow>
   \<not> transport_live fi target i"
  by (auto simp: is_transport_action_def target_matches_def exhausted_def transport_live_def)

lemma drawn_none: "n \<le> i \<Longrightarrow> drawn live i n fi = fi"
proof -
  assume "n \<le> i"
  then have "List.map (\<lambda>k. if i \<le> k \<and> k < n \<and> live k then xorshift (fi_states fi ! k) else fi_states fi ! k)
      [0..<length (fi_states fi)] = fi_states fi"
    by (intro nth_equalityI) auto
  then show ?thesis by (simp add: drawn_def)
qed

lemma drawn_skip: "\<not> live i \<Longrightarrow> drawn live (i + 1) n fi = drawn live i n fi"
  by (auto simp: drawn_def Suc_le_eq le_less intro!: map_cong)

lemma drawn_draw:
  assumes "live i" and "i < n" and "i < length (fi_states fi)"
  shows "drawn live (i + 1) n (fi\<lparr>fi_states := (fi_states fi)[i := xorshift (fi_states fi ! i)]\<rparr>) =
    drawn live i n fi"
  using assms by (auto simp: drawn_def nth_list_update intro!: nth_equalityI)

lemma find_upt_cong:
  "(\<And>j. i \<le> j \<Longrightarrow> j < n \<Longrightarrow> P j = Q j) \<Longrightarrow> find P [i..<n] = find Q [i..<n]"
  by (rule find_cong) auto

lemma find_upt_step:
  "i < n \<Longrightarrow> find P [i..<n] = (if P i then Some i else find P [i + 1..<n])"
  by (simp add: upt_conv_Cons)

lemma find_upt_SomeD: "find P [i..<n] = Some j \<Longrightarrow> i \<le> j \<and> j < n \<and> P j"
  by (auto simp: find_Some_iff)

lemma hits_after_draw:
  "j \<noteq> i \<Longrightarrow> rule_hits (fi\<lparr>fi_states := (fi_states fi)[i := x]\<rparr>) j = rule_hits fi j"
  by (simp add: rule_hits_def)

lemma live_after_draw [simp]:
  "transport_live (fi\<lparr>fi_states := s\<rparr>) target = transport_live fi target"
  by (simp add: transport_live_def fun_eq_iff)

lemma transport_from_step:
  "i < 8 \<Longrightarrow> transport_from fi target i =
     (if \<not> transport_live fi target i then transport_from fi target (i + 1)
      else if rule_hits fi i
      then (\<lparr>decision_action = fault_action (fi_rules fi ! i),
             decision_delay_us = fault_delay_us (fi_rules fi ! i)\<rparr>,
            count_injection (fi\<lparr>fi_states := (fi_states fi)[i := xorshift (fi_states fi ! i)]\<rparr>) i)
      else transport_from (fi\<lparr>fi_states := (fi_states fi)[i := xorshift (fi_states fi ! i)]\<rparr>) target (i + 1))"
  by (subst transport_from.simps)
    (simp only: Let_def transport_skip fires_split prod.case if_True)

lemma transport_from_exact:
  assumes "length (fi_states fi) = 8" and "i \<le> 8"
  shows "transport_from fi target i =
    (case find (\<lambda>j. transport_live fi target j \<and> rule_hits fi j) [i..<8] of
       None \<Rightarrow> (\<lparr>decision_action = SPW_UDP_FAULT_ACTION_NONE, decision_delay_us = 0\<rparr>,
                drawn (transport_live fi target) i 8 fi)
     | Some j \<Rightarrow> (\<lparr>decision_action = fault_action (fi_rules fi ! j),
                   decision_delay_us = fault_delay_us (fi_rules fi ! j)\<rparr>,
                 count_injection (drawn (transport_live fi target) i (j + 1) fi) j))"
  using assms
proof (induction fi target i rule: transport_from.induct)
  case (1 fi target i)
  let ?live = "transport_live fi target"
  let ?fi = "fi\<lparr>fi_states := (fi_states fi)[i := xorshift (fi_states fi ! i)]\<rparr>"
  consider (stop) "i = 8" | (skip) "i < 8" "\<not> ?live i" | (hit) "i < 8" "?live i" "rule_hits fi i"
    | (miss) "i < 8" "?live i" "\<not> rule_hits fi i" using 1(4) by linarith
  then show ?case
  proof cases
    case stop
    then show ?thesis by (simp add: transport_from.simps drawn_none)
  next
    case skip
    have "transport_from fi target i = transport_from fi target (i + 1)"
      using skip by (simp only: transport_from_step not_False_eq_True if_True)
    moreover note 1(1) [OF skip(1) refl iffD2 [OF transport_skip skip(2)] 1(3)]
    ultimately show ?thesis
      using skip drawn_skip [where live = ?live and i = i, OF skip(2)]
      by (simp add: find_upt_step del: upt.simps split: option.split)
  next
    case hit
    have d: "drawn ?live i (i + 1) fi = ?fi"
      using drawn_draw [of ?live i "i + 1" fi] hit 1(3) by (simp add: drawn_none)
    have "transport_from fi target i =
      (\<lparr>decision_action = fault_action (fi_rules fi ! i), decision_delay_us = fault_delay_us (fi_rules fi ! i)\<rparr>,
       count_injection ?fi i)"
      using hit by (simp only: transport_from_step not_True_eq_False if_True if_False)
    then show ?thesis using hit d by (simp add: find_upt_step del: upt.simps)
  next
    case miss
    have "transport_from fi target i = transport_from ?fi target (i + 1)"
      using miss by (simp only: transport_from_step not_True_eq_False if_False)
    moreover have "find (\<lambda>j. ?live j \<and> rule_hits ?fi j) [i + 1..<8] =
      find (\<lambda>j. ?live j \<and> rule_hits fi j) [i + 1..<8]"
      by (rule find_upt_cong) (simp add: hits_after_draw)
    moreover have "drawn ?live (i + 1) n ?fi = drawn ?live i n fi" if "i < n" for n
      using drawn_draw [of ?live i n fi] that miss 1(3) by simp
    moreover have "\<not> (\<not> is_transport_action (fault_action (fi_rules fi ! i)) \<or>
      \<not> target_matches (fault_target (fi_rules fi ! i)) target \<or> exhausted fi i (fi_rules fi ! i))"
      using miss(2) by (simp only: transport_skip not_not)
    note 1(2) [OF miss(1) refl this fires_split [symmetric] refl miss(3)]
    ultimately show ?thesis
      using miss 1(3)
      by (auto simp: find_upt_step simp del: upt.simps split: option.split dest: find_upt_SomeD)
  qed
qed

section \<open>Runs\<close>

datatype injection = Inject_Transport u8 | Inject_Spacewire_Eep | Reset_Injector

text \<open>One call on the injector and what it answers: the transport action and delay, or the EEP flag.\<close>

fun inject :: "injection \<Rightarrow> spw_deterministic_fault_injector \<Rightarrow>
    (spw_fault_decision + bool) \<times> spw_deterministic_fault_injector" where
  "inject (Inject_Transport type) fi =
     (let (d, fi) = spw_fault_inject_transport fi type in (Inl d, fi))"
| "inject Inject_Spacewire_Eep fi =
     (let (b, fi) = spw_fault_inject_spacewire_eep fi in (Inr b, fi))"
| "inject Reset_Injector fi = (Inr False, spw_fault_injector_reset fi)"

fun inject_all :: "injection list \<Rightarrow> spw_deterministic_fault_injector \<Rightarrow>
    (spw_fault_decision + bool) list \<times> spw_deterministic_fault_injector" where
  "inject_all [] fi = ([], fi)"
| "inject_all (e # es) fi =
     (let (d, fi1) = inject e fi; (ds, fi2) = inject_all es fi1 in (d # ds, fi2))"

lemma inject_inv:
  assumes "injector_inv fi"
  shows "injector_inv (snd (inject e fi)) \<and> fi_rules (snd (inject e fi)) = fi_rules fi \<and>
    fi_seed (snd (inject e fi)) = fi_seed fi"
proof (cases e)
  case (Inject_Transport t)
  obtain d fi1 where "transport_from fi (target_for t) 0 = (d, fi1)"
    by (cases "transport_from fi (target_for t) 0")
  with Inject_Transport transport_from_spec [OF this assms] show ?thesis
    by (simp add: spw_fault_inject_transport_def)
next
  case Inject_Spacewire_Eep
  obtain b fi1 where "eep_from fi 0 = (b, fi1)" by (cases "eep_from fi 0")
  with Inject_Spacewire_Eep eep_from_spec [OF this assms] show ?thesis
    by (simp add: spw_fault_inject_spacewire_eep_def)
next
  case Reset_Injector
  then show ?thesis
    using assms reset_injector_inv [of fi]
    by (simp add: injector_inv_def) (simp add: spw_fault_injector_reset_def)
qed

lemma inject_all_inv:
  "injector_inv fi \<Longrightarrow> injector_inv (snd (inject_all es fi)) \<and>
     fi_rules (snd (inject_all es fi)) = fi_rules fi \<and> fi_seed (snd (inject_all es fi)) = fi_seed fi"
proof (induction es arbitrary: fi)
  case (Cons e es)
  obtain d fi1 where e: "inject e fi = (d, fi1)" by (cases "inject e fi")
  then have fi1: "injector_inv fi1" "fi_rules fi1 = fi_rules fi" "fi_seed fi1 = fi_seed fi"
    using inject_inv [OF Cons.prems, of e] by simp_all
  with Cons.IH [OF fi1(1)] e show ?case by (cases "inject_all es fi1") simp
qed simp

lemma reset_depends_on_config:
  "fi_rules fi = fi_rules fi' \<Longrightarrow> fi_seed fi = fi_seed fi' \<Longrightarrow>
     spw_fault_injector_reset fi = spw_fault_injector_reset fi'"
  by (simp add: spw_fault_injector_reset_def)

section \<open>Injected faults and their counters\<close>

text \<open>
  Which answers are faults, and which rules can have decided one: a transport fault is the action and
  delay of a transport rule, an EEP fault comes from an EEP rule.
\<close>

fun injected_fault :: "spw_fault_decision + bool \<Rightarrow> bool" where
  "injected_fault (Inl d) = is_transport_action (decision_action d)"
| "injected_fault (Inr eep) = eep"

fun decided_by :: "spw_fault_decision + bool \<Rightarrow> spw_udp_fault_rule \<Rightarrow> bool" where
  "decided_by (Inl d) rule \<longleftrightarrow> fault_action rule = decision_action d \<and> fault_delay_us rule = decision_delay_us d"
| "decided_by (Inr eep) rule \<longleftrightarrow> eep \<and> fault_action rule = SPW_UDP_FAULT_ACTION_SPACEWIRE_EEP"

definition deciders :: "spw_fault_decision + bool \<Rightarrow> spw_udp_fault_rule list \<Rightarrow> nat set" where
  "deciders x rules = {i. i < 8 \<and> decided_by x (rules ! i)}"

lemma finite_deciders [simp]: "finite (deciders x rules)"
  by (simp add: deciders_def)

lemma sum_count_step:
  fixes c :: "u32 list"
  assumes "finite R" and "\<forall>i \<in> R. i < length c" and "j \<in> R \<Longrightarrow> c ! j < m"
  shows "(\<Sum>i \<in> R. unat (c[j := c ! j + 1] ! i)) = (\<Sum>i \<in> R. unat (c ! i)) + (if j \<in> R then 1 else 0)"
proof (cases "j \<in> R")
  case True
  then have "unat (c ! j) < unat m" using assms(3) by (simp add: word_less_nat_alt)
  moreover have "unat m < 2 ^ 32" using unsigned_less [where 'a = nat, of m] by simp
  ultimately have "unat (c ! j + 1) = unat (c ! j) + 1" by (simp add: unat_add_small)
  then show ?thesis
    using True assms(1,2) by (simp add: sum.remove [of R j] nth_list_update)
next
  case False
  then have "i \<in> R \<Longrightarrow> c[j := c ! j + 1] ! i = c ! i" for i by (metis nth_list_update_neq)
  with False show ?thesis by simp
qed

lemma counted_injection:
  assumes "injector_inv fi" and "j < 8" and "\<not> exhausted fi j (fi_rules fi ! j)"
    and "\<forall>i \<in> deciders x (fi_rules fi). max_events (fi_rules fi ! i) \<noteq> 0"
    and "fi_injected_counts fi' = (fi_injected_counts fi)[j := fi_injected_counts fi ! j + 1]"
  shows "(\<Sum>i \<in> deciders x (fi_rules fi). unat (fi_injected_counts fi' ! i)) =
    (\<Sum>i \<in> deciders x (fi_rules fi). unat (fi_injected_counts fi ! i)) +
      (if decided_by x (fi_rules fi ! j) then 1 else 0)"
  using sum_count_step [of "deciders x (fi_rules fi)" "fi_injected_counts fi" j "max_events (fi_rules fi ! j)"]
    assms
  by (auto simp: injector_inv_def exhausted_def deciders_def not_le)

lemma inject_counts:
  assumes "injector_inv fi" and "e \<noteq> Reset_Injector" and "injected_fault x"
    and "\<forall>i \<in> deciders x (fi_rules fi). max_events (fi_rules fi ! i) \<noteq> 0"
    and "inject e fi = (d, fi')"
  shows "(\<Sum>i \<in> deciders x (fi_rules fi). unat (fi_injected_counts fi' ! i)) =
    (\<Sum>i \<in> deciders x (fi_rules fi). unat (fi_injected_counts fi ! i)) + (if d = x then 1 else 0)"
proof (cases e)
  case (Inject_Transport t)
  obtain dec where dec: "transport_from fi (target_for t) 0 = (dec, fi')" "d = Inl dec"
    using assms(5) Inject_Transport
    by (auto simp: spw_fault_inject_transport_def split: prod.splits)
  from transport_from_spec [OF dec(1) assms(1)] show ?thesis
  proof (elim conjE disjE exE)
    assume "decision_action dec = SPW_UDP_FAULT_ACTION_NONE" "fi_injected_counts fi' = fi_injected_counts fi"
    then show ?thesis using assms(3) dec(2) by (auto simp: is_transport_action_def)
  next
    fix j assume j: "j < 8" "is_transport_action (fault_action (fi_rules fi ! j))"
      "\<not> exhausted fi j (fi_rules fi ! j)"
      "dec = \<lparr>decision_action = fault_action (fi_rules fi ! j), decision_delay_us = fault_delay_us (fi_rules fi ! j)\<rparr>"
      "fi_injected_counts fi' = (fi_injected_counts fi)[j := fi_injected_counts fi ! j + 1]"
    have "decided_by x (fi_rules fi ! j) \<longleftrightarrow> d = x"
      using j(2,4) dec(2) by (cases x) (auto simp: is_transport_action_def)
    with counted_injection [OF assms(1) j(1,3) assms(4) j(5)] show ?thesis by simp
  qed
next
  case Inject_Spacewire_Eep
  obtain hit where hit: "eep_from fi 0 = (hit, fi')" "d = Inr hit"
    using assms(5) Inject_Spacewire_Eep
    by (auto simp: spw_fault_inject_spacewire_eep_def split: prod.splits)
  from eep_from_spec [OF hit(1) assms(1)] show ?thesis
  proof (elim conjE disjE exE)
    assume "\<not> hit" "fi_injected_counts fi' = fi_injected_counts fi"
    then show ?thesis using assms(3) hit(2) by auto
  next
    fix j assume j: "hit" "j < 8" "fault_action (fi_rules fi ! j) = SPW_UDP_FAULT_ACTION_SPACEWIRE_EEP"
      "\<not> exhausted fi j (fi_rules fi ! j)"
      "fi_injected_counts fi' = (fi_injected_counts fi)[j := fi_injected_counts fi ! j + 1]"
    have "decided_by x (fi_rules fi ! j) \<longleftrightarrow> d = x"
      using assms(3) j(1,3) hit(2) by (cases x) (auto simp: is_transport_action_def)
    with counted_injection [OF assms(1) j(2,4) assms(4) j(5)] show ?thesis by simp
  qed
qed (use assms(2) in simp)

lemma inject_all_counts:
  assumes "injector_inv fi" and "Reset_Injector \<notin> set es" and "injected_fault x"
    and "\<forall>i \<in> deciders x (fi_rules fi). max_events (fi_rules fi ! i) \<noteq> 0"
    and "inject_all es fi = (ds, fi')"
  shows "(\<Sum>i \<in> deciders x (fi_rules fi). unat (fi_injected_counts fi' ! i)) =
    (\<Sum>i \<in> deciders x (fi_rules fi). unat (fi_injected_counts fi ! i)) + count_list ds x"
  using assms
proof (induction es arbitrary: fi ds)
  case (Cons e es)
  obtain d fi1 where e: "inject e fi = (d, fi1)" by (cases "inject e fi")
  obtain ds1 where r: "inject_all es fi1 = (ds1, fi')" "ds = d # ds1"
    using Cons.prems(5) e by (auto split: prod.splits)
  have fi1: "injector_inv fi1" "fi_rules fi1 = fi_rules fi"
    using inject_inv [OF Cons.prems(1), of e] e by simp_all
  have "e \<noteq> Reset_Injector" "Reset_Injector \<notin> set es" using Cons.prems(2) by auto
  with Cons.IH [OF fi1(1) _ Cons.prems(3) _ r(1)] inject_counts [OF Cons.prems(1) _ Cons.prems(3,4) e]
    Cons.prems(4) fi1(2) r(2) show ?case by simp
qed simp

lemma fresh_counts: "i < 8 \<Longrightarrow> fi_injected_counts (spw_fault_injector_reset fi) ! i = 0"
  by (simp add: spw_fault_injector_reset_def)

lemma sum_limits:
  assumes "injector_inv fi" and "\<forall>i \<in> deciders x (fi_rules fi). max_events (fi_rules fi ! i) \<noteq> 0"
  shows "(\<Sum>i \<in> deciders x (fi_rules fi). unat (fi_injected_counts fi ! i)) \<le>
    (\<Sum>i \<in> deciders x (fi_rules fi). unat (max_events (fi_rules fi ! i)))"
  using assms by (intro sum_mono) (auto simp: injector_inv_def deciders_def word_le_nat_alt)

lemma run_config:
  assumes "length (fault_rules config) = 8" and "inject_all es (spw_fault_injector_init config) = (ds, fi)"
  shows "injector_inv fi \<and> fi_rules fi = fault_rules config \<and> fi_seed fi = fault_seed config"
  using inject_all_inv [OF init_injector_inv [OF assms(1)], of es] assms(2)
  by (simp add: spw_fault_injector_init_def spw_fault_injector_reset_def)

lemma reset_config [simp]:
  "fi_rules (spw_fault_injector_reset fi) = fi_rules fi" "fi_seed (spw_fault_injector_reset fi) = fi_seed fi"
  by (simp_all add: spw_fault_injector_reset_def)

section \<open>Properties\<close>

text \<open>
  Property C32: the generators stay alive and budgets hold. Take any run of transport decisions, EEP
  decisions and resets on an initialised injector, whatever the seed, and the calls that follow a
  reset of it (the initialisation is one) up to the next. Every generator state is non-zero (a zero
  xorshift state would repeat for ever), the rules are unchanged, and budgets bound the faults really
  injected: a transport action with its delay, or an EEP, that only limited rules can decide is
  answered by these calls at most as often as the limits of those rules allow together, so for a
  single such rule at most \<open>max_events\<close> times.
\<close>
theorem fault_injector_safe:
  assumes "length (fault_rules config) = SPW_UDP_FAULT_RULE_COUNT"
    and "inject_all before (spw_fault_injector_init config) = (ds\<^sub>0, fi\<^sub>0)"
    and "inject_all es (spw_fault_injector_reset fi\<^sub>0) = (ds, fi)" and "Reset_Injector \<notin> set es"
  shows "fi_rules fi = fault_rules config \<and> (\<forall>i < SPW_UDP_FAULT_RULE_COUNT. fi_states fi ! i \<noteq> 0) \<and>
    (\<forall>x. injected_fault x \<and>
         (\<forall>i \<in> deciders x (fault_rules config). max_events (fault_rules config ! i) \<noteq> 0) \<longrightarrow>
       count_list ds x \<le> (\<Sum>i \<in> deciders x (fault_rules config). unat (max_events (fault_rules config ! i))))"
proof -
  let ?r = "spw_fault_injector_reset fi\<^sub>0"
  have 0: "injector_inv fi\<^sub>0" "fi_rules fi\<^sub>0 = fault_rules config"
    using run_config [OF assms(1,2)] by simp_all
  then have r: "injector_inv ?r" "fi_rules ?r = fault_rules config"
    using reset_injector_inv [of fi\<^sub>0] assms(1) by simp_all
  have fi: "injector_inv fi" "fi_rules fi = fault_rules config"
    using inject_all_inv [OF r(1), of es] assms(3) r(2) by simp_all
  have "count_list ds x \<le> (\<Sum>i \<in> deciders x (fault_rules config). unat (max_events (fault_rules config ! i)))"
    if x: "injected_fault x" "\<forall>i \<in> deciders x (fault_rules config). max_events (fault_rules config ! i) \<noteq> 0" for x
  proof -
    have "(\<Sum>i \<in> deciders x (fault_rules config). unat (fi_injected_counts ?r ! i)) = 0"
      by (simp add: deciders_def fresh_counts)
    with inject_all_counts [OF r(1) assms(4) x(1) _ assms(3)] sum_limits [OF fi(1), of x] x(2) fi(2) r(2)
    show ?thesis by simp
  qed
  with fi show ?thesis by (simp add: injector_inv_def)
qed

definition sample_fault_rule :: spw_udp_fault_rule where
  "sample_fault_rule = \<lparr>fault_action = SPW_UDP_FAULT_ACTION_TRANSPORT_DROP,
     fault_target = SPW_UDP_FAULT_TARGET_DATA, probability_per_10000 = 10000, max_events = 1,
     fault_delay_us = 0, fault_reserved = 0\<rparr>"

definition sample_udp_config :: spw_udp_config where
  "sample_udp_config = \<lparr>udp_struct_size = 0, udp_version = 1, local_address = [49],
     local_port = 1, remote_address = [49], remote_port = 2, udp_link_id = 1,
     fragment_payload_size = 1024, max_retries = 3, ack_timeout_ms = 50, keepalive_interval_ms = 1000,
     peer_timeout_ms = 3000, virtual_link_bps = 0, virtual_latency_us = 0,
     fault_seed = 0x9e3779b97f4a7c15,
     fault_rules = sample_fault_rule # replicate 7 SPW_UDP_FAULT_RULE_INITIALIZER, udp_reserved = 0\<rparr>"

theorem fault_injector_safe_witness:
  "count_list (fst (inject_all [Inject_Transport 1, Inject_Transport 1, Inject_Spacewire_Eep]
       (spw_fault_injector_reset (spw_fault_injector_init sample_udp_config))))
     (Inl \<lparr>decision_action = SPW_UDP_FAULT_ACTION_TRANSPORT_DROP, decision_delay_us = 0\<rparr>) \<le> 1"
proof -
  let ?es = "[Inject_Transport 1, Inject_Transport 1, Inject_Spacewire_Eep]"
  let ?x = "Inl \<lparr>decision_action = SPW_UDP_FAULT_ACTION_TRANSPORT_DROP, decision_delay_us = 0\<rparr> ::
    spw_fault_decision + bool"
  let ?fi = "spw_fault_injector_reset (spw_fault_injector_init sample_udp_config)"
  have len: "length (fault_rules sample_udp_config) = SPW_UDP_FAULT_RULE_COUNT"
    by (simp add: sample_udp_config_def)
  have d: "deciders ?x (fault_rules sample_udp_config) = {0}"
  proof (rule set_eqI)
    fix i show "i \<in> deciders ?x (fault_rules sample_udp_config) \<longleftrightarrow> i \<in> {0}"
      by (cases i) (auto simp: deciders_def sample_udp_config_def sample_fault_rule_def,
          simp add: SPW_UDP_FAULT_RULE_INITIALIZER_def)
  qed
  have m: "max_events (fault_rules sample_udp_config ! 0) = 1"
    by (simp add: sample_udp_config_def sample_fault_rule_def)
  obtain ds fi where r: "inject_all ?es ?fi = (ds, fi)" by (cases "inject_all ?es ?fi")
  have "Reset_Injector \<notin> set ?es" by simp
  from fault_injector_safe [OF len inject_all.simps(1) r this]
  have "injected_fault ?x \<and> (\<forall>i \<in> {0}. max_events (fault_rules sample_udp_config ! i) \<noteq> 0) \<longrightarrow>
    count_list ds ?x \<le> (\<Sum>i \<in> {0}. unat (max_events (fault_rules sample_udp_config ! i)))"
    using d by metis
  then have "count_list ds ?x \<le> 1" by (simp add: m is_transport_action_def)
  with r show ?thesis by (metis fst_conv)
qed

text \<open>
  Property C30: what a transport decision is. The decision belongs to the first rule that is a
  transport rule for this kind of message, has budget left and hits, by certainty or because the next
  number of its own generator modulo 10000 is below its probability: its action and delay are
  answered and its counter, only its, advances. The rules before it that could have decided, and it
  itself, have drawn one number each; the rules behind it are untouched. When no rule decides, the
  answer is no fault, every live rule has drawn and no counter moves. A carrier decision is never the
  application-visible EEP action.
\<close>
theorem fault_transport_decision:
  assumes "injector_inv fi" and "spw_fault_inject_transport fi type = (dec, fi')"
  shows "injector_inv fi' \<and> decision_action dec \<noteq> SPW_UDP_FAULT_ACTION_SPACEWIRE_EEP \<and>
    (case find (\<lambda>j. transport_live fi (target_for type) j \<and> rule_hits fi j) [0..<SPW_UDP_FAULT_RULE_COUNT] of
       None \<Rightarrow>
         dec = \<lparr>decision_action = SPW_UDP_FAULT_ACTION_NONE, decision_delay_us = 0\<rparr> \<and>
         fi' = drawn (transport_live fi (target_for type)) 0 SPW_UDP_FAULT_RULE_COUNT fi
     | Some j \<Rightarrow>
         dec = \<lparr>decision_action = fault_action (fi_rules fi ! j),
                decision_delay_us = fault_delay_us (fi_rules fi ! j)\<rparr> \<and>
         fi' = (drawn (transport_live fi (target_for type)) 0 (j + 1) fi)
           \<lparr>fi_injected_counts := (fi_injected_counts fi)[j := fi_injected_counts fi ! j + 1]\<rparr>)"
proof -
  have t: "transport_from fi (target_for type) 0 = (dec, fi')"
    using assms(2) by (simp add: spw_fault_inject_transport_def)
  have len: "length (fi_states fi) = 8" using assms(1) by (simp add: injector_inv_def)
  have "fi_injected_counts (drawn live i n fi) = fi_injected_counts fi" for live i n
    by (simp add: drawn_def)
  then show ?thesis
    using transport_from_spec [OF t assms(1)] transport_from_exact [OF len, of 0 "target_for type"] t
    by (auto simp: is_transport_action_def count_injection_def simp del: upt.simps split: option.splits)
qed

theorem fault_transport_decision_witness:
  "injector_inv (spw_fault_injector_init sample_udp_config) \<and>
   fst (spw_fault_inject_transport (spw_fault_injector_init sample_udp_config) 1) =
     \<lparr>decision_action = SPW_UDP_FAULT_ACTION_TRANSPORT_DROP, decision_delay_us = 0\<rparr>"
proof -
  let ?fi = "spw_fault_injector_init sample_udp_config"
  have inv: "injector_inv ?fi"
    by (rule init_injector_inv) (simp add: sample_udp_config_def)
  have "fi_rules ?fi ! 0 = sample_fault_rule" "fi_injected_counts ?fi ! 0 = 0"
    by (simp_all add: sample_udp_config_def spw_fault_injector_init_def spw_fault_injector_reset_def)
  moreover from this have "find (\<lambda>j. transport_live ?fi (target_for 1) j \<and> rule_hits ?fi j) [0..<8] = Some 0"
    by (simp add: find_upt_step transport_live_def rule_hits_def sample_fault_rule_def target_for_def
        del: upt.simps)
  ultimately show ?thesis
    using fault_transport_decision [OF inv prod.collapse [symmetric], of 1] inv
    by (simp add: sample_fault_rule_def del: upt.simps)
qed

text \<open>
  Property C31: faults are reproducible. Whatever calls were made on an initialised injector, after a
  reset it answers every sequence of calls exactly as it did, or would have done, right after its
  initialisation, and passes through the same states.
\<close>
theorem fault_injector_replay:
  assumes "length (fault_rules config) = SPW_UDP_FAULT_RULE_COUNT"
    and "inject_all before (spw_fault_injector_init config) = (ds, fi)"
  shows "inject_all es (spw_fault_injector_reset fi) = inject_all es (spw_fault_injector_init config)"
proof -
  have "spw_fault_injector_reset fi = spw_fault_injector_init config"
    using run_config [OF assms]
    by (simp add: spw_fault_injector_init_def reset_depends_on_config)
  then show ?thesis by simp
qed

theorem fault_injector_replay_witness:
  "\<exists>ds fi. inject_all [Inject_Transport 1, Inject_Spacewire_Eep] (spw_fault_injector_init sample_udp_config) = (ds, fi) \<and>
     fst (inject_all [Inject_Transport 1, Inject_Spacewire_Eep] (spw_fault_injector_reset fi)) = ds"
proof -
  let ?es = "[Inject_Transport 1, Inject_Spacewire_Eep]"
  obtain ds fi where r: "inject_all ?es (spw_fault_injector_init sample_udp_config) = (ds, fi)"
    by (cases "inject_all ?es (spw_fault_injector_init sample_udp_config)")
  have "length (fault_rules sample_udp_config) = SPW_UDP_FAULT_RULE_COUNT"
    by (simp add: sample_udp_config_def)
  from fault_injector_replay [OF this r, of ?es] r show ?thesis by simp
qed

end
