(* ===== verification/Spw_Ring.thy ===== *)
theory Spw_Ring
  imports Spw_Types
begin

text \<open>
  The fixed-depth ring buffers that the loopback, simulator and server queues are made of: an
  array of slots with head, tail and count. A client sees a ring through the interface
  \<open>bounded_queue\<close>: a list of at most the depth's length, appended at one end and taken at the other.
  Slots are written in place (\<open>ring_put\<close> changes the slot at the tail with a function), because the
  code copies packets into the storage of the slot.
\<close>

section \<open>The interface\<close>

locale bounded_queue =
  fixes room :: nat
    and admissible :: "'p \<Rightarrow> bool"
    and content :: "'p \<Rightarrow> 'a"
    and enqueue :: "'p \<Rightarrow> 'q \<Rightarrow> 'q"
    and dequeue :: "'q \<Rightarrow> 'q"
    and front :: "'q \<Rightarrow> 'a"
    and size_of :: "'q \<Rightarrow> nat"
    and queued :: "'q \<Rightarrow> 'a list"
    and invar :: "'q \<Rightarrow> bool"
  assumes size_queued: "invar q \<Longrightarrow> size_of q = length (queued q)"
    and size_room: "invar q \<Longrightarrow> size_of q \<le> room"
    and invar_enqueue: "invar q \<Longrightarrow> size_of q < room \<Longrightarrow> admissible x \<Longrightarrow> invar (enqueue x q)"
    and queued_enqueue:
      "invar q \<Longrightarrow> size_of q < room \<Longrightarrow> admissible x \<Longrightarrow> queued (enqueue x q) = queued q @ [content x]"
    and invar_dequeue: "invar q \<Longrightarrow> size_of q \<noteq> 0 \<Longrightarrow> invar (dequeue q)"
    and queued_dequeue: "invar q \<Longrightarrow> size_of q \<noteq> 0 \<Longrightarrow> queued (dequeue q) = tl (queued q)"
    and front_queued: "invar q \<Longrightarrow> size_of q \<noteq> 0 \<Longrightarrow> front q = hd (queued q)"
begin

lemma queued_nonempty: "invar q \<Longrightarrow> size_of q \<noteq> 0 \<longleftrightarrow> queued q \<noteq> []"
  by (simp add: size_queued)

lemma queued_front: "invar q \<Longrightarrow> size_of q \<noteq> 0 \<Longrightarrow> queued q = front q # queued (dequeue q)"
  using queued_nonempty by (metis front_queued hd_Cons_tl queued_dequeue)

lemma length_queued_room: "invar q \<Longrightarrow> length (queued q) \<le> room"
  using size_queued size_room by fastforce

lemma size_dequeue: "invar q \<Longrightarrow> size_of q \<noteq> 0 \<Longrightarrow> size_of (dequeue q) = size_of q - 1"
  by (simp add: invar_dequeue queued_dequeue size_queued)

lemma full_queued: "invar q \<Longrightarrow> size_of q = room \<longleftrightarrow> length (queued q) = room"
  by (simp add: size_queued)

end

section \<open>Rings\<close>

record 'a ring =
  rb_slots :: "'a list"
  rb_head :: nat
  rb_tail :: nat
  rb_count :: nat

text \<open>A queue cleared by \<open>memset\<close>: \<open>x\<close> is the all-zero slot.\<close>

definition ring_empty :: "nat \<Rightarrow> 'a \<Rightarrow> 'a ring" where
  "ring_empty depth x = \<lparr>rb_slots = replicate depth x, rb_head = 0, rb_tail = 0, rb_count = 0\<rparr>"

definition ring_put :: "nat \<Rightarrow> ('a \<Rightarrow> 'a) \<Rightarrow> 'a ring \<Rightarrow> 'a ring" where
  "ring_put depth f q =
     q\<lparr>rb_slots := (rb_slots q)[rb_tail q := f (rb_slots q ! rb_tail q)],
       rb_tail := (rb_tail q + 1) mod depth, rb_count := rb_count q + 1\<rparr>"

definition ring_front :: "'a ring \<Rightarrow> 'a" where
  "ring_front q = rb_slots q ! rb_head q"

definition ring_drop :: "nat \<Rightarrow> 'a ring \<Rightarrow> 'a ring" where
  "ring_drop depth q = q\<lparr>rb_head := (rb_head q + 1) mod depth, rb_count := rb_count q - 1\<rparr>"

definition ring_inv :: "nat \<Rightarrow> 'a ring \<Rightarrow> bool" where
  "ring_inv depth q \<longleftrightarrow> 0 < depth \<and> length (rb_slots q) = depth \<and> rb_head q < depth \<and>
     rb_tail q = (rb_head q + rb_count q) mod depth \<and> rb_count q \<le> depth"

definition ring_list :: "nat \<Rightarrow> 'a ring \<Rightarrow> 'a list" where
  "ring_list depth q = List.map (\<lambda>i. rb_slots q ! ((rb_head q + i) mod depth)) [0..<rb_count q]"

lemma length_ring_list [simp]: "length (ring_list depth q) = rb_count q"
  by (simp add: ring_list_def)

lemma ring_empty_inv: "0 < depth \<Longrightarrow> ring_inv depth (ring_empty depth x)"
  by (simp add: ring_inv_def ring_empty_def)

lemma ring_list_empty [simp]: "ring_list depth (ring_empty depth x) = []"
  by (simp add: ring_list_def ring_empty_def)

lemma ring_count_simps [simp]:
  "rb_count (ring_put depth f q) = rb_count q + 1" "rb_count (ring_drop depth q) = rb_count q - 1"
  "rb_count (ring_empty depth x) = 0"
  by (simp_all add: ring_put_def ring_drop_def ring_empty_def)

lemma ring_put_inv: "ring_inv depth q \<Longrightarrow> rb_count q < depth \<Longrightarrow> ring_inv depth (ring_put depth f q)"
  by (simp add: ring_inv_def ring_put_def mod_Suc_eq)

lemma ring_drop_inv:
  assumes "ring_inv depth q" and "rb_count q \<noteq> 0"
  shows "ring_inv depth (ring_drop depth q)"
proof -
  obtain c where c: "rb_count q = Suc c" using assms(2) not0_implies_Suc by blast
  with assms(1) show ?thesis by (simp add: ring_inv_def ring_drop_def mod_simps)
qed

lemma ring_offsets_distinct:
  assumes "i < c" and "c < (depth :: nat)"
  shows "(h + i) mod depth \<noteq> (h + c) mod depth"
proof
  assume "(h + i) mod depth = (h + c) mod depth"
  then have "(h + c - (h + i)) mod depth = 0" using assms by (metis mod_eq_dvd_iff_nat add_le_cancel_left
        dvd_imp_mod_0 less_imp_le)
  then show False using assms by simp
qed

lemma ring_list_put:
  assumes "ring_inv depth q" and "rb_count q < depth"
  shows "ring_list depth (ring_put depth f q) = ring_list depth q @ [f (rb_slots q ! rb_tail q)]"
proof -
  have tail: "rb_tail q = (rb_head q + rb_count q) mod depth" "rb_tail q < length (rb_slots q)"
    using assms(1) by (simp_all add: ring_inv_def)
  have "(rb_slots q)[rb_tail q := y] ! ((rb_head q + i) mod depth) = rb_slots q ! ((rb_head q + i) mod depth)"
    if "i < rb_count q" for i y
    using ring_offsets_distinct [OF that assms(2), of "rb_head q"] tail by simp
  with tail show ?thesis by (simp add: ring_list_def ring_put_def)
qed

lemma ring_list_drop:
  assumes "ring_inv depth q" and "rb_count q \<noteq> 0"
  shows "ring_list depth q = ring_front q # ring_list depth (ring_drop depth q)"
proof -
  have h: "rb_head q mod depth = rb_head q" using assms(1) by (simp add: ring_inv_def)
  obtain c where c: "rb_count q = Suc c" using assms(2) not0_implies_Suc by blast
  have "[0..<Suc c] = 0 # List.map Suc [0..<c]" by (simp add: map_Suc_upt upt_conv_Cons)
  then show ?thesis
    by (simp add: ring_list_def ring_front_def ring_drop_def c h mod_simps del: upt_Suc)
qed

section \<open>Queues of packets and of time codes\<close>

text \<open>
  The packet slot that the loopback and the simulator declare alike: 4096 bytes of storage, a
  length and a terminator. Storing a packet copies its bytes over the old contents of the slot.
\<close>

abbreviation SPW_SLOT_SIZE :: nat where "SPW_SLOT_SIZE \<equiv> 4096"
abbreviation SPW_QUEUE_DEPTH :: nat where "SPW_QUEUE_DEPTH \<equiv> 8"

record packet_slot =
  ps_data :: bytes
  ps_length :: nat
  ps_terminator :: u8

type_synonym packet_queue = "packet_slot ring"
type_synonym time_code_queue = "spw_time_code ring"

definition zero_slot :: packet_slot where
  "zero_slot = \<lparr>ps_data = replicate SPW_SLOT_SIZE 0, ps_length = 0, ps_terminator = 0\<rparr>"

definition zero_time_code :: spw_time_code where
  "zero_time_code = \<lparr>time_count = 0, control_flags = 0\<rparr>"

definition store_packet :: "spw_packet \<Rightarrow> packet_slot \<Rightarrow> packet_slot" where
  "store_packet packet slot =
     slot\<lparr>ps_data := (if pk_length packet > 0
            then memcpy (ps_data slot) 0 (the (pk_data packet)) (pk_length packet) else ps_data slot),
          ps_length := pk_length packet, ps_terminator := pk_terminator packet\<rparr>"

definition enqueue_packet :: "spw_packet \<Rightarrow> packet_queue \<Rightarrow> packet_queue" where
  "enqueue_packet packet = ring_put SPW_QUEUE_DEPTH (store_packet packet)"

definition enqueue_time_code :: "spw_time_code \<Rightarrow> time_code_queue \<Rightarrow> time_code_queue" where
  "enqueue_time_code time_code = ring_put SPW_QUEUE_DEPTH (\<lambda>_. time_code)"

definition slot_packet :: "packet_slot \<Rightarrow> logical_packet" where
  "slot_packet slot = (take (ps_length slot) (ps_data slot), ps_terminator slot)"

definition slot_ok :: "packet_slot \<Rightarrow> bool" where
  "slot_ok slot \<longleftrightarrow> length (ps_data slot) = SPW_SLOT_SIZE \<and> ps_length slot \<le> SPW_SLOT_SIZE"

definition packet_queue_inv :: "packet_queue \<Rightarrow> bool" where
  "packet_queue_inv q \<longleftrightarrow> ring_inv SPW_QUEUE_DEPTH q \<and> (\<forall>s \<in> set (rb_slots q). slot_ok s)"

definition packets_queued :: "packet_queue \<Rightarrow> logical_packet list" where
  "packets_queued q = List.map slot_packet (ring_list SPW_QUEUE_DEPTH q)"

definition slot_admissible :: "spw_packet \<Rightarrow> bool" where
  "slot_admissible p \<longleftrightarrow> tx_packet_ok p \<and> pk_length p \<le> SPW_SLOT_SIZE"

lemma store_packet_ok: "slot_admissible p \<Longrightarrow> slot_ok s \<Longrightarrow> slot_ok (store_packet p s)"
  by (auto simp: slot_admissible_def slot_ok_def store_packet_def tx_packet_ok_def memcpy_def
      split: option.splits)

lemma slot_store_packet: "slot_admissible p \<Longrightarrow> slot_ok s \<Longrightarrow> slot_packet (store_packet p s) = logical_of p"
  by (auto simp: slot_admissible_def slot_ok_def store_packet_def tx_packet_ok_def slot_packet_def
      logical_of_def packet_bytes_def take_memcpy_front split: option.splits)

lemma packet_queue_empty_inv: "packet_queue_inv (ring_empty SPW_QUEUE_DEPTH zero_slot)"
  by (simp add: packet_queue_inv_def ring_empty_inv slot_ok_def zero_slot_def ring_empty_def)
    (simp add: ring_inv_def)

lemma packets_queued_empty [simp]: "packets_queued (ring_empty SPW_QUEUE_DEPTH zero_slot) = []"
  by (simp add: packets_queued_def)

lemma ring_tail_slot: "ring_inv d q \<Longrightarrow> rb_slots q ! rb_tail q \<in> set (rb_slots q)"
  by (auto simp: ring_inv_def)

lemma ring_head_slot: "ring_inv d q \<Longrightarrow> ring_front q \<in> set (rb_slots q)"
  by (auto simp: ring_inv_def ring_front_def)

lemma ring_put_slots:
  "set (rb_slots (ring_put d f q)) \<subseteq> insert (f (rb_slots q ! rb_tail q)) (set (rb_slots q))"
  by (simp add: ring_put_def set_update_subset_insert)

lemma front_slot_ok: "packet_queue_inv q \<Longrightarrow> slot_ok (ring_front q)"
  using ring_head_slot by (auto simp: packet_queue_inv_def)

interpretation packetq: bounded_queue SPW_QUEUE_DEPTH slot_admissible logical_of enqueue_packet
  "ring_drop SPW_QUEUE_DEPTH" "\<lambda>q. slot_packet (ring_front q)" rb_count packets_queued packet_queue_inv
proof (unfold_locales, goal_cases)
  case (1 q)
  then show ?case by (simp add: packets_queued_def)
next
  case (2 q)
  then show ?case by (simp add: packet_queue_inv_def ring_inv_def)
next
  case (3 q x)
  then show ?case
    using ring_tail_slot [of SPW_QUEUE_DEPTH q] ring_put_slots [of SPW_QUEUE_DEPTH "store_packet x" q]
    by (auto simp: packet_queue_inv_def enqueue_packet_def ring_put_inv store_packet_ok)
next
  case (4 q x)
  then show ?case
    using ring_tail_slot [of SPW_QUEUE_DEPTH q]
    by (auto simp: packet_queue_inv_def packets_queued_def enqueue_packet_def ring_list_put
        slot_store_packet)
next
  case (5 q)
  then show ?case
    by (simp add: packet_queue_inv_def ring_drop_inv) (simp add: ring_drop_def)
next
  case (6 q)
  then show ?case by (simp add: packet_queue_inv_def packets_queued_def ring_list_drop)
next
  case (7 q)
  then show ?case by (simp add: packet_queue_inv_def packets_queued_def ring_list_drop)
qed

interpretation timeq: bounded_queue SPW_QUEUE_DEPTH "\<lambda>_. True" "\<lambda>t. t" enqueue_time_code
  "ring_drop SPW_QUEUE_DEPTH" ring_front rb_count "ring_list SPW_QUEUE_DEPTH"
  "ring_inv SPW_QUEUE_DEPTH"
proof (unfold_locales, goal_cases)
  case (2 q)
  then show ?case by (simp add: ring_inv_def)
next
  case (6 q)
  then show ?case by (simp add: ring_list_drop)
next
  case (7 q)
  then show ?case by (simp add: ring_list_drop)
qed (simp_all add: enqueue_time_code_def ring_put_inv ring_list_put ring_drop_inv)

section \<open>Handing a packet to the caller\<close>

text \<open>
  The tail of both receive functions: report length and terminator, fail without consuming when
  the caller's storage is too small or missing, otherwise copy the bytes. The boolean tells
  whether the packet is consumed.
\<close>

definition deliver_slot :: "packet_slot \<Rightarrow> spw_packet \<Rightarrow> spw_result \<times> spw_packet" where
  "deliver_slot slot packet =
     (let packet = packet\<lparr>pk_length := ps_length slot, pk_terminator := ps_terminator slot\<rparr>
      in if ps_length slot > pk_capacity packet then (SPW_ERR_BUFFER_TOO_SMALL, packet)
         else if ps_length slot > 0 \<and> pk_data packet = None then (SPW_ERR_INVALID_ARGUMENT, packet)
         else (SPW_OK, if ps_length slot > 0
           then packet\<lparr>pk_data := Some (memcpy (the (pk_data packet)) 0 (ps_data slot) (ps_length slot))\<rparr>
           else packet))"

lemma deliver_slot_ok:
  assumes "deliver_slot slot p = (SPW_OK, p')" and "slot_ok slot" and "rx_packet_ok p"
  shows "logical_of p' = slot_packet slot" and "pk_length p' = ps_length slot"
    and "pk_capacity p' = pk_capacity p" and "rx_packet_ok p'"
  using assms
  by (auto simp: deliver_slot_def Let_def logical_of_def slot_packet_def packet_bytes_def slot_ok_def
      rx_packet_ok_def take_memcpy_front split: if_splits option.splits)

lemma deliver_slot_result:
  "pk_data p \<noteq> None \<Longrightarrow>
     fst (deliver_slot slot p) = (if ps_length slot > pk_capacity p then SPW_ERR_BUFFER_TOO_SMALL else SPW_OK)"
  by (auto simp: deliver_slot_def Let_def)

end
