(* ===== verification/Spw_Config.thy ===== *)
theory Spw_Config
  imports Fault_Injector
begin

text \<open>
  Configuration data of a port: \<open>include/spwkit/config.h\<close>, \<open>simulator.h\<close>, \<open>device.h\<close> and
  \<open>driver.h\<close>. \<open>sizeof\<close> values are those of the LP64 ABI. The callback table of a hardware driver
  is third-party code: its entries are functions on a driver state of any type, and an entry the
  driver leaves \<open>NULL\<close> is \<open>None\<close>.
\<close>

section \<open>Simulator and device\<close>

abbreviation SPW_SIMULATOR_ENDPOINT_A :: u8 where "SPW_SIMULATOR_ENDPOINT_A \<equiv> 0"
abbreviation SPW_SIMULATOR_ENDPOINT_B :: u8 where "SPW_SIMULATOR_ENDPOINT_B \<equiv> 1"

record spw_simulator_config =
  sim_struct_size :: u32
  sim_version :: u32
  sim_link_id :: u64
  sim_endpoint :: u8

abbreviation SPW_DEVICE_ENDPOINT_CAPACITY :: nat where "SPW_DEVICE_ENDPOINT_CAPACITY \<equiv> 108"

text \<open>\<open>dev_endpoint\<close> is the whole character array, its length being the capacity.\<close>

record spw_device_config =
  dev_struct_size :: u32
  dev_version :: u32
  dev_port_id :: u32
  dev_reserved :: u32
  dev_endpoint :: bytes

section \<open>Hardware driver\<close>

abbreviation SPW_DRIVER_MAX_BUFFER_SLOTS :: nat where "SPW_DRIVER_MAX_BUFFER_SLOTS \<equiv> 64"
abbreviation SPW_DRIVER_SYNC_TO_DEVICE :: u32 where "SPW_DRIVER_SYNC_TO_DEVICE \<equiv> 1"
abbreviation SPW_DRIVER_SYNC_FROM_DEVICE :: u32 where "SPW_DRIVER_SYNC_FROM_DEVICE \<equiv> 2"

record spw_driver_buffer =
  db_data :: "bytes option"
  db_length :: nat
  db_capacity :: nat
  db_terminator :: u8
  db_token :: u64

text \<open>
  A callback takes the driver state and returns it updated; one with an output parameter takes its
  old contents and returns what it leaves there.
\<close>

record 'd spw_driver_ops =
  dops_struct_size :: u32
  dops_version :: u32
  dops_start :: "('d \<Rightarrow> spw_result \<times> 'd) option"
  dops_stop :: "('d \<Rightarrow> spw_result \<times> 'd) option"
  dops_reset :: "('d \<Rightarrow> spw_result \<times> 'd) option"
  dops_get_link_state :: "('d \<Rightarrow> u8 \<Rightarrow> spw_result \<times> u8 \<times> 'd) option"
  dops_get_capabilities :: "('d \<Rightarrow> spw_capabilities \<Rightarrow> spw_result \<times> spw_capabilities \<times> 'd) option"
  dops_send :: "('d \<Rightarrow> spw_packet \<Rightarrow> u64 \<Rightarrow> spw_result \<times> 'd) option"
  dops_receive :: "('d \<Rightarrow> spw_packet \<Rightarrow> u64 \<Rightarrow> spw_result \<times> spw_packet \<times> 'd) option"
  dops_send_time_code :: "('d \<Rightarrow> spw_time_code \<Rightarrow> u64 \<Rightarrow> spw_result \<times> 'd) option"
  dops_receive_time_code :: "('d \<Rightarrow> spw_time_code \<Rightarrow> u64 \<Rightarrow> spw_result \<times> spw_time_code \<times> 'd) option"
  dops_get_statistics :: "('d \<Rightarrow> spw_statistics \<Rightarrow> spw_result \<times> spw_statistics \<times> 'd) option"
  dops_clear_statistics :: "('d \<Rightarrow> spw_result \<times> 'd) option"
  dops_wait :: "('d \<Rightarrow> u32 \<Rightarrow> u64 \<Rightarrow> u32 \<Rightarrow> spw_result \<times> u32 \<times> 'd) option"
  dops_acquire_tx_buffer ::
    "('d \<Rightarrow> nat \<Rightarrow> u64 \<Rightarrow> spw_driver_buffer \<Rightarrow> spw_result \<times> spw_driver_buffer \<times> 'd) option"
  dops_submit_tx_buffer :: "('d \<Rightarrow> spw_driver_buffer \<Rightarrow> u64 \<Rightarrow> spw_result \<times> 'd) option"
  dops_reclaim_tx_buffer ::
    "('d \<Rightarrow> u64 \<Rightarrow> spw_driver_buffer \<Rightarrow> spw_result \<times> spw_driver_buffer \<times> 'd) option"
  dops_release_tx_buffer :: "('d \<Rightarrow> spw_driver_buffer \<Rightarrow> spw_result \<times> 'd) option"
  dops_acquire_rx_buffer ::
    "('d \<Rightarrow> u64 \<Rightarrow> spw_driver_buffer \<Rightarrow> spw_result \<times> spw_driver_buffer \<times> 'd) option"
  dops_release_rx_buffer :: "('d \<Rightarrow> spw_driver_buffer \<Rightarrow> spw_result \<times> 'd) option"
  dops_sync_buffer :: "('d \<Rightarrow> spw_driver_buffer \<Rightarrow> u32 \<Rightarrow> spw_result \<times> 'd) option"

record 'd spw_driver_config =
  drv_struct_size :: u32
  drv_version :: u32
  drv_ops :: "'d spw_driver_ops option"
  drv_reserved :: u32
  drv_tx_buffer_slots :: nat
  drv_rx_buffer_slots :: nat

section \<open>Port configuration\<close>

abbreviation SPW_BACKEND_LOOPBACK :: u32 where "SPW_BACKEND_LOOPBACK \<equiv> 1"
abbreviation SPW_BACKEND_SIMULATOR :: u32 where "SPW_BACKEND_SIMULATOR \<equiv> 2"
abbreviation SPW_BACKEND_UDP :: u32 where "SPW_BACKEND_UDP \<equiv> 3"
abbreviation SPW_BACKEND_DEVICE :: u32 where "SPW_BACKEND_DEVICE \<equiv> 4"
abbreviation SPW_BACKEND_DRIVER :: u32 where "SPW_BACKEND_DRIVER \<equiv> 5"

text \<open>
  The storage behind \<open>const void* backend_config\<close>, as each backend reads it: the code casts the
  pointer to the configuration type of the selected backend.
\<close>

record 'd backend_config =
  as_simulator :: spw_simulator_config
  as_udp :: spw_udp_config
  as_device :: spw_device_config
  as_driver :: "'d spw_driver_config"

record 'd spw_port_config =
  pc_struct_size :: u32
  pc_version :: u32
  pc_backend :: u32
  pc_flags :: u32
  pc_backend_config :: "'d backend_config option"
  pc_backend_config_size :: nat

text \<open>LP64 sizes of the public structures.\<close>

abbreviation sizeof_port_config :: nat where "sizeof_port_config \<equiv> 32"
abbreviation sizeof_simulator_config :: nat where "sizeof_simulator_config \<equiv> 24"
abbreviation sizeof_udp_config :: nat where "sizeof_udp_config \<equiv> 320"
abbreviation sizeof_device_config :: nat where "sizeof_device_config \<equiv> 124"
abbreviation sizeof_driver_config :: nat where "sizeof_driver_config \<equiv> 48"
abbreviation sizeof_driver_ops :: nat where "sizeof_driver_ops \<equiv> 160"

section \<open>Validation\<close>

definition validate_common_config :: "'d spw_port_config option \<Rightarrow> spw_result" where
  "validate_common_config config_ptr =
     (case config_ptr of None \<Rightarrow> SPW_ERR_INVALID_ARGUMENT
      | Some config \<Rightarrow>
          if unat (pc_struct_size config) < sizeof_port_config then SPW_ERR_INVALID_ARGUMENT
          else if pc_version config \<noteq> 1 then SPW_ERR_UNSUPPORTED
          else if pc_flags config \<noteq> 0 then SPW_ERR_UNSUPPORTED
          else SPW_OK)"

text \<open>The loop that measures the endpoint string, bounded by the array.\<close>

function endpoint_length_from :: "bytes \<Rightarrow> nat \<Rightarrow> nat" where
  "endpoint_length_from endpoint n =
     (if n < SPW_DEVICE_ENDPOINT_CAPACITY \<and> endpoint ! n \<noteq> 0
      then endpoint_length_from endpoint (n + 1) else n)"
  by pat_completeness auto
termination by (relation "measure (\<lambda>(e, n). 108 - n)") auto

declare endpoint_length_from.simps [simp del]

definition validate_device_config :: "'d spw_port_config \<Rightarrow> spw_result" where
  "validate_device_config config =
     (case pc_backend_config config of None \<Rightarrow> SPW_ERR_INVALID_ARGUMENT
      | Some bc \<Rightarrow>
          if pc_backend_config_size config < sizeof_device_config then SPW_ERR_INVALID_ARGUMENT
          else let device = as_device bc in
            if unat (dev_struct_size device) < sizeof_device_config then SPW_ERR_INVALID_ARGUMENT
            else if dev_version device \<noteq> 1 then SPW_ERR_UNSUPPORTED
            else if dev_reserved device \<noteq> 0 \<or> dev_endpoint device ! 0 = 0 then SPW_ERR_INVALID_ARGUMENT
            else let endpoint_length = endpoint_length_from (dev_endpoint device) 0 in
              if endpoint_length = 0 \<or> endpoint_length \<ge> SPW_DEVICE_ENDPOINT_CAPACITY
              then SPW_ERR_INVALID_ARGUMENT else SPW_OK)"

definition any_dma :: "'d spw_driver_ops \<Rightarrow> bool" where
  "any_dma ops \<longleftrightarrow> dops_acquire_tx_buffer ops \<noteq> None \<or> dops_submit_tx_buffer ops \<noteq> None \<or>
     dops_reclaim_tx_buffer ops \<noteq> None \<or> dops_release_tx_buffer ops \<noteq> None \<or>
     dops_acquire_rx_buffer ops \<noteq> None \<or> dops_release_rx_buffer ops \<noteq> None"

definition all_dma :: "'d spw_driver_ops \<Rightarrow> bool" where
  "all_dma ops \<longleftrightarrow> dops_acquire_tx_buffer ops \<noteq> None \<and> dops_submit_tx_buffer ops \<noteq> None \<and>
     dops_reclaim_tx_buffer ops \<noteq> None \<and> dops_release_tx_buffer ops \<noteq> None \<and>
     dops_acquire_rx_buffer ops \<noteq> None \<and> dops_release_rx_buffer ops \<noteq> None"

definition validate_driver_config :: "'d spw_port_config \<Rightarrow> spw_result" where
  "validate_driver_config config =
     (case pc_backend_config config of None \<Rightarrow> SPW_ERR_INVALID_ARGUMENT
      | Some bc \<Rightarrow>
          if pc_backend_config_size config < sizeof_driver_config then SPW_ERR_INVALID_ARGUMENT
          else let driver = as_driver bc in
            if unat (drv_struct_size driver) < sizeof_driver_config then SPW_ERR_INVALID_ARGUMENT
            else if drv_version driver \<noteq> 2 then SPW_ERR_UNSUPPORTED
            else if drv_reserved driver \<noteq> 0 \<or> drv_ops driver = None then SPW_ERR_INVALID_ARGUMENT
            else let ops = the (drv_ops driver) in
              if unat (dops_struct_size ops) < sizeof_driver_ops then SPW_ERR_INVALID_ARGUMENT
              else if dops_version ops \<noteq> 2 then SPW_ERR_UNSUPPORTED
              else if dops_start ops = None \<or> dops_stop ops = None \<or> dops_reset ops = None \<or>
                dops_get_link_state ops = None \<or> dops_get_capabilities ops = None \<or>
                dops_send ops = None \<or> dops_receive ops = None then SPW_ERR_INVALID_ARGUMENT
              else if any_dma ops \<noteq> all_dma ops then SPW_ERR_INVALID_ARGUMENT
              else if (drv_tx_buffer_slots driver > SPW_DRIVER_MAX_BUFFER_SLOTS \<or>
                       drv_rx_buffer_slots driver > SPW_DRIVER_MAX_BUFFER_SLOTS) \<or>
                      (drv_tx_buffer_slots driver \<noteq> 0 \<or> drv_rx_buffer_slots driver \<noteq> 0) \<and> \<not> all_dma ops
              then SPW_ERR_INVALID_ARGUMENT
              else SPW_OK)"

definition validate_simulator_config :: "'d spw_port_config \<Rightarrow> spw_result" where
  "validate_simulator_config config =
     (case pc_backend_config config of None \<Rightarrow> SPW_ERR_INVALID_ARGUMENT
      | Some bc \<Rightarrow>
          if pc_backend_config_size config < sizeof_simulator_config then SPW_ERR_INVALID_ARGUMENT
          else let simulator = as_simulator bc in
            if unat (sim_struct_size simulator) < sizeof_simulator_config then SPW_ERR_INVALID_ARGUMENT
            else if sim_version simulator \<noteq> 1 then SPW_ERR_UNSUPPORTED
            else if sim_endpoint simulator \<noteq> SPW_SIMULATOR_ENDPOINT_A \<and>
                    sim_endpoint simulator \<noteq> SPW_SIMULATOR_ENDPOINT_B then SPW_ERR_INVALID_ARGUMENT
            else SPW_OK)"

definition valid_udp_fault_rule :: "spw_udp_fault_rule \<Rightarrow> bool" where
  "valid_udp_fault_rule rule =
     (if fault_reserved rule \<noteq> 0 \<or>
         unat (probability_per_10000 rule) > SPW_UDP_FAULT_PROBABILITY_SCALE \<or>
         fault_target rule > SPW_UDP_FAULT_TARGET_KEEPALIVE \<or>
         fault_action rule > SPW_UDP_FAULT_ACTION_SPACEWIRE_EEP then False
      else if fault_action rule = SPW_UDP_FAULT_ACTION_NONE
      then fault_target rule = SPW_UDP_FAULT_TARGET_ANY \<and> probability_per_10000 rule = 0 \<and>
           max_events rule = 0 \<and> fault_delay_us rule = 0
      else if probability_per_10000 rule = 0 then False
      else if fault_action rule = SPW_UDP_FAULT_ACTION_TRANSPORT_DELAY then fault_delay_us rule \<noteq> 0
      else if fault_delay_us rule \<noteq> 0 then False
      else if fault_action rule = SPW_UDP_FAULT_ACTION_SPACEWIRE_EEP
      then fault_target rule = SPW_UDP_FAULT_TARGET_DATA
      else True)"

definition validate_udp_config :: "'d spw_port_config \<Rightarrow> spw_result" where
  "validate_udp_config config =
     (case pc_backend_config config of None \<Rightarrow> SPW_ERR_INVALID_ARGUMENT
      | Some bc \<Rightarrow>
          if pc_backend_config_size config < sizeof_udp_config then SPW_ERR_INVALID_ARGUMENT
          else let udp = as_udp bc in
            if unat (udp_struct_size udp) < sizeof_udp_config then SPW_ERR_INVALID_ARGUMENT
            else if udp_version udp \<noteq> 3 then SPW_ERR_UNSUPPORTED
            else if remote_port udp = 0 \<or> udp_link_id udp = 0 \<or> fragment_payload_size udp < 256 \<or>
              max_retries udp = 0 \<or> ack_timeout_ms udp = 0 \<or> keepalive_interval_ms udp = 0 \<or>
              peer_timeout_ms udp \<le> keepalive_interval_ms udp \<or> udp_reserved udp \<noteq> 0 \<or>
              local_address udp ! 0 = 0 \<or> remote_address udp ! 0 = 0 then SPW_ERR_INVALID_ARGUMENT
            else if \<exists>i < SPW_UDP_FAULT_RULE_COUNT. \<not> valid_udp_fault_rule (fault_rules udp ! i)
            then SPW_ERR_INVALID_ARGUMENT
            else SPW_OK)"

section \<open>What an accepted configuration guarantees\<close>

lemma endpoint_length_from_spec:
  assumes "m \<le> SPW_DEVICE_ENDPOINT_CAPACITY"
  shows "m \<le> endpoint_length_from e m \<and> endpoint_length_from e m \<le> SPW_DEVICE_ENDPOINT_CAPACITY \<and>
    (\<forall>i. m \<le> i \<and> i < endpoint_length_from e m \<longrightarrow> e ! i \<noteq> 0) \<and>
    (endpoint_length_from e m < SPW_DEVICE_ENDPOINT_CAPACITY \<longrightarrow> e ! endpoint_length_from e m = 0)"
  using assms
proof (induction e m rule: endpoint_length_from.induct)
  case (1 e m)
  show ?case
  proof (cases "m < SPW_DEVICE_ENDPOINT_CAPACITY \<and> e ! m \<noteq> 0")
    case True
    let ?n = "endpoint_length_from e (m + 1)"
    have n: "endpoint_length_from e m = ?n"
      using True by (subst endpoint_length_from.simps) simp
    have IH: "m + 1 \<le> ?n \<and> ?n \<le> SPW_DEVICE_ENDPOINT_CAPACITY \<and>
        (\<forall>i. m + 1 \<le> i \<and> i < ?n \<longrightarrow> e ! i \<noteq> 0) \<and> (?n < SPW_DEVICE_ENDPOINT_CAPACITY \<longrightarrow> e ! ?n = 0)"
      using True by (intro 1(1)) auto
    have "e ! i \<noteq> 0" if "m \<le> i" "i < ?n" for i
      using that IH True by (cases "i = m") auto
    with IH n show ?thesis by auto
  next
    case False
    then have "endpoint_length_from e m = m"
      by (subst endpoint_length_from.simps) auto
    with False 1(2) show ?thesis by auto
  qed
qed

lemma guard_eq_ok [guard_simps]: "e \<noteq> k \<Longrightarrow> ((if c then e else r) = k) \<longleftrightarrow> \<not> c \<and> r = k"
  by auto

text \<open>
  Property C38: an accepted device configuration holds a proper C string. Acceptance means that the
  endpoint array has a terminating zero strictly inside its capacity, preceded by at least one and
  only non-zero characters, so the backend may treat it as a string.
\<close>
theorem device_config_endpoint_terminated:
  assumes "validate_device_config config = SPW_OK"
  shows "\<exists>bc n. pc_backend_config config = Some bc \<and> 0 < n \<and> n < SPW_DEVICE_ENDPOINT_CAPACITY \<and>
    dev_endpoint (as_device bc) ! n = 0 \<and> (\<forall>i < n. dev_endpoint (as_device bc) ! i \<noteq> 0)"
proof -
  obtain bc where bc: "pc_backend_config config = Some bc"
    using assms by (auto simp: validate_device_config_def split: option.splits)
  let ?n = "endpoint_length_from (dev_endpoint (as_device bc)) 0"
  have "?n \<noteq> 0" "?n < SPW_DEVICE_ENDPOINT_CAPACITY"
    using assms bc by (simp_all add: validate_device_config_def Let_def guard_simps split del: if_split)
  with endpoint_length_from_spec [of 0 "dev_endpoint (as_device bc)"] bc show ?thesis by blast
qed

definition sample_device_config :: spw_device_config where
  "sample_device_config = \<lparr>dev_struct_size = 124, dev_version = 1, dev_port_id = 0, dev_reserved = 0,
     dev_endpoint = [47, 116] @ replicate 106 0\<rparr>"

definition sample_backend_config :: "unit backend_config" where
  "sample_backend_config = \<lparr>
     as_simulator = \<lparr>sim_struct_size = 24, sim_version = 1, sim_link_id = 7, sim_endpoint = 0\<rparr>,
     as_udp = sample_udp_config\<lparr>udp_struct_size := 320, udp_version := 3\<rparr>,
     as_device = sample_device_config,
     as_driver = \<lparr>drv_struct_size = 0, drv_version = 0, drv_ops = None, drv_reserved = 0,
       drv_tx_buffer_slots = 0, drv_rx_buffer_slots = 0\<rparr>\<rparr>"

definition sample_port_config :: "u32 \<Rightarrow> unit spw_port_config" where
  "sample_port_config b = \<lparr>pc_struct_size = 32, pc_version = 1, pc_backend = b, pc_flags = 0,
     pc_backend_config = Some sample_backend_config, pc_backend_config_size = 320\<rparr>"

theorem device_config_endpoint_terminated_witness:
  "validate_device_config (sample_port_config 4) = SPW_OK \<and>
   (\<exists>bc n. pc_backend_config (sample_port_config 4) = Some bc \<and> 0 < n \<and>
      n < SPW_DEVICE_ENDPOINT_CAPACITY \<and> dev_endpoint (as_device bc) ! n = 0)"
proof -
  have "endpoint_length_from ([47, 116] @ replicate 106 0) 0 = 2"
    by (simp add: endpoint_length_from.simps)
  then have "validate_device_config (sample_port_config 4) = SPW_OK"
    by (simp add: validate_device_config_def sample_port_config_def sample_backend_config_def
        sample_device_config_def)
  with device_config_endpoint_terminated [OF this] show ?thesis by blast
qed

text \<open>
  Property C37: an accepted driver configuration never makes the driver backend call a null pointer
  it does not check. The seven mandatory callbacks are present; as soon as one of the six buffer
  callbacks is given, or a descriptor slot is requested in either direction, all six are present; at
  most 64 slots are requested in each direction.
\<close>
theorem driver_config_callbacks_present:
  assumes "validate_driver_config config = SPW_OK"
  shows "\<exists>bc ops. pc_backend_config config = Some bc \<and> drv_ops (as_driver bc) = Some ops \<and>
    dops_start ops \<noteq> None \<and> dops_stop ops \<noteq> None \<and> dops_reset ops \<noteq> None \<and>
    dops_get_link_state ops \<noteq> None \<and> dops_get_capabilities ops \<noteq> None \<and>
    dops_send ops \<noteq> None \<and> dops_receive ops \<noteq> None \<and>
    (if dops_acquire_tx_buffer ops \<noteq> None \<or> dops_submit_tx_buffer ops \<noteq> None \<or>
        dops_reclaim_tx_buffer ops \<noteq> None \<or> dops_release_tx_buffer ops \<noteq> None \<or>
        dops_acquire_rx_buffer ops \<noteq> None \<or> dops_release_rx_buffer ops \<noteq> None \<or>
        drv_tx_buffer_slots (as_driver bc) \<noteq> 0 \<or> drv_rx_buffer_slots (as_driver bc) \<noteq> 0
     then dops_acquire_tx_buffer ops \<noteq> None \<and> dops_submit_tx_buffer ops \<noteq> None \<and>
        dops_reclaim_tx_buffer ops \<noteq> None \<and> dops_release_tx_buffer ops \<noteq> None \<and>
        dops_acquire_rx_buffer ops \<noteq> None \<and> dops_release_rx_buffer ops \<noteq> None
     else True) \<and>
    drv_tx_buffer_slots (as_driver bc) \<le> SPW_DRIVER_MAX_BUFFER_SLOTS \<and>
    drv_rx_buffer_slots (as_driver bc) \<le> SPW_DRIVER_MAX_BUFFER_SLOTS"
proof -
  obtain bc where bc: "pc_backend_config config = Some bc"
    using assms by (auto simp: validate_driver_config_def split: option.splits)
  obtain ops where ops: "drv_ops (as_driver bc) = Some ops"
    using assms bc
    by (auto simp: validate_driver_config_def Let_def guard_simps split del: if_split)
  show ?thesis
    by (rule exI [of _ bc], rule exI [of _ ops])
      (use assms bc ops in \<open>simp add: validate_driver_config_def Let_def guard_simps split del: if_split\<close>,
       auto simp: any_dma_def all_dma_def)
qed

definition sample_driver_ops :: "unit spw_driver_ops" where
  "sample_driver_ops = \<lparr>dops_struct_size = 160, dops_version = 2, dops_start = Some (\<lambda>d. (SPW_OK, d)),
     dops_stop = Some (\<lambda>d. (SPW_OK, d)), dops_reset = Some (\<lambda>d. (SPW_OK, d)),
     dops_get_link_state = Some (\<lambda>d s. (SPW_OK, SPW_LINK_RUN, d)),
     dops_get_capabilities = Some (\<lambda>d c. (SPW_OK, c, d)),
     dops_send = Some (\<lambda>d p t. (SPW_OK, d)), dops_receive = Some (\<lambda>d p t. (SPW_ERR_TIMEOUT, p, d)),
     dops_send_time_code = None, dops_receive_time_code = None, dops_get_statistics = None,
     dops_clear_statistics = None, dops_wait = None,
     dops_acquire_tx_buffer = Some (\<lambda>d n t b. (SPW_ERR_TIMEOUT, b, d)),
     dops_submit_tx_buffer = Some (\<lambda>d b t. (SPW_OK, d)),
     dops_reclaim_tx_buffer = Some (\<lambda>d t b. (SPW_ERR_TIMEOUT, b, d)),
     dops_release_tx_buffer = Some (\<lambda>d b. (SPW_OK, d)),
     dops_acquire_rx_buffer = Some (\<lambda>d t b. (SPW_ERR_TIMEOUT, b, d)),
     dops_release_rx_buffer = Some (\<lambda>d b. (SPW_OK, d)), dops_sync_buffer = None\<rparr>"

definition sample_driver_port_config :: "unit spw_port_config" where
  "sample_driver_port_config = (sample_port_config 5)\<lparr>pc_backend_config :=
     Some (sample_backend_config\<lparr>as_driver := \<lparr>drv_struct_size = 48, drv_version = 2,
       drv_ops = Some sample_driver_ops, drv_reserved = 0, drv_tx_buffer_slots = 2,
       drv_rx_buffer_slots = 1\<rparr>\<rparr>)\<rparr>"

theorem driver_config_callbacks_present_witness:
  "validate_driver_config sample_driver_port_config = SPW_OK \<and>
   (\<exists>bc ops. pc_backend_config sample_driver_port_config = Some bc \<and> drv_ops (as_driver bc) = Some ops \<and>
      drv_tx_buffer_slots (as_driver bc) = 2 \<and> dops_send ops \<noteq> None \<and> dops_reclaim_tx_buffer ops \<noteq> None)"
proof -
  have "validate_driver_config sample_driver_port_config = SPW_OK"
    by (simp add: validate_driver_config_def sample_driver_port_config_def sample_port_config_def
        sample_driver_ops_def any_dma_def all_dma_def)
  moreover have "pc_backend_config sample_driver_port_config = Some bc \<Longrightarrow> drv_tx_buffer_slots (as_driver bc) = 2"
    for bc by (auto simp: sample_driver_port_config_def)
  ultimately show ?thesis using driver_config_callbacks_present [of sample_driver_port_config] by fastforce
qed

text \<open>
  Property C36: the two copies of the fault-rule check agree. The port core and the UDP backend each
  have their own validation of a fault rule; they accept the same rules, so that every rule of an
  accepted UDP configuration also passes the backend's check when the backend is constructed.
\<close>
theorem udp_fault_rule_checks_agree:
  "valid_udp_fault_rule rule = spw_fault_rule_valid (Some rule) \<and>
   (validate_udp_config config = SPW_OK \<and> pc_backend_config config = Some bc \<and>
      i < SPW_UDP_FAULT_RULE_COUNT \<longrightarrow> spw_fault_rule_valid (Some (fault_rules (as_udp bc) ! i)))"
proof -
  have eq: "valid_udp_fault_rule r = spw_fault_rule_valid (Some r)" for r
    unfolding valid_udp_fault_rule_def spw_fault_rule_valid_def by (simp only: option.case)
  then show ?thesis
    by (auto simp: validate_udp_config_def Let_def guard_simps split del: if_split)
qed

theorem udp_fault_rule_checks_agree_witness:
  "validate_udp_config (sample_port_config 3) = SPW_OK \<and>
   spw_fault_rule_valid (Some (fault_rules (as_udp sample_backend_config) ! 0))"
proof -
  have all: "i < 8 \<Longrightarrow> i = 0 \<or> 0 < i" for i :: nat by auto
  have "valid_udp_fault_rule (fault_rules sample_udp_config ! i)" if "i < 8" for i
    using all [OF that] that
    by (auto simp: sample_udp_config_def nth_Cons' valid_udp_fault_rule_def sample_fault_rule_def
        SPW_UDP_FAULT_RULE_INITIALIZER_def)
  then have "validate_udp_config (sample_port_config 3) = SPW_OK"
    by (simp add: validate_udp_config_def sample_port_config_def sample_backend_config_def Let_def)
      (simp add: sample_udp_config_def)
  then show ?thesis
    using udp_fault_rule_checks_agree [of sample_fault_rule "sample_port_config 3" sample_backend_config 0]
    by (simp add: sample_port_config_def)
qed

end
