(* ===== verification/Spw_Port.thy ===== *)
theory Spw_Port
  imports Spw_Config
begin

text \<open>
  The port core (\<open>src/core/port.c\<close>, with \<open>backend_c.h\<close> and \<open>buffer_internal.h\<close>): workspace
  layout, opening and closing, the guards of every public operation and the ownership epochs of
  zero-copy buffers.

  The state is a \<open>world\<close>: the port structures by address and the memory that backends work on,
  made of the buffer descriptors by address and everything else a backend owns (of any type). A
  backend is its table of operations, functions on that memory; an optional operation that a
  backend leaves \<open>NULL\<close> is \<open>None\<close>. A null pointer argument is \<open>None\<close>; an output parameter is
  passed with its old contents and returned as it is left.
\<close>

section \<open>Memory, backends and ports\<close>

type_synonym addr = nat

abbreviation SPW_BUFFER_DIRECTION_TX :: u8 where "SPW_BUFFER_DIRECTION_TX \<equiv> 1"
abbreviation SPW_BUFFER_DIRECTION_RX :: u8 where "SPW_BUFFER_DIRECTION_RX \<equiv> 2"
abbreviation SPW_BUFFER_STATE_FREE :: u8 where "SPW_BUFFER_STATE_FREE \<equiv> 0"
abbreviation SPW_BUFFER_STATE_APPLICATION :: u8 where "SPW_BUFFER_STATE_APPLICATION \<equiv> 1"
abbreviation SPW_BUFFER_STATE_BACKEND :: u8 where "SPW_BUFFER_STATE_BACKEND \<equiv> 2"
abbreviation SPW_BUFFER_STATE_COMPLETED :: u8 where "SPW_BUFFER_STATE_COMPLETED \<equiv> 3"

text \<open>
  \<open>buf_data\<close> is the storage behind \<open>data\<close>. \<open>buf_owner_epoch\<close>, a pointer into a port structure in
  the code, is the address of that port.
\<close>

record spw_buffer =
  buf_data :: "bytes option"
  buf_length :: nat
  buf_capacity :: nat
  buf_terminator :: u8
  buf_owner :: "addr option"
  buf_direction :: u8
  buf_state :: u8
  buf_token :: u64
  buf_owner_epoch :: "addr option"
  buf_epoch :: u64

record spw_buffer_view =
  view_data :: "bytes option"
  view_length :: nat
  view_capacity :: nat
  view_terminator :: u8

record 's memory =
  m_buffers :: "addr \<rightharpoonup> spw_buffer"
  m_backend :: 's

record 's spw_backend_ops =
  op_start :: "addr \<Rightarrow> 's memory \<Rightarrow> spw_result \<times> 's memory"
  op_stop :: "addr \<Rightarrow> 's memory \<Rightarrow> spw_result \<times> 's memory"
  op_reset :: "addr \<Rightarrow> 's memory \<Rightarrow> spw_result \<times> 's memory"
  op_get_link_state :: "addr \<Rightarrow> u8 \<Rightarrow> 's memory \<Rightarrow> spw_result \<times> u8 \<times> 's memory"
  op_get_capabilities ::
    "addr \<Rightarrow> spw_capabilities \<Rightarrow> 's memory \<Rightarrow> spw_result \<times> spw_capabilities \<times> 's memory"
  op_supports_zero_copy :: "(addr \<Rightarrow> 's memory \<Rightarrow> bool) option"
  op_send :: "addr \<Rightarrow> spw_packet \<Rightarrow> u64 \<Rightarrow> 's memory \<Rightarrow> spw_result \<times> 's memory"
  op_receive :: "addr \<Rightarrow> spw_packet \<Rightarrow> u64 \<Rightarrow> 's memory \<Rightarrow> spw_result \<times> spw_packet \<times> 's memory"
  op_send_time_code :: "addr \<Rightarrow> spw_time_code \<Rightarrow> u64 \<Rightarrow> 's memory \<Rightarrow> spw_result \<times> 's memory"
  op_receive_time_code ::
    "addr \<Rightarrow> spw_time_code \<Rightarrow> u64 \<Rightarrow> 's memory \<Rightarrow> spw_result \<times> spw_time_code \<times> 's memory"
  op_get_statistics :: "addr \<Rightarrow> spw_statistics \<Rightarrow> 's memory \<Rightarrow> spw_result \<times> spw_statistics \<times> 's memory"
  op_clear_statistics :: "addr \<Rightarrow> 's memory \<Rightarrow> spw_result \<times> 's memory"
  op_get_fault_statistics ::
    "(addr \<Rightarrow> spw_fault_statistics \<Rightarrow> 's memory \<Rightarrow> spw_result \<times> spw_fault_statistics \<times> 's memory) option"
  op_clear_fault_statistics :: "(addr \<Rightarrow> 's memory \<Rightarrow> spw_result \<times> 's memory) option"
  op_acquire_tx_buffer ::
    "(addr \<Rightarrow> nat \<Rightarrow> u64 \<Rightarrow> addr option \<Rightarrow> 's memory \<Rightarrow> spw_result \<times> addr option \<times> 's memory) option"
  op_submit_tx_buffer :: "(addr \<Rightarrow> addr \<Rightarrow> u64 \<Rightarrow> 's memory \<Rightarrow> spw_result \<times> 's memory) option"
  op_reclaim_tx_buffer ::
    "(addr \<Rightarrow> u64 \<Rightarrow> addr option \<Rightarrow> 's memory \<Rightarrow> spw_result \<times> addr option \<times> 's memory) option"
  op_release_tx_buffer :: "(addr \<Rightarrow> addr \<Rightarrow> 's memory \<Rightarrow> spw_result \<times> 's memory) option"
  op_acquire_rx_buffer ::
    "(addr \<Rightarrow> u64 \<Rightarrow> addr option \<Rightarrow> 's memory \<Rightarrow> spw_result \<times> addr option \<times> 's memory) option"
  op_release_rx_buffer :: "(addr \<Rightarrow> addr \<Rightarrow> 's memory \<Rightarrow> spw_result \<times> 's memory) option"
  op_wait :: "(addr \<Rightarrow> u32 \<Rightarrow> u64 \<Rightarrow> u32 \<Rightarrow> 's memory \<Rightarrow> spw_result \<times> u32 \<times> 's memory) option"

record ('s, 'd) spw_backend_factory =
  context_size :: u64
  context_alignment :: u64
  f_construct :: "(addr \<Rightarrow> 'd spw_port_config \<Rightarrow> 's memory \<Rightarrow> spw_result \<times> 's memory) option"
  f_destroy :: "(addr \<Rightarrow> 's memory \<Rightarrow> 's memory) option"
  f_ops :: "'s spw_backend_ops option"
  context_size_for_config :: "('d spw_port_config \<Rightarrow> u64 \<Rightarrow> spw_result \<times> u64) option"

record 's spw_port =
  port_ops :: "'s spw_backend_ops option"
  backend_context :: "addr option"
  destroy_backend :: "(addr \<Rightarrow> 's memory \<Rightarrow> 's memory) option"
  workspace_base :: addr
  workspace_alignment :: u64
  release_workspace :: bool
  locally_started :: bool
  ownership_epoch :: u64

record 's world =
  w_ports :: "addr \<rightharpoonup> 's spw_port"
  w_memory :: "'s memory"

text \<open>
  The backends linked into the library; \<open>None\<close> is a backend left out of the build. The driver
  backend has one factory for each combination of readiness and zero-copy support.
\<close>

record ('s, 'd) backends =
  loopback_factory :: "('s, 'd) spw_backend_factory"
  simulator_factory :: "('s, 'd) spw_backend_factory option"
  udp_factory :: "('s, 'd) spw_backend_factory option"
  device_factory :: "('s, 'd) spw_backend_factory option"
  driver_factory :: "bool \<Rightarrow> bool \<Rightarrow> ('s, 'd) spw_backend_factory"

section \<open>Workspace layout\<close>

abbreviation sizeof_spw_port :: u64 where "sizeof_spw_port \<equiv> 56"
abbreviation alignof_spw_port :: u64 where "alignof_spw_port \<equiv> 8"

record spw_port_workspace_requirements_t =
  req_size :: u64
  req_alignment :: u64

definition align_up :: "u64 \<Rightarrow> u64 \<Rightarrow> u64" where
  "align_up v alignment = (v + alignment - 1) AND NOT (alignment - 1)"

definition is_aligned :: "addr option \<Rightarrow> u64 \<Rightarrow> bool" where
  "is_aligned pointer alignment \<longleftrightarrow>
     (case pointer of None \<Rightarrow> False | Some a \<Rightarrow> a mod unat alignment = 0)"

definition backend_address :: "addr \<Rightarrow> u64 \<Rightarrow> addr" where
  "backend_address workspace backend_alignment =
     workspace + unat (align_up sizeof_spw_port backend_alignment)"

definition is_power_of_two :: "u64 \<Rightarrow> bool" where
  "is_power_of_two v \<longleftrightarrow> v \<noteq> 0 \<and> v AND (v - 1) = 0"

definition requirements_for ::
    "'d spw_port_config \<Rightarrow> ('s, 'd) spw_backend_factory \<Rightarrow> spw_port_workspace_requirements_t \<Rightarrow>
     spw_result \<times> spw_port_workspace_requirements_t" where
  "requirements_for config factory out_requirements =
     (if context_alignment factory = 0 \<or> \<not> is_power_of_two (context_alignment factory)
      then (SPW_ERR_BACKEND, out_requirements)
      else let (result, ctx_size) =
          (case context_size_for_config factory of
             None \<Rightarrow> (SPW_OK, context_size factory)
           | Some size_for \<Rightarrow> size_for config (context_size factory))
      in if result \<noteq> SPW_OK then (result, out_requirements)
      else if ctx_size = 0 then (SPW_ERR_BACKEND, out_requirements)
      else let
        required_alignment = (if context_alignment factory > alignof_spw_port
          then context_alignment factory else alignof_spw_port);
        context_offset = align_up sizeof_spw_port (context_alignment factory)
      in if ctx_size > - 1 - context_offset then (SPW_ERR_RESOURCE_EXHAUSTED, out_requirements)
      else (SPW_OK, out_requirements\<lparr>req_size := context_offset + ctx_size,
              req_alignment := required_alignment\<rparr>))"

section \<open>Choosing the backend\<close>

definition optional_factory ::
    "('s, 'd) spw_backend_factory option \<Rightarrow> spw_result \<times> ('s, 'd) spw_backend_factory option" where
  "optional_factory f = (case f of None \<Rightarrow> (SPW_ERR_UNSUPPORTED, None) | Some f \<Rightarrow> (SPW_OK, Some f))"

definition select_factory ::
    "('s, 'd) backends \<Rightarrow> 'd spw_port_config option \<Rightarrow>
     spw_result \<times> ('s, 'd) spw_backend_factory option" where
  "select_factory bs config_ptr =
     (let result = validate_common_config config_ptr in
      if result \<noteq> SPW_OK then (result, None)
      else let config = the config_ptr; backend = pc_backend config in
        if backend = SPW_BACKEND_LOOPBACK
        then if pc_backend_config config \<noteq> None \<or> pc_backend_config_size config \<noteq> 0
             then (SPW_ERR_INVALID_ARGUMENT, None)
             else (SPW_OK, Some (loopback_factory bs))
        else if backend = SPW_BACKEND_SIMULATOR
        then let result = validate_simulator_config config in
             if result \<noteq> SPW_OK then (result, None) else optional_factory (simulator_factory bs)
        else if backend = SPW_BACKEND_UDP
        then let result = validate_udp_config config in
             if result \<noteq> SPW_OK then (result, None) else optional_factory (udp_factory bs)
        else if backend = SPW_BACKEND_DEVICE
        then let result = validate_device_config config in
             if result \<noteq> SPW_OK then (result, None) else optional_factory (device_factory bs)
        else if backend = SPW_BACKEND_DRIVER
        then let result = validate_driver_config config in
             if result \<noteq> SPW_OK then (result, None)
             else let driver = as_driver (the (pc_backend_config config)); ops = the (drv_ops driver)
               in (SPW_OK, Some (driver_factory bs (dops_wait ops \<noteq> None)
                     (dops_acquire_tx_buffer ops \<noteq> None \<and> drv_tx_buffer_slots driver \<noteq> 0 \<and>
                      drv_rx_buffer_slots driver \<noteq> 0)))
        else (SPW_ERR_UNSUPPORTED, None))"

section \<open>Ports and buffer ownership\<close>

definition valid_terminator :: "u8 \<Rightarrow> bool" where
  "valid_terminator t \<longleftrightarrow> t = SPW_TERMINATOR_EOP \<or> t = SPW_TERMINATOR_EEP"

definition valid_time_code :: "spw_time_code option \<Rightarrow> bool" where
  "valid_time_code t = (case t of None \<Rightarrow> False
     | Some tc \<Rightarrow> time_count tc \<le> 63 \<and> control_flags tc = 0)"

definition the_port :: "'s world \<Rightarrow> addr option \<Rightarrow> 's spw_port" where
  "the_port w port = the (w_ports w (the port))"

definition the_ops :: "'s world \<Rightarrow> addr option \<Rightarrow> 's spw_backend_ops" where
  "the_ops w port = the (port_ops (the_port w port))"

definition the_context :: "'s world \<Rightarrow> addr option \<Rightarrow> addr" where
  "the_context w port = the (backend_context (the_port w port))"

definition set_port :: "addr option \<Rightarrow> ('s spw_port \<Rightarrow> 's spw_port) \<Rightarrow> 's world \<Rightarrow> 's world" where
  "set_port port f w = w\<lparr>w_ports := (w_ports w)(the port \<mapsto> f (the_port w port))\<rparr>"

text \<open>
  An address at which there is no port structure stands for a pointer that must not be used, such as
  the handle of a freed port; reading it is undefined in C, and the model answers as for a null pointer.
\<close>

definition validate_port :: "'s world \<Rightarrow> addr option \<Rightarrow> spw_result" where
  "validate_port w port =
     (if port \<noteq> None \<and> w_ports w (the port) \<noteq> None \<and> port_ops (the_port w port) \<noteq> None \<and>
         backend_context (the_port w port) \<noteq> None
      then SPW_OK else SPW_ERR_INVALID_ARGUMENT)"

definition validate_started_port :: "'s world \<Rightarrow> addr option \<Rightarrow> spw_result" where
  "validate_started_port w port =
     (let result = validate_port w port in
      if result \<noteq> SPW_OK then result
      else if locally_started (the_port w port) then SPW_OK else SPW_ERR_INVALID_STATE)"

definition application_owned :: "'s world \<Rightarrow> addr option \<Rightarrow> bool" where
  "application_owned w buffer =
     (case buffer of None \<Rightarrow> False
      | Some b \<Rightarrow>
          (case m_buffers (w_memory w) b of None \<Rightarrow> False
           | Some internal \<Rightarrow>
               buf_state internal = SPW_BUFFER_STATE_APPLICATION \<and>
               (case buf_owner_epoch internal of None \<Rightarrow> False
                | Some p \<Rightarrow>
                    (case w_ports w p of None \<Rightarrow> False
                     | Some prt \<Rightarrow> buf_epoch internal = ownership_epoch prt))))"

definition buffer_owned_by_port :: "'s world \<Rightarrow> addr option \<Rightarrow> addr option \<Rightarrow> bool" where
  "buffer_owned_by_port w buffer port \<longleftrightarrow>
     application_owned w buffer \<and> port \<noteq> None \<and>
     buf_owner_epoch (the (m_buffers (w_memory w) (the buffer))) = port"

definition bind_buffer_epoch :: "addr option \<Rightarrow> addr option \<Rightarrow> 's world \<Rightarrow> 's world" where
  "bind_buffer_epoch port buffer w =
     (case (port, buffer) of
        (Some p, Some b) \<Rightarrow>
          w\<lparr>w_memory := (w_memory w)\<lparr>m_buffers := (m_buffers (w_memory w))(b \<mapsto>
              (the (m_buffers (w_memory w) b))
                \<lparr>buf_owner_epoch := Some p, buf_epoch := ownership_epoch (the_port w port)\<rparr>)\<rparr>\<rparr>
      | _ \<Rightarrow> w)"

text \<open>Calling a backend operation, without and with an output parameter.\<close>

definition backend_call :: "('s memory \<Rightarrow> spw_result \<times> 's memory) \<Rightarrow> 's world \<Rightarrow> spw_result \<times> 's world" where
  "backend_call f w = (let (result, m) = f (w_memory w) in (result, w\<lparr>w_memory := m\<rparr>))"

definition backend_call_out ::
    "('s memory \<Rightarrow> spw_result \<times> 'o \<times> 's memory) \<Rightarrow> 's world \<Rightarrow> spw_result \<times> 'o \<times> 's world" where
  "backend_call_out f w = (let (result, out, m) = f (w_memory w) in (result, out, w\<lparr>w_memory := m\<rparr>))"

section \<open>Opening and closing\<close>

definition zero_requirements :: spw_port_workspace_requirements_t where
  "zero_requirements = \<lparr>req_size = 0, req_alignment = 0\<rparr>"

definition spw_port_workspace_requirements ::
    "('s, 'd) backends \<Rightarrow> 'd spw_port_config option \<Rightarrow> spw_port_workspace_requirements_t option \<Rightarrow>
     spw_result \<times> spw_port_workspace_requirements_t option" where
  "spw_port_workspace_requirements bs config out_requirements =
     (if out_requirements = None then (SPW_ERR_INVALID_ARGUMENT, None)
      else let (result, factory) = select_factory bs config in
        if result \<noteq> SPW_OK then (result, Some zero_requirements)
        else if factory = None \<or> f_ops (the factory) = None \<or> f_construct (the factory) = None \<or>
          f_destroy (the factory) = None \<or> context_size (the factory) = 0 \<or>
          context_alignment (the factory) = 0
        then (SPW_ERR_BACKEND, Some zero_requirements)
        else let (result, req) = requirements_for (the config) (the factory) zero_requirements
          in (result, Some req))"

text \<open>The outer option of \<open>out_port\<close> is the pointer, the inner one the port handle behind it.\<close>

definition spw_port_open_in_place ::
    "('s, 'd) backends \<Rightarrow> 'd spw_port_config option \<Rightarrow> addr option \<Rightarrow> u64 \<Rightarrow> addr option option \<Rightarrow>
     's world \<Rightarrow> spw_result \<times> addr option option \<times> 's world" where
  "spw_port_open_in_place bs config workspace workspace_size out_port w =
     (if out_port = None then (SPW_ERR_INVALID_ARGUMENT, None, w)
      else let (result, factory_ptr) = select_factory bs config in
        if result \<noteq> SPW_OK then (result, Some None, w)
        else let factory = the factory_ptr;
               (result, requirements) = requirements_for (the config) factory zero_requirements in
          if result \<noteq> SPW_OK then (result, Some None, w)
          else if workspace = None then (SPW_ERR_INVALID_ARGUMENT, Some None, w)
          else if \<not> is_aligned workspace (req_alignment requirements)
          then (SPW_ERR_INVALID_ARGUMENT, Some None, w)
          else if workspace_size < req_size requirements then (SPW_ERR_BUFFER_TOO_SMALL, Some None, w)
          else let ctx = backend_address (the workspace) (context_alignment factory);
                 (result, w) = backend_call (the (f_construct factory) ctx (the config)) w in
            if result \<noteq> SPW_OK then (result, Some None, w)
            else (SPW_OK, Some workspace,
              w\<lparr>w_ports := (w_ports w)(the workspace \<mapsto>
                \<lparr>port_ops = f_ops factory, backend_context = Some ctx,
                 destroy_backend = f_destroy factory, workspace_base = the workspace,
                 workspace_alignment = req_alignment requirements, release_workspace = False,
                 locally_started = False, ownership_epoch = 1\<rparr>)\<rparr>))"

text \<open>
  \<open>spw_port_open\<close> takes its workspace from the C library's allocator, given as \<open>allocate\<close>: the
  address of a block of the requested size and alignment, or \<open>None\<close>.
\<close>

definition spw_port_open ::
    "('s, 'd) backends \<Rightarrow> (u64 \<Rightarrow> u64 \<Rightarrow> addr option) \<Rightarrow> 'd spw_port_config option \<Rightarrow>
     addr option option \<Rightarrow> 's world \<Rightarrow> spw_result \<times> addr option option \<times> 's world" where
  "spw_port_open bs allocate config out_port w =
     (if out_port = None then (SPW_ERR_INVALID_ARGUMENT, None, w)
      else let (result, requirements) =
          spw_port_workspace_requirements bs config (Some zero_requirements) in
        if result \<noteq> SPW_OK then (result, Some None, w)
        else let req = the requirements;
               workspace = allocate (align_up (req_size req) (req_alignment req)) (req_alignment req) in
          if workspace = None then (SPW_ERR_RESOURCE_EXHAUSTED, Some None, w)
          else let (result, port, w) =
              spw_port_open_in_place bs config workspace (req_size req) (Some None) w in
            if result \<noteq> SPW_OK then (result, Some None, w)
            else (SPW_OK, port, set_port (the port) (\<lambda>p. p\<lparr>release_workspace := True\<rparr>) w))"

text \<open>Releasing the workspace returns the port structure to the allocator: its address is gone.\<close>

definition spw_port_close :: "addr option \<Rightarrow> 's world \<Rightarrow> spw_result \<times> 's world" where
  "spw_port_close port w =
     (if validate_port w port \<noteq> SPW_OK then (SPW_ERR_INVALID_ARGUMENT, w)
      else let p = the_port w port;
             w = set_port port (\<lambda>p. p\<lparr>locally_started := False, port_ops := None,
                                       backend_context := None\<rparr>) w;
             w = (case destroy_backend p of None \<Rightarrow> w
                  | Some destroy \<Rightarrow>
                      w\<lparr>w_memory := destroy (the (backend_context p)) (w_memory w)\<rparr>);
             w = (if release_workspace p
                  then w\<lparr>w_ports := (w_ports w)(workspace_base p := None)\<rparr> else w)
        in (SPW_OK, w))"

section \<open>Link control\<close>

definition spw_port_start :: "addr option \<Rightarrow> 's world \<Rightarrow> spw_result \<times> 's world" where
  "spw_port_start port w =
     (if validate_port w port \<noteq> SPW_OK then (SPW_ERR_INVALID_ARGUMENT, w)
      else let (result, w) = backend_call (op_start (the_ops w port) (the_context w port)) w
        in (result, if result = SPW_OK then set_port port (\<lambda>p. p\<lparr>locally_started := True\<rparr>) w else w))"

definition spw_port_stop :: "addr option \<Rightarrow> 's world \<Rightarrow> spw_result \<times> 's world" where
  "spw_port_stop port w =
     (if validate_port w port \<noteq> SPW_OK then (SPW_ERR_INVALID_ARGUMENT, w)
      else let (result, w) = backend_call (op_stop (the_ops w port) (the_context w port)) w
        in (result, if result = SPW_OK then set_port port (\<lambda>p. p\<lparr>locally_started := False\<rparr>) w else w))"

definition next_epoch :: "u64 \<Rightarrow> u64" where
  "next_epoch e = (if e + 1 = 0 then 1 else e + 1)"

definition spw_port_reset :: "addr option \<Rightarrow> 's world \<Rightarrow> spw_result \<times> 's world" where
  "spw_port_reset port w =
     (if validate_port w port \<noteq> SPW_OK then (SPW_ERR_INVALID_ARGUMENT, w)
      else let (result, w) = backend_call (op_reset (the_ops w port) (the_context w port)) w
        in (result, if result = SPW_OK
            then set_port port (\<lambda>p. p\<lparr>locally_started := False,
                                       ownership_epoch := next_epoch (ownership_epoch p)\<rparr>) w
            else w))"

definition spw_port_get_link_state ::
    "addr option \<Rightarrow> u8 option \<Rightarrow> 's world \<Rightarrow> spw_result \<times> u8 option \<times> 's world" where
  "spw_port_get_link_state port out_state w =
     (if validate_port w port \<noteq> SPW_OK \<or> out_state = None then (SPW_ERR_INVALID_ARGUMENT, out_state, w)
      else let (result, st, w) =
          backend_call_out (op_get_link_state (the_ops w port) (the_context w port) (the out_state)) w
        in (result, Some st, w))"

definition spw_port_get_capabilities ::
    "addr option \<Rightarrow> spw_capabilities option \<Rightarrow> 's world \<Rightarrow>
     spw_result \<times> spw_capabilities option \<times> 's world" where
  "spw_port_get_capabilities port out_capabilities w =
     (if validate_port w port \<noteq> SPW_OK \<or> out_capabilities = None
      then (SPW_ERR_INVALID_ARGUMENT, out_capabilities, w)
      else let ops = the_ops w port; ctx = the_context w port;
             (result, caps, w) = backend_call_out (op_get_capabilities ops ctx (the out_capabilities)) w
        in (result, Some (if result = SPW_OK
             then let caps = (case op_supports_zero_copy ops of None \<Rightarrow> caps
                      | Some zc \<Rightarrow> if zc ctx (w_memory w)
                          then caps\<lparr>cap_bits := cap_bits caps OR SPW_CAP_ZERO_COPY\<rparr> else caps)
               in if op_wait ops \<noteq> None
                  then caps\<lparr>cap_bits := cap_bits caps OR SPW_CAP_READINESS\<rparr> else caps
             else caps), w))"

definition spw_port_wait ::
    "addr option \<Rightarrow> u32 \<Rightarrow> u64 \<Rightarrow> u32 option \<Rightarrow> 's world \<Rightarrow> spw_result \<times> u32 option \<times> 's world" where
  "spw_port_wait port interests timeout_us out_ready w =
     (if out_ready = None \<or> interests = SPW_READY_NONE \<or> interests AND NOT SPW_READY_ALL \<noteq> 0
      then (SPW_ERR_INVALID_ARGUMENT, out_ready, w)
      else let state_result = validate_started_port w port in
        if state_result \<noteq> SPW_OK then (state_result, Some SPW_READY_NONE, w)
        else (case op_wait (the_ops w port) of
            None \<Rightarrow> (SPW_ERR_UNSUPPORTED, Some SPW_READY_NONE, w)
          | Some wait \<Rightarrow>
              let (result, ready, w) =
                backend_call_out (wait (the_context w port) interests timeout_us SPW_READY_NONE) w
              in (result, Some ready, w)))"

section \<open>Copied packets and time codes\<close>

definition spw_port_send ::
    "addr option \<Rightarrow> spw_packet option \<Rightarrow> u64 \<Rightarrow> 's world \<Rightarrow> spw_result \<times> 's world" where
  "spw_port_send port packet_ptr timeout_us w =
     (case packet_ptr of None \<Rightarrow> (SPW_ERR_INVALID_ARGUMENT, w)
      | Some packet \<Rightarrow>
          if pk_length packet \<noteq> 0 \<and> pk_data packet = None then (SPW_ERR_INVALID_ARGUMENT, w)
          else if \<not> valid_terminator (pk_terminator packet) \<or>
                  pk_capacity packet \<noteq> 0 \<and> pk_capacity packet < pk_length packet
          then (SPW_ERR_INVALID_PACKET, w)
          else let state_result = validate_started_port w port in
            if state_result \<noteq> SPW_OK then (state_result, w)
            else backend_call (op_send (the_ops w port) (the_context w port) packet timeout_us) w)"

definition spw_port_receive ::
    "addr option \<Rightarrow> spw_packet option \<Rightarrow> u64 \<Rightarrow> 's world \<Rightarrow> spw_result \<times> spw_packet option \<times> 's world" where
  "spw_port_receive port packet_ptr timeout_us w =
     (case packet_ptr of None \<Rightarrow> (SPW_ERR_INVALID_ARGUMENT, None, w)
      | Some packet \<Rightarrow>
          if pk_capacity packet \<noteq> 0 \<and> pk_data packet = None
          then (SPW_ERR_INVALID_ARGUMENT, Some packet, w)
          else let state_result = validate_started_port w port in
            if state_result \<noteq> SPW_OK then (state_result, Some packet, w)
            else let (result, packet, w) =
                backend_call_out (op_receive (the_ops w port) (the_context w port) packet timeout_us) w
              in (result, Some packet, w))"

definition spw_port_send_time_code ::
    "addr option \<Rightarrow> spw_time_code option \<Rightarrow> u64 \<Rightarrow> 's world \<Rightarrow> spw_result \<times> 's world" where
  "spw_port_send_time_code port time_code timeout_us w =
     (if \<not> valid_time_code time_code then (SPW_ERR_INVALID_ARGUMENT, w)
      else let state_result = validate_started_port w port in
        if state_result \<noteq> SPW_OK then (state_result, w)
        else backend_call
          (op_send_time_code (the_ops w port) (the_context w port) (the time_code) timeout_us) w)"

definition spw_port_receive_time_code ::
    "addr option \<Rightarrow> spw_time_code option \<Rightarrow> u64 \<Rightarrow> 's world \<Rightarrow>
     spw_result \<times> spw_time_code option \<times> 's world" where
  "spw_port_receive_time_code port time_code timeout_us w =
     (if time_code = None then (SPW_ERR_INVALID_ARGUMENT, None, w)
      else let state_result = validate_started_port w port in
        if state_result \<noteq> SPW_OK then (state_result, time_code, w)
        else let (result, tc, w) = backend_call_out
            (op_receive_time_code (the_ops w port) (the_context w port) (the time_code) timeout_us) w
          in (result, Some tc, w))"

section \<open>Statistics\<close>

definition spw_port_get_statistics ::
    "addr option \<Rightarrow> spw_statistics option \<Rightarrow> 's world \<Rightarrow> spw_result \<times> spw_statistics option \<times> 's world" where
  "spw_port_get_statistics port out_statistics w =
     (if validate_port w port \<noteq> SPW_OK \<or> out_statistics = None
      then (SPW_ERR_INVALID_ARGUMENT, out_statistics, w)
      else let (result, st, w) = backend_call_out
          (op_get_statistics (the_ops w port) (the_context w port) (the out_statistics)) w
        in (result, Some st, w))"

definition spw_port_clear_statistics :: "addr option \<Rightarrow> 's world \<Rightarrow> spw_result \<times> 's world" where
  "spw_port_clear_statistics port w =
     (if validate_port w port = SPW_OK
      then backend_call (op_clear_statistics (the_ops w port) (the_context w port)) w
      else (SPW_ERR_INVALID_ARGUMENT, w))"

definition spw_port_get_fault_statistics ::
    "addr option \<Rightarrow> spw_fault_statistics option \<Rightarrow> 's world \<Rightarrow>
     spw_result \<times> spw_fault_statistics option \<times> 's world" where
  "spw_port_get_fault_statistics port out_statistics w =
     (if validate_port w port \<noteq> SPW_OK \<or> out_statistics = None
      then (SPW_ERR_INVALID_ARGUMENT, out_statistics, w)
      else (case op_get_fault_statistics (the_ops w port) of
          None \<Rightarrow> (SPW_ERR_UNSUPPORTED, Some zero_fault_statistics, w)
        | Some get \<Rightarrow>
            let (result, st, w) = backend_call_out (get (the_context w port) (the out_statistics)) w
            in (result, Some st, w)))"

definition spw_port_clear_fault_statistics :: "addr option \<Rightarrow> 's world \<Rightarrow> spw_result \<times> 's world" where
  "spw_port_clear_fault_statistics port w =
     (if validate_port w port \<noteq> SPW_OK then (SPW_ERR_INVALID_ARGUMENT, w)
      else (case op_clear_fault_statistics (the_ops w port) of
          None \<Rightarrow> (SPW_ERR_UNSUPPORTED, w)
        | Some clear \<Rightarrow> backend_call (clear (the_context w port)) w))"

section \<open>Zero-copy buffers\<close>

definition spw_buffer_get_view ::
    "addr option \<Rightarrow> spw_buffer_view option \<Rightarrow> 's world \<Rightarrow> spw_result \<times> spw_buffer_view option" where
  "spw_buffer_get_view buffer out_view w =
     (if buffer = None \<or> out_view = None then (SPW_ERR_INVALID_ARGUMENT, out_view)
      else if \<not> application_owned w buffer then (SPW_ERR_INVALID_STATE, out_view)
      else let internal = the (m_buffers (w_memory w) (the buffer))
        in (SPW_OK, Some \<lparr>view_data = buf_data internal, view_length = buf_length internal,
              view_capacity = buf_capacity internal, view_terminator = buf_terminator internal\<rparr>))"

definition set_buffer :: "addr \<Rightarrow> spw_buffer \<Rightarrow> 's world \<Rightarrow> 's world" where
  "set_buffer b internal w =
     w\<lparr>w_memory := (w_memory w)\<lparr>m_buffers := (m_buffers (w_memory w))(b \<mapsto> internal)\<rparr>\<rparr>"

definition spw_buffer_set_packet ::
    "addr option \<Rightarrow> nat \<Rightarrow> u8 \<Rightarrow> 's world \<Rightarrow> spw_result \<times> 's world" where
  "spw_buffer_set_packet buffer len terminator w =
     (if buffer = None then (SPW_ERR_INVALID_ARGUMENT, w)
      else if \<not> application_owned w buffer then (SPW_ERR_INVALID_STATE, w)
      else let internal = the (m_buffers (w_memory w) (the buffer)) in
        if buf_direction internal \<noteq> SPW_BUFFER_DIRECTION_TX then (SPW_ERR_INVALID_STATE, w)
        else if len > buf_capacity internal \<or> \<not> valid_terminator terminator
        then (SPW_ERR_INVALID_PACKET, w)
        else (SPW_OK, set_buffer (the buffer)
                (internal\<lparr>buf_length := len, buf_terminator := terminator\<rparr>) w))"

text \<open>The common shape of the three operations that hand a buffer to the application.\<close>

definition hand_out ::
    "addr option \<Rightarrow> (addr option \<Rightarrow> 's memory \<Rightarrow> spw_result \<times> addr option \<times> 's memory) option \<Rightarrow>
     's world \<Rightarrow> spw_result \<times> addr option option \<times> 's world" where
  "hand_out port op w =
     (case op of None \<Rightarrow> (SPW_ERR_UNSUPPORTED, Some None, w)
      | Some f \<Rightarrow>
          let (result, buffer, w) = backend_call_out (f None) w
          in (result, Some buffer,
              if result = SPW_OK \<and> buffer \<noteq> None then bind_buffer_epoch port buffer w else w))"

definition spw_port_acquire_tx_buffer ::
    "addr option \<Rightarrow> nat \<Rightarrow> u64 \<Rightarrow> addr option option \<Rightarrow> 's world \<Rightarrow>
     spw_result \<times> addr option option \<times> 's world" where
  "spw_port_acquire_tx_buffer port min_capacity timeout_us out_buffer w =
     (if out_buffer = None then (SPW_ERR_INVALID_ARGUMENT, None, w)
      else let state_result = validate_started_port w port in
        if state_result \<noteq> SPW_OK then (state_result, Some None, w)
        else hand_out port (map_option (\<lambda>f. f (the_context w port) min_capacity timeout_us)
               (op_acquire_tx_buffer (the_ops w port))) w)"

definition spw_port_reclaim_tx_buffer ::
    "addr option \<Rightarrow> u64 \<Rightarrow> addr option option \<Rightarrow> 's world \<Rightarrow>
     spw_result \<times> addr option option \<times> 's world" where
  "spw_port_reclaim_tx_buffer port timeout_us out_buffer w =
     (if out_buffer = None then (SPW_ERR_INVALID_ARGUMENT, None, w)
      else let state_result = validate_started_port w port in
        if state_result \<noteq> SPW_OK then (state_result, Some None, w)
        else hand_out port (map_option (\<lambda>f. f (the_context w port) timeout_us)
               (op_reclaim_tx_buffer (the_ops w port))) w)"

definition spw_port_acquire_rx_buffer ::
    "addr option \<Rightarrow> u64 \<Rightarrow> addr option option \<Rightarrow> 's world \<Rightarrow>
     spw_result \<times> addr option option \<times> 's world" where
  "spw_port_acquire_rx_buffer port timeout_us out_buffer w =
     (if out_buffer = None then (SPW_ERR_INVALID_ARGUMENT, None, w)
      else let state_result = validate_started_port w port in
        if state_result \<noteq> SPW_OK then (state_result, Some None, w)
        else hand_out port (map_option (\<lambda>f. f (the_context w port) timeout_us)
               (op_acquire_rx_buffer (the_ops w port))) w)"

text \<open>The common shape of the operations that take a buffer back: the handle is cleared on success.\<close>

definition hand_back ::
    "(addr \<Rightarrow> 's memory \<Rightarrow> spw_result \<times> 's memory) option \<Rightarrow> addr option \<Rightarrow> 's world \<Rightarrow>
     spw_result \<times> addr option option \<times> 's world" where
  "hand_back op buffer w =
     (case op of None \<Rightarrow> (SPW_ERR_UNSUPPORTED, Some buffer, w)
      | Some f \<Rightarrow>
          let (result, w) = backend_call (f (the buffer)) w
          in (result, Some (if result = SPW_OK then None else buffer), w))"

definition spw_port_submit_tx_buffer ::
    "addr option \<Rightarrow> addr option option \<Rightarrow> u64 \<Rightarrow> 's world \<Rightarrow>
     spw_result \<times> addr option option \<times> 's world" where
  "spw_port_submit_tx_buffer port inout_buffer timeout_us w =
     (if inout_buffer = None \<or> the inout_buffer = None then (SPW_ERR_INVALID_ARGUMENT, inout_buffer, w)
      else let state_result = validate_started_port w port in
        if state_result \<noteq> SPW_OK then (state_result, inout_buffer, w)
        else if \<not> buffer_owned_by_port w (the inout_buffer) port
        then (SPW_ERR_INVALID_STATE, inout_buffer, w)
        else hand_back (map_option (\<lambda>f b. f (the_context w port) b timeout_us)
               (op_submit_tx_buffer (the_ops w port))) (the inout_buffer) w)"

definition spw_port_release_tx_buffer ::
    "addr option \<Rightarrow> addr option option \<Rightarrow> 's world \<Rightarrow> spw_result \<times> addr option option \<times> 's world" where
  "spw_port_release_tx_buffer port inout_buffer w =
     (if validate_port w port \<noteq> SPW_OK \<or> inout_buffer = None \<or> the inout_buffer = None
      then (SPW_ERR_INVALID_ARGUMENT, inout_buffer, w)
      else if \<not> buffer_owned_by_port w (the inout_buffer) port
      then (SPW_ERR_INVALID_STATE, inout_buffer, w)
      else hand_back (map_option (\<lambda>f. f (the_context w port)) (op_release_tx_buffer (the_ops w port)))
             (the inout_buffer) w)"

definition spw_port_release_rx_buffer ::
    "addr option \<Rightarrow> addr option option \<Rightarrow> 's world \<Rightarrow> spw_result \<times> addr option option \<times> 's world" where
  "spw_port_release_rx_buffer port inout_buffer w =
     (if validate_port w port \<noteq> SPW_OK \<or> inout_buffer = None \<or> the inout_buffer = None
      then (SPW_ERR_INVALID_ARGUMENT, inout_buffer, w)
      else if \<not> buffer_owned_by_port w (the inout_buffer) port
      then (SPW_ERR_INVALID_STATE, inout_buffer, w)
      else hand_back (map_option (\<lambda>f. f (the_context w port)) (op_release_rx_buffer (the_ops w port)))
             (the inout_buffer) w)"

end
