(* ===== verification/Port_Layout.thy ===== *)
theory Port_Layout
  imports Spw_Port
begin

text \<open>
  The workspace arithmetic of \<open>src/core/port.c\<close>: rounding up to a power of two, and the layout of
  a port structure followed by its backend context inside one caller-provided block.
\<close>

section \<open>Powers of two\<close>

lemma unat_max64: "unat (- 1 :: u64) = 2 ^ 64 - 1"
  by (simp only: unsigned_minus_1_eq_mask) (simp add: mask_eq_exp_minus_1)

lemma unat_complement64: "unat (- 1 - x :: u64) = 2 ^ 64 - 1 - unat x"
  by (subst unat_sub) (simp_all only: unat_max64 word_order.extremum)

lemma unat_exp64: "k < 64 \<Longrightarrow> unat (2 ^ k :: u64) = 2 ^ k"
proof -
  assume "k < 64"
  have "unat (push_bit k (1 :: u64)) = take_bit LENGTH(64) (push_bit k (unat (1 :: u64)))"
    by (rule unsigned_push_bit_eq)
  moreover have "take_bit 64 (2 ^ k :: nat) = 2 ^ k"
    using \<open>k < 64\<close> by (simp add: take_bit_nat_eq_self_iff)
  ultimately show ?thesis by simp
qed

lemma bit_top:
  assumes "(2 :: nat) ^ k \<le> n" and "n < 2 ^ (k + 1)"
  shows "bit n k"
proof -
  have "n div 2 ^ k = 1" using assms by (intro div_nat_eqI) auto
  then show ?thesis by (simp add: bit_iff_odd)
qed

lemma is_power_of_two_iff: "is_power_of_two v \<longleftrightarrow> (\<exists>k < 64. v = 2 ^ k)"
proof
  assume p: "is_power_of_two v"
  let ?n = "unat v"
  have n0: "1 \<le> ?n" using p by (simp add: is_power_of_two_def Suc_le_eq unat_gt_0)
  obtain k where k: "2 ^ k \<le> ?n" "?n < 2 ^ (k + 1)"
    using ex_power_ivl1 [of 2 ?n] n0 by auto
  have "?n < 2 ^ LENGTH(64)" by (rule unsigned_less)
  then have "(2 :: nat) ^ k < 2 ^ 64" using k(1) by simp
  then have k64: "k < 64" using power_less_imp_less_exp [of "2 :: nat" k 64] by simp
  have "?n = 2 ^ k"
  proof (rule ccontr)
    assume "?n \<noteq> 2 ^ k"
    then have "2 ^ k \<le> ?n - 1" "?n - 1 < 2 ^ (k + 1)" using k by auto
    then have "bit (?n - 1) k" by (rule bit_top)
    moreover have "unat (v - 1) = ?n - 1" using p by (simp add: unat_minus_one is_power_of_two_def)
    ultimately have "bit (v - 1) k" by (metis bit_unsigned_iff)
    moreover have "bit v k" using bit_top [OF k] by (metis bit_unsigned_iff)
    ultimately have "bit (v AND (v - 1)) k" by (simp add: bit_and_iff)
    with p show False by (simp add: is_power_of_two_def)
  qed
  then have "v = 2 ^ k" using unat_exp64 [OF k64] by (simp add: word_unat_eq_iff)
  with k64 show "\<exists>k < 64. v = 2 ^ k" by blast
next
  assume "\<exists>k < 64. v = 2 ^ k"
  then obtain k where k: "k < 64" "v = 2 ^ k" by blast
  have "v - 1 = mask k" using k by (simp add: mask_eq_exp_minus_1)
  then have "v AND (v - 1) = 0"
    using k by (auto intro!: bit_word_eqI simp: bit_and_iff bit_mask_iff bit_exp_iff)
  moreover have "v \<noteq> 0" using k by simp
  ultimately show "is_power_of_two v" by (simp add: is_power_of_two_def)
qed

section \<open>Rounding up\<close>

lemma and_not_mask: "x AND NOT (mask k) = push_bit k (drop_bit k (x :: u64))"
  by (rule bit_word_eqI)
    (auto simp: bit_and_iff bit_not_iff bit_mask_iff bit_push_bit_iff bit_drop_bit_eq)

lemma unat_round_down: "unat (push_bit k (drop_bit k (x :: u64))) = unat x div 2 ^ k * 2 ^ k"
proof -
  have "unat x div 2 ^ k * 2 ^ k \<le> unat x" by simp
  also have "unat x < 2 ^ LENGTH(64)" by (rule unsigned_less)
  finally have lt: "unat x div 2 ^ k * 2 ^ k < 2 ^ 64" by simp
  have "unat (push_bit k (drop_bit k x)) = take_bit LENGTH(64) (push_bit k (unat (drop_bit k x)))"
    by (rule unsigned_push_bit_eq)
  also have "unat (drop_bit k x) = drop_bit k (take_bit LENGTH(64) (unat x))"
    by (rule unsigned_drop_bit_eq)
  also have "take_bit LENGTH(64) (unat x) = unat x"
    by (rule take_bit_nat_eq_self) (rule unsigned_less)
  finally show ?thesis using lt by (simp add: push_bit_eq_mult drop_bit_eq_div take_bit_nat_eq_self)
qed

lemma unat_align_up:
  assumes "k < 64" and "unat v + (2 ^ k - 1) < 2 ^ 64"
  shows "unat (align_up v (2 ^ k)) = (unat v + (2 ^ k - 1)) div 2 ^ k * 2 ^ k"
proof -
  have m: "(2 ^ k - 1 :: u64) = mask k" by (simp add: mask_eq_exp_minus_1)
  have um: "unat (mask k :: u64) = 2 ^ k - 1"
    using assms(1) unat_exp64 [OF assms(1)] by (simp add: m [symmetric] unat_minus_one)
  have e: "v + 2 ^ k - 1 = v + mask k" unfolding m [symmetric] by (simp add: add_diff_eq)
  have "unat (v + mask k) = unat v + (2 ^ k - 1)"
    using assms(2) um by (simp add: unat_add_small)
  then show ?thesis
    unfolding align_up_def e m and_not_mask unat_round_down by simp
qed

text \<open>The rounded value is the least multiple of the alignment that is not below the argument.\<close>

lemma round_up_bounds:
  fixes v a :: nat
  assumes "0 < a"
  shows "v \<le> (v + (a - 1)) div a * a" and "(v + (a - 1)) div a * a < v + a"
proof -
  have "v + (a - 1) = (v + (a - 1)) div a * a + (v + (a - 1)) mod a" by simp
  moreover have "(v + (a - 1)) mod a < a" using assms by simp
  ultimately show "v \<le> (v + (a - 1)) div a * a" "(v + (a - 1)) div a * a < v + a"
    using assms by linarith+
qed

section \<open>Layout of a workspace\<close>

lemma requirements_for_ok:
  assumes "requirements_for config factory r0 = (SPW_OK, r)"
  obtains k n where "k < 64" and "context_alignment factory = 2 ^ k" and "n \<noteq> 0"
    and "unat (req_size r) = unat (align_up sizeof_spw_port (2 ^ k)) + unat n"
    and "req_alignment r = (if 2 ^ k > alignof_spw_port then 2 ^ k else alignof_spw_port)"
    and "case context_size_for_config factory of None \<Rightarrow> n = context_size factory
         | Some f \<Rightarrow> f config (context_size factory) = (SPW_OK, n)"
proof -
  let ?sz = "case context_size_for_config factory of None \<Rightarrow> (SPW_OK, context_size factory)
    | Some f \<Rightarrow> f config (context_size factory)"
  let ?off = "align_up sizeof_spw_port (context_alignment factory)"
  obtain res n where sz: "?sz = (res, n)" by (cases ?sz)
  have p2: "is_power_of_two (context_alignment factory)" and res: "res = SPW_OK" and n0: "n \<noteq> 0"
    and fit: "n \<le> - 1 - ?off"
    and r: "r = r0\<lparr>req_size := ?off + n, req_alignment :=
      (if context_alignment factory > alignof_spw_port then context_alignment factory else alignof_spw_port)\<rparr>"
    using assms unfolding requirements_for_def sz
    by (auto simp: Let_def not_less split: if_splits)
  obtain k where k: "k < 64" "context_alignment factory = 2 ^ k"
    using p2 is_power_of_two_iff by blast
  have "unat n \<le> unat (- 1 - ?off)" using fit by (simp add: word_le_nat_alt)
  also have "\<dots> = 2 ^ 64 - 1 - unat ?off"
    by (rule unat_complement64)
  finally have le: "unat n \<le> 2 ^ 64 - 1 - unat ?off" .
  have "unat ?off < 2 ^ LENGTH(64)" by (rule unsigned_less)
  with le have "unat ?off + unat n < 2 ^ 64" by simp
  then have "unat (?off + n) = unat ?off + unat n" by (simp add: unat_add_small)
  then show ?thesis
    using that [of k n] k n0 r sz res by (auto split: option.splits)
qed

lemma align_up_port:
  assumes "k < 64"
  shows "56 \<le> unat (align_up sizeof_spw_port (2 ^ k))" and "2 ^ k dvd unat (align_up sizeof_spw_port (2 ^ k))"
proof -
  have "(2 :: nat) ^ k \<le> 2 ^ 63" using assms by (intro power_increasing) auto
  then have fit: "unat sizeof_spw_port + (2 ^ k - 1) < 2 ^ 64" by simp
  note u = unat_align_up [OF assms fit]
  show "56 \<le> unat (align_up sizeof_spw_port (2 ^ k))"
    unfolding u using round_up_bounds(1) [of "2 ^ k" 56] by simp
  show "2 ^ k dvd unat (align_up sizeof_spw_port (2 ^ k))" unfolding u by simp
qed

lemma required_alignment_dvd:
  assumes "k < 64"
  shows "2 ^ k dvd unat (if 2 ^ k > alignof_spw_port then 2 ^ k else alignof_spw_port)"
    and "8 dvd unat (if 2 ^ k > alignof_spw_port then 2 ^ k else alignof_spw_port)"
proof -
  have e: "alignof_spw_port = 2 ^ 3" by simp
  have lt: "(2 :: u64) ^ 3 < 2 ^ k \<longleftrightarrow> 3 < k"
    using assms power_strict_increasing_iff [of "2 :: nat" 3 k]
    by (simp add: word_less_nat_alt unat_exp64)
  show "2 ^ k dvd unat (if 2 ^ k > alignof_spw_port then 2 ^ k else alignof_spw_port)"
  proof (cases "3 < k")
    case False
    then have "(2 :: nat) ^ k dvd 2 ^ 3" by (intro le_imp_power_dvd) simp
    with False lt show ?thesis by simp
  qed (use lt assms unat_exp64 in simp)
  show "8 dvd unat (if 2 ^ k > alignof_spw_port then 2 ^ k else alignof_spw_port)"
  proof (cases "3 < k")
    case True
    then have "(2 :: nat) ^ 3 dvd 2 ^ k" by (intro le_imp_power_dvd) simp
    with True lt assms unat_exp64 show ?thesis by simp
  qed (use lt in simp)
qed

text \<open>
  Property C21: a workspace that satisfies the reported requirements holds a port and its backend
  context. If the requirements of a configuration are computed and a block starts at an address
  with the required alignment, then the port structure at its start is aligned, the backend context
  is aligned as the backend asks, begins after the port structure and, with the size that the backend
  computes for this configuration, or its fixed size when it computes none, ends exactly at the end of
  the required size; no size computation wraps.
\<close>
theorem port_workspace_layout:
  assumes "requirements_for config factory r0 = (SPW_OK, r)"
    and "is_aligned (Some base) (req_alignment r)"
  shows "base mod 8 = 0 \<and> base + 56 \<le> backend_address base (context_alignment factory) \<and>
    backend_address base (context_alignment factory) mod unat (context_alignment factory) = 0 \<and>
    (\<exists>n. n \<noteq> 0 \<and>
       (case context_size_for_config factory of None \<Rightarrow> n = context_size factory
        | Some size_for \<Rightarrow> size_for config (context_size factory) = (SPW_OK, n)) \<and>
       backend_address base (context_alignment factory) + unat n = base + unat (req_size r))"
proof -
  obtain k n where k: "k < 64" "context_alignment factory = 2 ^ k" "n \<noteq> 0"
    and size: "unat (req_size r) = unat (align_up sizeof_spw_port (2 ^ k)) + unat n"
    and align: "req_alignment r = (if 2 ^ k > alignof_spw_port then 2 ^ k else alignof_spw_port)"
    and n: "case context_size_for_config factory of None \<Rightarrow> n = context_size factory
         | Some f \<Rightarrow> f config (context_size factory) = (SPW_OK, n)"
    using requirements_for_ok [OF assms(1)] by metis
  have base: "unat (req_alignment r) dvd base"
    using assms(2) by (simp add: is_aligned_def mod_eq_0_iff_dvd)
  have "8 dvd base" "2 ^ k dvd base"
    using base required_alignment_dvd [OF k(1)] unfolding align [symmetric] by (blast intro: dvd_trans)+
  moreover have "2 ^ k dvd base + unat (align_up sizeof_spw_port (2 ^ k))"
    using calculation(2) align_up_port(2) [OF k(1)] by (rule dvd_add)
  ultimately show ?thesis
    using align_up_port(1) [OF k(1)] unat_exp64 [OF k(1)] k(3) size n
    by (auto simp: backend_address_def k(2) mod_eq_0_iff_dvd intro!: exI [of _ n])
qed

definition sample_factory :: "(unit, unit) spw_backend_factory" where
  "sample_factory = \<lparr>context_size = 1000, context_alignment = 16, f_construct = None, f_destroy = None,
     f_ops = None, context_size_for_config = Some (\<lambda>config size. (SPW_OK, size + 200))\<rparr>"

theorem port_workspace_layout_witness:
  "\<exists>r. requirements_for (sample_port_config 1) sample_factory zero_requirements = (SPW_OK, r) \<and>
     is_aligned (Some 4096) (req_alignment r) \<and> req_size r = 1264 \<and>
     backend_address 4096 16 mod 16 = 0 \<and> backend_address 4096 16 + unat (1200 :: u64) = 4096 + 1264"
proof -
  have pow: "is_power_of_two 16" by (simp add: is_power_of_two_def)
  have up: "align_up sizeof_spw_port 16 = 64" by (simp add: align_up_def)
  have req: "requirements_for (sample_port_config 1) sample_factory zero_requirements =
      (SPW_OK, \<lparr>req_size = 1264, req_alignment = 16\<rparr>)"
    by (simp add: requirements_for_def sample_factory_def pow up zero_requirements_def)
  moreover have al: "is_aligned (Some 4096) (req_alignment \<lparr>req_size = 1264, req_alignment = 16\<rparr>)"
    by (simp add: is_aligned_def)
  ultimately show ?thesis
    using port_workspace_layout [OF req al] by (simp add: sample_factory_def)
qed

end
