(* ===== verification/Port_Calls.thy ===== *)
theory Port_Calls
  imports Spw_Port
begin

text \<open>
  What sequences of public calls can and cannot do. A call of the public API is a value of
  \<open>port_call\<close>; \<open>api\<close> runs it on a world. The lemmas give the exact effect of a call on the port
  structures, show that a port that is closed or not started never reaches its backend, and, under
  the contract \<open>binding_frame\<close> that backends leave the ownership fields of buffers alone, that a
  reset makes every handle of the port stale for good.
\<close>

section \<open>Calls\<close>

datatype port_call =
    Start "addr option"
  | Stop "addr option"
  | Reset "addr option"
  | Close "addr option"
  | Get_Link_State "addr option" "u8 option"
  | Get_Capabilities "addr option" "spw_capabilities option"
  | Wait "addr option" u32 u64 "u32 option"
  | Send "addr option" "spw_packet option" u64
  | Receive "addr option" "spw_packet option" u64
  | Send_Time_Code "addr option" "spw_time_code option" u64
  | Receive_Time_Code "addr option" "spw_time_code option" u64
  | Get_Statistics "addr option" "spw_statistics option"
  | Clear_Statistics "addr option"
  | Get_Fault_Statistics "addr option" "spw_fault_statistics option"
  | Clear_Fault_Statistics "addr option"
  | Get_View "addr option"
  | Set_Packet "addr option" nat u8
  | Acquire_Tx "addr option" nat u64
  | Submit_Tx "addr option" "addr option" u64
  | Reclaim_Tx "addr option" u64
  | Release_Tx "addr option" "addr option"
  | Acquire_Rx "addr option" u64
  | Release_Rx "addr option" "addr option"

text \<open>Result, buffer handed to the application if any, and new world.\<close>

type_synonym 's outcome = "spw_result \<times> addr option \<times> 's world"

definition no_handle :: "spw_result \<times> 's world \<Rightarrow> 's outcome" where
  "no_handle x = (fst x, None, snd x)"

definition drop_out :: "spw_result \<times> 'o \<times> 's world \<Rightarrow> 's outcome" where
  "drop_out x = (fst x, None, snd (snd x))"

definition handle_out :: "spw_result \<times> addr option option \<times> 's world \<Rightarrow> 's outcome" where
  "handle_out x = (fst x, (if fst x = SPW_OK then the (fst (snd x)) else None), snd (snd x))"

definition blank_view :: spw_buffer_view where
  "blank_view = \<lparr>view_data = None, view_length = 0, view_capacity = 0, view_terminator = 0\<rparr>"

fun api :: "port_call \<Rightarrow> 's world \<Rightarrow> 's outcome" where
  "api (Start p) w = no_handle (spw_port_start p w)"
| "api (Stop p) w = no_handle (spw_port_stop p w)"
| "api (Reset p) w = no_handle (spw_port_reset p w)"
| "api (Close p) w = no_handle (spw_port_close p w)"
| "api (Get_Link_State p out) w = drop_out (spw_port_get_link_state p out w)"
| "api (Get_Capabilities p out) w = drop_out (spw_port_get_capabilities p out w)"
| "api (Wait p interests t out) w = drop_out (spw_port_wait p interests t out w)"
| "api (Send p pk t) w = no_handle (spw_port_send p pk t w)"
| "api (Receive p pk t) w = drop_out (spw_port_receive p pk t w)"
| "api (Send_Time_Code p tc t) w = no_handle (spw_port_send_time_code p tc t w)"
| "api (Receive_Time_Code p tc t) w = drop_out (spw_port_receive_time_code p tc t w)"
| "api (Get_Statistics p out) w = drop_out (spw_port_get_statistics p out w)"
| "api (Clear_Statistics p) w = no_handle (spw_port_clear_statistics p w)"
| "api (Get_Fault_Statistics p out) w = drop_out (spw_port_get_fault_statistics p out w)"
| "api (Clear_Fault_Statistics p) w = no_handle (spw_port_clear_fault_statistics p w)"
| "api (Get_View b) w = (fst (spw_buffer_get_view b (Some blank_view) w), None, w)"
| "api (Set_Packet b n t) w = no_handle (spw_buffer_set_packet b n t w)"
| "api (Acquire_Tx p n t) w = handle_out (spw_port_acquire_tx_buffer p n t (Some None) w)"
| "api (Submit_Tx p b t) w = drop_out (spw_port_submit_tx_buffer p (Some b) t w)"
| "api (Reclaim_Tx p t) w = handle_out (spw_port_reclaim_tx_buffer p t (Some None) w)"
| "api (Release_Tx p b) w = drop_out (spw_port_release_tx_buffer p (Some b) w)"
| "api (Acquire_Rx p t) w = handle_out (spw_port_acquire_rx_buffer p t (Some None) w)"
| "api (Release_Rx p b) w = drop_out (spw_port_release_rx_buffer p (Some b) w)"

fun api_run :: "port_call list \<Rightarrow> 's world \<Rightarrow> (spw_result \<times> addr option) list \<times> 's world" where
  "api_run [] w = ([], w)"
| "api_run (c # cs) w =
     (let (r, h, w1) = api c w; (rs, w2) = api_run cs w1 in ((r, h) # rs, w2))"

text \<open>The port a call is made on, and the calls that move packets or buffers.\<close>

fun call_port :: "port_call \<Rightarrow> addr option option" where
  "call_port (Get_View b) = None"
| "call_port (Set_Packet b n t) = None"
| "call_port (Start p) = Some p" | "call_port (Stop p) = Some p"
| "call_port (Reset p) = Some p" | "call_port (Close p) = Some p"
| "call_port (Get_Link_State p out) = Some p" | "call_port (Get_Capabilities p out) = Some p"
| "call_port (Wait p i t out) = Some p" | "call_port (Send p pk t) = Some p"
| "call_port (Receive p pk t) = Some p" | "call_port (Send_Time_Code p tc t) = Some p"
| "call_port (Receive_Time_Code p tc t) = Some p" | "call_port (Get_Statistics p out) = Some p"
| "call_port (Clear_Statistics p) = Some p" | "call_port (Get_Fault_Statistics p out) = Some p"
| "call_port (Clear_Fault_Statistics p) = Some p" | "call_port (Acquire_Tx p n t) = Some p"
| "call_port (Submit_Tx p b t) = Some p" | "call_port (Reclaim_Tx p t) = Some p"
| "call_port (Release_Tx p b) = Some p" | "call_port (Acquire_Rx p t) = Some p"
| "call_port (Release_Rx p b) = Some p"

fun needs_start :: "port_call \<Rightarrow> bool" where
  "needs_start (Wait p i t out) = True" | "needs_start (Send p pk t) = True"
| "needs_start (Receive p pk t) = True" | "needs_start (Send_Time_Code p tc t) = True"
| "needs_start (Receive_Time_Code p tc t) = True" | "needs_start (Acquire_Tx p n t) = True"
| "needs_start (Submit_Tx p b t) = True" | "needs_start (Reclaim_Tx p t) = True"
| "needs_start (Acquire_Rx p t) = True"
| "needs_start _ = False"

lemmas call_defs = no_handle_def drop_out_def handle_out_def
lemmas port_call_defs = spw_port_start_def spw_port_stop_def spw_port_reset_def spw_port_close_def
  spw_port_get_link_state_def spw_port_get_capabilities_def spw_port_wait_def spw_port_send_def
  spw_port_receive_def spw_port_send_time_code_def spw_port_receive_time_code_def
  spw_port_get_statistics_def spw_port_clear_statistics_def spw_port_get_fault_statistics_def
  spw_port_clear_fault_statistics_def spw_port_acquire_tx_buffer_def spw_port_submit_tx_buffer_def
  spw_port_reclaim_tx_buffer_def spw_port_release_tx_buffer_def spw_port_acquire_rx_buffer_def
  spw_port_release_rx_buffer_def

text \<open>The buffer handle a call takes.\<close>

fun call_buffer :: "port_call \<Rightarrow> addr option" where
  "call_buffer (Get_View b) = b" | "call_buffer (Set_Packet b n t) = b"
| "call_buffer (Submit_Tx p b t) = b" | "call_buffer (Release_Tx p b) = b"
| "call_buffer (Release_Rx p b) = b"
| "call_buffer _ = None"

section \<open>Opening\<close>

text \<open>What a successful opening leaves: a constructed context behind a new, stopped port of epoch 1.\<close>

lemma open_in_place_ok:
  assumes "select_factory bs config = (r0, Some f)"
    and "spw_port_open_in_place bs config ws n (Some out0) w = (SPW_OK, out, w')"
  obtains p ctx m al where "ws = Some p" "out = Some (Some p)"
    "the (f_construct f) ctx (the config) (w_memory w) = (SPW_OK, m)"
    "w' = w\<lparr>w_memory := m, w_ports := (w_ports w)(p \<mapsto>
       \<lparr>port_ops = f_ops f, backend_context = Some ctx, destroy_backend = f_destroy f, workspace_base = p,
        workspace_alignment = al, release_workspace = False, locally_started = False,
        ownership_epoch = 1\<rparr>)\<rparr>"
  using assms
  by (auto simp: spw_port_open_in_place_def backend_call_def Let_def split: if_splits prod.splits)

section \<open>Guards\<close>

lemma validate_port_cases: "validate_port w p = SPW_OK \<or> validate_port w p = SPW_ERR_INVALID_ARGUMENT"
  by (simp add: validate_port_def)

lemma validate_started_invalid:
  "validate_port w p \<noteq> SPW_OK \<Longrightarrow> validate_started_port w p = SPW_ERR_INVALID_ARGUMENT"
  using validate_port_cases [of w p] by (auto simp: validate_started_port_def Let_def)

lemma validate_started_ok:
  "validate_started_port w p = SPW_OK \<longleftrightarrow> validate_port w p = SPW_OK \<and> locally_started (the_port w p)"
  by (auto simp: validate_started_port_def Let_def)

lemma call_on_invalid_port:
  assumes "call_port c = Some p" and "validate_port w p \<noteq> SPW_OK"
  shows "\<exists>r. api c w = (r, None, w) \<and> r \<noteq> SPW_OK"
  using assms(1)
  by (cases c)
    (auto simp: port_call_defs call_defs assms(2) validate_started_invalid [OF assms(2)] Let_def
      split: option.splits)

lemma call_on_stopped_port:
  assumes "call_port c = Some p" and "needs_start c" and "validate_started_port w p = r0" and "r0 \<noteq> SPW_OK"
  shows "\<exists>r. api c w = (r, None, w) \<and> r \<noteq> SPW_OK"
  using assms(1,2,4)
  by (cases c) (auto simp: port_call_defs call_defs assms(3) Let_def split: option.splits)

section \<open>Effects\<close>

text \<open>What a backend may do to memory through its operations: one rule per entry of the table.\<close>

inductive backend_step :: "'s spw_backend_ops \<Rightarrow> 's memory \<Rightarrow> 's memory \<Rightarrow> bool" for ops where
  start: "backend_step ops m (snd (op_start ops c m))"
| stop: "backend_step ops m (snd (op_stop ops c m))"
| reset: "backend_step ops m (snd (op_reset ops c m))"
| link_state: "backend_step ops m (snd (snd (op_get_link_state ops c out1 m)))"
| capabilities: "backend_step ops m (snd (snd (op_get_capabilities ops c out2 m)))"
| send: "backend_step ops m (snd (op_send ops c pk t m))"
| receive: "backend_step ops m (snd (snd (op_receive ops c pk t m)))"
| send_time_code: "backend_step ops m (snd (op_send_time_code ops c tc t m))"
| receive_time_code: "backend_step ops m (snd (snd (op_receive_time_code ops c tc t m)))"
| statistics: "backend_step ops m (snd (snd (op_get_statistics ops c out3 m)))"
| clear_statistics: "backend_step ops m (snd (op_clear_statistics ops c m))"
| fault_statistics:
    "op_get_fault_statistics ops = Some f1 \<Longrightarrow> backend_step ops m (snd (snd (f1 c out4 m)))"
| clear_fault_statistics:
    "op_clear_fault_statistics ops = Some f2 \<Longrightarrow> backend_step ops m (snd (f2 c m))"
| acquire_tx: "op_acquire_tx_buffer ops = Some f3 \<Longrightarrow> backend_step ops m (snd (snd (f3 c n t b m)))"
| submit_tx: "op_submit_tx_buffer ops = Some f4 \<Longrightarrow> backend_step ops m (snd (f4 c a t m))"
| reclaim_tx: "op_reclaim_tx_buffer ops = Some f5 \<Longrightarrow> backend_step ops m (snd (snd (f5 c t b m)))"
| release_tx: "op_release_tx_buffer ops = Some f6 \<Longrightarrow> backend_step ops m (snd (f6 c a m))"
| acquire_rx: "op_acquire_rx_buffer ops = Some f7 \<Longrightarrow> backend_step ops m (snd (snd (f7 c t b m)))"
| release_rx: "op_release_rx_buffer ops = Some f8 \<Longrightarrow> backend_step ops m (snd (f8 c a m))"
| wait: "op_wait ops = Some f9 \<Longrightarrow> backend_step ops m (snd (snd (f9 c i t e m)))"

lemma backend_call_step:
  assumes "\<And>m. backend_step ops m (snd (f m))" and "backend_call f w = (r, w1)"
  shows "\<exists>m. backend_step ops (w_memory w) m \<and> w1 = w\<lparr>w_memory := m\<rparr>"
  using assms(2) assms(1) [of "w_memory w"]
  by (auto simp: backend_call_def split: prod.splits)

lemma backend_call_out_step:
  assumes "\<And>m. backend_step ops m (snd (snd (f m)))" and "backend_call_out f w = (r, x, w1)"
  shows "\<exists>m. backend_step ops (w_memory w) m \<and> w1 = w\<lparr>w_memory := m\<rparr>"
  using assms(2) assms(1) [of "w_memory w"]
  by (auto simp: backend_call_out_def split: prod.splits)

text \<open>
  The effect of a call on the world: nothing, a step of the port's backend, such a step with one of
  the three changes of the port structure, such a step with a buffer handed out, closing, or the
  packet fields of a buffer.
\<close>

definition closed_world :: "addr option \<Rightarrow> 's world \<Rightarrow> 's world" where
  "closed_world p w = snd (spw_port_close p w)"

inductive call_effect :: "port_call \<Rightarrow> 's world \<Rightarrow> addr option \<Rightarrow> 's world \<Rightarrow> bool" where
  nothing: "call_effect c w None w"
| backend: "call_port c = Some p \<Longrightarrow> validate_port w p = SPW_OK \<Longrightarrow>
    backend_step (the_ops w p) (w_memory w) m \<Longrightarrow> call_effect c w None (w\<lparr>w_memory := m\<rparr>)"
| started: "validate_port w p = SPW_OK \<Longrightarrow> backend_step (the_ops w p) (w_memory w) m \<Longrightarrow>
    call_effect (Start p) w None (set_port p (\<lambda>q. q\<lparr>locally_started := True\<rparr>) (w\<lparr>w_memory := m\<rparr>))"
| stopped: "validate_port w p = SPW_OK \<Longrightarrow> backend_step (the_ops w p) (w_memory w) m \<Longrightarrow>
    call_effect (Stop p) w None (set_port p (\<lambda>q. q\<lparr>locally_started := False\<rparr>) (w\<lparr>w_memory := m\<rparr>))"
| reset: "validate_port w p = SPW_OK \<Longrightarrow> backend_step (the_ops w p) (w_memory w) m \<Longrightarrow>
    call_effect (Reset p) w None (set_port p (\<lambda>q. q\<lparr>locally_started := False,
       ownership_epoch := next_epoch (ownership_epoch q)\<rparr>) (w\<lparr>w_memory := m\<rparr>))"
| bound: "call_port c = Some p \<Longrightarrow> validate_port w p = SPW_OK \<Longrightarrow> needs_start c \<Longrightarrow>
    backend_step (the_ops w p) (w_memory w) m \<Longrightarrow>
    call_effect c w (Some b) (bind_buffer_epoch p (Some b) (w\<lparr>w_memory := m\<rparr>))"
| closed: "validate_port w p = SPW_OK \<Longrightarrow> call_effect (Close p) w None (closed_world p w)"
| packet: "m_buffers (w_memory w) b = Some nb \<Longrightarrow>
    call_effect (Set_Packet (Some b) n t) w None
      (set_buffer b (nb\<lparr>buf_length := n, buf_terminator := t\<rparr>) w)"

inductive_cases call_effect_cases: "call_effect c w h w'"

lemma hand_out_effect:
  assumes "call_port c = Some p" and "validate_port w p = SPW_OK" and "needs_start c"
    and "\<And>f m x. op = Some f \<Longrightarrow> backend_step (the_ops w p) m (snd (snd (f x m)))"
    and "handle_out (hand_out p op w) = (r, h, w')"
  shows "call_effect c w h w'"
proof (cases op)
  case None
  with assms(5) show ?thesis by (auto simp: hand_out_def handle_out_def intro: call_effect.nothing)
next
  case (Some f)
  obtain r1 b w1 where call: "backend_call_out (f None) w = (r1, b, w1)"
    by (cases "backend_call_out (f None) w")
  then obtain m where m: "backend_step (the_ops w p) (w_memory w) m" "w1 = w\<lparr>w_memory := m\<rparr>"
    using backend_call_out_step [of "the_ops w p" "f None" w] assms(4) [OF Some] by blast
  then show ?thesis
    using assms(1-3,5) Some call
    by (cases b) (auto simp: hand_out_def handle_out_def intro: call_effect.bound call_effect.backend split: if_splits)
qed

lemma hand_back_effect:
  assumes "call_port c = Some p" and "validate_port w p = SPW_OK"
    and "\<And>f m x. op = Some f \<Longrightarrow> backend_step (the_ops w p) m (snd (f x m))"
    and "drop_out (hand_back op b w) = (r, h, w')"
  shows "call_effect c w h w'"
proof (cases op)
  case None
  with assms(4) show ?thesis by (auto simp: hand_back_def drop_out_def intro: call_effect.nothing)
next
  case (Some f)
  obtain r1 w1 where call: "backend_call (f (the b)) w = (r1, w1)"
    by (cases "backend_call (f (the b)) w")
  then obtain m where "backend_step (the_ops w p) (w_memory w) m" "w1 = w\<lparr>w_memory := m\<rparr>"
    using backend_call_step [of "the_ops w p" "f (the b)" w] assms(3) [OF Some] by blast
  then show ?thesis
    using assms(1,2,4) Some call by (auto simp: hand_back_def drop_out_def intro: call_effect.backend)
qed

lemma backend_call_effect:
  assumes "call_port c = Some p" and "validate_port w p = SPW_OK"
    and "\<And>m. backend_step (the_ops w p) m (snd (f m))"
  shows "call_effect c w None (snd (backend_call f w))"
  using backend_call_step [of "the_ops w p" f w] assms
  by (cases "backend_call f w") (auto intro: call_effect.backend)

lemma backend_call_out_effect:
  assumes "call_port c = Some p" and "validate_port w p = SPW_OK"
    and "\<And>m. backend_step (the_ops w p) m (snd (snd (f m)))"
  shows "call_effect c w None (snd (snd (backend_call_out f w)))"
  using backend_call_out_step [of "the_ops w p" f w] assms
  by (cases "backend_call_out f w") (auto intro: call_effect.backend)

lemma lifecycle_effect:
  assumes "validate_port w p = SPW_OK" and "\<And>m. backend_step (the_ops w p) m (snd (f m))"
    and "call_port c = Some p"
    and "\<And>m. backend_step (the_ops w p) (w_memory w) m \<Longrightarrow>
      call_effect c w None (set_port p g (w\<lparr>w_memory := m\<rparr>))"
    and "(let (r, w) = backend_call f w in (r, if r = SPW_OK then set_port p g w else w)) = (ra, wa)"
  shows "call_effect c w None wa"
proof -
  obtain r w2 where call: "backend_call f w = (r, w2)" by (cases "backend_call f w")
  then obtain m where "backend_step (the_ops w p) (w_memory w) m" "w2 = w\<lparr>w_memory := m\<rparr>"
    using backend_call_step [of "the_ops w p" f w] assms(2) by blast
  then show ?thesis using assms(1,3,4,5) call by (auto intro: call_effect.backend split: if_splits)
qed

lemma drop_out_backend:
  assumes "call_port c = Some p" and "validate_port w p = SPW_OK"
    and "\<And>m. backend_step (the_ops w p) m (snd (snd (f m)))"
    and "drop_out (let (r, x, w) = backend_call_out f w in (r, g r x w, w)) = (ra, h, wa)"
  shows "call_effect c w h wa"
  using assms(4) backend_call_out_effect [OF assms(1-3)]
  by (cases "backend_call_out f w") (auto simp: drop_out_def)

lemma unchanged_effect: "(r0, None, w) = (r, h, w') \<Longrightarrow> call_effect c w h w'"
  by (auto intro: call_effect.nothing)

lemma api_effect_lifecycle:
  assumes "api c w = (r, h, w')" and "c \<in> {Start p, Stop p, Reset p, Close p}"
  shows "call_effect c w h w'"
proof (cases "validate_port w p = SPW_OK")
  case False
  have "call_port c = Some p" using assms(2) by auto
  then show ?thesis
    using call_on_invalid_port [of c p w] False assms(1) by (auto intro: call_effect.nothing)
next
  case True
  have h: "h = None" and w': "w' = snd (case c of Start p \<Rightarrow> spw_port_start p w | Stop p \<Rightarrow> spw_port_stop p w
      | Reset p \<Rightarrow> spw_port_reset p w | _ \<Rightarrow> spw_port_close p w)"
    using assms by (auto simp: no_handle_def)
  from assms(2) consider "c = Start p" | "c = Stop p" | "c = Reset p" | "c = Close p" by blast
  then have "call_effect c w None w'"
  proof cases
    case 1
    show ?thesis
      by (rule lifecycle_effect [OF True, where f = "op_start (the_ops w p) (the_context w p)"
            and g = "\<lambda>q. q\<lparr>locally_started := True\<rparr>" and ra = r])
        (use 1 True w' assms(1) in \<open>auto simp: spw_port_start_def no_handle_def
           intro: backend_step.intros call_effect.intros split: prod.splits\<close>)
  next
    case 2
    show ?thesis
      by (rule lifecycle_effect [OF True, where f = "op_stop (the_ops w p) (the_context w p)"
            and g = "\<lambda>q. q\<lparr>locally_started := False\<rparr>" and ra = r])
        (use 2 True w' assms(1) in \<open>auto simp: spw_port_stop_def no_handle_def
           intro: backend_step.intros call_effect.intros split: prod.splits\<close>)
  next
    case 3
    show ?thesis
      by (rule lifecycle_effect [OF True, where f = "op_reset (the_ops w p) (the_context w p)"
            and g = "\<lambda>q. q\<lparr>locally_started := False, ownership_epoch := next_epoch (ownership_epoch q)\<rparr>"
            and ra = r])
        (use 3 True w' assms(1) in \<open>auto simp: spw_port_reset_def no_handle_def
           intro: backend_step.intros call_effect.intros split: prod.splits\<close>)
  next
    case 4
    then show ?thesis
      using w' call_effect.closed [OF True] by (simp add: closed_world_def)
  qed
  with h show ?thesis by simp
qed

lemma api_effect_io:
  assumes "api c w = (r, h, w')" and "call_port c = Some p" and "needs_start c"
  shows "call_effect c w h w'"
proof (cases "validate_started_port w p = SPW_OK")
  case False
  then show ?thesis
    using call_on_stopped_port [OF assms(2,3), of w] assms(1) by (auto intro: call_effect.nothing)
next
  case True
  then have v: "validate_port w p = SPW_OK" by (simp add: validate_started_ok)
  note step = backend_step.intros [of "the_ops w p"]
  show ?thesis
  proof (cases c)
    case (Wait q i t out)
    then show ?thesis
      using assms(1,2) True
      by (cases "op_wait (the_ops w p)")
        (auto simp: spw_port_wait_def drop_out_def split: if_splits prod.splits
          intro: call_effect.nothing dest!: backend_call_out_step [rotated]
          intro!: call_effect.backend [OF _ v] step(20))
  next
    case (Send q pk t)
    then show ?thesis
      using assms(1,2) True backend_call_effect [of c p w "op_send (the_ops w p) (the_context w p) (the pk) t"]
        v step(6)
      by (cases pk) (auto simp: spw_port_send_def no_handle_def intro: call_effect.nothing split: if_splits)
  next
    case (Receive q pk t)
    then show ?thesis
      using assms(1,2) True v step(7)
        backend_call_out_effect [of c p w "op_receive (the_ops w p) (the_context w p) (the pk) t"]
      by (cases pk) (auto simp: spw_port_receive_def drop_out_def intro: call_effect.nothing
          split: if_splits prod.splits)
  next
    case (Send_Time_Code q tc t)
    then show ?thesis
      using assms(1,2) True v step(8)
        backend_call_effect [of c p w "op_send_time_code (the_ops w p) (the_context w p) (the tc) t"]
      by (auto simp: spw_port_send_time_code_def no_handle_def intro: call_effect.nothing split: if_splits)
  next
    case (Receive_Time_Code q tc t)
    then show ?thesis
      using assms(1,2) True v step(9)
        backend_call_out_effect [of c p w "op_receive_time_code (the_ops w p) (the_context w p) (the tc) t"]
      by (auto simp: spw_port_receive_time_code_def drop_out_def intro: call_effect.nothing
          split: if_splits prod.splits)
  next
    case (Acquire_Tx q n t)
    show ?thesis
      by (rule hand_out_effect [OF assms(2) v assms(3)])
        (use assms(1,2) Acquire_Tx True step(14) in \<open>auto simp: spw_port_acquire_tx_buffer_def\<close>)
  next
    case (Reclaim_Tx q t)
    show ?thesis
      by (rule hand_out_effect [OF assms(2) v assms(3)])
        (use assms(1,2) Reclaim_Tx True step(16) in \<open>auto simp: spw_port_reclaim_tx_buffer_def\<close>)
  next
    case (Acquire_Rx q t)
    show ?thesis
      by (rule hand_out_effect [OF assms(2) v assms(3)])
        (use assms(1,2) Acquire_Rx True step(18) in \<open>auto simp: spw_port_acquire_rx_buffer_def\<close>)
  next
    case (Submit_Tx q b t)
    show ?thesis
    proof (cases "b = None \<or> \<not> buffer_owned_by_port w b p")
      case True
      with \<open>validate_started_port w p = SPW_OK\<close> Submit_Tx assms(1,2) show ?thesis
        by (auto simp: spw_port_submit_tx_buffer_def drop_out_def intro: call_effect.nothing)
    next
      case False
      show ?thesis
        by (rule hand_back_effect [OF assms(2) v, of "map_option (\<lambda>f b. f (the_context w p) b t)
              (op_submit_tx_buffer (the_ops w p))" b])
          (use assms(1,2) Submit_Tx False \<open>validate_started_port w p = SPW_OK\<close> step(15) in
            \<open>auto simp: spw_port_submit_tx_buffer_def\<close>)
    qed
  qed (use assms(3) in auto)
qed

lemma api_effect_query:
  assumes "api c w = (r, h, w')" and "call_port c = Some p" and "validate_port w p = SPW_OK"
    and "\<not> needs_start c" and "c \<notin> {Start p, Stop p, Reset p, Close p}"
  shows "call_effect c w h w'"
proof -
  note v = assms(3)
  note step = backend_step.intros [of "the_ops w p"]
  show ?thesis
  proof (cases c)
    case (Get_Link_State q out)
    then show ?thesis
      using assms(1,2) v step(4)
        backend_call_out_effect [of c p w "op_get_link_state (the_ops w p) (the_context w p) (the out)"]
      by (auto simp: spw_port_get_link_state_def drop_out_def intro: call_effect.nothing
          split: if_splits prod.splits)
  next
    case (Get_Capabilities q out)
    then show ?thesis
      using assms(1,2) v step(5)
        backend_call_out_effect [of c p w "op_get_capabilities (the_ops w p) (the_context w p) (the out)"]
      by (auto simp: spw_port_get_capabilities_def drop_out_def Let_def intro: call_effect.nothing
          split: if_splits prod.splits)
  next
    case (Get_Statistics q out)
    then show ?thesis
      using assms(1,2) v step(10)
        backend_call_out_effect [of c p w "op_get_statistics (the_ops w p) (the_context w p) (the out)"]
      by (auto simp: spw_port_get_statistics_def drop_out_def intro: call_effect.nothing
          split: if_splits prod.splits)
  next
    case (Clear_Statistics q)
    then show ?thesis
      using assms(1,2) v step(11)
        backend_call_effect [of c p w "op_clear_statistics (the_ops w p) (the_context w p)"]
      by (auto simp: spw_port_clear_statistics_def no_handle_def)
  next
    case (Get_Fault_Statistics q out)
    then show ?thesis
      using assms(1,2) v step(12) backend_call_out_effect
        [of c p w "the (op_get_fault_statistics (the_ops w p)) (the_context w p) (the out)"]
      by (auto simp: spw_port_get_fault_statistics_def drop_out_def intro: call_effect.nothing
          split: if_splits prod.splits option.splits)
  next
    case (Clear_Fault_Statistics q)
    then show ?thesis
      using assms(1,2) v step(13) backend_call_effect
        [of c p w "the (op_clear_fault_statistics (the_ops w p)) (the_context w p)"]
      by (auto simp: spw_port_clear_fault_statistics_def no_handle_def intro: call_effect.nothing
          split: if_splits option.splits)
  next
    case (Release_Tx q b)
    show ?thesis
    proof (cases "b = None \<or> \<not> buffer_owned_by_port w b p")
      case True
      with v Release_Tx assms(1,2) show ?thesis
        by (auto simp: spw_port_release_tx_buffer_def drop_out_def intro: call_effect.nothing)
    next
      case False
      show ?thesis
        by (rule hand_back_effect [OF assms(2) v, of "map_option (\<lambda>f. f (the_context w p))
              (op_release_tx_buffer (the_ops w p))" b])
          (use assms(1,2) Release_Tx False v step(17) in \<open>auto simp: spw_port_release_tx_buffer_def\<close>)
    qed
  next
    case (Release_Rx q b)
    show ?thesis
    proof (cases "b = None \<or> \<not> buffer_owned_by_port w b p")
      case True
      with v Release_Rx assms(1,2) show ?thesis
        by (auto simp: spw_port_release_rx_buffer_def drop_out_def intro: call_effect.nothing)
    next
      case False
      show ?thesis
        by (rule hand_back_effect [OF assms(2) v, of "map_option (\<lambda>f. f (the_context w p))
              (op_release_rx_buffer (the_ops w p))" b])
          (use assms(1,2) Release_Rx False v step(19) in \<open>auto simp: spw_port_release_rx_buffer_def\<close>)
    qed
  qed (use assms(2,4,5) in auto)
qed

lemma api_effect_buffer:
  assumes "api c w = (r, h, w')" and "call_port c = None"
  shows "call_effect c w h w'"
proof (cases c)
  case (Get_View b)
  then show ?thesis using assms(1) by (auto intro: call_effect.nothing)
next
  case (Set_Packet b n t)
  then show ?thesis
    using assms(1)
    by (auto simp: spw_buffer_set_packet_def no_handle_def application_owned_def Let_def
        intro: call_effect.nothing call_effect.packet split: if_splits option.splits)
qed (use assms(2) in auto)

theorem api_effect: "api c w = (r, h, w') \<Longrightarrow> call_effect c w h w'"
proof -
  assume run: "api c w = (r, h, w')"
  show ?thesis
  proof (cases "call_port c")
    case None
    with run show ?thesis by (rule api_effect_buffer)
  next
    case (Some p)
    consider "validate_port w p \<noteq> SPW_OK" | "needs_start c" | "c \<in> {Start p, Stop p, Reset p, Close p}"
      | "validate_port w p = SPW_OK" "\<not> needs_start c" "c \<notin> {Start p, Stop p, Reset p, Close p}"
      by blast
    then show ?thesis
    proof cases
      case 1
      with call_on_invalid_port [OF Some, of w] run show ?thesis by (auto intro: call_effect.nothing)
    next
      case 2
      with run Some show ?thesis by (blast intro: api_effect_io)
    next
      case 3
      with run show ?thesis by (rule api_effect_lifecycle)
    next
      case 4
      with run Some show ?thesis by (blast intro: api_effect_query)
    qed
  qed
qed

section \<open>Closed and stopped ports\<close>

lemma call_effect_ports:
  assumes "call_effect c w h w'" and "w_ports w' a = Some q'"
  obtains q where "w_ports w a = Some q" "port_ops q' \<in> {port_ops q, None}"
    "backend_context q' \<in> {backend_context q, None}"
    "locally_started q' \<Longrightarrow> locally_started q \<or> c = Start (Some a)"
proof -
  have "\<exists>q. w_ports w a = Some q \<and> port_ops q' \<in> {port_ops q, None} \<and>
      backend_context q' \<in> {backend_context q, None} \<and>
      (locally_started q' \<longrightarrow> locally_started q \<or> c = Start (Some a))"
    using assms
  proof (induction rule: call_effect.induct)
    case (closed w p)
    then show ?case
      by (auto simp: closed_world_def spw_port_close_def set_port_def validate_port_def the_port_def Let_def
          split: if_splits option.splits)
  qed (auto simp: set_port_def set_buffer_def bind_buffer_epoch_def validate_port_def the_port_def
      split: if_splits option.splits)
  with that show thesis by blast
qed

lemma closed_stays_closed:
  assumes "call_effect c w h w'" and "validate_port w p \<noteq> SPW_OK"
  shows "validate_port w' p \<noteq> SPW_OK"
proof
  assume "validate_port w' p = SPW_OK"
  then obtain a q' where a: "p = Some a" "w_ports w' a = Some q'" "port_ops q' \<noteq> None" "backend_context q' \<noteq> None"
    by (auto simp: validate_port_def the_port_def split: if_splits)
  obtain q where "w_ports w a = Some q" "port_ops q' \<in> {port_ops q, None}"
      "backend_context q' \<in> {backend_context q, None}"
    using call_effect_ports [OF assms(1) a(2)] by metis
  then show False
    using a assms(2) by (auto simp: validate_port_def the_port_def split: if_splits)
qed

lemma stopped_stays_stopped:
  assumes "call_effect c w h w'" and "validate_started_port w p \<noteq> SPW_OK" and "c \<noteq> Start p"
  shows "validate_started_port w' p \<noteq> SPW_OK"
proof
  assume ok: "validate_started_port w' p = SPW_OK"
  then have "validate_port w p = SPW_OK"
    using closed_stays_closed [OF assms(1)] by (auto simp: validate_started_ok)
  moreover obtain a q' where a: "p = Some a" "w_ports w' a = Some q'" "locally_started q'"
    using ok by (auto simp: validate_started_ok validate_port_def the_port_def split: if_splits)
  moreover obtain q where "w_ports w a = Some q" "locally_started q \<or> c = Start (Some a)"
    using call_effect_ports [OF assms(1) a(2)] a(3) by metis
  then have "locally_started (the_port w p)" using a(1) assms(3) by (auto simp: the_port_def)
  ultimately show False using assms(2) by (simp add: validate_started_ok)
qed

lemma run_closed: "api_run cs w = (rs, w') \<Longrightarrow> validate_port w p \<noteq> SPW_OK \<Longrightarrow> validate_port w' p \<noteq> SPW_OK"
  by (induction cs arbitrary: w rs)
    (auto split: prod.splits dest: api_effect closed_stays_closed)

lemma run_stopped:
  "api_run cs w = (rs, w') \<Longrightarrow> Start p \<notin> set cs \<Longrightarrow> validate_started_port w p \<noteq> SPW_OK \<Longrightarrow>
     validate_started_port w' p \<noteq> SPW_OK"
  by (induction cs arbitrary: w rs)
    (auto split: prod.splits dest: api_effect stopped_stays_stopped)

lemma close_invalidates: "api (Close p) w = (r, h, w') \<Longrightarrow> validate_port w' p \<noteq> SPW_OK"
  by (auto simp: no_handle_def spw_port_close_def set_port_def validate_port_def the_port_def Let_def
      split: if_splits option.splits)

lemma stop_or_reset_stops:
  "api c w = (SPW_OK, h, w') \<Longrightarrow> c \<in> {Stop p, Reset p} \<Longrightarrow> validate_started_port w' p \<noteq> SPW_OK"
  by (auto simp: no_handle_def spw_port_stop_def spw_port_reset_def set_port_def the_port_def
      validate_started_ok split: if_splits prod.splits)

text \<open>
  A port in storage of the caller stays there when it is closed, so that the code still reads its
  cleared fields; the block of a port on the heap is freed, and its handle must not be used again.
\<close>

definition in_place :: "'s world \<Rightarrow> bool" where
  "in_place w \<longleftrightarrow> (\<forall>a q. w_ports w a = Some q \<longrightarrow> \<not> release_workspace q)"

lemma call_effect_in_place:
  assumes "call_effect c w h w'" and "in_place w"
  shows "in_place w' \<and> dom (w_ports w') = dom (w_ports w)"
  using assms
proof (induction rule: call_effect.induct)
  case (closed w p)
  then show ?case
    by (auto simp: closed_world_def spw_port_close_def set_port_def validate_port_def the_port_def Let_def
        in_place_def split: if_splits option.splits)
qed (auto simp: set_port_def set_buffer_def bind_buffer_epoch_def validate_port_def the_port_def in_place_def
    split: if_splits option.splits)

lemma open_stays_in_place:
  "spw_port_open_in_place bs config (Some p) n (Some out0) w = (SPW_OK, out, w') \<Longrightarrow> in_place w \<Longrightarrow>
     in_place w' \<and> p \<in> dom (w_ports w')"
  by (auto simp: spw_port_open_in_place_def backend_call_def Let_def in_place_def split: if_splits prod.splits)

lemma run_in_place:
  "api_run cs w = (rs, w') \<Longrightarrow> in_place w \<Longrightarrow> in_place w' \<and> dom (w_ports w') = dom (w_ports w)"
proof (induction cs arbitrary: w rs)
  case (Cons c cs)
  obtain r h w1 where c: "api c w = (r, h, w1)" by (metis prod_cases3)
  with Cons.prems obtain rs1 where "api_run cs w1 = (rs1, w')" by (auto split: prod.splits)
  with Cons.IH call_effect_in_place [OF api_effect [OF c] Cons.prems(2)] show ?case by blast
qed simp


text \<open>
  Property C18: after a successful stop or reset of a port, and until a start of that port, no call on
  it that moves packets, time codes or buffers reaches the backend: it is refused and changes
  nothing, whatever calls are made on other ports in between.
\<close>

theorem stopped_port_moves_nothing:
  assumes "api c0 w = (SPW_OK, h, w1)" and "c0 \<in> {Stop p, Reset p}"
    and "api_run cs w1 = (rs, w2)" and "Start p \<notin> set cs"
    and "call_port c = Some p" and "needs_start c"
  shows "\<exists>r. api c w2 = (r, None, w2) \<and> r \<noteq> SPW_OK"
  using call_on_stopped_port [OF assms(5,6) refl] run_stopped [OF assms(3,4)]
    stop_or_reset_stops [OF assms(1,2)] by blast

section \<open>Ownership epochs\<close>

text \<open>
  A backend may clear the binding of a buffer to its port, or leave it: it never makes one up.
\<close>

definition keeps_bindings :: "'s memory \<Rightarrow> 's memory \<Rightarrow> bool" where
  "keeps_bindings m m' \<longleftrightarrow> (\<forall>b nb'. m_buffers m' b = Some nb' \<longrightarrow> buf_owner_epoch nb' = None \<or>
     (\<exists>nb. m_buffers m b = Some nb \<and> buf_owner_epoch nb = buf_owner_epoch nb' \<and> buf_epoch nb = buf_epoch nb'))"

lemma keeps_bindings_refl: "keeps_bindings m m"
  by (auto simp: keeps_bindings_def)

lemma keeps_bindings_trans: "keeps_bindings a b \<Longrightarrow> keeps_bindings b c \<Longrightarrow> keeps_bindings a c"
  unfolding keeps_bindings_def by metis

definition ports_from ::
    "'s spw_backend_ops set \<Rightarrow> (addr \<Rightarrow> 's memory \<Rightarrow> 's memory) set \<Rightarrow> ('s memory \<Rightarrow> bool) \<Rightarrow>
     's world \<Rightarrow> bool" where
  "ports_from tables destroys calm w \<longleftrightarrow> calm (w_memory w) \<and> (\<forall>p q. w_ports w p = Some q \<longrightarrow>
     (\<forall>ops. port_ops q = Some ops \<longrightarrow> ops \<in> tables) \<and>
     (\<forall>destroy. destroy_backend q = Some destroy \<longrightarrow> destroy \<in> destroys))"

text \<open>No buffer carries an epoch from the future of the port it is bound to.\<close>

definition epochs_ok :: "'s world \<Rightarrow> bool" where
  "epochs_ok w \<longleftrightarrow> (\<forall>b nb p q. m_buffers (w_memory w) b = Some nb \<longrightarrow> buf_owner_epoch nb = Some p \<longrightarrow>
     w_ports w p = Some q \<longrightarrow> buf_epoch nb \<le> ownership_epoch q)"

definition epoch_room :: "nat \<Rightarrow> 's world \<Rightarrow> bool" where
  "epoch_room n w \<longleftrightarrow> (\<forall>p q. w_ports w p = Some q \<longrightarrow> unat (ownership_epoch q) + n < 2 ^ 64)"

definition stale :: "'s world \<Rightarrow> addr \<Rightarrow> bool" where
  "stale w b \<longleftrightarrow> (\<forall>nb p q. m_buffers (w_memory w) b = Some nb \<longrightarrow> buf_owner_epoch nb = Some p \<longrightarrow>
     w_ports w p = Some q \<longrightarrow> buf_epoch nb < ownership_epoch q)"

text \<open>The summary of an effect that the epoch arguments need.\<close>

definition evolves :: "'s world \<Rightarrow> addr option \<Rightarrow> 's world \<Rightarrow> bool" where
  "evolves w h w' \<longleftrightarrow>
     (\<forall>p q'. w_ports w' p = Some q' \<longrightarrow> (\<exists>q. w_ports w p = Some q \<and>
        ownership_epoch q' \<in> {ownership_epoch q, next_epoch (ownership_epoch q)})) \<and>
     (\<forall>b nb'. m_buffers (w_memory w') b = Some nb' \<longrightarrow> buf_owner_epoch nb' = None \<or>
        (\<exists>nb. m_buffers (w_memory w) b = Some nb \<and> buf_owner_epoch nb = buf_owner_epoch nb' \<and>
           buf_epoch nb = buf_epoch nb') \<or>
        h = Some b \<and> (\<forall>p q'. buf_owner_epoch nb' = Some p \<longrightarrow> w_ports w' p = Some q' \<longrightarrow>
           buf_epoch nb' = ownership_epoch q'))"

lemma next_epoch_room: "unat e + 1 < 2 ^ 64 \<Longrightarrow> unat (next_epoch e) = unat e + 1"
  using unat_add_small [of e "1 :: u64"]
  by (auto simp: next_epoch_def unat_eq_0 dest: arg_cong [where f = unat])

lemma epoch_room_mono: "epoch_room n w \<Longrightarrow> k \<le> n \<Longrightarrow> epoch_room k w"
  unfolding epoch_room_def by (meson add_left_mono le_less_trans)

lemma evolves_epoch:
  assumes "evolves w h w'" and "epoch_room (Suc n) w" and "w_ports w' p = Some q'"
  obtains q where "w_ports w p = Some q" "ownership_epoch q \<le> ownership_epoch q'"
    "unat (ownership_epoch q') + n < 2 ^ 64"
proof -
  obtain q where q: "w_ports w p = Some q"
      "ownership_epoch q' \<in> {ownership_epoch q, next_epoch (ownership_epoch q)}"
    using assms(1,3) unfolding evolves_def by blast
  moreover have room: "unat (ownership_epoch q) + Suc n < 2 ^ 64"
    using assms(2) q(1) by (auto simp: epoch_room_def)
  moreover have "unat (next_epoch (ownership_epoch q)) = unat (ownership_epoch q) + 1"
    using room by (intro next_epoch_room) simp
  ultimately show thesis by (intro that [of q]) (auto simp: word_le_nat_alt)
qed

lemma evolves_room: "evolves w h w' \<Longrightarrow> epoch_room (Suc n) w \<Longrightarrow> epoch_room n w'"
  by (subst epoch_room_def) (meson evolves_epoch)

lemma evolves_epochs_ok:
  assumes "evolves w h w'" and "epoch_room (Suc n) w" and "epochs_ok w"
  shows "epochs_ok w'"
  unfolding epochs_ok_def
proof (intro allI impI)
  fix b nb p q'
  assume b: "m_buffers (w_memory w') b = Some nb" "buf_owner_epoch nb = Some p" and p: "w_ports w' p = Some q'"
  obtain q where q: "w_ports w p = Some q" "ownership_epoch q \<le> ownership_epoch q'"
    using evolves_epoch [OF assms(1,2) p] by blast
  from assms(1) b consider (old) nb0 where "m_buffers (w_memory w) b = Some nb0"
      "buf_owner_epoch nb0 = Some p" "buf_epoch nb0 = buf_epoch nb"
    | (bound) "\<forall>p q'. buf_owner_epoch nb = Some p \<longrightarrow> w_ports w' p = Some q' \<longrightarrow> buf_epoch nb = ownership_epoch q'"
    unfolding evolves_def by fastforce
  then show "buf_epoch nb \<le> ownership_epoch q'"
  proof cases
    case old
    with assms(3) q(1) have "buf_epoch nb \<le> ownership_epoch q" by (metis epochs_ok_def)
    with q(2) show ?thesis by order
  qed (use b p in auto)
qed

lemma evolves_stale:
  assumes "evolves w h w'" and "epoch_room (Suc n) w" and "stale w b" and "h \<noteq> Some b"
  shows "stale w' b"
  unfolding stale_def
proof (intro allI impI)
  fix nb p q'
  assume b: "m_buffers (w_memory w') b = Some nb" "buf_owner_epoch nb = Some p" and p: "w_ports w' p = Some q'"
  obtain q where q: "w_ports w p = Some q" "ownership_epoch q \<le> ownership_epoch q'"
    using evolves_epoch [OF assms(1,2) p] by blast
  obtain nb0 where "m_buffers (w_memory w) b = Some nb0" "buf_owner_epoch nb0 = Some p"
      "buf_epoch nb0 = buf_epoch nb"
    using assms(1,4) b unfolding evolves_def by fastforce
  with assms(3) q(1) have "buf_epoch nb < ownership_epoch q" by (metis stale_def)
  with q(2) show "buf_epoch nb < ownership_epoch q'" by order
qed

lemma stale_not_owned: "stale w b \<Longrightarrow> \<not> application_owned w (Some b)"
  by (force simp: stale_def application_owned_def split: option.splits)

lemma stale_call_fails:
  assumes "stale w b" and "call_buffer c = Some b"
  shows "\<exists>r. api c w = (r, None, w) \<and> r \<noteq> SPW_OK"
  using assms(2) stale_not_owned [OF assms(1)]
  by (cases c) (auto simp: port_call_defs call_defs spw_buffer_get_view_def spw_buffer_set_packet_def
      buffer_owned_by_port_def Let_def)

text \<open>
  The contract between the port core and the backends: no operation and no destructor of a backend
  writes the ownership fields of a buffer, except to clear them. The contract is kept from memories
  that are \<open>calm\<close>: where the threads that run while a backend waits keep it too.
\<close>

locale binding_frame =
  fixes tables :: "'s spw_backend_ops set" and destroys :: "(addr \<Rightarrow> 's memory \<Rightarrow> 's memory) set"
    and calm :: "'s memory \<Rightarrow> bool"
  assumes step_keeps: "ops \<in> tables \<Longrightarrow> calm m \<Longrightarrow> backend_step ops m m' \<Longrightarrow> keeps_bindings m m' \<and> calm m'"
    and destroy_keeps: "destroy \<in> destroys \<Longrightarrow> calm m \<Longrightarrow> keeps_bindings m (destroy ctx m) \<and> calm (destroy ctx m)"
    and calm_buffers: "calm m \<Longrightarrow> calm (m\<lparr>m_buffers := bs\<rparr>)"
begin

lemma valid_port_table:
  assumes "ports_from tables destroys calm w" and "validate_port w p = SPW_OK"
  obtains a q where "p = Some a" "w_ports w a = Some q" "the_port w p = q" "the_ops w p \<in> tables"
  using assms by (fastforce simp: ports_from_def validate_port_def the_ops_def the_port_def split: if_splits)

lemma evolves_memory: "keeps_bindings (w_memory w) m \<Longrightarrow> evolves w None (w\<lparr>w_memory := m\<rparr>)"
  by (auto simp: evolves_def keeps_bindings_def)

lemma evolves_step:
  assumes "keeps_bindings (w_memory w) m" and "w_ports w (the p) \<noteq> None"
    and "\<And>q. ownership_epoch (f q) \<in> {ownership_epoch q, next_epoch (ownership_epoch q)}"
  shows "evolves w None (set_port p f (w\<lparr>w_memory := m\<rparr>))"
  using assms
  by (auto simp: evolves_def keeps_bindings_def set_port_def the_port_def split: if_splits)

lemma evolves_bind:
  assumes "keeps_bindings (w_memory w) m" and "w_ports w a = Some q"
  shows "evolves w (Some b) (bind_buffer_epoch (Some a) (Some b) (w\<lparr>w_memory := m\<rparr>))"
  using assms
  by (auto simp: evolves_def keeps_bindings_def bind_buffer_epoch_def the_port_def)

lemma evolves_close:
  assumes "ports_from tables destroys calm w" and "validate_port w p = SPW_OK"
  shows "evolves w None (closed_world p w)" and "ports_from tables destroys calm (closed_world p w)"
proof -
  obtain a q where p: "p = Some a" "w_ports w a = Some q" "the_port w p = q"
    using valid_port_table [OF assms] by metis
  have "keeps_bindings m m" for m :: "'s memory" by (auto simp: keeps_bindings_def)
  moreover have keeps: "keeps_bindings (w_memory w) (d c (w_memory w))" "calm (d c (w_memory w))"
    if "destroy_backend q = Some d" for d c
    using that assms(1) p(2) destroy_keeps by (auto simp: ports_from_def)
  ultimately show "evolves w None (closed_world p w)"
    using p assms(2)
    by (auto simp: evolves_def closed_world_def spw_port_close_def set_port_def keeps_bindings_def Let_def
        split: option.splits if_splits)
  show "ports_from tables destroys calm (closed_world p w)"
    using p assms keeps(2)
    by (auto simp: ports_from_def closed_world_def spw_port_close_def set_port_def Let_def
        split: option.splits if_splits)
qed

lemma step_from_port:
  assumes "ports_from tables destroys calm w" and "validate_port w p = SPW_OK"
    and "backend_step (the_ops w p) (w_memory w) m"
  shows "keeps_bindings (w_memory w) m \<and> calm m \<and> w_ports w (the p) \<noteq> None"
  using assms step_keeps by (auto elim!: valid_port_table [OF assms(1)] simp: ports_from_def)

lemma ports_from_set_port:
  assumes "ports_from tables destroys calm w" and "calm m" and "w_ports w (the p) \<noteq> None"
    and "\<And>q. port_ops (f q) = port_ops q \<and> destroy_backend (f q) = destroy_backend q"
  shows "ports_from tables destroys calm (set_port p f (w\<lparr>w_memory := m\<rparr>))"
  using assms by (auto simp: ports_from_def set_port_def the_port_def)

lemma call_effect_evolves:
  assumes "call_effect c w h w'" and "ports_from tables destroys calm w"
  shows "evolves w h w' \<and> ports_from tables destroys calm w'"
  using assms
proof cases
  case nothing
  then show ?thesis using assms(2) by (auto simp: evolves_def)
next
  case (backend p m)
  then have "keeps_bindings (w_memory w) m \<and> calm m" using step_from_port [OF assms(2)] by blast
  then show ?thesis using backend assms(2) by (auto simp: evolves_memory ports_from_def)
next
  case (started p m)
  then show ?thesis
    using step_from_port [OF assms(2)] by (auto intro!: evolves_step ports_from_set_port assms(2))
next
  case (stopped p m)
  then show ?thesis
    using step_from_port [OF assms(2)] by (auto intro!: evolves_step ports_from_set_port assms(2))
next
  case (reset p m)
  then show ?thesis
    using step_from_port [OF assms(2)] by (auto intro!: evolves_step ports_from_set_port assms(2))
next
  case (bound p m b)
  obtain a q where a: "p = Some a" "w_ports w a = Some q" "the_ops w p \<in> tables"
    using bound by (auto elim!: valid_port_table [OF assms(2)])
  have "keeps_bindings (w_memory w) m" "calm m" using bound step_from_port [OF assms(2)] by blast+
  moreover have "evolves w h w'" using bound evolves_bind [OF _ a(2)] a(1) calculation by simp
  moreover have "w_ports w' = w_ports w" "\<exists>bs. w_memory w' = m\<lparr>m_buffers := bs\<rparr>"
    using bound a(1) by (auto simp: bind_buffer_epoch_def)
  ultimately show ?thesis using assms(2) calm_buffers by (auto simp: ports_from_def)
next
  case (closed p)
  then show ?thesis using evolves_close [OF assms(2)] by simp
next
  case (packet b nb n t)
  then show ?thesis using assms(2) calm_buffers
    by (auto simp: evolves_def ports_from_def set_buffer_def)
qed

lemma run_epochs:
  assumes "api_run cs w = (rs, w')" and "ports_from tables destroys calm w" and "epochs_ok w"
    and "epoch_room (length cs) w"
  shows "ports_from tables destroys calm w' \<and> epochs_ok w' \<and>
    (stale w b \<longrightarrow> (\<forall>(r, h) \<in> set rs. h \<noteq> Some b) \<longrightarrow> stale w' b)"
  using assms
proof (induction cs arbitrary: w rs)
  case Nil
  then show ?case by simp
next
  case (Cons c cs)
  obtain r h w1 rs1 where run: "api c w = (r, h, w1)" "api_run cs w1 = (rs1, w')" "rs = (r, h) # rs1"
    using Cons.prems(1) by (auto split: prod.splits)
  have ev: "evolves w h w1" "ports_from tables destroys calm w1"
    using call_effect_evolves [OF api_effect [OF run(1)] Cons.prems(2)] by simp_all
  have room: "epoch_room (Suc (length cs)) w" using Cons.prems(4) by simp
  show ?case
    using Cons.IH [OF run(2) ev(2) evolves_epochs_ok [OF ev(1) room Cons.prems(3)] evolves_room [OF ev(1) room]]
      evolves_stale [OF ev(1) room] run(3)
    by auto
qed

lemma reset_makes_stale:
  assumes "ports_from tables destroys calm w" and "epochs_ok w" and "epoch_room 1 w"
    and "api (Reset (Some p)) w = (SPW_OK, h, w1)"
    and "m_buffers (w_memory w) b = Some nb" and "buf_owner_epoch nb = Some p"
  shows "stale w1 b"
proof -
  have valid: "validate_port w (Some p) = SPW_OK"
    using assms(4) by (auto simp: spw_port_reset_def no_handle_def split: if_splits)
  obtain q where q: "w_ports w p = Some q" "the_port w (Some p) = q" "the_ops w (Some p) \<in> tables"
    using valid_port_table [OF assms(1) valid] by auto
  define m where "m = snd (op_reset (the_ops w (Some p)) (the_context w (Some p)) (w_memory w))"
  have w1: "w_memory w1 = m" "w_ports w1 p = Some (q\<lparr>locally_started := False,
      ownership_epoch := next_epoch (ownership_epoch q)\<rparr>)"
    using assms(4) valid q
    by (auto simp: spw_port_reset_def no_handle_def backend_call_def set_port_def the_port_def m_def
        split: if_splits prod.splits)
  have "keeps_bindings (w_memory w) m"
    unfolding m_def using step_from_port [OF assms(1) valid] backend_step.reset by blast
  moreover have "unat (next_epoch (ownership_epoch q)) = unat (ownership_epoch q) + 1"
    using assms(3) q(1) by (intro next_epoch_room) (auto simp: epoch_room_def)
  moreover have "buf_epoch nb \<le> ownership_epoch q"
    using assms(2,5,6) q(1) by (auto simp: epochs_ok_def)
  ultimately show ?thesis
    using assms(5,6) w1 by (fastforce simp: stale_def keeps_bindings_def word_less_nat_alt word_le_nat_alt)
qed

lemma reset_revokes:
  assumes "ports_from tables destroys calm w" and "epochs_ok w" and "epoch_room (Suc (length cs)) w"
    and "m_buffers (w_memory w) b = Some nb" and "buf_owner_epoch nb = Some p"
    and "api (Reset (Some p)) w = (SPW_OK, h, w1)" and "api_run cs w1 = (rs, w2)"
    and "\<forall>(r, h) \<in> set rs. h \<noteq> Some b"
    and "call_buffer c = Some b"
  shows "\<exists>r. api c w2 = (r, None, w2) \<and> r \<noteq> SPW_OK"
proof -
  have ev: "evolves w h w1" "ports_from tables destroys calm w1"
    using call_effect_evolves [OF api_effect [OF assms(6)] assms(1)] by simp_all
  have "epoch_room 1 w" using assms(3) epoch_room_mono by fastforce
  then have "stale w1 b" using reset_makes_stale [OF assms(1,2)] assms(4-6) by blast
  then have "stale w2 b"
    using run_epochs [OF assms(7) ev(2) evolves_epochs_ok [OF ev(1) assms(3,2)] evolves_room [OF ev(1) assms(3)]]
      assms(8) by blast
  then show ?thesis using stale_call_fails assms(9) by blast
qed

end

end
