(* ===== verification/Packet_Channel.thy ===== *)
theory Packet_Channel
  imports Spw_Types
begin

text \<open>
  What a copied-I/O transport promises to its two users, the sender and the receiver: accepted
  packets are delivered unchanged, once each and in order, and an operation that reports an error
  moves nothing. The interface \<open>packet_channel\<close> states this for one call; its client lemmas lift it
  to every interleaving of calls. The transports interpret it on their own operations.
\<close>

section \<open>Interleavings of sends and receives\<close>

datatype transfer = Push spw_packet u64 | Pull spw_packet u64

fun transfer_ok :: "transfer \<Rightarrow> bool" where
  "transfer_ok (Push pk t) = tx_packet_ok pk"
| "transfer_ok (Pull pk t) = rx_packet_ok pk"

text \<open>The packets accepted, the packets delivered and the state after a sequence of transfers.\<close>

fun transfers ::
    "(spw_packet \<Rightarrow> u64 \<Rightarrow> 'w \<Rightarrow> spw_result \<times> 'w) \<Rightarrow>
     (spw_packet \<Rightarrow> u64 \<Rightarrow> 'w \<Rightarrow> spw_result \<times> spw_packet option \<times> 'w) \<Rightarrow>
     transfer list \<Rightarrow> 'w \<Rightarrow> logical_packet list \<times> logical_packet list \<times> 'w" where
  "transfers send receive [] w = ([], [], w)"
| "transfers send receive (Push pk t # ts) w =
     (let (r, w) = send pk t w; (sent, received, w) = transfers send receive ts w
      in (if r = SPW_OK then logical_of pk # sent else sent, received, w))"
| "transfers send receive (Pull pk t # ts) w =
     (let (r, out, w) = receive pk t w; (sent, received, w) = transfers send receive ts w
      in (sent, if r = SPW_OK then logical_of (the out) # received else received, w))"

section \<open>The interface\<close>

locale packet_channel =
  fixes send :: "spw_packet \<Rightarrow> u64 \<Rightarrow> 'w \<Rightarrow> spw_result \<times> 'w"
    and receive :: "spw_packet \<Rightarrow> u64 \<Rightarrow> 'w \<Rightarrow> spw_result \<times> spw_packet option \<times> 'w"
    and in_flight :: "'w \<Rightarrow> logical_packet list"
    and room :: nat
    and invar :: "'w \<Rightarrow> bool"
  assumes send_law: "invar w \<Longrightarrow> tx_packet_ok pk \<Longrightarrow> send pk t w = (r, w') \<Longrightarrow>
      invar w' \<and> in_flight w' = in_flight w @ (if r = SPW_OK then [logical_of pk] else [])"
    and receive_law: "invar w \<Longrightarrow> rx_packet_ok pk \<Longrightarrow> receive pk t w = (r, out, w') \<Longrightarrow>
      invar w' \<and> in_flight w = (if r = SPW_OK then [logical_of (the out)] else []) @ in_flight w'"
    and in_flight_room: "invar w \<Longrightarrow> length (in_flight w) \<le> room"
begin

lemma transfers_in_order:
  assumes "transfers send receive ts w = (sent, received, w')" and "invar w" and "list_all transfer_ok ts"
  shows "invar w' \<and> in_flight w @ sent = received @ in_flight w'"
  using assms
proof (induction ts arbitrary: w sent received)
  case Nil
  then show ?case by simp
next
  case (Cons x ts)
  show ?case
  proof (cases x)
    case (Push pk t)
    obtain r w1 sent1 where step: "send pk t w = (r, w1)" "transfers send receive ts w1 = (sent1, received, w')"
        "sent = (if r = SPW_OK then logical_of pk # sent1 else sent1)"
      using Cons.prems(1) Push by (auto split: prod.splits)
    show ?thesis
      using send_law [OF Cons.prems(2) _ step(1)] Cons.IH [OF step(2)] Cons.prems(3) Push step(3)
      by (auto split: if_splits)
  next
    case (Pull pk t)
    obtain r out w1 received1 where step: "receive pk t w = (r, out, w1)"
        "transfers send receive ts w1 = (sent, received1, w')"
        "received = (if r = SPW_OK then logical_of (the out) # received1 else received1)"
      using Cons.prems(1) Pull by (auto split: prod.splits)
    show ?thesis
      using receive_law [OF Cons.prems(2) _ step(1)] Cons.IH [OF step(2)] Cons.prems(3) Pull step(3)
      by (auto split: if_splits)
  qed
qed

lemma transfers_lossless:
  assumes "transfers send receive ts w = (sent, received, w')" and "invar w" and "in_flight w = []"
    and "list_all transfer_ok ts"
  shows "\<exists>pending. sent = received @ pending \<and> length pending \<le> room"
  using transfers_in_order [OF assms(1,2,4)] in_flight_room assms(3) by fastforce

end

end
