(* ===== verification/Loopback.thy ===== *)
theory Loopback
  imports Spw_Ring Packet_Channel Port_Calls Port_Layout
begin

text \<open>
  The loopback backend (\<open>src/backends/loopback/loopback_backend.c\<close>): a queue of eight packets and
  a queue of eight time codes behind one port. The memory of the backends is the loopback
  structures by context address.
\<close>

section \<open>State\<close>

record spw_loopback_backend =
  lb_state :: u8
  lb_packets :: packet_queue
  lb_time_codes :: time_code_queue
  lb_statistics :: spw_statistics

type_synonym loopbacks = "addr \<rightharpoonup> spw_loopback_backend"

definition the_loopback :: "addr \<Rightarrow> loopbacks memory \<Rightarrow> spw_loopback_backend" where
  "the_loopback ctx m = the (m_backend m ctx)"

definition put_loopback :: "addr \<Rightarrow> spw_loopback_backend \<Rightarrow> loopbacks memory \<Rightarrow> loopbacks memory" where
  "put_loopback ctx backend m = m\<lparr>m_backend := (m_backend m)(ctx \<mapsto> backend)\<rparr>"

section \<open>Operations\<close>

definition clear_queues :: "spw_loopback_backend \<Rightarrow> spw_loopback_backend" where
  "clear_queues backend =
     backend\<lparr>lb_packets := ring_empty SPW_QUEUE_DEPTH zero_slot,
             lb_time_codes := ring_empty SPW_QUEUE_DEPTH zero_time_code\<rparr>"

definition loopback_construct ::
    "addr \<Rightarrow> 'd spw_port_config \<Rightarrow> loopbacks memory \<Rightarrow> spw_result \<times> loopbacks memory" where
  "loopback_construct ctx config m =
     (SPW_OK, put_loopback ctx
        \<lparr>lb_state = SPW_LINK_ERROR_RESET, lb_packets = ring_empty SPW_QUEUE_DEPTH zero_slot,
         lb_time_codes = ring_empty SPW_QUEUE_DEPTH zero_time_code, lb_statistics = zero_statistics\<rparr> m)"

definition loopback_destroy :: "addr \<Rightarrow> loopbacks memory \<Rightarrow> loopbacks memory" where
  "loopback_destroy ctx m = m"

definition loopback_start :: "addr \<Rightarrow> loopbacks memory \<Rightarrow> spw_result \<times> loopbacks memory" where
  "loopback_start ctx m =
     (SPW_OK, put_loopback ctx ((the_loopback ctx m)\<lparr>lb_state := SPW_LINK_RUN\<rparr>) m)"

definition loopback_stop :: "addr \<Rightarrow> loopbacks memory \<Rightarrow> spw_result \<times> loopbacks memory" where
  "loopback_stop ctx m =
     (SPW_OK, put_loopback ctx ((the_loopback ctx m)\<lparr>lb_state := SPW_LINK_READY\<rparr>) m)"

definition loopback_reset :: "addr \<Rightarrow> loopbacks memory \<Rightarrow> spw_result \<times> loopbacks memory" where
  "loopback_reset ctx m =
     (SPW_OK, put_loopback ctx
        ((clear_queues (the_loopback ctx m))\<lparr>lb_state := SPW_LINK_ERROR_RESET\<rparr>) m)"

definition loopback_get_link_state ::
    "addr \<Rightarrow> u8 \<Rightarrow> loopbacks memory \<Rightarrow> spw_result \<times> u8 \<times> loopbacks memory" where
  "loopback_get_link_state ctx out_state m = (SPW_OK, lb_state (the_loopback ctx m), m)"

definition loopback_get_capabilities ::
    "addr \<Rightarrow> spw_capabilities \<Rightarrow> loopbacks memory \<Rightarrow> spw_result \<times> spw_capabilities \<times> loopbacks memory" where
  "loopback_get_capabilities ctx out_capabilities m =
     (SPW_OK, out_capabilities
        \<lparr>cap_bits := SPW_CAP_EEP OR SPW_CAP_TIME_CODE OR SPW_CAP_LINK_CONTROL OR SPW_CAP_STATISTICS,
         cap_max_packet_size := SPW_SLOT_SIZE, cap_tx_queue_depth := SPW_QUEUE_DEPTH,
         cap_rx_queue_depth := SPW_QUEUE_DEPTH, cap_buffer_alignment := 16\<rparr>, m)"

definition loopback_supports_zero_copy :: "addr \<Rightarrow> loopbacks memory \<Rightarrow> bool" where
  "loopback_supports_zero_copy ctx m \<longleftrightarrow> False"

definition loopback_send ::
    "addr \<Rightarrow> spw_packet \<Rightarrow> u64 \<Rightarrow> loopbacks memory \<Rightarrow> spw_result \<times> loopbacks memory" where
  "loopback_send ctx packet timeout_us m =
     (let backend = the_loopback ctx m in
      if lb_state backend \<noteq> SPW_LINK_RUN then (SPW_ERR_INVALID_STATE, m)
      else if pk_length packet > SPW_SLOT_SIZE then (SPW_ERR_INVALID_PACKET, m)
      else if rb_count (lb_packets backend) = SPW_QUEUE_DEPTH then (SPW_ERR_RESOURCE_EXHAUSTED, m)
      else let st = lb_statistics backend;
             st = st\<lparr>tx_packets := tx_packets st + 1, tx_bytes := tx_bytes st + of_nat (pk_length packet)\<rparr>;
             st = (if pk_terminator packet = SPW_TERMINATOR_EEP
                   then st\<lparr>eep_packets := eep_packets st + 1\<rparr> else st)
        in (SPW_OK, put_loopback ctx
             (backend\<lparr>lb_packets := enqueue_packet packet (lb_packets backend), lb_statistics := st\<rparr>) m))"

definition loopback_receive ::
    "addr \<Rightarrow> spw_packet \<Rightarrow> u64 \<Rightarrow> loopbacks memory \<Rightarrow> spw_result \<times> spw_packet \<times> loopbacks memory" where
  "loopback_receive ctx packet timeout_us m =
     (let backend = the_loopback ctx m in
      if lb_state backend \<noteq> SPW_LINK_RUN then (SPW_ERR_INVALID_STATE, packet, m)
      else if rb_count (lb_packets backend) = 0 then (SPW_ERR_TIMEOUT, packet, m)
      else let slot = ring_front (lb_packets backend);
             (result, packet) = deliver_slot slot packet in
        if result \<noteq> SPW_OK then (result, packet, m)
        else let st = lb_statistics backend;
               st = st\<lparr>rx_packets := rx_packets st + 1, rx_bytes := rx_bytes st + of_nat (ps_length slot)\<rparr>
          in (SPW_OK, packet, put_loopback ctx
               (backend\<lparr>lb_packets := ring_drop SPW_QUEUE_DEPTH (lb_packets backend),
                        lb_statistics := st\<rparr>) m))"

definition loopback_send_time_code ::
    "addr \<Rightarrow> spw_time_code \<Rightarrow> u64 \<Rightarrow> loopbacks memory \<Rightarrow> spw_result \<times> loopbacks memory" where
  "loopback_send_time_code ctx time_code timeout_us m =
     (let backend = the_loopback ctx m in
      if lb_state backend \<noteq> SPW_LINK_RUN then (SPW_ERR_INVALID_STATE, m)
      else if \<not> valid_time_code (Some time_code) then (SPW_ERR_INVALID_ARGUMENT, m)
      else if rb_count (lb_time_codes backend) = SPW_QUEUE_DEPTH then (SPW_ERR_RESOURCE_EXHAUSTED, m)
      else let st = lb_statistics backend;
             st = st\<lparr>tx_time_codes := tx_time_codes st + 1\<rparr>
        in (SPW_OK, put_loopback ctx
             (backend\<lparr>lb_time_codes := enqueue_time_code time_code (lb_time_codes backend),
                      lb_statistics := st\<rparr>) m))"

definition loopback_receive_time_code ::
    "addr \<Rightarrow> spw_time_code \<Rightarrow> u64 \<Rightarrow> loopbacks memory \<Rightarrow> spw_result \<times> spw_time_code \<times> loopbacks memory" where
  "loopback_receive_time_code ctx time_code timeout_us m =
     (let backend = the_loopback ctx m in
      if lb_state backend \<noteq> SPW_LINK_RUN then (SPW_ERR_INVALID_STATE, time_code, m)
      else if rb_count (lb_time_codes backend) = 0 then (SPW_ERR_TIMEOUT, time_code, m)
      else let st = lb_statistics backend;
             st = st\<lparr>rx_time_codes := rx_time_codes st + 1\<rparr>
        in (SPW_OK, ring_front (lb_time_codes backend), put_loopback ctx
             (backend\<lparr>lb_time_codes := ring_drop SPW_QUEUE_DEPTH (lb_time_codes backend),
                      lb_statistics := st\<rparr>) m))"

definition loopback_get_statistics ::
    "addr \<Rightarrow> spw_statistics \<Rightarrow> loopbacks memory \<Rightarrow> spw_result \<times> spw_statistics \<times> loopbacks memory" where
  "loopback_get_statistics ctx out_statistics m = (SPW_OK, lb_statistics (the_loopback ctx m), m)"

definition loopback_clear_statistics :: "addr \<Rightarrow> loopbacks memory \<Rightarrow> spw_result \<times> loopbacks memory" where
  "loopback_clear_statistics ctx m =
     (SPW_OK, put_loopback ctx ((the_loopback ctx m)\<lparr>lb_statistics := zero_statistics\<rparr>) m)"

definition LOOPBACK_OPS :: "loopbacks spw_backend_ops" where
  "LOOPBACK_OPS = \<lparr>op_start = loopback_start, op_stop = loopback_stop, op_reset = loopback_reset,
     op_get_link_state = loopback_get_link_state, op_get_capabilities = loopback_get_capabilities,
     op_supports_zero_copy = Some loopback_supports_zero_copy, op_send = loopback_send,
     op_receive = loopback_receive, op_send_time_code = loopback_send_time_code,
     op_receive_time_code = loopback_receive_time_code, op_get_statistics = loopback_get_statistics,
     op_clear_statistics = loopback_clear_statistics, op_get_fault_statistics = None,
     op_clear_fault_statistics = None, op_acquire_tx_buffer = None, op_submit_tx_buffer = None,
     op_reclaim_tx_buffer = None, op_release_tx_buffer = None, op_acquire_rx_buffer = None,
     op_release_rx_buffer = None, op_wait = None\<rparr>"

text \<open>The size of the structure: one link state, eight slots of 4112 bytes and eight time codes.\<close>

definition LOOPBACK_FACTORY :: "(loopbacks, 'd) spw_backend_factory" where
  "LOOPBACK_FACTORY = \<lparr>context_size = 33040, context_alignment = 8, f_construct = Some loopback_construct,
     f_destroy = Some loopback_destroy, f_ops = Some LOOPBACK_OPS, context_size_for_config = None\<rparr>"

definition spw_loopback_backend_factory :: "(loopbacks, 'd) spw_backend_factory" where
  "spw_loopback_backend_factory = LOOPBACK_FACTORY"

section \<open>Invariant and queues\<close>

definition loopback_inv :: "spw_loopback_backend \<Rightarrow> bool" where
  "loopback_inv backend \<longleftrightarrow>
     packet_queue_inv (lb_packets backend) \<and> ring_inv SPW_QUEUE_DEPTH (lb_time_codes backend)"

lemmas loopback_defs = loopback_construct_def loopback_destroy_def loopback_start_def loopback_stop_def
  loopback_reset_def loopback_get_link_state_def loopback_get_capabilities_def loopback_send_def
  loopback_receive_def loopback_send_time_code_def loopback_receive_time_code_def
  loopback_get_statistics_def loopback_clear_statistics_def

lemma the_put_loopback [simp]: "the_loopback c (put_loopback c b m) = b"
  by (simp add: the_loopback_def put_loopback_def)

lemma put_loopback_buffers [simp]: "m_buffers (put_loopback c b m) = m_buffers m"
  by (simp add: put_loopback_def)

lemma put_loopback_at [simp]: "m_backend (put_loopback c b m) c = Some b"
  by (simp add: put_loopback_def)

lemma loopback_ops_keep_buffers: "backend_step LOOPBACK_OPS m m' \<Longrightarrow> m_buffers m' = m_buffers m"
  by (induction rule: backend_step.induct)
    (auto simp: LOOPBACK_OPS_def loopback_defs Let_def split: prod.splits)

interpretation loopback_frame: binding_frame "{LOOPBACK_OPS}" "{loopback_destroy}" "\<lambda>_. True"
  by unfold_locales (auto simp: keeps_bindings_def loopback_destroy_def dest!: loopback_ops_keep_buffers)

lemma loopback_send_step:
  assumes "loopback_inv (the_loopback c m)" and "tx_packet_ok pk" and "loopback_send c pk t m = (r, m')"
  shows "loopback_inv (the_loopback c m') \<and> lb_state (the_loopback c m') = lb_state (the_loopback c m) \<and>
    packets_queued (lb_packets (the_loopback c m')) =
      packets_queued (lb_packets (the_loopback c m)) @ (if r = SPW_OK then [logical_of pk] else [])"
  using assms packetq.size_room [of "lb_packets (the_loopback c m)"]
    packetq.invar_enqueue [of "lb_packets (the_loopback c m)" pk]
    packetq.queued_enqueue [of "lb_packets (the_loopback c m)" pk]
  by (auto simp: loopback_send_def loopback_inv_def Let_def slot_admissible_def split: if_splits)

lemma loopback_receive_step:
  assumes "loopback_inv (the_loopback c m)" and "rx_packet_ok pk" and "loopback_receive c pk t m = (r, pk', m')"
  shows "loopback_inv (the_loopback c m') \<and> lb_state (the_loopback c m') = lb_state (the_loopback c m) \<and>
    packets_queued (lb_packets (the_loopback c m)) =
      (if r = SPW_OK then [logical_of pk'] else []) @ packets_queued (lb_packets (the_loopback c m'))"
proof -
  let ?q = "lb_packets (the_loopback c m)"
  obtain r1 p1 where d: "deliver_slot (ring_front ?q) pk = (r1, p1)" by (cases "deliver_slot (ring_front ?q) pk")
  have "packet_queue_inv ?q" using assms(1) by (simp add: loopback_inv_def)
  then show ?thesis
    using assms d packetq.queued_front [of ?q] packetq.invar_dequeue [of ?q]
      deliver_slot_ok(1) [of "ring_front ?q" pk p1] front_slot_ok [of ?q]
    by (auto simp: loopback_receive_def loopback_inv_def Let_def split: if_splits)
qed

section \<open>A loopback port\<close>

definition loopback_port :: "addr \<Rightarrow> loopbacks world \<Rightarrow> bool" where
  "loopback_port p w \<longleftrightarrow> (case w_ports w p of None \<Rightarrow> False
     | Some q \<Rightarrow> port_ops q = Some LOOPBACK_OPS \<and> backend_context q \<noteq> None \<and>
         loopback_inv (the_loopback (the (backend_context q)) (w_memory w)))"

definition loopback_running :: "addr \<Rightarrow> loopbacks world \<Rightarrow> bool" where
  "loopback_running p w \<longleftrightarrow> loopback_port p w \<and> validate_started_port w (Some p) = SPW_OK \<and>
     lb_state (the_loopback (the_context w (Some p)) (w_memory w)) = SPW_LINK_RUN"

definition loopback_in_flight :: "addr \<Rightarrow> loopbacks world \<Rightarrow> logical_packet list" where
  "loopback_in_flight p w =
     packets_queued (lb_packets (the_loopback (the_context w (Some p)) (w_memory w)))"

lemma loopback_port_valid:
  "loopback_port p w \<Longrightarrow> validate_port w (Some p) = SPW_OK \<and> the_ops w (Some p) = LOOPBACK_OPS \<and>
     loopback_inv (the_loopback (the_context w (Some p)) (w_memory w))"
  by (auto simp: loopback_port_def validate_port_def the_ops_def the_port_def the_context_def
      split: option.splits)

lemma loopback_running_memory:
  "loopback_running p w \<Longrightarrow> loopback_inv (the_loopback (the_context w (Some p)) m) \<Longrightarrow>
     lb_state (the_loopback (the_context w (Some p)) m) = SPW_LINK_RUN \<Longrightarrow>
     loopback_running p (w\<lparr>w_memory := m\<rparr>)"
  by (auto simp: loopback_running_def loopback_port_def the_context_def the_port_def
      validate_started_port_def validate_port_def Let_def split: option.splits if_splits)

lemma context_memory [simp]: "the_context (w\<lparr>w_memory := m\<rparr>) p = the_context w p"
  by (simp add: the_context_def the_port_def)

lemma port_send_loopback:
  assumes "loopback_running p w" and "tx_packet_ok pk" and "spw_port_send (Some p) (Some pk) t w = (r, w')"
  shows "loopback_running p w' \<and>
    loopback_in_flight p w' = loopback_in_flight p w @ (if r = SPW_OK then [logical_of pk] else [])"
proof -
  have run: "loopback_port p w" "lb_state (the_loopback (the_context w (Some p)) (w_memory w)) = SPW_LINK_RUN"
    using assms(1) by (simp_all add: loopback_running_def)
  note valid = loopback_port_valid [OF run(1)]
  have op: "op_send (the_ops w (Some p)) = loopback_send" using valid by (simp add: LOOPBACK_OPS_def)
  obtain r1 m where m: "loopback_send (the_context w (Some p)) pk t (w_memory w) = (r1, m)" by fastforce
  have "(r, w') = (r1, w\<lparr>w_memory := m\<rparr>) \<or> w' = w \<and> r \<noteq> SPW_OK"
    using assms(3) by (auto simp: spw_port_send_def backend_call_def op m Let_def split: if_splits)
  then show ?thesis
  proof
    assume "(r, w') = (r1, w\<lparr>w_memory := m\<rparr>)"
    then show ?thesis
      using loopback_send_step [OF _ assms(2) m] valid run(2) loopback_running_memory [OF assms(1), of m]
      by (simp add: loopback_in_flight_def)
  qed (use assms(1) in simp)
qed

lemma port_receive_loopback:
  assumes "loopback_running p w" and "rx_packet_ok pk"
    and "spw_port_receive (Some p) (Some pk) t w = (r, out, w')"
  shows "loopback_running p w' \<and> loopback_in_flight p w =
    (if r = SPW_OK then [logical_of (the out)] else []) @ loopback_in_flight p w'"
proof -
  have run: "loopback_port p w" "lb_state (the_loopback (the_context w (Some p)) (w_memory w)) = SPW_LINK_RUN"
    using assms(1) by (simp_all add: loopback_running_def)
  note valid = loopback_port_valid [OF run(1)]
  have op: "op_receive (the_ops w (Some p)) = loopback_receive" using valid by (simp add: LOOPBACK_OPS_def)
  obtain r1 pk1 m where m: "loopback_receive (the_context w (Some p)) pk t (w_memory w) = (r1, pk1, m)"
    by (cases "loopback_receive (the_context w (Some p)) pk t (w_memory w)")
  have "(r, out, w') = (r1, Some pk1, w\<lparr>w_memory := m\<rparr>) \<or> w' = w \<and> r \<noteq> SPW_OK"
    using assms(3) by (auto simp: spw_port_receive_def backend_call_out_def op m Let_def split: if_splits)
  then show ?thesis
  proof
    assume "(r, out, w') = (r1, Some pk1, w\<lparr>w_memory := m\<rparr>)"
    then show ?thesis
      using loopback_receive_step [OF _ assms(2) m] valid run(2) loopback_running_memory [OF assms(1), of m]
      by (simp add: loopback_in_flight_def)
  qed (use assms(1) in simp)
qed

interpretation loopback_channel: packet_channel "\<lambda>pk t. spw_port_send (Some p) (Some pk) t"
  "\<lambda>pk t. spw_port_receive (Some p) (Some pk) t" "loopback_in_flight p" SPW_QUEUE_DEPTH "loopback_running p"
  for p
proof (unfold_locales, goal_cases)
  case (1 w pk t r w')
  then show ?case by (rule port_send_loopback)
next
  case (2 w pk t r out w')
  then show ?case by (rule port_receive_loopback)
next
  case (3 w)
  then show ?case
    using loopback_port_valid [of p w] unfolding loopback_running_def
    by (auto simp: loopback_in_flight_def loopback_inv_def intro: packetq.length_queued_room)
qed

section \<open>From opening to delivery\<close>

lemma loopback_open_ok:
  assumes "loopback_factory bs = LOOPBACK_FACTORY" and "pc_backend config = SPW_BACKEND_LOOPBACK"
    and "spw_port_open_in_place bs (Some config) (Some p) n (Some None) w = (SPW_OK, out, w1)"
  shows "loopback_port p w1 \<and> loopback_in_flight p w1 = [] \<and> out = Some (Some p)"
proof -
  have "\<exists>r. select_factory bs (Some config) = (r, Some LOOPBACK_FACTORY)"
    using assms by (auto simp: select_factory_def spw_port_open_in_place_def Let_def split: if_splits)
  then obtain r where "select_factory bs (Some config) = (r, Some LOOPBACK_FACTORY)" ..
  then obtain ctx m al where "w1 = w\<lparr>w_memory := m, w_ports := (w_ports w)(p \<mapsto>
       \<lparr>port_ops = Some LOOPBACK_OPS, backend_context = Some ctx, destroy_backend = Some loopback_destroy,
        workspace_base = p, workspace_alignment = al, release_workspace = False, locally_started = False,
        ownership_epoch = 1\<rparr>)\<rparr>" "out = Some (Some p)" "loopback_construct ctx config (w_memory w) = (SPW_OK, m)"
    using assms(3) by (elim open_in_place_ok [where w = w]) (auto simp: LOOPBACK_FACTORY_def)
  then show ?thesis
    by (auto simp: loopback_port_def loopback_in_flight_def the_context_def the_port_def
        loopback_construct_def loopback_inv_def packet_queue_empty_inv ring_empty_inv)
qed

lemma loopback_start_ok:
  assumes "loopback_port p w" and "spw_port_start (Some p) w = (r, w1)"
  shows "r = SPW_OK \<and> loopback_running p w1 \<and> loopback_in_flight p w1 = loopback_in_flight p w"
proof -
  note valid = loopback_port_valid [OF assms(1)]
  have "op_start (the_ops w (Some p)) = loopback_start" using valid by (simp add: LOOPBACK_OPS_def)
  then have "r = SPW_OK" and w1: "w1 = set_port (Some p) (\<lambda>q. q\<lparr>locally_started := True\<rparr>)
      (w\<lparr>w_memory := put_loopback (the_context w (Some p))
         ((the_loopback (the_context w (Some p)) (w_memory w))\<lparr>lb_state := SPW_LINK_RUN\<rparr>) (w_memory w)\<rparr>)"
    using assms(2) valid by (auto simp: spw_port_start_def backend_call_def loopback_start_def)
  then show ?thesis
    using assms(1)
    by (auto simp: set_port_def loopback_running_def loopback_port_def loopback_in_flight_def the_context_def the_port_def
        loopback_inv_def validate_started_port_def validate_port_def split: option.splits)
qed

lemma running_send_result:
  assumes "loopback_running p w" and "valid_terminator (pk_terminator pk)"
    and "pk_capacity pk = 0 \<or> pk_length pk \<le> pk_capacity pk" and "tx_packet_ok pk"
  shows "fst (spw_port_send (Some p) (Some pk) t w) = (if pk_length pk > 4096 then SPW_ERR_INVALID_PACKET
    else if length (loopback_in_flight p w) = 8 then SPW_ERR_RESOURCE_EXHAUSTED else SPW_OK)"
proof -
  let ?lb = "the_loopback (the_context w (Some p)) (w_memory w)"
  have run: "loopback_port p w" "lb_state ?lb = SPW_LINK_RUN" "validate_started_port w (Some p) = SPW_OK"
    using assms(1) by (simp_all add: loopback_running_def)
  have op: "op_send (the_ops w (Some p)) = loopback_send"
    using loopback_port_valid [OF run(1)] by (simp add: LOOPBACK_OPS_def)
  have count: "rb_count (lb_packets ?lb) = length (loopback_in_flight p w)"
    using loopback_port_valid [OF run(1)] packetq.size_queued [of "lb_packets ?lb"]
    by (simp add: loopback_in_flight_def loopback_inv_def)
  have "pk_length pk = 0 \<or> pk_data pk \<noteq> None" using assms(4) by (auto simp: tx_packet_ok_def)
  then have "spw_port_send (Some p) (Some pk) t w =
      backend_call (loopback_send (the_context w (Some p)) pk t) w"
    using assms(2,3) run(3) by (auto simp: spw_port_send_def op)
  then show ?thesis
    using run(2) count by (simp add: backend_call_def loopback_send_def Let_def split: prod.splits)
qed

lemma running_receive_result:
  assumes "loopback_running p w" and "pk_data rx \<noteq> None"
  shows "fst (spw_port_receive (Some p) (Some rx) t w) = (if loopback_in_flight p w = [] then SPW_ERR_TIMEOUT
    else if length (fst (hd (loopback_in_flight p w))) > pk_capacity rx then SPW_ERR_BUFFER_TOO_SMALL else SPW_OK)"
proof -
  let ?lb = "the_loopback (the_context w (Some p)) (w_memory w)"
  have run: "loopback_port p w" "lb_state ?lb = SPW_LINK_RUN" "validate_started_port w (Some p) = SPW_OK"
    using assms(1) by (simp_all add: loopback_running_def)
  have op: "op_receive (the_ops w (Some p)) = loopback_receive"
    using loopback_port_valid [OF run(1)] by (simp add: LOOPBACK_OPS_def)
  have inv: "packet_queue_inv (lb_packets ?lb)"
    using loopback_port_valid [OF run(1)] by (simp add: loopback_inv_def)
  have front: "rb_count (lb_packets ?lb) \<noteq> 0 \<longleftrightarrow> loopback_in_flight p w \<noteq> []"
      "loopback_in_flight p w \<noteq> [] \<Longrightarrow> hd (loopback_in_flight p w) = slot_packet (ring_front (lb_packets ?lb))"
    using packetq.queued_nonempty [OF inv] packetq.front_queued [OF inv] by (auto simp: loopback_in_flight_def)
  have len: "length (fst (slot_packet (ring_front (lb_packets ?lb)))) = ps_length (ring_front (lb_packets ?lb))"
    using front_slot_ok [OF inv] by (simp add: slot_ok_def slot_packet_def)
  have "spw_port_receive (Some p) (Some rx) t w =
      (let (r, pk, w) = backend_call_out (loopback_receive (the_context w (Some p)) rx t) w in (r, Some pk, w))"
    using assms(2) run(3) by (auto simp: spw_port_receive_def op)
  then show ?thesis
    using run(2) front len deliver_slot_result [OF assms(2), of "ring_front (lb_packets ?lb)"]
    by (cases "loopback_in_flight p w = []")
      (auto simp: backend_call_out_def loopback_receive_def Let_def split: prod.splits if_splits)
qed

lemma loopback_opened_started:
  assumes "loopback_factory bs = spw_loopback_backend_factory" and "pc_backend config = SPW_BACKEND_LOOPBACK"
    and "spw_port_open_in_place bs (Some config) (Some p) n (Some None) w = (SPW_OK, out, w1)"
    and "spw_port_start (Some p) w1 = (r, w2)"
  shows "loopback_running p w2 \<and> loopback_in_flight p w2 = []"
  using loopback_open_ok [OF _ assms(2,3)] loopback_start_ok [OF _ assms(4)] assms(1)
  by (simp add: spw_loopback_backend_factory_def)

text \<open>
  Property C15: packets sent through an opened and started loopback port come back through the same
  port in the order of sending, each exactly once, with their bytes and terminators, under any
  interleaving of send and receive calls and whatever calls fail; at most eight packets are held.
\<close>

theorem loopback_delivers_in_order:
  assumes "loopback_factory bs = spw_loopback_backend_factory" and "pc_backend config = SPW_BACKEND_LOOPBACK"
    and "spw_port_open_in_place bs (Some config) (Some p) n (Some None) w = (SPW_OK, out, w1)"
    and "spw_port_start (Some p) w1 = (r, w2)"
    and "transfers (\<lambda>pk t. spw_port_send (Some p) (Some pk) t) (\<lambda>pk t. spw_port_receive (Some p) (Some pk) t)
      ts w2 = (sent, received, w3)"
    and "list_all transfer_ok ts"
  shows "\<exists>pending. sent = received @ pending \<and> length pending \<le> 8"
  using loopback_channel.transfers_lossless [OF assms(5)] loopback_opened_started [OF assms(1-4)] assms(6)
  by blast

text \<open>
  Property C16: after any exchange on an opened and started loopback port, the result of the next
  send and of the next receive is determined by the packets accepted and not yet delivered: a send
  is refused exactly when the packet is longer than 4096 bytes or eight packets are pending, a
  receive times out exactly when none is pending and reports a too small buffer exactly when the
  next packet is longer than the caller's capacity; a successful receive delivers that packet.
\<close>

theorem loopback_results_from_history:
  assumes "loopback_factory bs = spw_loopback_backend_factory" and "pc_backend config = SPW_BACKEND_LOOPBACK"
    and "spw_port_open_in_place bs (Some config) (Some p) n (Some None) w = (SPW_OK, out, w1)"
    and "spw_port_start (Some p) w1 = (r, w2)"
    and "transfers (\<lambda>pk t. spw_port_send (Some p) (Some pk) t) (\<lambda>pk t. spw_port_receive (Some p) (Some pk) t)
      ts w2 = (sent, received, w3)"
    and "list_all transfer_ok ts"
    and "tx_packet_ok pk" and "valid_terminator (pk_terminator pk)"
    and "pk_capacity pk = 0 \<or> pk_length pk \<le> pk_capacity pk"
    and "rx_packet_ok rx" and "pk_data rx \<noteq> None"
  shows "fst (spw_port_send (Some p) (Some pk) t w3) =
      (if pk_length pk > 4096 then SPW_ERR_INVALID_PACKET
       else if length sent = length received + 8 then SPW_ERR_RESOURCE_EXHAUSTED else SPW_OK) \<and>
    fst (spw_port_receive (Some p) (Some rx) t w3) =
      (if length sent = length received then SPW_ERR_TIMEOUT
       else if length (fst (sent ! length received)) > pk_capacity rx then SPW_ERR_BUFFER_TOO_SMALL
       else SPW_OK) \<and>
    (fst (spw_port_receive (Some p) (Some rx) t w3) = SPW_OK \<longrightarrow>
      logical_of (the (fst (snd (spw_port_receive (Some p) (Some rx) t w3)))) = sent ! length received)"
proof -
  obtain pending where run: "loopback_running p w3" "loopback_in_flight p w3 = pending" "sent = received @ pending"
    using loopback_channel.transfers_in_order [OF assms(5) _ assms(6)] loopback_opened_started [OF assms(1-4)]
    by auto
  let ?next = "spw_port_receive (Some p) (Some rx) t w3"
  have recv: "fst ?next = (if pending = [] then SPW_ERR_TIMEOUT
      else if length (fst (hd pending)) > pk_capacity rx then SPW_ERR_BUFFER_TOO_SMALL else SPW_OK)"
    using running_receive_result [OF run(1) assms(11)] run(2) by simp
  have len: "length sent = length received + length pending" using run(3) by simp
  have nxt: "sent ! length received = hd pending" if "pending \<noteq> []"
    using that run(3) by (simp add: nth_append hd_conv_nth)
  have "logical_of (the (fst (snd ?next))) = sent ! length received" if "fst ?next = SPW_OK"
  proof -
    have ne: "pending \<noteq> []" using that recv by (auto split: if_splits)
    define out1 w4 where "out1 = fst (snd ?next)" and "w4 = snd (snd ?next)"
    then have "?next = (SPW_OK, out1, w4)" using that by (metis prod.collapse)
    with port_receive_loopback [OF run(1) assms(10)] run(2)
    have "pending = logical_of (the (fst (snd ?next))) # loopback_in_flight p w4" by simp
    then show ?thesis using nxt [OF ne] by (metis list.sel(1))
  qed
  moreover have "fst ?next = (if length sent = length received then SPW_ERR_TIMEOUT
      else if length (fst (sent ! length received)) > pk_capacity rx then SPW_ERR_BUFFER_TOO_SMALL else SPW_OK)"
    unfolding recv using len nxt by (cases "pending = []") simp_all
  moreover have "fst (spw_port_send (Some p) (Some pk) t w3) =
      (if pk_length pk > 4096 then SPW_ERR_INVALID_PACKET
       else if length sent = length received + 8 then SPW_ERR_RESOURCE_EXHAUSTED else SPW_OK)"
    unfolding running_send_result [OF run(1) assms(8,9,7)] run(2) len by simp
  ultimately show ?thesis by blast
qed

section \<open>Witnesses\<close>

definition sample_backends :: "(loopbacks, unit) backends" where
  "sample_backends = \<lparr>loopback_factory = spw_loopback_backend_factory, simulator_factory = None,
     udp_factory = None, device_factory = None, driver_factory = (\<lambda>_ _. spw_loopback_backend_factory)\<rparr>"

definition sample_loopback_config :: "unit spw_port_config" where
  "sample_loopback_config = \<lparr>pc_struct_size = 32, pc_version = 1, pc_backend = 1, pc_flags = 0,
     pc_backend_config = None, pc_backend_config_size = 0\<rparr>"

definition empty_loopback_world :: "loopbacks world" where
  "empty_loopback_world = \<lparr>w_ports = Map.empty, w_memory = \<lparr>m_buffers = Map.empty, m_backend = Map.empty\<rparr>\<rparr>"

definition opened_world :: "loopbacks world" where
  "opened_world = snd (snd (spw_port_open_in_place sample_backends (Some sample_loopback_config)
     (Some 4096) 40000 (Some None) empty_loopback_world))"

definition started_world :: "loopbacks world" where
  "started_world = snd (spw_port_start (Some 4096) opened_world)"

definition sample_packet :: spw_packet where
  "sample_packet = \<lparr>pk_data = Some [1, 2, 3], pk_length = 3, pk_capacity = 3, pk_terminator = 0\<rparr>"

definition sample_transfers :: "transfer list" where
  "sample_transfers = [Push sample_packet 0, Push sample_packet 0, Pull sample_packet 0]"

lemma sample_transfers_ok: "list_all transfer_ok sample_transfers"
  by (simp add: sample_transfers_def sample_packet_def tx_packet_ok_def rx_packet_ok_def)

lemma LOOPBACK_FACTORY_construct: "f_construct LOOPBACK_FACTORY = Some loopback_construct"
  by (simp add: LOOPBACK_FACTORY_def)

lemma opened_world_eq:
  "spw_port_open_in_place sample_backends (Some sample_loopback_config) (Some 4096) 40000 (Some None)
     empty_loopback_world = (SPW_OK, Some (Some 4096), opened_world)"
proof -
  have sel: "select_factory sample_backends (Some sample_loopback_config) = (SPW_OK, Some LOOPBACK_FACTORY)"
    by (simp add: select_factory_def validate_common_config_def sample_loopback_config_def
        sample_backends_def spw_loopback_backend_factory_def)
  have req: "requirements_for sample_loopback_config LOOPBACK_FACTORY zero_requirements =
      (SPW_OK, \<lparr>req_size = 33096, req_alignment = 8\<rparr>)"
    by (simp add: requirements_for_def LOOPBACK_FACTORY_def is_power_of_two_def align_up_def zero_requirements_def)
  show ?thesis
    unfolding opened_world_def
    by (simp add: spw_port_open_in_place_def sel req is_aligned_def backend_call_def
        loopback_construct_def LOOPBACK_FACTORY_construct Let_def)
qed

lemma started_world_eq: "spw_port_start (Some 4096) opened_world = (SPW_OK, started_world)"
proof -
  have "loopback_port 4096 opened_world"
    using loopback_open_ok [OF _ _ opened_world_eq]
    by (simp add: sample_backends_def spw_loopback_backend_factory_def sample_loopback_config_def)
  then show ?thesis
    unfolding started_world_def by (metis loopback_start_ok prod.collapse)
qed

theorem loopback_delivers_in_order_witness:
  "\<exists>sent received w. transfers (\<lambda>pk t. spw_port_send (Some 4096) (Some pk) t)
     (\<lambda>pk t. spw_port_receive (Some 4096) (Some pk) t) sample_transfers started_world = (sent, received, w) \<and>
     (\<exists>pending. sent = received @ pending \<and> length pending \<le> 8)"
proof -
  obtain sent received w where run: "transfers (\<lambda>pk t. spw_port_send (Some 4096) (Some pk) t)
     (\<lambda>pk t. spw_port_receive (Some 4096) (Some pk) t) sample_transfers started_world = (sent, received, w)"
    by (metis prod.collapse)
  show ?thesis
    using run loopback_delivers_in_order [OF _ _ opened_world_eq started_world_eq run sample_transfers_ok]
    by (auto simp: sample_backends_def sample_loopback_config_def)
qed

theorem loopback_results_from_history_witness:
  "\<exists>sent received w. transfers (\<lambda>pk t. spw_port_send (Some 4096) (Some pk) t)
     (\<lambda>pk t. spw_port_receive (Some 4096) (Some pk) t) [] started_world = (sent, received, w) \<and>
     fst (spw_port_send (Some 4096) (Some sample_packet) 0 w) = SPW_OK \<and>
     fst (spw_port_receive (Some 4096) (Some sample_packet) 0 w) = SPW_ERR_TIMEOUT"
  using loopback_results_from_history [OF _ _ opened_world_eq started_world_eq, of "[]" "[]" "[]" started_world
      sample_packet sample_packet 0]
  by (simp add: sample_backends_def sample_loopback_config_def sample_packet_def tx_packet_ok_def
      rx_packet_ok_def valid_terminator_def)

lemma started_world_valid: "loopback_running 4096 started_world"
  using loopback_opened_started [OF _ _ opened_world_eq started_world_eq]
  by (simp add: sample_backends_def sample_loopback_config_def)

lemma started_world_close_stop:
  "fst (api (Close (Some 4096)) started_world) = SPW_OK" "fst (api (Stop (Some 4096)) started_world) = SPW_OK"
  using loopback_port_valid [of 4096 started_world] started_world_valid
  by (auto simp: loopback_running_def no_handle_def spw_port_close_def spw_port_stop_def backend_call_def
      LOOPBACK_OPS_def loopback_stop_def Let_def split: prod.splits)

lemma started_world_in_place: "in_place started_world" "4096 \<in> dom (w_ports started_world)"
proof -
  have "in_place empty_loopback_world" by (simp add: in_place_def empty_loopback_world_def)
  note opened = open_stays_in_place [OF opened_world_eq this]
  have "api (Start (Some 4096)) opened_world = (SPW_OK, None, started_world)"
    by (simp add: no_handle_def started_world_eq)
  from call_effect_in_place [OF api_effect [OF this]] opened
  show "in_place started_world" "4096 \<in> dom (w_ports started_world)" by simp_all
qed


theorem stopped_port_moves_nothing_witness:
  "\<exists>h w1 rs w2 r. api (Stop (Some 4096)) started_world = (SPW_OK, h, w1) \<and>
     api_run [Get_Link_State (Some 4096) (Some 0)] w1 = (rs, w2) \<and>
     api (Send (Some 4096) (Some sample_packet) 0) w2 = (r, None, w2) \<and> r \<noteq> SPW_OK"
proof -
  obtain h w1 where w1: "api (Stop (Some 4096)) started_world = (SPW_OK, h, w1)"
    using started_world_close_stop(2) by (metis prod.collapse)
  obtain rs w2 where w2: "api_run [Get_Link_State (Some 4096) (Some 0)] w1 = (rs, w2)" by fastforce
  show ?thesis
    using stopped_port_moves_nothing [OF w1 _ w2, of "Some 4096" "Send (Some 4096) (Some sample_packet) 0"] w1 w2
    by fastforce
qed

end
