(* ===== verification/Simulator.thy ===== *)
theory Simulator
  imports Spw_Ring Port_Calls
begin

text \<open>
  The simulator backend (\<open>src/backends/virtual/simulator_backend.c\<close>): a registry of sixteen virtual
  links of two endpoints each, shared by all simulator ports of the process.

  Blocking and concurrency. Every operation runs under the mutex of its link, so it is one step
  except where the code gives the mutex up: at each \<open>spw_host_mutex_lock\<close> and inside
  \<open>spw_host_condition_wait\<close> other threads may run. The state carries what the host does at those
  points: the effect of the other threads before each lock (\<open>sm_gaps\<close>), the outcome of each wait with
  the effect of the other threads during it (\<open>sm_wakeups\<close>), the readings of the clock (\<open>sm_clock\<close>) and
  the outcomes of the initialisations of host objects (\<open>sm_inits\<close>). The lists are arbitrary and finite;
  when one is used up a lock meets no other thread, a wait reports a timeout, the clock reads 0
  (what \<open>spw_host_now_us\<close> returns on failure) and an initialisation succeeds. Every execution that
  returns is covered by some lists.
\<close>

section \<open>State\<close>

abbreviation SPW_SIMULATOR_MAX_LOCAL_LINKS :: nat where "SPW_SIMULATOR_MAX_LOCAL_LINKS \<equiv> 16"

record simulator_endpoint_state =
  ep_attached :: bool
  ep_started :: bool
  ep_state :: u8
  ep_packets :: packet_queue
  ep_time_codes :: time_code_queue
  ep_statistics :: spw_statistics

record simulator_virtual_link =
  vl_sync_initialized :: bool
  vl_allocated :: bool
  vl_link_id :: u64
  vl_endpoints :: "simulator_endpoint_state list"

text \<open>
  The buffer descriptors of a backend are in the buffer memory, at the addresses they have inside
  the structure; \<open>sb_link\<close> is an index of the registry.
\<close>

record spw_simulator_backend =
  sb_link_id :: u64
  sb_endpoint_index :: nat
  sb_link :: "nat option"
  sb_rx_buffer_acquired :: bool
  sb_zero_copy_sync_initialized :: bool

record sim_shared =
  sh_registry :: "simulator_virtual_link list"
  sh_backends :: "addr \<rightharpoonup> spw_simulator_backend"

type_synonym interference = "sim_shared memory \<Rightarrow> sim_shared memory"

record simulator =
  sm_shared :: sim_shared
  sm_gaps :: "interference list"
  sm_wakeups :: "(bool \<times> interference) list"
  sm_clock :: "u64 list"
  sm_inits :: "bool list"

section \<open>The host\<close>

definition interfere :: "interference \<Rightarrow> simulator memory \<Rightarrow> simulator memory" where
  "interfere f m =
     (let s = f \<lparr>m_buffers = m_buffers m, m_backend = sm_shared (m_backend m)\<rparr>
      in m\<lparr>m_buffers := m_buffers s, m_backend := (m_backend m)\<lparr>sm_shared := m_backend s\<rparr>\<rparr>)"

definition host_mutex_lock :: "simulator memory \<Rightarrow> simulator memory" where
  "host_mutex_lock m = (case sm_gaps (m_backend m) of [] \<Rightarrow> m
     | f # fs \<Rightarrow> interfere f (m\<lparr>m_backend := (m_backend m)\<lparr>sm_gaps := fs\<rparr>\<rparr>))"

definition host_condition_wait :: "simulator memory \<Rightarrow> bool \<times> simulator memory" where
  "host_condition_wait m = (case sm_wakeups (m_backend m) of [] \<Rightarrow> (False, m)
     | (signalled, f) # ws \<Rightarrow>
         (signalled, interfere f (m\<lparr>m_backend := (m_backend m)\<lparr>sm_wakeups := ws\<rparr>\<rparr>)))"

definition host_now_us :: "simulator memory \<Rightarrow> u64 \<times> simulator memory" where
  "host_now_us m = (case sm_clock (m_backend m) of [] \<Rightarrow> (0, m)
     | t # ts \<Rightarrow> (t, m\<lparr>m_backend := (m_backend m)\<lparr>sm_clock := ts\<rparr>\<rparr>))"

definition host_init :: "simulator memory \<Rightarrow> bool \<times> simulator memory" where
  "host_init m = (case sm_inits (m_backend m) of [] \<Rightarrow> (True, m)
     | b # bs \<Rightarrow> (b, m\<lparr>m_backend := (m_backend m)\<lparr>sm_inits := bs\<rparr>\<rparr>))"

section \<open>Access to the shared state\<close>

text \<open>Zeroed memory; addresses that hold no backend structure read as one.\<close>

definition zero_backend :: spw_simulator_backend where
  "zero_backend = \<lparr>sb_link_id = 0, sb_endpoint_index = 0, sb_link = None, sb_rx_buffer_acquired = False,
     sb_zero_copy_sync_initialized = False\<rparr>"

definition the_sim :: "addr \<Rightarrow> simulator memory \<Rightarrow> spw_simulator_backend" where
  "the_sim ctx m = (case sh_backends (sm_shared (m_backend m)) ctx of None \<Rightarrow> zero_backend
     | Some backend \<Rightarrow> backend)"

definition update_shared :: "(sim_shared \<Rightarrow> sim_shared) \<Rightarrow> simulator memory \<Rightarrow> simulator memory" where
  "update_shared f m = m\<lparr>m_backend := (m_backend m)\<lparr>sm_shared := f (sm_shared (m_backend m))\<rparr>\<rparr>"

definition put_sim :: "addr \<Rightarrow> spw_simulator_backend \<Rightarrow> simulator memory \<Rightarrow> simulator memory" where
  "put_sim ctx backend = update_shared (\<lambda>s. s\<lparr>sh_backends := (sh_backends s)(ctx \<mapsto> backend)\<rparr>)"

definition registry :: "simulator memory \<Rightarrow> simulator_virtual_link list" where
  "registry m = sh_registry (sm_shared (m_backend m))"

definition put_link :: "nat \<Rightarrow> simulator_virtual_link \<Rightarrow> simulator memory \<Rightarrow> simulator memory" where
  "put_link l link = update_shared (\<lambda>s. s\<lparr>sh_registry := (sh_registry s)[l := link]\<rparr>)"

definition endpoint :: "nat \<Rightarrow> nat \<Rightarrow> simulator memory \<Rightarrow> simulator_endpoint_state" where
  "endpoint l e m = vl_endpoints (registry m ! l) ! e"

definition put_endpoint ::
    "nat \<Rightarrow> nat \<Rightarrow> simulator_endpoint_state \<Rightarrow> simulator memory \<Rightarrow> simulator memory" where
  "put_endpoint l e ep m =
     put_link l ((registry m ! l)\<lparr>vl_endpoints := (vl_endpoints (registry m ! l))[e := ep]\<rparr>) m"

text \<open>A descriptor of zeroed memory; addresses that hold no descriptor read as one.\<close>

definition zero_descriptor :: spw_buffer where
  "zero_descriptor = \<lparr>buf_data = Some (replicate SPW_SLOT_SIZE 0), buf_length = 0, buf_capacity = 0,
     buf_terminator = 0, buf_owner = None, buf_direction = 0, buf_state = 0, buf_token = 0,
     buf_owner_epoch = None, buf_epoch = 0\<rparr>"

definition the_buffer :: "addr \<Rightarrow> simulator memory \<Rightarrow> spw_buffer" where
  "the_buffer b m = (case m_buffers m b of None \<Rightarrow> zero_descriptor | Some buffer \<Rightarrow> buffer)"

definition put_buffer :: "addr \<Rightarrow> spw_buffer \<Rightarrow> simulator memory \<Rightarrow> simulator memory" where
  "put_buffer b buffer m = m\<lparr>m_buffers := (m_buffers m)(b \<mapsto> buffer)\<rparr>"

text \<open>Addresses of the descriptors inside the backend structure.\<close>

definition tx_buffer_addr :: "addr \<Rightarrow> nat \<Rightarrow> addr" where
  "tx_buffer_addr ctx i = ctx + 32 + 4176 * i + 4096"

definition rx_buffer_addr :: "addr \<Rightarrow> addr" where
  "rx_buffer_addr ctx = ctx + 37536"

section \<open>Endpoints\<close>

definition reset_endpoint :: simulator_endpoint_state where
  "reset_endpoint = \<lparr>ep_attached = False, ep_started = False, ep_state = SPW_LINK_ERROR_RESET,
     ep_packets = ring_empty SPW_QUEUE_DEPTH zero_slot,
     ep_time_codes = ring_empty SPW_QUEUE_DEPTH zero_time_code, ep_statistics = zero_statistics\<rparr>"

definition clear_receive_queues :: "simulator_endpoint_state \<Rightarrow> simulator_endpoint_state" where
  "clear_receive_queues ep =
     ep\<lparr>ep_statistics := (ep_statistics ep)
          \<lparr>dropped_packets := dropped_packets (ep_statistics ep) + of_nat (rb_count (ep_packets ep))\<rparr>,
        ep_packets := ring_empty SPW_QUEUE_DEPTH zero_slot,
        ep_time_codes := ring_empty SPW_QUEUE_DEPTH zero_time_code\<rparr>"

definition refresh_link_states :: "nat \<Rightarrow> simulator memory \<Rightarrow> simulator memory" where
  "refresh_link_states l m =
     (let a = endpoint l 0 m; b = endpoint l 1 m;
          a_up = ep_started a \<and> ep_attached a; b_up = ep_started b \<and> ep_attached b
      in if a_up \<and> b_up
         then put_endpoint l 1 (b\<lparr>ep_state := SPW_LINK_RUN\<rparr>)
                (put_endpoint l 0 (a\<lparr>ep_state := SPW_LINK_RUN\<rparr>) m)
         else let m = (if a_up then put_endpoint l 0 (a\<lparr>ep_state := SPW_LINK_CONNECTING\<rparr>) m else m)
           in if b_up then put_endpoint l 1 (b\<lparr>ep_state := SPW_LINK_CONNECTING\<rparr>) m else m)"

definition peer_available :: "simulator_endpoint_state \<Rightarrow> bool" where
  "peer_available peer \<longleftrightarrow> ep_attached peer \<and> ep_started peer"

section \<open>Waiting\<close>

definition deadline_from_timeout :: "u64 \<Rightarrow> simulator memory \<Rightarrow> u64 \<times> simulator memory" where
  "deadline_from_timeout timeout_us m =
     (let (now, m) = host_now_us m
      in (if - 1 - now < timeout_us then - 1 else now + timeout_us, m))"

lemma wakeups_interfere [simp]: "sm_wakeups (m_backend (interfere f m)) = sm_wakeups (m_backend m)"
  by (simp add: interfere_def Let_def)

lemma host_condition_wait_signalled:
  "host_condition_wait m = (True, m') \<Longrightarrow> length (sm_wakeups (m_backend m')) < length (sm_wakeups (m_backend m))"
  by (auto simp: host_condition_wait_def split: list.splits)

lemma host_now_us_wakeups [simp]:
  "host_now_us m = (t, m') \<Longrightarrow> sm_wakeups (m_backend m') = sm_wakeups (m_backend m)"
  by (auto simp: host_now_us_def split: list.splits)

function wait_loop ::
    "u64 \<Rightarrow> u64 \<Rightarrow> (simulator memory \<Rightarrow> bool) \<Rightarrow> simulator memory \<Rightarrow> bool \<times> simulator memory" where
  "wait_loop timeout_us deadline ready m =
     (if ready m then (True, m)
      else if timeout_us = SPW_TIMEOUT_INFINITE
      then (case host_condition_wait m of
              (False, m1) \<Rightarrow> (False, m1)
            | (True, m1) \<Rightarrow> wait_loop timeout_us deadline ready m1)
      else (case host_now_us m of (now, m1) \<Rightarrow>
              if now \<ge> deadline then (False, m1)
              else (case host_condition_wait m1 of
                      (False, m2) \<Rightarrow> (ready m2, m2)
                    | (True, m2) \<Rightarrow> wait_loop timeout_us deadline ready m2)))"
  by auto
termination
  by (relation "measure (\<lambda>(_, _, _, m). length (sm_wakeups (m_backend m)))")
    (auto dest!: host_condition_wait_signalled [OF sym] host_now_us_wakeups [OF sym])

declare wait_loop.simps [simp del]

definition wait_condition ::
    "u64 \<Rightarrow> (simulator memory \<Rightarrow> bool) \<Rightarrow> simulator memory \<Rightarrow> bool \<times> simulator memory" where
  "wait_condition timeout_us ready m =
     (if ready m then (True, m)
      else if timeout_us = SPW_TIMEOUT_IMMEDIATE then (False, m)
      else if timeout_us \<noteq> SPW_TIMEOUT_INFINITE
      then (case deadline_from_timeout timeout_us m of (deadline, m) \<Rightarrow> wait_loop timeout_us deadline ready m)
      else wait_loop timeout_us 0 ready m)"

section \<open>Attaching and detaching\<close>

definition initialize_link_sync :: "nat \<Rightarrow> simulator memory \<Rightarrow> bool \<times> simulator memory" where
  "initialize_link_sync l m =
     (if vl_sync_initialized (registry m ! l) then (True, m)
      else let (ok, m) = host_init m in
        if \<not> ok then (False, m)
        else let (ok, m) = host_init m in
          if \<not> ok then (False, m)
          else (True, put_link l ((registry m ! l)\<lparr>vl_sync_initialized := True\<rparr>) m))"

text \<open>
  The loop over the registry: the first allocated link with the wanted identifier, found before or
  after the first free one.
\<close>

fun find_link :: "simulator_virtual_link list \<Rightarrow> u64 \<Rightarrow> nat \<Rightarrow> nat option \<Rightarrow> nat option \<times> nat option" where
  "find_link [] link_id i free_slot = (None, free_slot)"
| "find_link (candidate # links) link_id i free_slot =
     (if vl_allocated candidate \<and> vl_link_id candidate = link_id then (Some i, free_slot)
      else find_link links link_id (i + 1)
        (if \<not> vl_allocated candidate \<and> free_slot = None then Some i else free_slot))"

text \<open>
  The registry mutex is held from the scan on, so no other thread allocates or frees a link before
  the mutex of the link is taken; what others do on the link itself in between does not depend on
  the scan and is counted before it.
\<close>

definition attach_backend :: "addr \<Rightarrow> simulator memory \<Rightarrow> spw_result \<times> simulator memory" where
  "attach_backend ctx m =
     (let backend = the_sim ctx m in
      if sb_link backend \<noteq> None then (SPW_ERR_INVALID_STATE, m)
      else let m = host_mutex_lock m;
             (target, free_slot) = find_link (registry m) (sb_link_id backend) 0 None;
             target = (if target = None then free_slot else target) in
        if target = None then (SPW_ERR_RESOURCE_EXHAUSTED, m)
        else let l = the target; (ok, m) = initialize_link_sync l m in
          if \<not> ok then (SPW_ERR_BACKEND, m)
          else let m = (if \<not> vl_allocated (registry m ! l)
                      then put_link l ((registry m ! l)\<lparr>vl_allocated := True, vl_link_id := sb_link_id backend,
                             vl_endpoints := [reset_endpoint, reset_endpoint]\<rparr>) m
                      else m);
                 e = sb_endpoint_index backend in
            if ep_attached (endpoint l e m) then (SPW_ERR_RESOURCE_EXHAUSTED, m)
            else let m = put_endpoint l e (reset_endpoint\<lparr>ep_attached := True\<rparr>) m;
                   m = put_sim ctx (backend\<lparr>sb_link := Some l\<rparr>) m
              in (SPW_OK, refresh_link_states l m))"

definition detach_backend :: "addr \<Rightarrow> simulator memory \<Rightarrow> simulator memory" where
  "detach_backend ctx m =
     (let backend = the_sim ctx m in
      if sb_link backend = None then m
      else let l = the (sb_link backend); e = sb_endpoint_index backend;
             m = host_mutex_lock (host_mutex_lock m);
             m = put_endpoint l e reset_endpoint m;
             peer = endpoint l (1 - e) m;
             m = (if ep_attached peer \<and> ep_started peer
                  then put_endpoint l (1 - e) (peer\<lparr>ep_state := SPW_LINK_CONNECTING,
                         ep_statistics := (ep_statistics peer)
                           \<lparr>link_errors := link_errors (ep_statistics peer) + 1\<rparr>\<rparr>) m
                  else m);
             m = (if \<not> ep_attached (endpoint l 0 m) \<and> \<not> ep_attached (endpoint l 1 m)
                  then put_link l ((registry m ! l)\<lparr>vl_allocated := False, vl_link_id := 0,
                         vl_endpoints := [reset_endpoint, reset_endpoint]\<rparr>) m
                  else m)
        in put_sim ctx ((the_sim ctx m)\<lparr>sb_link := None\<rparr>) m)"

text \<open>The storage of a descriptor stays where it is: \<open>buf_data\<close> keeps its bytes.\<close>

definition free_descriptor :: "addr \<Rightarrow> u8 \<Rightarrow> u64 \<Rightarrow> spw_buffer \<Rightarrow> spw_buffer" where
  "free_descriptor ctx direction token old =
     \<lparr>buf_data = buf_data old, buf_length = 0, buf_capacity = SPW_SLOT_SIZE,
      buf_terminator = SPW_TERMINATOR_EOP, buf_owner = Some ctx, buf_direction = direction,
      buf_state = SPW_BUFFER_STATE_FREE, buf_token = token, buf_owner_epoch = None, buf_epoch = 0\<rparr>"

fun initialize_tx_buffers :: "addr \<Rightarrow> nat \<Rightarrow> simulator memory \<Rightarrow> simulator memory" where
  "initialize_tx_buffers ctx 0 m = m"
| "initialize_tx_buffers ctx (Suc i) m =
     (let m = initialize_tx_buffers ctx i m; b = tx_buffer_addr ctx i
      in put_buffer b (free_descriptor ctx SPW_BUFFER_DIRECTION_TX (of_nat i) (the_buffer b m)) m)"

definition initialize_zero_copy_buffers :: "addr \<Rightarrow> simulator memory \<Rightarrow> simulator memory" where
  "initialize_zero_copy_buffers ctx m =
     (let m = initialize_tx_buffers ctx SPW_QUEUE_DEPTH m; b = rx_buffer_addr ctx;
          m = put_buffer b (free_descriptor ctx SPW_BUFFER_DIRECTION_RX 0 (the_buffer b m)) m
      in put_sim ctx ((the_sim ctx m)\<lparr>sb_rx_buffer_acquired := False\<rparr>) m)"

text \<open>\<open>memset\<close> of the structure.\<close>

definition zero_backend_memory :: "addr \<Rightarrow> simulator memory \<Rightarrow> simulator memory" where
  "zero_backend_memory ctx m =
     fold (\<lambda>b. put_buffer b zero_descriptor)
       (rx_buffer_addr ctx # List.map (tx_buffer_addr ctx) [0..<SPW_QUEUE_DEPTH])
       (put_sim ctx zero_backend m)"

definition simulator_construct ::
    "addr \<Rightarrow> 'd spw_port_config \<Rightarrow> simulator memory \<Rightarrow> spw_result \<times> simulator memory" where
  "simulator_construct ctx config m =
     (let sim = as_simulator (the (pc_backend_config config));
          m = zero_backend_memory ctx m;
          m = put_sim ctx ((the_sim ctx m)\<lparr>sb_link_id := sim_link_id sim,
                sb_endpoint_index := (if sim_endpoint sim = SPW_SIMULATOR_ENDPOINT_B then 1 else 0)\<rparr>) m;
          (ok, m) = host_init m in
      if \<not> ok then (SPW_ERR_BACKEND, m)
      else let (ok, m) = host_init m in
        if \<not> ok then (SPW_ERR_BACKEND, m)
        else let m = put_sim ctx ((the_sim ctx m)\<lparr>sb_zero_copy_sync_initialized := True\<rparr>) m;
               m = initialize_zero_copy_buffers ctx m;
               (result, m) = attach_backend ctx m;
               m = (if result \<noteq> SPW_OK
                    then put_sim ctx ((the_sim ctx m)\<lparr>sb_zero_copy_sync_initialized := False\<rparr>) m else m)
          in (result, m))"

definition simulator_destroy :: "addr \<Rightarrow> simulator memory \<Rightarrow> simulator memory" where
  "simulator_destroy ctx m =
     (let m = detach_backend ctx m
      in if sb_zero_copy_sync_initialized (the_sim ctx m)
         then put_sim ctx ((the_sim ctx m)\<lparr>sb_zero_copy_sync_initialized := False\<rparr>) m else m)"

section \<open>Link control\<close>

definition simulator_start :: "addr \<Rightarrow> simulator memory \<Rightarrow> spw_result \<times> simulator memory" where
  "simulator_start ctx m =
     (let backend = the_sim ctx m in
      if sb_link backend = None then (SPW_ERR_INVALID_STATE, m)
      else let l = the (sb_link backend); e = sb_endpoint_index backend;
             m = host_mutex_lock m; local = endpoint l e m in
        if \<not> ep_attached local then (SPW_ERR_LINK_UNAVAILABLE, m)
        else let m = put_endpoint l e (local\<lparr>ep_started := True, ep_state := SPW_LINK_CONNECTING\<rparr>) m
          in (SPW_OK, refresh_link_states l m))"

definition simulator_stop :: "addr \<Rightarrow> simulator memory \<Rightarrow> spw_result \<times> simulator memory" where
  "simulator_stop ctx m =
     (let backend = the_sim ctx m in
      if sb_link backend = None then (SPW_ERR_INVALID_STATE, m)
      else let l = the (sb_link backend); e = sb_endpoint_index backend;
             m = host_mutex_lock m; local = endpoint l e m; peer = endpoint l (1 - e) m in
        if \<not> ep_attached local then (SPW_ERR_LINK_UNAVAILABLE, m)
        else let m = put_endpoint l e (local\<lparr>ep_started := False, ep_state := SPW_LINK_READY\<rparr>) m;
               m = (if ep_attached peer \<and> ep_started peer
                    then put_endpoint l (1 - e) (peer\<lparr>ep_state := SPW_LINK_CONNECTING\<rparr>) m else m)
          in (SPW_OK, m))"

definition simulator_reset :: "addr \<Rightarrow> simulator memory \<Rightarrow> spw_result \<times> simulator memory" where
  "simulator_reset ctx m =
     (let backend = the_sim ctx m in
      if sb_link backend = None then (SPW_ERR_INVALID_STATE, m)
      else let l = the (sb_link backend); e = sb_endpoint_index backend;
             m = host_mutex_lock m; local = endpoint l e m; peer = endpoint l (1 - e) m in
        if \<not> ep_attached local then (SPW_ERR_LINK_UNAVAILABLE, m)
        else let m = put_endpoint l e (clear_receive_queues
                   (local\<lparr>ep_started := False, ep_state := SPW_LINK_ERROR_RESET\<rparr>)) m;
               m = (if ep_attached peer \<and> ep_started peer
                    then put_endpoint l (1 - e) (peer\<lparr>ep_state := SPW_LINK_CONNECTING,
                           ep_statistics := (ep_statistics peer)
                             \<lparr>link_errors := link_errors (ep_statistics peer) + 1\<rparr>\<rparr>) m
                    else m);
               m = host_mutex_lock m
          in (SPW_OK, initialize_zero_copy_buffers ctx m))"

definition simulator_get_link_state ::
    "addr \<Rightarrow> u8 \<Rightarrow> simulator memory \<Rightarrow> spw_result \<times> u8 \<times> simulator memory" where
  "simulator_get_link_state ctx out_state m =
     (let backend = the_sim ctx m in
      if sb_link backend = None then (SPW_ERR_INVALID_STATE, out_state, m)
      else let m = host_mutex_lock m; local = endpoint (the (sb_link backend)) (sb_endpoint_index backend) m in
        if \<not> ep_attached local then (SPW_ERR_LINK_UNAVAILABLE, out_state, m)
        else (SPW_OK, ep_state local, m))"

definition simulator_get_capabilities ::
    "addr \<Rightarrow> spw_capabilities \<Rightarrow> simulator memory \<Rightarrow> spw_result \<times> spw_capabilities \<times> simulator memory" where
  "simulator_get_capabilities ctx out_capabilities m =
     (SPW_OK, out_capabilities
        \<lparr>cap_bits := SPW_CAP_EEP OR SPW_CAP_TIME_CODE OR SPW_CAP_LINK_CONTROL OR SPW_CAP_STATISTICS,
         cap_max_packet_size := SPW_SLOT_SIZE, cap_tx_queue_depth := SPW_QUEUE_DEPTH,
         cap_rx_queue_depth := SPW_QUEUE_DEPTH, cap_buffer_alignment := 16\<rparr>, m)"

definition simulator_supports_zero_copy :: "addr \<Rightarrow> simulator memory \<Rightarrow> bool" where
  "simulator_supports_zero_copy ctx m \<longleftrightarrow> True"

section \<open>Copied packets and time codes\<close>

definition packet_space_ready :: "nat \<Rightarrow> nat \<Rightarrow> simulator memory \<Rightarrow> bool" where
  "packet_space_ready l e m \<longleftrightarrow>
     \<not> ep_started (endpoint l e m) \<or> \<not> peer_available (endpoint l (1 - e) m) \<or>
     rb_count (ep_packets (endpoint l (1 - e) m)) < SPW_QUEUE_DEPTH"

definition time_code_space_ready :: "nat \<Rightarrow> nat \<Rightarrow> simulator memory \<Rightarrow> bool" where
  "time_code_space_ready l e m \<longleftrightarrow>
     \<not> ep_started (endpoint l e m) \<or> \<not> peer_available (endpoint l (1 - e) m) \<or>
     rb_count (ep_time_codes (endpoint l (1 - e) m)) < SPW_QUEUE_DEPTH"

definition packet_receive_ready :: "nat \<Rightarrow> nat \<Rightarrow> simulator memory \<Rightarrow> bool" where
  "packet_receive_ready l e m \<longleftrightarrow>
     rb_count (ep_packets (endpoint l e m)) > 0 \<or> \<not> ep_started (endpoint l e m) \<or>
     \<not> peer_available (endpoint l (1 - e) m)"

definition time_code_receive_ready :: "nat \<Rightarrow> nat \<Rightarrow> simulator memory \<Rightarrow> bool" where
  "time_code_receive_ready l e m \<longleftrightarrow>
     rb_count (ep_time_codes (endpoint l e m)) > 0 \<or> \<not> ep_started (endpoint l e m) \<or>
     \<not> peer_available (endpoint l (1 - e) m)"

text \<open>The last part of a send, under the mutex: the packet goes to the peer's queue.\<close>

definition enqueue_at_peer :: "nat \<Rightarrow> nat \<Rightarrow> spw_packet \<Rightarrow> simulator memory \<Rightarrow> simulator memory" where
  "enqueue_at_peer l e packet m =
     (let peer = endpoint l (1 - e) m;
          m = put_endpoint l (1 - e) (peer\<lparr>ep_packets := enqueue_packet packet (ep_packets peer)\<rparr>) m;
          local = endpoint l e m; st = ep_statistics local;
          st = st\<lparr>tx_packets := tx_packets st + 1, tx_bytes := tx_bytes st + of_nat (pk_length packet)\<rparr>;
          st = (if pk_terminator packet = SPW_TERMINATOR_EEP
                then st\<lparr>eep_packets := eep_packets st + 1\<rparr> else st)
      in put_endpoint l e (local\<lparr>ep_statistics := st\<rparr>) m)"

definition simulator_send ::
    "addr \<Rightarrow> spw_packet \<Rightarrow> u64 \<Rightarrow> simulator memory \<Rightarrow> spw_result \<times> simulator memory" where
  "simulator_send ctx packet timeout_us m =
     (let backend = the_sim ctx m; l = the (sb_link backend); e = sb_endpoint_index backend in
      if sb_link backend = None then (SPW_ERR_INVALID_STATE, m)
      else if \<not> valid_terminator (pk_terminator packet) \<or> pk_length packet > SPW_SLOT_SIZE
      then (SPW_ERR_INVALID_PACKET, m)
      else if pk_length packet > 0 \<and> pk_data packet = None then (SPW_ERR_INVALID_ARGUMENT, m)
      else if pk_capacity packet \<noteq> 0 \<and> pk_capacity packet < pk_length packet
      then (SPW_ERR_INVALID_PACKET, m)
      else let m = host_mutex_lock m in
        if \<not> ep_attached (endpoint l e m) \<or> \<not> ep_started (endpoint l e m) then (SPW_ERR_INVALID_STATE, m)
        else if \<not> peer_available (endpoint l (1 - e) m) then (SPW_ERR_LINK_UNAVAILABLE, m)
        else let (ready, m) = wait_condition timeout_us (packet_space_ready l e) m in
          if \<not> ready
          then (if timeout_us = SPW_TIMEOUT_IMMEDIATE then SPW_ERR_RESOURCE_EXHAUSTED else SPW_ERR_TIMEOUT, m)
          else if \<not> ep_started (endpoint l e m) then (SPW_ERR_INVALID_STATE, m)
          else if \<not> peer_available (endpoint l (1 - e) m) then (SPW_ERR_LINK_UNAVAILABLE, m)
          else if rb_count (ep_packets (endpoint l (1 - e) m)) = SPW_QUEUE_DEPTH then (SPW_ERR_TIMEOUT, m)
          else (SPW_OK, enqueue_at_peer l e packet m))"

definition simulator_receive ::
    "addr \<Rightarrow> spw_packet \<Rightarrow> u64 \<Rightarrow> simulator memory \<Rightarrow> spw_result \<times> spw_packet \<times> simulator memory" where
  "simulator_receive ctx packet timeout_us m =
     (let backend = the_sim ctx m; l = the (sb_link backend); e = sb_endpoint_index backend in
      if sb_link backend = None then (SPW_ERR_INVALID_STATE, packet, m)
      else let m = host_mutex_lock m in
        if \<not> ep_attached (endpoint l e m) \<or> \<not> ep_started (endpoint l e m)
        then (SPW_ERR_INVALID_STATE, packet, m)
        else let (ready, m) = wait_condition timeout_us (packet_receive_ready l e) m;
               local = endpoint l e m in
          if \<not> ready then (SPW_ERR_TIMEOUT, packet, m)
          else if \<not> ep_started local then (SPW_ERR_INVALID_STATE, packet, m)
          else if rb_count (ep_packets local) = 0
          then (if \<not> peer_available (endpoint l (1 - e) m) then SPW_ERR_LINK_UNAVAILABLE
                else SPW_ERR_TIMEOUT, packet, m)
          else let slot = ring_front (ep_packets local); (result, packet) = deliver_slot slot packet in
            if result \<noteq> SPW_OK then (result, packet, m)
            else let st = ep_statistics local;
                   st = st\<lparr>rx_packets := rx_packets st + 1,
                           rx_bytes := rx_bytes st + of_nat (ps_length slot)\<rparr>
              in (SPW_OK, packet, put_endpoint l e
                   (local\<lparr>ep_packets := ring_drop SPW_QUEUE_DEPTH (ep_packets local),
                          ep_statistics := st\<rparr>) m))"

definition simulator_send_time_code ::
    "addr \<Rightarrow> spw_time_code \<Rightarrow> u64 \<Rightarrow> simulator memory \<Rightarrow> spw_result \<times> simulator memory" where
  "simulator_send_time_code ctx time_code timeout_us m =
     (let backend = the_sim ctx m; l = the (sb_link backend); e = sb_endpoint_index backend in
      if sb_link backend = None then (SPW_ERR_INVALID_STATE, m)
      else if \<not> valid_time_code (Some time_code) then (SPW_ERR_INVALID_ARGUMENT, m)
      else let m = host_mutex_lock m in
        if \<not> ep_attached (endpoint l e m) \<or> \<not> ep_started (endpoint l e m) then (SPW_ERR_INVALID_STATE, m)
        else if \<not> peer_available (endpoint l (1 - e) m) then (SPW_ERR_LINK_UNAVAILABLE, m)
        else let (ready, m) = wait_condition timeout_us (time_code_space_ready l e) m in
          if \<not> ready
          then (if timeout_us = SPW_TIMEOUT_IMMEDIATE then SPW_ERR_RESOURCE_EXHAUSTED else SPW_ERR_TIMEOUT, m)
          else if \<not> ep_started (endpoint l e m) then (SPW_ERR_INVALID_STATE, m)
          else if \<not> peer_available (endpoint l (1 - e) m) then (SPW_ERR_LINK_UNAVAILABLE, m)
          else let peer = endpoint l (1 - e) m;
                 m = put_endpoint l (1 - e)
                   (peer\<lparr>ep_time_codes := enqueue_time_code time_code (ep_time_codes peer)\<rparr>) m;
                 local = endpoint l e m; st = ep_statistics local
            in (SPW_OK, put_endpoint l e
                 (local\<lparr>ep_statistics := st\<lparr>tx_time_codes := tx_time_codes st + 1\<rparr>\<rparr>) m))"

definition simulator_receive_time_code ::
    "addr \<Rightarrow> spw_time_code \<Rightarrow> u64 \<Rightarrow> simulator memory \<Rightarrow> spw_result \<times> spw_time_code \<times> simulator memory" where
  "simulator_receive_time_code ctx time_code timeout_us m =
     (let backend = the_sim ctx m; l = the (sb_link backend); e = sb_endpoint_index backend in
      if sb_link backend = None then (SPW_ERR_INVALID_STATE, time_code, m)
      else let m = host_mutex_lock m in
        if \<not> ep_attached (endpoint l e m) \<or> \<not> ep_started (endpoint l e m)
        then (SPW_ERR_INVALID_STATE, time_code, m)
        else let (ready, m) = wait_condition timeout_us (time_code_receive_ready l e) m;
               local = endpoint l e m in
          if \<not> ready then (SPW_ERR_TIMEOUT, time_code, m)
          else if \<not> ep_started local then (SPW_ERR_INVALID_STATE, time_code, m)
          else if rb_count (ep_time_codes local) = 0
          then (if \<not> peer_available (endpoint l (1 - e) m) then SPW_ERR_LINK_UNAVAILABLE
                else SPW_ERR_TIMEOUT, time_code, m)
          else let st = ep_statistics local
            in (SPW_OK, ring_front (ep_time_codes local), put_endpoint l e
                 (local\<lparr>ep_time_codes := ring_drop SPW_QUEUE_DEPTH (ep_time_codes local),
                        ep_statistics := st\<lparr>rx_time_codes := rx_time_codes st + 1\<rparr>\<rparr>) m))"

definition simulator_get_statistics ::
    "addr \<Rightarrow> spw_statistics \<Rightarrow> simulator memory \<Rightarrow> spw_result \<times> spw_statistics \<times> simulator memory" where
  "simulator_get_statistics ctx out_statistics m =
     (let backend = the_sim ctx m in
      if sb_link backend = None then (SPW_ERR_INVALID_STATE, out_statistics, m)
      else let m = host_mutex_lock m; local = endpoint (the (sb_link backend)) (sb_endpoint_index backend) m in
        if \<not> ep_attached local then (SPW_ERR_LINK_UNAVAILABLE, out_statistics, m)
        else (SPW_OK, ep_statistics local, m))"

definition simulator_clear_statistics :: "addr \<Rightarrow> simulator memory \<Rightarrow> spw_result \<times> simulator memory" where
  "simulator_clear_statistics ctx m =
     (let backend = the_sim ctx m; l = the (sb_link backend); e = sb_endpoint_index backend in
      if sb_link backend = None then (SPW_ERR_INVALID_STATE, m)
      else let m = host_mutex_lock m in
        if \<not> ep_attached (endpoint l e m) then (SPW_ERR_LINK_UNAVAILABLE, m)
        else (SPW_OK, put_endpoint l e ((endpoint l e m)\<lparr>ep_statistics := zero_statistics\<rparr>) m))"

section \<open>Zero-copy buffers\<close>

fun find_tx_buffer :: "u8 \<Rightarrow> addr \<Rightarrow> nat list \<Rightarrow> simulator memory \<Rightarrow> addr option" where
  "find_tx_buffer state ctx [] m = None"
| "find_tx_buffer state ctx (i # is) m =
     (if buf_state (the_buffer (tx_buffer_addr ctx i) m) = state then Some (tx_buffer_addr ctx i)
      else find_tx_buffer state ctx is m)"

definition find_free_tx_buffer :: "addr \<Rightarrow> simulator memory \<Rightarrow> addr option" where
  "find_free_tx_buffer ctx m = find_tx_buffer SPW_BUFFER_STATE_FREE ctx [0..<SPW_QUEUE_DEPTH] m"

definition find_completed_tx_buffer :: "addr \<Rightarrow> simulator memory \<Rightarrow> addr option" where
  "find_completed_tx_buffer ctx m = find_tx_buffer SPW_BUFFER_STATE_COMPLETED ctx [0..<SPW_QUEUE_DEPTH] m"

definition free_tx_buffer_ready :: "addr \<Rightarrow> simulator memory \<Rightarrow> bool" where
  "free_tx_buffer_ready ctx m \<longleftrightarrow> find_free_tx_buffer ctx m \<noteq> None"

definition completed_tx_buffer_ready :: "addr \<Rightarrow> simulator memory \<Rightarrow> bool" where
  "completed_tx_buffer_ready ctx m \<longleftrightarrow> find_completed_tx_buffer ctx m \<noteq> None"

definition rx_buffer_ready :: "addr \<Rightarrow> simulator memory \<Rightarrow> bool" where
  "rx_buffer_ready ctx m \<longleftrightarrow> \<not> sb_rx_buffer_acquired (the_sim ctx m)"

definition simulator_acquire_tx_buffer ::
    "addr \<Rightarrow> nat \<Rightarrow> u64 \<Rightarrow> addr option \<Rightarrow> simulator memory \<Rightarrow> spw_result \<times> addr option \<times> simulator memory" where
  "simulator_acquire_tx_buffer ctx min_capacity timeout_us out_buffer m =
     (if min_capacity > SPW_SLOT_SIZE then (SPW_ERR_BUFFER_TOO_SMALL, None, m)
      else let m = host_mutex_lock m;
             (ready, m) = (if find_free_tx_buffer ctx m = None
               then wait_condition timeout_us (free_tx_buffer_ready ctx) m else (True, m)) in
        if \<not> ready
        then (if timeout_us = SPW_TIMEOUT_IMMEDIATE then SPW_ERR_RESOURCE_EXHAUSTED else SPW_ERR_TIMEOUT,
              None, m)
        else (case find_free_tx_buffer ctx m of
            None \<Rightarrow> (SPW_ERR_RESOURCE_EXHAUSTED, None, m)
          | Some b \<Rightarrow> (SPW_OK, Some b, put_buffer b ((the_buffer b m)\<lparr>buf_length := 0,
                buf_terminator := SPW_TERMINATOR_EOP, buf_state := SPW_BUFFER_STATE_APPLICATION\<rparr>) m)))"

definition simulator_submit_tx_buffer ::
    "addr \<Rightarrow> addr \<Rightarrow> u64 \<Rightarrow> simulator memory \<Rightarrow> spw_result \<times> simulator memory" where
  "simulator_submit_tx_buffer ctx b timeout_us m =
     (let m = host_mutex_lock m; buffer = the_buffer b m in
      if buf_owner buffer \<noteq> Some ctx \<or> buf_direction buffer \<noteq> SPW_BUFFER_DIRECTION_TX \<or>
         buf_state buffer \<noteq> SPW_BUFFER_STATE_APPLICATION
      then (SPW_ERR_INVALID_STATE, m)
      else if buf_length buffer > buf_capacity buffer \<or> buf_length buffer > SPW_SLOT_SIZE \<or>
         \<not> valid_terminator (buf_terminator buffer)
      then (SPW_ERR_INVALID_PACKET, m)
      else let m = put_buffer b (buffer\<lparr>buf_state := SPW_BUFFER_STATE_BACKEND\<rparr>) m;
             packet = \<lparr>pk_data = buf_data buffer, pk_length = buf_length buffer,
                       pk_capacity = buf_capacity buffer, pk_terminator = buf_terminator buffer\<rparr>;
             (result, m) = simulator_send ctx packet timeout_us m;
             m = host_mutex_lock m
        in (result, put_buffer b ((the_buffer b m)\<lparr>buf_state :=
              (if result = SPW_OK then SPW_BUFFER_STATE_COMPLETED else SPW_BUFFER_STATE_APPLICATION)\<rparr>) m))"

definition simulator_reclaim_tx_buffer ::
    "addr \<Rightarrow> u64 \<Rightarrow> addr option \<Rightarrow> simulator memory \<Rightarrow> spw_result \<times> addr option \<times> simulator memory" where
  "simulator_reclaim_tx_buffer ctx timeout_us out_buffer m =
     (let m = host_mutex_lock m;
          (ready, m) = (if find_completed_tx_buffer ctx m = None
            then wait_condition timeout_us (completed_tx_buffer_ready ctx) m else (True, m)) in
      if \<not> ready then (SPW_ERR_TIMEOUT, None, m)
      else (case find_completed_tx_buffer ctx m of
          None \<Rightarrow> (SPW_ERR_TIMEOUT, None, m)
        | Some b \<Rightarrow> (SPW_OK, Some b,
            put_buffer b ((the_buffer b m)\<lparr>buf_state := SPW_BUFFER_STATE_APPLICATION\<rparr>) m)))"

definition freed :: "spw_buffer \<Rightarrow> spw_buffer" where
  "freed buffer = buffer\<lparr>buf_length := 0, buf_terminator := SPW_TERMINATOR_EOP,
     buf_state := SPW_BUFFER_STATE_FREE\<rparr>"

definition simulator_release_tx_buffer ::
    "addr \<Rightarrow> addr \<Rightarrow> simulator memory \<Rightarrow> spw_result \<times> simulator memory" where
  "simulator_release_tx_buffer ctx b m =
     (let m = host_mutex_lock m; buffer = the_buffer b m in
      if buf_owner buffer \<noteq> Some ctx \<or> buf_direction buffer \<noteq> SPW_BUFFER_DIRECTION_TX \<or>
         buf_state buffer \<noteq> SPW_BUFFER_STATE_APPLICATION
      then (SPW_ERR_INVALID_STATE, m)
      else (SPW_OK, put_buffer b (freed buffer) m))"

definition simulator_acquire_rx_buffer ::
    "addr \<Rightarrow> u64 \<Rightarrow> addr option \<Rightarrow> simulator memory \<Rightarrow> spw_result \<times> addr option \<times> simulator memory" where
  "simulator_acquire_rx_buffer ctx timeout_us out_buffer m =
     (let m = host_mutex_lock m;
          (available, m) = wait_condition timeout_us (rx_buffer_ready ctx) m in
      if \<not> available
      then (if timeout_us = SPW_TIMEOUT_IMMEDIATE then SPW_ERR_RESOURCE_EXHAUSTED else SPW_ERR_TIMEOUT,
            None, m)
      else let b = rx_buffer_addr ctx;
             m = put_sim ctx ((the_sim ctx m)\<lparr>sb_rx_buffer_acquired := True\<rparr>) m;
             m = put_buffer b ((the_buffer b m)\<lparr>buf_state := SPW_BUFFER_STATE_BACKEND\<rparr>) m;
             packet = \<lparr>pk_data = buf_data (the_buffer b m), pk_length = 0, pk_capacity = SPW_SLOT_SIZE,
                       pk_terminator = SPW_TERMINATOR_EOP\<rparr>;
             (result, packet, m) = simulator_receive ctx packet timeout_us m;
             m = host_mutex_lock m in
        if result \<noteq> SPW_OK
        then (result, None, put_sim ctx ((the_sim ctx m)\<lparr>sb_rx_buffer_acquired := False\<rparr>)
               (put_buffer b ((the_buffer b m)\<lparr>buf_state := SPW_BUFFER_STATE_FREE\<rparr>) m))
        else (SPW_OK, Some b, put_buffer b ((the_buffer b m)\<lparr>buf_data := pk_data packet,
               buf_length := pk_length packet, buf_terminator := pk_terminator packet,
               buf_state := SPW_BUFFER_STATE_APPLICATION\<rparr>) m))"

definition simulator_release_rx_buffer ::
    "addr \<Rightarrow> addr \<Rightarrow> simulator memory \<Rightarrow> spw_result \<times> simulator memory" where
  "simulator_release_rx_buffer ctx b m =
     (let m = host_mutex_lock m; buffer = the_buffer b m in
      if b \<noteq> rx_buffer_addr ctx \<or> buf_owner buffer \<noteq> Some ctx \<or>
         buf_direction buffer \<noteq> SPW_BUFFER_DIRECTION_RX \<or>
         buf_state buffer \<noteq> SPW_BUFFER_STATE_APPLICATION \<or> \<not> sb_rx_buffer_acquired (the_sim ctx m)
      then (SPW_ERR_INVALID_STATE, m)
      else (SPW_OK, put_sim ctx ((the_sim ctx m)\<lparr>sb_rx_buffer_acquired := False\<rparr>)
              (put_buffer b (freed buffer) m)))"

definition SIMULATOR_OPS :: "simulator spw_backend_ops" where
  "SIMULATOR_OPS = \<lparr>op_start = simulator_start, op_stop = simulator_stop, op_reset = simulator_reset,
     op_get_link_state = simulator_get_link_state, op_get_capabilities = simulator_get_capabilities,
     op_supports_zero_copy = Some simulator_supports_zero_copy, op_send = simulator_send,
     op_receive = simulator_receive, op_send_time_code = simulator_send_time_code,
     op_receive_time_code = simulator_receive_time_code, op_get_statistics = simulator_get_statistics,
     op_clear_statistics = simulator_clear_statistics, op_get_fault_statistics = None,
     op_clear_fault_statistics = None, op_acquire_tx_buffer = Some simulator_acquire_tx_buffer,
     op_submit_tx_buffer = Some simulator_submit_tx_buffer,
     op_reclaim_tx_buffer = Some simulator_reclaim_tx_buffer,
     op_release_tx_buffer = Some simulator_release_tx_buffer,
     op_acquire_rx_buffer = Some simulator_acquire_rx_buffer,
     op_release_rx_buffer = Some simulator_release_rx_buffer, op_wait = None\<rparr>"

definition SIMULATOR_FACTORY :: "(simulator, 'd) spw_backend_factory" where
  "SIMULATOR_FACTORY = \<lparr>context_size = 37712, context_alignment = 16, f_construct = Some simulator_construct,
     f_destroy = Some simulator_destroy, f_ops = Some SIMULATOR_OPS, context_size_for_config = None\<rparr>"

definition spw_simulator_backend_factory :: "(simulator, 'd) spw_backend_factory" where
  "spw_simulator_backend_factory = SIMULATOR_FACTORY"

lemmas simulator_defs = simulator_start_def simulator_stop_def simulator_reset_def
  simulator_get_link_state_def simulator_get_capabilities_def simulator_send_def simulator_receive_def
  simulator_send_time_code_def simulator_receive_time_code_def simulator_get_statistics_def
  simulator_clear_statistics_def simulator_acquire_tx_buffer_def simulator_submit_tx_buffer_def
  simulator_reclaim_tx_buffer_def simulator_release_tx_buffer_def simulator_acquire_rx_buffer_def
  simulator_release_rx_buffer_def

end
