(* ===== verification/Simulator_Inv.thy ===== *)
theory Simulator_Inv
  imports Simulator
begin

text \<open>
  What the simulator keeps: the links of the registry, the states of their endpoints and the
  ownership fields of buffers. Facts about an operation are stated for every behaviour of the host:
  the other threads are only assumed to keep the same invariant (\<open>calm\<close>).
\<close>

section \<open>The host keeps what the other threads keep\<close>

definition seen :: "simulator memory \<Rightarrow> sim_shared memory" where
  "seen m = \<lparr>m_buffers = m_buffers m, m_backend = sm_shared (m_backend m)\<rparr>"

text \<open>Every effect of another thread that is still to come satisfies \<open>R\<close>.\<close>

definition threads :: "(interference \<Rightarrow> bool) \<Rightarrow> simulator memory \<Rightarrow> bool" where
  "threads R m \<longleftrightarrow> (\<forall>f \<in> set (sm_gaps (m_backend m)). R f) \<and> (\<forall>w \<in> set (sm_wakeups (m_backend m)). R (snd w))"

definition holds :: "(interference \<Rightarrow> bool) \<Rightarrow> (sim_shared memory \<Rightarrow> bool) \<Rightarrow> simulator memory \<Rightarrow> bool" where
  "holds R P m \<longleftrightarrow> P (seen m) \<and> threads R m"

lemma seen_interfere: "seen (interfere f m) = f (seen m)"
  by (rule memory.equality) (simp_all add: seen_def interfere_def Let_def)

lemma schedule_interfere [simp]:
  "sm_gaps (m_backend (interfere f m)) = sm_gaps (m_backend m)"
  by (simp add: interfere_def Let_def)

lemma seen_schedule [simp]:
  "seen (m\<lparr>m_backend := (m_backend m)\<lparr>sm_gaps := gs\<rparr>\<rparr>) = seen m"
  "seen (m\<lparr>m_backend := (m_backend m)\<lparr>sm_wakeups := ws\<rparr>\<rparr>) = seen m"
  "seen (m\<lparr>m_backend := (m_backend m)\<lparr>sm_clock := ts\<rparr>\<rparr>) = seen m"
  "seen (m\<lparr>m_backend := (m_backend m)\<lparr>sm_inits := bs\<rparr>\<rparr>) = seen m"
  by (simp_all add: seen_def)

text \<open>
  The contract with the other threads: each of their effects satisfies the rely condition \<open>R\<close>, and
  what satisfies \<open>R\<close> keeps \<open>P\<close>. Then every point at which the mutex is given up keeps \<open>P\<close>.
\<close>

locale rely =
  fixes R :: "interference \<Rightarrow> bool" and P :: "sim_shared memory \<Rightarrow> bool"
  assumes closed: "R f \<Longrightarrow> P s \<Longrightarrow> P (f s)"
begin

lemma lock: "holds R P m \<Longrightarrow> holds R P (host_mutex_lock m)"
  by (simp add: host_mutex_lock_def holds_def threads_def seen_interfere closed split: list.splits)

lemma schedule:
  "holds R P m \<Longrightarrow> holds R P (m\<lparr>m_backend := (m_backend m)\<lparr>sm_clock := ts\<rparr>\<rparr>)"
  "holds R P m \<Longrightarrow> holds R P (m\<lparr>m_backend := (m_backend m)\<lparr>sm_inits := bs\<rparr>\<rparr>)"
  "holds R P m \<Longrightarrow> sm_wakeups (m_backend m) = w # ws \<Longrightarrow>
     holds R P (interfere (snd w) (m\<lparr>m_backend := (m_backend m)\<lparr>sm_wakeups := ws\<rparr>\<rparr>))"
  by (simp_all add: holds_def threads_def seen_interfere closed)

lemma cond_wait: "holds R P m \<Longrightarrow> host_condition_wait m = (b, m') \<Longrightarrow> holds R P m'"
  by (auto simp: host_condition_wait_def split: list.splits dest: schedule(3))

lemma now_us: "holds R P m \<Longrightarrow> host_now_us m = (t, m') \<Longrightarrow> holds R P m'"
  by (auto simp: host_now_us_def schedule split: list.splits)

lemma object_init: "holds R P m \<Longrightarrow> host_init m = (b, m') \<Longrightarrow> holds R P m'"
  by (auto simp: host_init_def schedule split: list.splits)

lemma wait_loop:
  "wait_loop t d ready m = (b, m') \<Longrightarrow> holds R P m \<Longrightarrow> holds R P m' \<and> (b \<longrightarrow> ready m')"
proof (induction t d ready m rule: wait_loop.induct)
  case (1 t d ready m)
  note IH = 1(1,2) and run = 1(3) [unfolded wait_loop.simps [of t d ready m]] and inv = 1(4)
  show ?case
  proof (cases "ready m \<or> t = SPW_TIMEOUT_INFINITE")
    case True
    obtain b1 m1 where wait: "host_condition_wait m = (b1, m1)" by fastforce
    with True show ?thesis
      using run inv IH(1) [OF _ _ wait [symmetric]] cond_wait [OF inv wait]
      by (auto split: if_splits bool.splits)
  next
    case False
    obtain now m1 where now: "host_now_us m = (now, m1)" by fastforce
    obtain b2 m2 where wait: "host_condition_wait m1 = (b2, m2)" by fastforce
    have "holds R P m1" "holds R P m2" using now_us [OF inv now] cond_wait [OF _ wait] by auto
    then show ?thesis
      using run False now wait IH(2) [OF _ _ now [symmetric] _ wait [symmetric]]
      by (auto split: if_splits bool.splits)
  qed
qed

lemma wait:
  assumes "wait_condition t ready m = (b, m')" and "holds R P m"
  shows "holds R P m'" and "b \<Longrightarrow> ready m'"
proof -
  have "holds R P m' \<and> (b \<longrightarrow> ready m')"
  proof (cases "ready m \<or> t = SPW_TIMEOUT_IMMEDIATE \<or> t = SPW_TIMEOUT_INFINITE")
    case True
    then show ?thesis
      using assms by (auto simp: wait_condition_def split: if_splits dest: wait_loop)
  next
    case False
    obtain now m1 where now: "host_now_us m = (now, m1)" by fastforce
    with False assms show ?thesis
      by (auto simp: wait_condition_def deadline_from_timeout_def dest!: wait_loop
          intro: now_us [OF _ now])
  qed
  then show "holds R P m'" "b \<Longrightarrow> ready m'" by auto
qed

end

section \<open>Ownership fields\<close>

text \<open>
  The simulator writes the ownership fields of a buffer only to clear them, whatever the host does
  and as long as the other threads do the same.
\<close>

definition binding_thread :: "interference \<Rightarrow> bool" where
  "binding_thread f \<longleftrightarrow> (\<forall>s. keeps_bindings s (f s))"

interpretation binding_rely: rely binding_thread "keeps_bindings s0" for s0
  by unfold_locales (auto simp: binding_thread_def intro: keeps_bindings_trans)

abbreviation bound_to :: "sim_shared memory \<Rightarrow> simulator memory \<Rightarrow> bool" where
  "bound_to s0 \<equiv> holds binding_thread (keeps_bindings s0)"

lemma bound_to_shared [simp]: "bound_to s0 (update_shared f m) = bound_to s0 m"
  by (simp add: holds_def threads_def seen_def update_shared_def keeps_bindings_def)

lemma bound_to_put [simp]:
  "bound_to s0 (put_sim c b m) = bound_to s0 m" "bound_to s0 (put_link l k m) = bound_to s0 m"
  "bound_to s0 (put_endpoint l e ep m) = bound_to s0 m"
  by (simp_all add: put_sim_def put_link_def put_endpoint_def)

lemma bound_to_buffer:
  assumes "bound_to s0 m" and "buf_owner_epoch nb = None \<or>
      buf_owner_epoch nb = buf_owner_epoch (the_buffer b m) \<and> buf_epoch nb = buf_epoch (the_buffer b m)"
  shows "bound_to s0 (put_buffer b nb m)"
proof -
  have "buf_owner_epoch nb = None \<or> (\<exists>nb0. m_buffers s0 b = Some nb0 \<and>
      buf_owner_epoch nb0 = buf_owner_epoch nb \<and> buf_epoch nb0 = buf_epoch nb)"
    using assms by (cases "m_buffers m b")
      (fastforce simp: holds_def seen_def keeps_bindings_def the_buffer_def zero_descriptor_def)+
  with assms(1) show ?thesis
    by (auto simp: holds_def threads_def seen_def put_buffer_def keeps_bindings_def)
qed

lemma bound_to_descriptors:
  "bound_to s0 m \<Longrightarrow> bound_to s0 (initialize_tx_buffers c n m)"
  by (induction n) (auto simp: Let_def free_descriptor_def intro!: bound_to_buffer)

lemma bound_to_zero_copy: "bound_to s0 m \<Longrightarrow> bound_to s0 (initialize_zero_copy_buffers c m)"
  by (auto simp: initialize_zero_copy_buffers_def Let_def free_descriptor_def
      intro!: bound_to_buffer bound_to_descriptors)

lemma bound_to_refresh: "bound_to s0 m \<Longrightarrow> bound_to s0 (refresh_link_states l m)"
  by (simp add: refresh_link_states_def Let_def)

lemma bound_to_send:
  assumes "bound_to s0 m"
  shows "bound_to s0 (snd (simulator_send c pk t m))"
proof -
  let ?l = "the (sb_link (the_sim c m))" and ?e = "sb_endpoint_index (the_sim c m)"
  obtain b m1 where wait: "wait_condition t (packet_space_ready ?l ?e) (host_mutex_lock m) = (b, m1)" by fastforce
  have "bound_to s0 (host_mutex_lock m)" "bound_to s0 m1"
    using binding_rely.lock [OF assms] binding_rely.wait(1) [OF wait] by auto
  with assms wait show ?thesis by (simp add: simulator_send_def enqueue_at_peer_def Let_def)
qed

lemma bound_to_receive:
  assumes "bound_to s0 m"
  shows "bound_to s0 (snd (snd (simulator_receive c pk t m)))"
proof -
  let ?l = "the (sb_link (the_sim c m))" and ?e = "sb_endpoint_index (the_sim c m)"
  obtain b m1 where wait: "wait_condition t (packet_receive_ready ?l ?e) (host_mutex_lock m) = (b, m1)" by fastforce
  have "bound_to s0 (host_mutex_lock m)" "bound_to s0 m1"
    using binding_rely.lock [OF assms] binding_rely.wait(1) [OF wait] by auto
  with assms wait show ?thesis by (simp add: simulator_receive_def Let_def split: prod.splits)
qed

lemma bound_to_time_codes:
  assumes "bound_to s0 m"
  shows "bound_to s0 (snd (simulator_send_time_code c tc t m))"
    and "bound_to s0 (snd (snd (simulator_receive_time_code c tc t m)))"
proof -
  let ?l = "the (sb_link (the_sim c m))" and ?e = "sb_endpoint_index (the_sim c m)"
  obtain b1 m1 where tx: "wait_condition t (time_code_space_ready ?l ?e) (host_mutex_lock m) = (b1, m1)" by fastforce
  obtain b2 m2 where rx: "wait_condition t (time_code_receive_ready ?l ?e) (host_mutex_lock m) = (b2, m2)" by fastforce
  have "bound_to s0 (host_mutex_lock m)" "bound_to s0 m1" "bound_to s0 m2"
    using binding_rely.lock [OF assms] binding_rely.wait(1) [OF tx] binding_rely.wait(1) [OF rx] by auto
  with assms tx rx show "bound_to s0 (snd (simulator_send_time_code c tc t m))"
      "bound_to s0 (snd (snd (simulator_receive_time_code c tc t m)))"
    by (simp_all add: simulator_send_time_code_def simulator_receive_time_code_def Let_def)
qed

lemma bound_to_control:
  assumes "bound_to s0 m"
  shows "bound_to s0 (snd (simulator_start c m))" and "bound_to s0 (snd (simulator_stop c m))"
    and "bound_to s0 (snd (simulator_reset c m))"
    and "bound_to s0 (snd (snd (simulator_get_link_state c st m)))"
    and "bound_to s0 (snd (snd (simulator_get_statistics c out m)))"
    and "bound_to s0 (snd (simulator_clear_statistics c m))"
    and "bound_to s0 (simulator_destroy c m)"
  using assms
  by (auto simp: simulator_defs simulator_destroy_def detach_backend_def Let_def
      intro!: bound_to_refresh bound_to_zero_copy binding_rely.lock)

lemma bound_to_acquire_tx: "bound_to s0 m \<Longrightarrow> bound_to s0 (snd (snd (simulator_acquire_tx_buffer c n t b m)))"
proof -
  assume "bound_to s0 m"
  then have lock: "bound_to s0 (host_mutex_lock m)" by (rule binding_rely.lock)
  obtain r m1 where wait: "wait_condition t (free_tx_buffer_ready c) (host_mutex_lock m) = (r, m1)" by fastforce
  have "bound_to s0 m1" by (rule binding_rely.wait(1) [OF wait lock])
  with \<open>bound_to s0 m\<close> lock wait show ?thesis
    by (auto simp: simulator_acquire_tx_buffer_def Let_def split: option.splits intro!: bound_to_buffer)
qed

lemma bound_to_reclaim_tx: "bound_to s0 m \<Longrightarrow> bound_to s0 (snd (snd (simulator_reclaim_tx_buffer c t b m)))"
proof -
  assume "bound_to s0 m"
  then have lock: "bound_to s0 (host_mutex_lock m)" by (rule binding_rely.lock)
  obtain r m1 where wait: "wait_condition t (completed_tx_buffer_ready c) (host_mutex_lock m) = (r, m1)" by fastforce
  have "bound_to s0 m1" by (rule binding_rely.wait(1) [OF wait lock])
  with lock wait show ?thesis
    by (auto simp: simulator_reclaim_tx_buffer_def Let_def split: option.splits intro!: bound_to_buffer)
qed

lemma bound_to_submit_tx:
  assumes "bound_to s0 m"
  shows "bound_to s0 (snd (simulator_submit_tx_buffer c b t m))"
proof -
  define m1 where "m1 = host_mutex_lock m"
  define m2 where "m2 = put_buffer b ((the_buffer b m1)\<lparr>buf_state := SPW_BUFFER_STATE_BACKEND\<rparr>) m1"
  define pk where "pk = \<lparr>pk_data = buf_data (the_buffer b m1), pk_length = buf_length (the_buffer b m1),
      pk_capacity = buf_capacity (the_buffer b m1), pk_terminator = buf_terminator (the_buffer b m1)\<rparr>"
  obtain r m3 where send: "simulator_send c pk t m2 = (r, m3)" by fastforce
  have "bound_to s0 m1" unfolding m1_def by (rule binding_rely.lock [OF assms])
  then have "bound_to s0 m2" unfolding m2_def by (rule bound_to_buffer) simp
  from bound_to_send [OF this, of c pk t] have "bound_to s0 (host_mutex_lock m3)"
    using send by (simp add: binding_rely.lock)
  with \<open>bound_to s0 m1\<close> send show ?thesis
    by (auto simp: simulator_submit_tx_buffer_def Let_def m1_def [symmetric] m2_def [symmetric] pk_def [symmetric]
        intro!: bound_to_buffer)
qed

lemma bound_to_acquire_rx:
  assumes "bound_to s0 m"
  shows "bound_to s0 (snd (snd (simulator_acquire_rx_buffer c t b m)))"
proof -
  let ?b = "rx_buffer_addr c"
  obtain ok m1 where wait: "wait_condition t (rx_buffer_ready c) (host_mutex_lock m) = (ok, m1)" by fastforce
  define m2 where "m2 = put_sim c ((the_sim c m1)\<lparr>sb_rx_buffer_acquired := True\<rparr>) m1"
  define m3 where "m3 = put_buffer ?b ((the_buffer ?b m2)\<lparr>buf_state := SPW_BUFFER_STATE_BACKEND\<rparr>) m2"
  define pk where "pk = \<lparr>pk_data = buf_data (the_buffer ?b m3), pk_length = 0, pk_capacity = SPW_SLOT_SIZE,
      pk_terminator = SPW_TERMINATOR_EOP\<rparr>"
  obtain r pk' m4 where recv: "simulator_receive c pk t m3 = (r, pk', m4)"
    by (cases "simulator_receive c pk t m3")
  have "bound_to s0 m1" by (rule binding_rely.wait(1) [OF wait binding_rely.lock [OF assms]])
  moreover have "bound_to s0 m3"
    unfolding m3_def by (rule bound_to_buffer) (use calculation in \<open>simp_all add: m2_def\<close>)
  then have "bound_to s0 (host_mutex_lock m4)"
    using bound_to_receive [of s0 m3 c pk t] recv by (simp add: binding_rely.lock)
  ultimately show ?thesis
    using wait recv
    by (auto simp: simulator_acquire_rx_buffer_def Let_def m2_def [symmetric] m3_def [symmetric] pk_def [symmetric]
        intro!: bound_to_buffer)
qed

lemma bound_to_release:
  assumes "bound_to s0 m"
  shows "bound_to s0 (snd (simulator_release_tx_buffer c b m))"
    and "bound_to s0 (snd (simulator_release_rx_buffer c b m))"
  using binding_rely.lock [OF assms]
  by (auto simp: simulator_release_tx_buffer_def simulator_release_rx_buffer_def freed_def Let_def
      intro!: bound_to_buffer)

lemma bound_to_step: "backend_step SIMULATOR_OPS m m' \<Longrightarrow> bound_to s0 m \<Longrightarrow> bound_to s0 m'"
  by (induction rule: backend_step.induct)
    (auto simp: SIMULATOR_OPS_def simulator_get_capabilities_def
      intro: bound_to_control bound_to_send bound_to_receive bound_to_time_codes bound_to_acquire_tx
        bound_to_submit_tx bound_to_reclaim_tx bound_to_release bound_to_acquire_rx)

lemma bound_to_seen: "threads binding_thread m \<Longrightarrow> bound_to (seen m) m"
  by (simp add: holds_def keeps_bindings_refl)

lemma bound_to_memory: "bound_to (seen m) m' \<Longrightarrow> keeps_bindings m m' \<and> threads binding_thread m'"
  by (simp add: holds_def keeps_bindings_def seen_def)

interpretation simulator_frame: binding_frame "{SIMULATOR_OPS}" "{simulator_destroy}" "threads binding_thread"
proof (unfold_locales, goal_cases)
  case (1 ops m m')
  then show ?case using bound_to_step bound_to_seen bound_to_memory by blast
next
  case (2 destroy m ctx)
  then show ?case using bound_to_control(7) bound_to_seen bound_to_memory by blast
next
  case (3 m bs)
  then show ?case by (simp add: threads_def)
qed

text \<open>
  Property C5: a reset revokes every zero-copy handle of the port it resets. Whatever calls follow on
  any simulator ports, and whatever the host and the other threads do while those calls wait (short
  of writing ownership fields), a handle held over the reset is refused by every operation that takes
  a handle, without any effect, until it is handed out again.
\<close>

theorem simulator_reset_revokes_handles:
  assumes "ports_from {SIMULATOR_OPS} {simulator_destroy} (threads binding_thread) w"
    and "epochs_ok w" and "epoch_room (Suc (length cs)) w"
    and "m_buffers (w_memory w) b = Some nb" and "buf_owner_epoch nb = Some p"
    and "api (Reset (Some p)) w = (SPW_OK, h, w1)" and "api_run cs w1 = (rs, w2)"
    and "\<forall>(r, h) \<in> set rs. h \<noteq> Some b"
    and "call_buffer c = Some b"
  shows "\<exists>r. api c w2 = (r, None, w2) \<and> r \<noteq> SPW_OK"
  using assms by (rule simulator_frame.reset_revokes)

end
