(* ===== verification/Simulator_Links.thy ===== *)
theory Simulator_Links
  imports Simulator_Inv
begin

text \<open>
  The registry of virtual links: which states the two endpoints of a link can be in, and which
  backend owns which endpoint.
\<close>

section \<open>The invariant\<close>

definition ep_ok :: "simulator_endpoint_state \<Rightarrow> bool" where
  "ep_ok ep \<longleftrightarrow> packet_queue_inv (ep_packets ep) \<and> ring_inv SPW_QUEUE_DEPTH (ep_time_codes ep) \<and>
     (ep_started ep \<longrightarrow> ep_attached ep)"

text \<open>The link state an endpoint reports, given whether it and its peer are started.\<close>

definition state_ok :: "simulator_endpoint_state \<Rightarrow> simulator_endpoint_state \<Rightarrow> bool" where
  "state_ok a b \<longleftrightarrow> (if ep_started a
     then ep_state a = (if ep_started b then SPW_LINK_RUN else SPW_LINK_CONNECTING)
     else ep_state a = SPW_LINK_ERROR_RESET \<or> ep_state a = SPW_LINK_READY)"

definition ends_ok :: "simulator_endpoint_state \<Rightarrow> simulator_endpoint_state \<Rightarrow> bool" where
  "ends_ok a b \<longleftrightarrow> ep_ok a \<and> ep_ok b \<and> state_ok a b \<and> state_ok b a"

definition link_ok :: "simulator_virtual_link \<Rightarrow> bool" where
  "link_ok link \<longleftrightarrow> length (vl_endpoints link) = 2 \<and> ends_ok (vl_endpoints link ! 0) (vl_endpoints link ! 1) \<and>
     (\<not> vl_allocated link \<longrightarrow> \<not> ep_attached (vl_endpoints link ! 0) \<and> \<not> ep_attached (vl_endpoints link ! 1))"

definition owner_ok :: "simulator_virtual_link list \<Rightarrow> spw_simulator_backend \<Rightarrow> bool" where
  "owner_ok links backend \<longleftrightarrow> sb_endpoint_index backend < 2 \<and>
     (\<forall>l. sb_link backend = Some l \<longrightarrow> l < SPW_SIMULATOR_MAX_LOCAL_LINKS \<and> vl_allocated (links ! l) \<and>
        vl_link_id (links ! l) = sb_link_id backend \<and>
        ep_attached (vl_endpoints (links ! l) ! sb_endpoint_index backend))"

definition unique_ids :: "simulator_virtual_link list \<Rightarrow> bool" where
  "unique_ids links \<longleftrightarrow> (\<forall>i < length links. \<forall>j < length links. vl_allocated (links ! i) \<longrightarrow>
     vl_allocated (links ! j) \<longrightarrow> vl_link_id (links ! i) = vl_link_id (links ! j) \<longrightarrow> i = j)"

definition exclusive :: "(addr \<rightharpoonup> spw_simulator_backend) \<Rightarrow> bool" where
  "exclusive backends \<longleftrightarrow> (\<forall>c b c' b'. backends c = Some b \<longrightarrow> backends c' = Some b' \<longrightarrow> sb_link b \<noteq> None \<longrightarrow>
     sb_link b = sb_link b' \<longrightarrow> sb_endpoint_index b = sb_endpoint_index b' \<longrightarrow> c = c')"

text \<open>
  Sixteen links in an allowed state, at most one per identifier; an attached backend owns an
  attached endpoint of an allocated link with its identifier, and no two backends own the same.
\<close>

definition registry_ok :: "sim_shared \<Rightarrow> bool" where
  "registry_ok s \<longleftrightarrow> length (sh_registry s) = SPW_SIMULATOR_MAX_LOCAL_LINKS \<and>
     (\<forall>link \<in> set (sh_registry s). link_ok link) \<and> unique_ids (sh_registry s) \<and>
     (\<forall>c b. sh_backends s c = Some b \<longrightarrow> owner_ok (sh_registry s) b) \<and> exclusive (sh_backends s)"

text \<open>A descriptor has the storage its capacity promises.\<close>

definition buffer_ok :: "spw_buffer \<Rightarrow> bool" where
  "buffer_ok nb \<longleftrightarrow> buf_capacity nb \<le> SPW_SLOT_SIZE \<and> (\<exists>d. buf_data nb = Some d \<and> length d = SPW_SLOT_SIZE)"

definition sim_ok :: "sim_shared memory \<Rightarrow> bool" where
  "sim_ok s \<longleftrightarrow> registry_ok (m_backend s) \<and> (\<forall>b nb. m_buffers s b = Some nb \<longrightarrow> buffer_ok nb)"

definition sim_thread :: "interference \<Rightarrow> bool" where
  "sim_thread f \<longleftrightarrow> (\<forall>s. sim_ok s \<longrightarrow> sim_ok (f s))"

interpretation registry_rely: rely sim_thread sim_ok
  by unfold_locales (simp add: sim_thread_def)

abbreviation links_ok :: "simulator memory \<Rightarrow> bool" where
  "links_ok \<equiv> holds sim_thread sim_ok"

section \<open>Endpoint updates\<close>

lemma shared_update [simp]: "sm_shared (m_backend (update_shared f m)) = f (sm_shared (m_backend m))"
  by (simp add: update_shared_def)

lemma registry_put_endpoint [simp]:
  "registry (put_endpoint l e x m) =
     (registry m)[l := (registry m ! l)\<lparr>vl_endpoints := (vl_endpoints (registry m ! l))[e := x]\<rparr>]"
  by (simp add: put_endpoint_def put_link_def registry_def)

lemma links_ok_registry:
  "links_ok m \<Longrightarrow> l < SPW_SIMULATOR_MAX_LOCAL_LINKS \<Longrightarrow>
     length (registry m) = SPW_SIMULATOR_MAX_LOCAL_LINKS \<and> link_ok (registry m ! l)"
  by (simp add: holds_def sim_ok_def registry_ok_def registry_def seen_def)

lemma links_ok_two: "links_ok m \<Longrightarrow> l < SPW_SIMULATOR_MAX_LOCAL_LINKS \<Longrightarrow> length (vl_endpoints (registry m ! l)) = 2"
  using links_ok_registry by (simp add: link_ok_def)

lemma endpoint_put:
  assumes "links_ok m" and "l < SPW_SIMULATOR_MAX_LOCAL_LINKS" and "e < 2"
  shows "endpoint l e' (put_endpoint l e x m) = (if e' = e then x else endpoint l e' m)"
  using links_ok_registry [OF assms(1,2)] links_ok_two [OF assms(1,2)] assms(2,3)
  by (simp add: endpoint_def)

lemma ends_ok_sym: "ends_ok a b \<Longrightarrow> ends_ok b a"
  by (auto simp: ends_ok_def)

lemma links_ok_ends:
  assumes "links_ok m" and "l < SPW_SIMULATOR_MAX_LOCAL_LINKS" and "e < 2"
  shows "ends_ok (endpoint l e m) (endpoint l (1 - e) m)"
proof -
  have "ends_ok (vl_endpoints (registry m ! l) ! 0) (vl_endpoints (registry m ! l) ! 1)"
    using links_ok_registry [OF assms(1,2)] by (simp add: link_ok_def)
  with assms(3) show ?thesis by (cases e) (auto simp: endpoint_def less_Suc_eq numeral_2_eq_2 intro: ends_ok_sym)
qed

text \<open>Both endpoints of a link at once; every operation on an attached endpoint has this form.\<close>

definition put_ends ::
    "nat \<Rightarrow> nat \<Rightarrow> simulator_endpoint_state \<Rightarrow> simulator_endpoint_state \<Rightarrow> simulator memory \<Rightarrow> simulator memory" where
  "put_ends l e x y m = put_endpoint l (1 - e) y (put_endpoint l e x m)"

lemma registry_ok_replace:
  assumes "registry_ok s" and "l < SPW_SIMULATOR_MAX_LOCAL_LINKS"
    and "link_ok (link\<lparr>vl_endpoints := es\<rparr>)" and "link = sh_registry s ! l"
    and "\<forall>e<2. ep_attached (es ! e) = ep_attached (vl_endpoints link ! e)"
  shows "registry_ok (s\<lparr>sh_registry := (sh_registry s)[l := link\<lparr>vl_endpoints := es\<rparr>]\<rparr>)"
proof -
  have "owner_ok ((sh_registry s)[l := link\<lparr>vl_endpoints := es\<rparr>]) b" if "owner_ok (sh_registry s) b" for b
    using that assms by (auto simp: owner_ok_def registry_ok_def nth_list_update)
  moreover have "link_ok k" if "k \<in> set ((sh_registry s)[l := link\<lparr>vl_endpoints := es\<rparr>])" for k
    using that assms(1,3) set_update_subset_insert [of "sh_registry s" l] by (auto simp: registry_ok_def)
  moreover have "unique_ids ((sh_registry s)[l := link\<lparr>vl_endpoints := es\<rparr>])"
    using assms(1,2,4) by (auto simp: registry_ok_def unique_ids_def nth_list_update)
  ultimately show ?thesis using assms(1) by (simp add: registry_ok_def)
qed

lemma links_ok_replace:
  assumes "links_ok m" and "l < SPW_SIMULATOR_MAX_LOCAL_LINKS"
    and "link_ok ((registry m ! l)\<lparr>vl_endpoints := es\<rparr>)"
    and "\<forall>e<2. ep_attached (es ! e) = ep_attached (vl_endpoints (registry m ! l) ! e)"
  shows "links_ok (put_link l ((registry m ! l)\<lparr>vl_endpoints := es\<rparr>) m)"
  using registry_ok_replace [OF _ assms(2), of "sm_shared (m_backend m)" es "registry m ! l"] assms
  by (simp add: holds_def sim_ok_def seen_def put_link_def update_shared_def threads_def registry_def)

lemma put_ends_eq:
  assumes "links_ok m" and "l < SPW_SIMULATOR_MAX_LOCAL_LINKS" and "e < 2"
  shows "put_ends l e x y m =
    put_link l ((registry m ! l)\<lparr>vl_endpoints := (if e = 0 then [x, y] else [y, x])\<rparr>) m"
proof -
  obtain a b where ab: "vl_endpoints (registry m ! l) = [a, b]"
    using links_ok_two [OF assms(1,2)] by (auto simp: numeral_2_eq_2 length_Suc_conv)
  have "e = 0 \<or> e = 1" using assms(3) by auto
  with ab links_ok_registry [OF assms(1,2)] assms(2) show ?thesis
    by (auto simp: put_ends_def put_endpoint_def put_link_def update_shared_def registry_def)
qed

lemma links_ok_put_ends:
  assumes "links_ok m" and "l < SPW_SIMULATOR_MAX_LOCAL_LINKS" and "e < 2" and "ends_ok x y"
    and "ep_attached x = ep_attached (endpoint l e m)" and "ep_attached y = ep_attached (endpoint l (1 - e) m)"
  shows "links_ok (put_ends l e x y m)"
proof -
  have e: "e = 0 \<or> e = 1" using assms(3) by auto
  have "link_ok (registry m ! l)" using links_ok_registry [OF assms(1,2)] by simp
  then have "link_ok ((registry m ! l)\<lparr>vl_endpoints := (if e = 0 then [x, y] else [y, x])\<rparr>)"
    using e assms(4-6) ends_ok_sym [OF assms(4)] by (auto simp: link_ok_def endpoint_def)
  moreover have "\<forall>i<2. ep_attached ((if e = 0 then [x, y] else [y, x]) ! i) =
      ep_attached (vl_endpoints (registry m ! l) ! i)"
    using e assms(5,6) by (auto simp: endpoint_def less_2_cases_iff)
  ultimately show ?thesis unfolding put_ends_eq [OF assms(1-3)] by (rule links_ok_replace [OF assms(1,2)])
qed

lemma put_endpoint_ends:
  assumes "links_ok m" and "l < SPW_SIMULATOR_MAX_LOCAL_LINKS" and "e < 2"
  shows "put_endpoint l e x m = put_ends l e x (endpoint l (1 - e) m) m"
    and "put_endpoint l e x (put_endpoint l (1 - e) y m) = put_ends l e x y m"
proof -
  obtain a b where ab: "vl_endpoints (registry m ! l) = [a, b]"
    using links_ok_two [OF assms(1,2)] by (auto simp: numeral_2_eq_2 length_Suc_conv)
  have e: "e = 0 \<or> e = 1" using assms(3) by auto
  with ab links_ok_registry [OF assms(1,2)] assms(2)
  show "put_endpoint l e x m = put_ends l e x (endpoint l (1 - e) m) m"
      "put_endpoint l e x (put_endpoint l (1 - e) y m) = put_ends l e x y m"
    by (auto simp: put_ends_eq [OF assms] put_endpoint_def put_link_def update_shared_def registry_def endpoint_def)
qed

definition refreshed :: "simulator_endpoint_state \<Rightarrow> simulator_endpoint_state \<Rightarrow> simulator_endpoint_state" where
  "refreshed a b = (if ep_started a \<and> ep_attached a
     then a\<lparr>ep_state := (if ep_started b \<and> ep_attached b then SPW_LINK_RUN else SPW_LINK_CONNECTING)\<rparr> else a)"

lemma on_put_link:
  assumes "l < length (registry m)"
  shows "endpoint l i (put_link l k m) = vl_endpoints k ! i"
    and "put_endpoint l i y (put_link l k m) = put_link l (k\<lparr>vl_endpoints := (vl_endpoints k)[i := y]\<rparr>) m"
  using assms by (simp_all add: endpoint_def put_endpoint_def put_link_def update_shared_def registry_def)

lemma refresh_put_endpoint:
  assumes "links_ok m" and "l < SPW_SIMULATOR_MAX_LOCAL_LINKS" and "e < 2"
  shows "refresh_link_states l (put_endpoint l e x m) =
    put_ends l e (refreshed x (endpoint l (1 - e) m)) (refreshed (endpoint l (1 - e) m) x) m"
proof -
  obtain a b where ab: "vl_endpoints (registry m ! l) = [a, b]"
    using links_ok_two [OF assms(1,2)] by (auto simp: numeral_2_eq_2 length_Suc_conv)
  have l: "l < length (registry m)" using links_ok_registry [OF assms(1,2)] assms(2) by simp
  have refresh: "refresh_link_states l (put_link l (k\<lparr>vl_endpoints := [y, z]\<rparr>) m) =
      put_link l (k\<lparr>vl_endpoints := [refreshed y z, refreshed z y]\<rparr>) m" for k y z
    by (simp add: refresh_link_states_def on_put_link [OF l] Let_def refreshed_def)
  have "e = 0 \<or> e = 1" using assms(3) by auto
  then show ?thesis
    by (auto simp: put_ends_eq [OF assms] put_endpoint_def [of l] ab refresh endpoint_def)
qed

text \<open>A state in which started endpoints may still carry the state of before.\<close>

lemma ends_ok_refreshed:
  assumes "ep_ok a" and "ep_ok b"
    and "ep_started a \<or> ep_state a = SPW_LINK_ERROR_RESET \<or> ep_state a = SPW_LINK_READY"
    and "ep_started b \<or> ep_state b = SPW_LINK_ERROR_RESET \<or> ep_state b = SPW_LINK_READY"
  shows "ends_ok (refreshed a b) (refreshed b a)"
  using assms by (auto simp: ends_ok_def ep_ok_def state_ok_def refreshed_def)

section \<open>Operations on attached endpoints\<close>

declare One_nat_def [simp del]

lemma links_ok_owner:
  assumes "links_ok m" and "sb_link (the_sim c m) = Some l"
  shows "l < SPW_SIMULATOR_MAX_LOCAL_LINKS" and "sb_endpoint_index (the_sim c m) < 2"
proof -
  obtain b where b: "sh_backends (sm_shared (m_backend m)) c = Some b" "the_sim c m = b"
    using assms(2) by (cases "sh_backends (sm_shared (m_backend m)) c") (auto simp: the_sim_def zero_backend_def)
  then have "owner_ok (registry m) b"
    using assms(1) by (auto simp: holds_def sim_ok_def seen_def registry_ok_def registry_def)
  with b(2) assms(2) show "l < SPW_SIMULATOR_MAX_LOCAL_LINKS" "sb_endpoint_index (the_sim c m) < 2"
    by (auto simp: owner_ok_def)
qed

lemma ends_ok_parts:
  "ends_ok a b \<Longrightarrow> ep_ok a \<and> ep_ok b \<and>
     (ep_started a \<or> ep_state a = SPW_LINK_ERROR_RESET \<or> ep_state a = SPW_LINK_READY) \<and>
     (ep_started b \<or> ep_state b = SPW_LINK_ERROR_RESET \<or> ep_state b = SPW_LINK_READY)"
  by (auto simp: ends_ok_def state_ok_def split: if_splits)

lemma links_ok_start:
  assumes "links_ok m"
  shows "links_ok (snd (simulator_start c m))"
proof (cases "sb_link (the_sim c m)")
  case None
  with assms show ?thesis by (simp add: simulator_start_def Let_def)
next
  case (Some l)
  define e where "e = sb_endpoint_index (the_sim c m)"
  define x where "x = (endpoint l e (host_mutex_lock m))\<lparr>ep_started := True, ep_state := SPW_LINK_CONNECTING\<rparr>"
  note l = links_ok_owner [OF assms Some, folded e_def]
  note inv = registry_rely.lock [OF assms]
  note ends = ends_ok_parts [OF links_ok_ends [OF inv l]]
  have "links_ok (refresh_link_states l (put_endpoint l e x (host_mutex_lock m)))"
    if "ep_attached (endpoint l e (host_mutex_lock m))"
    unfolding refresh_put_endpoint [OF inv l]
    by (rule links_ok_put_ends [OF inv l ends_ok_refreshed])
      (use that ends in \<open>auto simp: x_def refreshed_def ep_ok_def\<close>)
  then show ?thesis
    using Some inv by (simp add: simulator_start_def Let_def e_def x_def)
qed

lemma links_ok_stop:
  assumes "links_ok m"
  shows "links_ok (snd (simulator_stop c m))"
proof (cases "sb_link (the_sim c m)")
  case None
  with assms show ?thesis by (simp add: simulator_stop_def Let_def)
next
  case (Some l)
  define e where "e = sb_endpoint_index (the_sim c m)"
  define m1 where "m1 = host_mutex_lock m"
  define x where "x = (endpoint l e m1)\<lparr>ep_started := False, ep_state := SPW_LINK_READY\<rparr>"
  let ?y = "endpoint l (1 - e) m1"
  define y where "y = (if ep_attached ?y \<and> ep_started ?y then ?y\<lparr>ep_state := SPW_LINK_CONNECTING\<rparr> else ?y)"
  note l = links_ok_owner [OF assms Some, folded e_def]
  have inv: "links_ok m1" unfolding m1_def by (rule registry_rely.lock [OF assms])
  note ends = links_ok_ends [OF inv l]
  have "links_ok (put_ends l e x y m1)"
    by (rule links_ok_put_ends [OF inv l])
      (use ends in \<open>auto simp: x_def y_def ends_ok_def ep_ok_def state_ok_def split: if_splits\<close>)
  moreover have "(if ep_attached ?y \<and> ep_started ?y
      then put_endpoint l (1 - e) (?y\<lparr>ep_state := SPW_LINK_CONNECTING\<rparr>) (put_endpoint l e x m1)
      else put_endpoint l e x m1) = put_ends l e x y m1"
    using put_endpoint_ends(1) [OF inv l, of x] by (simp add: put_ends_def y_def)
  ultimately show ?thesis
    using Some inv by (simp add: simulator_stop_def Let_def e_def [symmetric] m1_def [symmetric] x_def [symmetric])
qed

lemma links_ok_put_sim:
  assumes "links_ok m" and "sb_link b = sb_link (the_sim c m)" and "sb_link_id b = sb_link_id (the_sim c m)"
    and "sb_endpoint_index b = sb_endpoint_index (the_sim c m)"
  shows "links_ok (put_sim c b m)"
proof -
  let ?s = "sm_shared (m_backend m)"
  have ok: "registry_ok ?s" "threads sim_thread m" "\<forall>b nb. m_buffers m b = Some nb \<longrightarrow> buffer_ok nb"
    using assms(1) by (simp_all add: holds_def sim_ok_def seen_def)
  have "owner_ok (sh_registry ?s) b"
    using ok(1) assms(2-4) unfolding registry_ok_def
    by (cases "sh_backends ?s c") (auto simp: the_sim_def owner_ok_def zero_backend_def)
  moreover have "exclusive ((sh_backends ?s)(c \<mapsto> b))"
    using ok(1) assms(2-4) unfolding registry_ok_def exclusive_def
    by (cases "sh_backends ?s c") (auto simp: the_sim_def zero_backend_def split: if_splits)
  ultimately show ?thesis
    using ok by (simp add: holds_def sim_ok_def seen_def put_sim_def update_shared_def threads_def registry_ok_def)
qed

lemma links_ok_put_buffer: "links_ok m \<Longrightarrow> buffer_ok nb \<Longrightarrow> links_ok (put_buffer b nb m)"
  by (simp add: put_buffer_def holds_def sim_ok_def seen_def threads_def)

lemma the_buffer_ok: "links_ok m \<Longrightarrow> buffer_ok (the_buffer b m)"
  by (simp add: the_buffer_def zero_descriptor_def holds_def sim_ok_def seen_def buffer_ok_def split: option.splits)

lemma the_sim_put_buffer [simp]: "the_sim c (put_buffer b nb m) = the_sim c m"
  by (simp add: the_sim_def put_buffer_def)

lemma free_descriptor_ok: "buffer_ok nb \<Longrightarrow> buffer_ok (free_descriptor c d t nb)"
  by (simp add: buffer_ok_def free_descriptor_def)

lemma links_ok_descriptors: "links_ok m \<Longrightarrow> links_ok (initialize_tx_buffers c n m)"
  by (induction n) (simp_all add: Let_def links_ok_put_buffer free_descriptor_ok the_buffer_ok)

lemma the_sim_descriptors [simp]: "the_sim c' (initialize_tx_buffers c n m) = the_sim c' m"
  by (induction n) (simp_all add: Let_def)

lemma links_ok_zero_copy: "links_ok m \<Longrightarrow> links_ok (initialize_zero_copy_buffers c m)"
  by (simp add: initialize_zero_copy_buffers_def Let_def links_ok_put_sim links_ok_put_buffer
      links_ok_descriptors free_descriptor_ok the_buffer_ok)

lemma ep_ok_cleared: "ep_ok ep \<Longrightarrow> ep_ok (clear_receive_queues ep)"
  by (simp add: ep_ok_def clear_receive_queues_def packet_queue_empty_inv ring_empty_inv)

lemma links_ok_reset:
  assumes "links_ok m"
  shows "links_ok (snd (simulator_reset c m))"
proof (cases "sb_link (the_sim c m)")
  case None
  with assms show ?thesis by (simp add: simulator_reset_def Let_def)
next
  case (Some l)
  define e where "e = sb_endpoint_index (the_sim c m)"
  define m1 where "m1 = host_mutex_lock m"
  define x where "x = clear_receive_queues
    ((endpoint l e m1)\<lparr>ep_started := False, ep_state := SPW_LINK_ERROR_RESET\<rparr>)"
  let ?y = "endpoint l (1 - e) m1"
  let ?y' = "?y\<lparr>ep_state := SPW_LINK_CONNECTING, ep_statistics := (ep_statistics ?y)
    \<lparr>link_errors := link_errors (ep_statistics ?y) + 1\<rparr>\<rparr>"
  define y where "y = (if ep_attached ?y \<and> ep_started ?y then ?y' else ?y)"
  note l = links_ok_owner [OF assms Some, folded e_def]
  have inv: "links_ok m1" unfolding m1_def by (rule registry_rely.lock [OF assms])
  note ends = links_ok_ends [OF inv l]
  have "ep_ok x" unfolding x_def by (rule ep_ok_cleared) (use ends in \<open>simp add: ends_ok_def ep_ok_def\<close>)
  then have "links_ok (put_ends l e x y m1)"
    by (intro links_ok_put_ends [OF inv l])
      (use ends in \<open>auto simp: x_def y_def ends_ok_def ep_ok_def state_ok_def clear_receive_queues_def
        split: if_splits\<close>)
  moreover have "(if ep_attached ?y \<and> ep_started ?y then put_endpoint l (1 - e) ?y' (put_endpoint l e x m1)
      else put_endpoint l e x m1) = put_ends l e x y m1"
    using put_endpoint_ends(1) [OF inv l, of x] by (simp add: put_ends_def y_def)
  ultimately show ?thesis
    using Some inv
    by (simp add: simulator_reset_def Let_def e_def [symmetric] m1_def [symmetric] x_def [symmetric]
        links_ok_zero_copy registry_rely.lock)
qed

lemma enqueue_ends:
  assumes "links_ok m" and "l < SPW_SIMULATOR_MAX_LOCAL_LINKS" and "e < 2"
  obtains st where "enqueue_at_peer l e pk m = put_ends l e ((endpoint l e m)\<lparr>ep_statistics := st\<rparr>)
    ((endpoint l (1 - e) m)\<lparr>ep_packets := enqueue_packet pk (ep_packets (endpoint l (1 - e) m))\<rparr>) m"
proof -
  have "e \<noteq> 1 - e" "1 - e < 2" using assms(3) by arith+
  then show thesis
    using that by (simp add: enqueue_at_peer_def Let_def endpoint_put [OF assms(1,2)] put_endpoint_ends(2) [OF assms])
qed

lemma links_ok_enqueue:
  assumes "links_ok m" and "l < SPW_SIMULATOR_MAX_LOCAL_LINKS" and "e < 2"
    and "slot_admissible pk" and "rb_count (ep_packets (endpoint l (1 - e) m)) \<noteq> SPW_QUEUE_DEPTH"
  shows "links_ok (enqueue_at_peer l e pk m)"
proof -
  let ?q = "ep_packets (endpoint l (1 - e) m)"
  note ends = links_ok_ends [OF assms(1-3)]
  then have "packet_queue_inv ?q" by (simp add: ends_ok_def ep_ok_def)
  then have "packet_queue_inv (enqueue_packet pk ?q)"
    using packetq.invar_enqueue packetq.size_room assms(4,5) by fastforce
  moreover obtain st where eq: "enqueue_at_peer l e pk m = put_ends l e ((endpoint l e m)\<lparr>ep_statistics := st\<rparr>)
      ((endpoint l (1 - e) m)\<lparr>ep_packets := enqueue_packet pk ?q\<rparr>) m"
    using enqueue_ends [OF assms(1-3)] by metis
  ultimately show ?thesis
    unfolding eq using ends
    by (intro links_ok_put_ends [OF assms(1-3)]) (auto simp: ends_ok_def ep_ok_def state_ok_def split: if_splits)
qed

lemma links_ok_send:
  assumes "links_ok m" and "tx_packet_ok pk"
  shows "links_ok (snd (simulator_send c pk t m))"
proof (cases "sb_link (the_sim c m)")
  case None
  with assms show ?thesis by (simp add: simulator_send_def Let_def)
next
  case (Some l)
  define e where "e = sb_endpoint_index (the_sim c m)"
  note l = links_ok_owner [OF assms(1) Some, folded e_def]
  obtain b m1 where wait: "wait_condition t (packet_space_ready l e) (host_mutex_lock m) = (b, m1)" by fastforce
  have inv: "links_ok (host_mutex_lock m)" "links_ok m1"
    using registry_rely.lock [OF assms(1)] registry_rely.wait(1) [OF wait] by auto
  then show ?thesis
    using Some wait assms links_ok_enqueue [OF inv(2) l, of pk]
    by (auto simp: simulator_send_def Let_def e_def slot_admissible_def)
qed

lemma links_ok_receive:
  assumes "links_ok m"
  shows "links_ok (snd (snd (simulator_receive c pk t m)))"
proof (cases "sb_link (the_sim c m)")
  case None
  with assms show ?thesis by (simp add: simulator_receive_def Let_def)
next
  case (Some l)
  define e where "e = sb_endpoint_index (the_sim c m)"
  note l = links_ok_owner [OF assms(1) Some, folded e_def]
  obtain b m1 where wait: "wait_condition t (packet_receive_ready l e) (host_mutex_lock m) = (b, m1)" by fastforce
  have inv: "links_ok (host_mutex_lock m)" "links_ok m1"
    using registry_rely.lock [OF assms(1)] registry_rely.wait(1) [OF wait] by auto
  let ?x = "endpoint l e m1"
  have "links_ok (put_endpoint l e (?x\<lparr>ep_packets := ring_drop SPW_QUEUE_DEPTH (ep_packets ?x), ep_statistics := st\<rparr>) m1)"
    if "rb_count (ep_packets ?x) \<noteq> 0" for st
    unfolding put_endpoint_ends(1) [OF inv(2) l]
    by (rule links_ok_put_ends [OF inv(2) l])
      (use links_ok_ends [OF inv(2) l] packetq.invar_dequeue [of "ep_packets ?x"] that in
        \<open>auto simp: ends_ok_def ep_ok_def state_ok_def split: if_splits\<close>)
  then show ?thesis
    using Some wait inv by (auto simp: simulator_receive_def Let_def e_def split: prod.splits)
qed

lemma links_ok_send_time_code:
  assumes "links_ok m"
  shows "links_ok (snd (simulator_send_time_code c tc t m))"
proof (cases "sb_link (the_sim c m)")
  case None
  with assms show ?thesis by (simp add: simulator_send_time_code_def Let_def)
next
  case (Some l)
  define e where "e = sb_endpoint_index (the_sim c m)"
  note l = links_ok_owner [OF assms(1) Some, folded e_def]
  obtain b m1 where wait: "wait_condition t (time_code_space_ready l e) (host_mutex_lock m) = (b, m1)" by fastforce
  have inv: "links_ok (host_mutex_lock m)" "links_ok m1"
    using registry_rely.lock [OF assms(1)] registry_rely.wait(1) [OF wait] by auto
  have ready: "time_code_space_ready l e m1" if b
    using registry_rely.wait(2) [OF wait] inv(1) that by simp
  let ?x = "endpoint l e m1" and ?y = "endpoint l (1 - e) m1"
  have neq: "e \<noteq> 1 - e" "1 - e < 2" using l(2) by arith+
  have "links_ok (put_endpoint l e (?x\<lparr>ep_statistics := st\<rparr>)
      (put_endpoint l (1 - e) (?y\<lparr>ep_time_codes := enqueue_time_code tc (ep_time_codes ?y)\<rparr>) m1))"
    if "rb_count (ep_time_codes ?y) < SPW_QUEUE_DEPTH" for st
    unfolding put_endpoint_ends(2) [OF inv(2) l]
    by (rule links_ok_put_ends [OF inv(2) l])
      (use links_ok_ends [OF inv(2) l] timeq.invar_enqueue [of "ep_time_codes ?y"] that in
        \<open>auto simp: ends_ok_def ep_ok_def state_ok_def split: if_splits\<close>)
  then show ?thesis
    using Some wait inv ready neq assms
    by (auto simp: simulator_send_time_code_def Let_def e_def [symmetric] time_code_space_ready_def
        endpoint_put [OF inv(2) l(1)])
qed

lemma links_ok_receive_time_code:
  assumes "links_ok m"
  shows "links_ok (snd (snd (simulator_receive_time_code c tc t m)))"
proof (cases "sb_link (the_sim c m)")
  case None
  with assms show ?thesis by (simp add: simulator_receive_time_code_def Let_def)
next
  case (Some l)
  define e where "e = sb_endpoint_index (the_sim c m)"
  note l = links_ok_owner [OF assms(1) Some, folded e_def]
  obtain b m1 where wait: "wait_condition t (time_code_receive_ready l e) (host_mutex_lock m) = (b, m1)" by fastforce
  have inv: "links_ok (host_mutex_lock m)" "links_ok m1"
    using registry_rely.lock [OF assms(1)] registry_rely.wait(1) [OF wait] by auto
  let ?x = "endpoint l e m1"
  have "links_ok (put_endpoint l e (?x\<lparr>ep_time_codes := ring_drop SPW_QUEUE_DEPTH (ep_time_codes ?x), ep_statistics := st\<rparr>) m1)"
    if "rb_count (ep_time_codes ?x) \<noteq> 0" for st
    unfolding put_endpoint_ends(1) [OF inv(2) l]
    by (rule links_ok_put_ends [OF inv(2) l])
      (use links_ok_ends [OF inv(2) l] timeq.invar_dequeue [of "ep_time_codes ?x"] that in
        \<open>auto simp: ends_ok_def ep_ok_def state_ok_def split: if_splits\<close>)
  then show ?thesis
    using Some wait inv by (auto simp: simulator_receive_time_code_def Let_def e_def)
qed

lemma links_ok_statistics:
  assumes "links_ok m"
  shows "links_ok (snd (simulator_clear_statistics c m))"
    and "links_ok (snd (snd (simulator_get_statistics c out m)))"
    and "links_ok (snd (snd (simulator_get_link_state c st m)))"
proof -
  have "links_ok (put_endpoint l e ((endpoint l e m1)\<lparr>ep_statistics := st\<rparr>) m1)"
    if "links_ok m1" "l < SPW_SIMULATOR_MAX_LOCAL_LINKS" "e < 2" for l e m1 st
    unfolding put_endpoint_ends(1) [OF that]
    by (rule links_ok_put_ends [OF that])
      (use links_ok_ends [OF that] in \<open>auto simp: ends_ok_def ep_ok_def state_ok_def split: if_splits\<close>)
  then show "links_ok (snd (simulator_clear_statistics c m))"
    using assms registry_rely.lock [OF assms] links_ok_owner [OF assms, of c]
    by (auto simp: simulator_clear_statistics_def Let_def)
  show "links_ok (snd (snd (simulator_get_statistics c out m)))"
      "links_ok (snd (snd (simulator_get_link_state c st m)))"
    using assms registry_rely.lock [OF assms]
    by (auto simp: simulator_get_statistics_def simulator_get_link_state_def Let_def)
qed

section \<open>Operations on buffers\<close>

lemma buffer_ok_update [simp]:
  "buffer_ok (nb\<lparr>buf_state := v\<rparr>) = buffer_ok nb" "buffer_ok (nb\<lparr>buf_length := n\<rparr>) = buffer_ok nb"
  "buffer_ok (nb\<lparr>buf_terminator := t\<rparr>) = buffer_ok nb"
  "buffer_ok (freed nb) = buffer_ok nb"
  by (simp_all add: buffer_ok_def freed_def)

lemma deliver_slot_storage:
  assumes "deliver_slot slot p = (r, p')" and "slot_ok slot" and "pk_data p = Some d" and "pk_capacity p \<le> length d"
  shows "\<exists>d'. pk_data p' = Some d' \<and> length d' = length d"
  using assms by (auto simp: deliver_slot_def slot_ok_def Let_def split: if_splits)

lemma receive_storage:
  assumes "links_ok m" and "simulator_receive c pk t m = (r, pk', m')"
    and "pk_data pk = Some d" and "pk_capacity pk \<le> length d"
  shows "\<exists>d'. pk_data pk' = Some d' \<and> length d' = length d"
proof (cases "sb_link (the_sim c m)")
  case None
  with assms show ?thesis by (auto simp: simulator_receive_def Let_def)
next
  case (Some l)
  define e where "e = sb_endpoint_index (the_sim c m)"
  note l = links_ok_owner [OF assms(1) Some, folded e_def]
  obtain b m1 where wait: "wait_condition t (packet_receive_ready l e) (host_mutex_lock m) = (b, m1)" by fastforce
  have "links_ok m1" using registry_rely.lock [OF assms(1)] registry_rely.wait(1) [OF wait] by auto
  from links_ok_ends [OF this l] have slot: "slot_ok (ring_front (ep_packets (endpoint l e m1)))"
    by (simp add: ends_ok_def ep_ok_def front_slot_ok)
  obtain r1 p1 where d: "deliver_slot (ring_front (ep_packets (endpoint l e m1))) pk = (r1, p1)" by fastforce
  show ?thesis
    using assms(2,3) Some wait d deliver_slot_storage [OF d slot assms(3,4)]
    by (auto simp: simulator_receive_def Let_def e_def [symmetric] split: if_splits)
qed

lemma links_ok_acquire_tx:
  assumes "links_ok m"
  shows "links_ok (snd (snd (simulator_acquire_tx_buffer c n t b m)))"
proof -
  note lock = registry_rely.lock [OF assms]
  obtain r m1 where wait: "wait_condition t (free_tx_buffer_ready c) (host_mutex_lock m) = (r, m1)" by fastforce
  have "links_ok m1" by (rule registry_rely.wait(1) [OF wait lock])
  with assms lock wait show ?thesis
    by (auto simp: simulator_acquire_tx_buffer_def Let_def split: option.splits
        intro!: links_ok_put_buffer the_buffer_ok)
qed

lemma links_ok_reclaim_tx:
  assumes "links_ok m"
  shows "links_ok (snd (snd (simulator_reclaim_tx_buffer c t b m)))"
proof -
  note lock = registry_rely.lock [OF assms]
  obtain r m1 where wait: "wait_condition t (completed_tx_buffer_ready c) (host_mutex_lock m) = (r, m1)" by fastforce
  have "links_ok m1" by (rule registry_rely.wait(1) [OF wait lock])
  with lock wait show ?thesis
    by (auto simp: simulator_reclaim_tx_buffer_def Let_def split: option.splits
        intro!: links_ok_put_buffer the_buffer_ok)
qed

lemma links_ok_release:
  assumes "links_ok m"
  shows "links_ok (snd (simulator_release_tx_buffer c b m))"
    and "links_ok (snd (simulator_release_rx_buffer c b m))"
  using registry_rely.lock [OF assms]
  by (auto simp: simulator_release_tx_buffer_def simulator_release_rx_buffer_def Let_def
      intro!: links_ok_put_sim links_ok_put_buffer the_buffer_ok)

lemma links_ok_submit_tx:
  assumes "links_ok m"
  shows "links_ok (snd (simulator_submit_tx_buffer c b t m))"
proof -
  define m1 where "m1 = host_mutex_lock m"
  define m2 where "m2 = put_buffer b ((the_buffer b m1)\<lparr>buf_state := SPW_BUFFER_STATE_BACKEND\<rparr>) m1"
  define pk where "pk = \<lparr>pk_data = buf_data (the_buffer b m1), pk_length = buf_length (the_buffer b m1),
      pk_capacity = buf_capacity (the_buffer b m1), pk_terminator = buf_terminator (the_buffer b m1)\<rparr>"
  obtain r m3 where send: "simulator_send c pk t m2 = (r, m3)" by fastforce
  have m1: "links_ok m1" unfolding m1_def by (rule registry_rely.lock [OF assms])
  then have "links_ok m2" unfolding m2_def by (simp add: links_ok_put_buffer the_buffer_ok)
  moreover have "tx_packet_ok pk" if "buf_length (the_buffer b m1) \<le> SPW_SLOT_SIZE"
    using the_buffer_ok [OF m1, of b] that by (auto simp: pk_def tx_packet_ok_def buffer_ok_def)
  ultimately have "links_ok (host_mutex_lock m3)" if "buf_length (the_buffer b m1) \<le> SPW_SLOT_SIZE"
    using links_ok_send [of m2 pk c t] send that by (simp add: registry_rely.lock)
  with m1 send show ?thesis
    by (auto simp: simulator_submit_tx_buffer_def Let_def m1_def [symmetric] m2_def [symmetric] pk_def [symmetric]
        intro!: links_ok_put_buffer the_buffer_ok)
qed

lemma links_ok_acquire_rx:
  assumes "links_ok m"
  shows "links_ok (snd (snd (simulator_acquire_rx_buffer c t b m)))"
proof -
  let ?b = "rx_buffer_addr c"
  obtain ok m1 where wait: "wait_condition t (rx_buffer_ready c) (host_mutex_lock m) = (ok, m1)" by fastforce
  define m2 where "m2 = put_sim c ((the_sim c m1)\<lparr>sb_rx_buffer_acquired := True\<rparr>) m1"
  define m3 where "m3 = put_buffer ?b ((the_buffer ?b m2)\<lparr>buf_state := SPW_BUFFER_STATE_BACKEND\<rparr>) m2"
  define pk where "pk = \<lparr>pk_data = buf_data (the_buffer ?b m3), pk_length = 0, pk_capacity = SPW_SLOT_SIZE,
      pk_terminator = SPW_TERMINATOR_EOP\<rparr>"
  obtain r pk' m4 where recv: "simulator_receive c pk t m3 = (r, pk', m4)"
    by (cases "simulator_receive c pk t m3")
  have m1: "links_ok m1" by (rule registry_rely.wait(1) [OF wait registry_rely.lock [OF assms]])
  then have m3: "links_ok m3"
    unfolding m3_def m2_def by (intro links_ok_put_buffer links_ok_put_sim) (simp_all add: the_buffer_ok links_ok_put_sim)
  then have m4: "links_ok (host_mutex_lock m4)"
    using links_ok_receive [of m3 c pk t] recv by (simp add: registry_rely.lock)
  have data: "\<exists>d. pk_data pk' = Some d \<and> length d = SPW_SLOT_SIZE"
    using receive_storage [OF m3 recv] the_buffer_ok [OF m3, of ?b] by (auto simp: pk_def buffer_ok_def)
  then have "buffer_ok ((the_buffer ?b (host_mutex_lock m4))\<lparr>buf_data := pk_data pk', buf_length := pk_length pk',
      buf_terminator := pk_terminator pk', buf_state := SPW_BUFFER_STATE_APPLICATION\<rparr>)"
    using the_buffer_ok [OF m4, of ?b] by (auto simp: buffer_ok_def)
  with m1 m4 wait recv show ?thesis
    by (auto simp: simulator_acquire_rx_buffer_def Let_def m2_def [symmetric] m3_def [symmetric] pk_def [symmetric]
        intro!: links_ok_put_buffer links_ok_put_sim the_buffer_ok)
qed

section \<open>Attaching\<close>

lemma find_link_found:
  "find_link links i0 i f = (Some l, f') \<Longrightarrow>
     i \<le> l \<and> l < i + length links \<and> vl_allocated (links ! (l - i)) \<and> vl_link_id (links ! (l - i)) = i0"
proof (induction links i0 i f rule: find_link.induct)
  case (2 k ks i0 i f)
  show ?case
  proof (cases "vl_allocated k \<and> vl_link_id k = i0")
    case True
    with "2.prems" show ?thesis by simp
  next
    case False
    then have "i + 1 \<le> l \<and> l < i + 1 + length ks \<and> vl_allocated (ks ! (l - (i + 1))) \<and>
        vl_link_id (ks ! (l - (i + 1))) = i0"
      using 2 by auto
    then show ?thesis by (auto simp: nth_Cons')
  qed
qed simp

lemma find_link_missing:
  "find_link links i0 i f = (None, f') \<Longrightarrow>
     (\<forall>k \<in> set links. vl_allocated k \<longrightarrow> vl_link_id k \<noteq> i0) \<and>
     (f' = f \<or> (\<exists>l. f' = Some l \<and> i \<le> l \<and> l < i + length links \<and> \<not> vl_allocated (links ! (l - i))))"
proof (induction links i0 i f rule: find_link.induct)
  case (2 k ks i0 i f)
  have no: "\<not> (vl_allocated k \<and> vl_link_id k = i0)" using "2.prems" by (auto split: if_splits)
  define g where "g = (if \<not> vl_allocated k \<and> f = None then Some i else f)"
  have "(\<forall>k \<in> set ks. vl_allocated k \<longrightarrow> vl_link_id k \<noteq> i0) \<and>
      (f' = g \<or> (\<exists>l. f' = Some l \<and> i + 1 \<le> l \<and> l < i + 1 + length ks \<and> \<not> vl_allocated (ks ! (l - (i + 1)))))"
    using 2 no by (auto simp: g_def)
  moreover have "\<not> vl_allocated ((k # ks) ! (l - i))" if "i + 1 \<le> l" "\<not> vl_allocated (ks ! (l - (i + 1)))" for l
    using that by (simp add: nth_Cons')
  ultimately show ?case using no by (fastforce simp: g_def split: if_splits)
qed simp

lemma registry_ok_attach:
  assumes "registry_ok s" and "l < SPW_SIMULATOR_MAX_LOCAL_LINKS" and "link_ok k" and "vl_allocated k"
    and "vl_link_id k = sb_link_id b" and "sb_link b = Some l" and "sb_endpoint_index b < 2"
    and "ep_attached (vl_endpoints k ! sb_endpoint_index b)"
    and "\<And>j. j < SPW_SIMULATOR_MAX_LOCAL_LINKS \<Longrightarrow> vl_allocated (sh_registry s ! j) \<Longrightarrow>
      vl_link_id (sh_registry s ! j) = sb_link_id b \<Longrightarrow> j = l"
    and "vl_allocated (sh_registry s ! l) \<Longrightarrow> vl_link_id (sh_registry s ! l) = sb_link_id b \<and>
      \<not> ep_attached (vl_endpoints (sh_registry s ! l) ! sb_endpoint_index b) \<and>
      (\<forall>e<2. ep_attached (vl_endpoints (sh_registry s ! l) ! e) \<longrightarrow> ep_attached (vl_endpoints k ! e))"
  shows "registry_ok (s\<lparr>sh_registry := (sh_registry s)[l := k], sh_backends := (sh_backends s)(c \<mapsto> b)\<rparr>)"
proof -
  let ?R = "sh_registry s" and ?R' = "(sh_registry s)[l := k]"
  have len: "length ?R = SPW_SIMULATOR_MAX_LOCAL_LINKS" using assms(1) by (simp add: registry_ok_def)
  have own: "owner_ok ?R b'" if "sh_backends s c' = Some b'" for c' b'
    using assms(1) that by (auto simp: registry_ok_def)
  have "unique_ids ?R'"
    using assms(1,2,4,5,9) len by (auto simp: registry_ok_def unique_ids_def nth_list_update)
  moreover have "owner_ok ?R' b" using assms(2,4-8) len by (auto simp: owner_ok_def)
  moreover have "owner_ok ?R' b'" if "sh_backends s c' = Some b'" for c' b'
    using own [OF that] assms(2,4,5,10) len by (auto simp: owner_ok_def nth_list_update)
  moreover have "exclusive ((sh_backends s)(c \<mapsto> b))"
    unfolding exclusive_def
  proof (intro allI impI)
    fix c1 b1 c2 b2
    assume *: "((sh_backends s)(c \<mapsto> b)) c1 = Some b1" "((sh_backends s)(c \<mapsto> b)) c2 = Some b2"
      "sb_link b1 \<noteq> None" "sb_link b1 = sb_link b2" "sb_endpoint_index b1 = sb_endpoint_index b2"
    have "\<not> (sb_link b' = Some l \<and> sb_endpoint_index b' = sb_endpoint_index b)" if "sh_backends s c' = Some b'" for c' b'
      using own [OF that] assms(10) by (auto simp: owner_ok_def)
    with * assms(1,6) show "c1 = c2"
      by (auto simp: registry_ok_def exclusive_def split: if_splits)
  qed
  moreover have "\<forall>k' \<in> set ?R'. link_ok k'"
    using assms(1,3) set_update_subset_insert [of ?R l k] by (auto simp: registry_ok_def)
  ultimately show ?thesis using len by (auto simp: registry_ok_def)
qed

lemma put_sim_commute [simp]:
  "registry (put_sim c b m) = registry m" "endpoint l e (put_sim c b m) = endpoint l e m"
  "put_link l k (put_sim c b m) = put_sim c b (put_link l k m)"
  "put_endpoint l e x (put_sim c b m) = put_sim c b (put_endpoint l e x m)"
  by (simp_all add: put_sim_def put_link_def put_endpoint_def registry_def endpoint_def update_shared_def)

lemma refresh_put_sim [simp]: "refresh_link_states l (put_sim c b m) = put_sim c b (refresh_link_states l m)"
  by (simp add: refresh_link_states_def Let_def)

lemma refresh_put_link:
  assumes "l < length (registry m)"
  shows "refresh_link_states l (put_link l (k\<lparr>vl_endpoints := [y, z]\<rparr>) m) =
    put_link l (k\<lparr>vl_endpoints := [refreshed y z, refreshed z y]\<rparr>) m"
  using on_put_link(1) [OF assms, of 0] on_put_link(1) [OF assms, of 1]
    on_put_link(2) [OF assms, of 0] on_put_link(2) [OF assms, of 1]
  by (simp add: refresh_link_states_def Let_def refreshed_def One_nat_def)

lemma put_link_same: "l < length (registry m) \<Longrightarrow> put_link l (registry m ! l) m = m"
  by (simp add: put_link_def update_shared_def registry_def)

lemma reset_endpoint_ok:
  "ep_ok reset_endpoint" "ep_ok (reset_endpoint\<lparr>ep_attached := True\<rparr>)" "ends_ok reset_endpoint reset_endpoint"
  "\<not> ep_started reset_endpoint" "ep_state reset_endpoint = SPW_LINK_ERROR_RESET" "\<not> ep_attached reset_endpoint"
  by (simp_all add: reset_endpoint_def ep_ok_def ends_ok_def state_ok_def packet_queue_empty_inv ring_empty_inv)

lemma links_ok_attach_at:
  assumes "links_ok m" and "l < SPW_SIMULATOR_MAX_LOCAL_LINKS" and "e < 2"
    and "vl_allocated (registry m ! l) \<and> vl_link_id (registry m ! l) = sb_link_id b \<or>
      \<not> vl_allocated (registry m ! l) \<and> (\<forall>k \<in> set (registry m). vl_allocated k \<longrightarrow> vl_link_id k \<noteq> sb_link_id b)"
    and "k = (if vl_allocated (registry m ! l) then registry m ! l
      else (registry m ! l)\<lparr>vl_allocated := True, vl_link_id := sb_link_id b,
             vl_endpoints := [reset_endpoint, reset_endpoint]\<rparr>)"
    and "\<not> ep_attached (vl_endpoints k ! e)" and "sb_link b = Some l" and "sb_endpoint_index b = e"
  shows "links_ok (put_sim c b (refresh_link_states l
    (put_link l (k\<lparr>vl_endpoints := (vl_endpoints k)[e := reset_endpoint\<lparr>ep_attached := True\<rparr>]\<rparr>) m)))"
proof -
  let ?x = "reset_endpoint\<lparr>ep_attached := True\<rparr>" and ?s = "sm_shared (m_backend m)"
  have ok: "registry_ok ?s" "threads sim_thread m" "\<forall>b nb. m_buffers m b = Some nb \<longrightarrow> buffer_ok nb"
    using assms(1) by (simp_all add: holds_def sim_ok_def seen_def)
  have len: "length (registry m) = SPW_SIMULATOR_MAX_LOCAL_LINKS" "link_ok (registry m ! l)"
    using links_ok_registry [OF assms(1,2)] by auto
  then have k: "link_ok k" "vl_allocated k" "vl_link_id k = sb_link_id b"
    using assms(4,5) by (auto simp: link_ok_def reset_endpoint_ok One_nat_def)
  then obtain a z where az: "vl_endpoints k = [a, z]" "ends_ok a z"
    by (auto simp: link_ok_def numeral_2_eq_2 length_Suc_conv One_nat_def)
  define y where "y = (if e = 0 then z else a)"
  define k' where "k' = k\<lparr>vl_endpoints := (if e = 0 then [refreshed ?x y, refreshed y ?x] else [refreshed y ?x, refreshed ?x y])\<rparr>"
  have e: "e = 0 \<or> e = 1" using assms(3) by auto
  have "ep_ok y" "ep_started y \<or> ep_state y = SPW_LINK_ERROR_RESET \<or> ep_state y = SPW_LINK_READY"
    using ends_ok_parts [OF az(2)] by (auto simp: y_def)
  then have "ends_ok (refreshed ?x y) (refreshed y ?x)"
    by (intro ends_ok_refreshed) (auto simp: reset_endpoint_ok)
  then have "link_ok k'"
    using k ends_ok_sym by (auto simp: k'_def link_ok_def One_nat_def)
  moreover have "ep_attached (vl_endpoints k' ! e)"
    using e by (auto simp: k'_def refreshed_def One_nat_def)
  moreover have att: "ep_attached (vl_endpoints k' ! i)" if "ep_attached (vl_endpoints k ! i)" "i < 2" for i
    using that e az by (auto simp: k'_def y_def refreshed_def less_2_cases_iff One_nat_def)
  moreover have uniq: "j = l" if "j < SPW_SIMULATOR_MAX_LOCAL_LINKS" "vl_allocated (sh_registry ?s ! j)"
      "vl_link_id (sh_registry ?s ! j) = sb_link_id b" for j
  proof (cases "vl_allocated (registry m ! l)")
    case True
    then show ?thesis
      using that assms(2,4) ok(1) len(1) by (simp add: registry_ok_def unique_ids_def registry_def)
  next
    case False
    moreover have "sh_registry ?s ! j \<in> set (registry m)" using that(1) len(1) by (simp add: registry_def)
    ultimately show ?thesis using that(2,3) assms(4) by blast
  qed
  ultimately have "registry_ok (?s\<lparr>sh_registry := (sh_registry ?s)[l := k'], sh_backends := (sh_backends ?s)(c \<mapsto> b)\<rparr>)"
  proof (intro registry_ok_attach [OF ok(1) assms(2)])
    assume "vl_allocated (sh_registry ?s ! l)"
    then have "k = sh_registry ?s ! l" using assms(5) by (simp add: registry_def)
    then show "vl_link_id (sh_registry ?s ! l) = sb_link_id b \<and>
        \<not> ep_attached (vl_endpoints (sh_registry ?s ! l) ! sb_endpoint_index b) \<and>
        (\<forall>e<2. ep_attached (vl_endpoints (sh_registry ?s ! l) ! e) \<longrightarrow> ep_attached (vl_endpoints k' ! e))"
      using k(3) assms(6,8) att by simp
  qed (use k assms(3,7,8) in \<open>simp_all add: k'_def\<close>)
  moreover have "refresh_link_states l (put_link l (k\<lparr>vl_endpoints := (vl_endpoints k)[e := ?x]\<rparr>) m) = put_link l k' m"
    using e refresh_put_link [where l = l and m = m and k = k] len(1) assms(2) by (auto simp: az k'_def y_def One_nat_def)
  ultimately show ?thesis
    using ok(2,3) by (simp add: holds_def sim_ok_def seen_def threads_def put_sim_def put_link_def update_shared_def)
qed

lemma links_ok_sync:
  assumes "links_ok m" and "l < SPW_SIMULATOR_MAX_LOCAL_LINKS"
  shows "links_ok (put_link l ((registry m ! l)\<lparr>vl_sync_initialized := v\<rparr>) m)"
proof -
  let ?s = "sm_shared (m_backend m)" and ?k = "(registry m ! l)\<lparr>vl_sync_initialized := v\<rparr>"
  have ok: "registry_ok ?s" "threads sim_thread m" "\<forall>b nb. m_buffers m b = Some nb \<longrightarrow> buffer_ok nb"
    using assms(1) by (simp_all add: holds_def sim_ok_def seen_def)
  have "link_ok ?k" using links_ok_registry [OF assms] by (simp add: link_ok_def)
  moreover have "owner_ok ((sh_registry ?s)[l := ?k]) b" if "owner_ok (sh_registry ?s) b" for b
    using that assms(2) ok(1) by (auto simp: owner_ok_def registry_ok_def registry_def nth_list_update)
  moreover have "unique_ids ((sh_registry ?s)[l := ?k])"
    using ok(1) assms(2) by (auto simp: registry_ok_def unique_ids_def registry_def nth_list_update)
  moreover have "link_ok k'" if "k' \<in> set ((sh_registry ?s)[l := ?k])" for k'
    using that ok(1) calculation(1) set_update_subset_insert [of "sh_registry ?s" l ?k] by (auto simp: registry_ok_def)
  ultimately have "registry_ok (?s\<lparr>sh_registry := (sh_registry ?s)[l := ?k]\<rparr>)"
    using ok(1) by (simp add: registry_ok_def)
  then show ?thesis
    using ok(2,3) by (simp add: holds_def sim_ok_def seen_def threads_def put_link_def update_shared_def registry_def)
qed

lemma put_link_simps [simp]:
  "registry (put_link l k m) = (registry m)[l := k]" "the_sim c (put_link l k m) = the_sim c m"
  by (simp_all add: registry_def put_link_def the_sim_def update_shared_def)

lemma initialize_link_sync_ok:
  assumes "links_ok m" and "l < SPW_SIMULATOR_MAX_LOCAL_LINKS" and "initialize_link_sync l m = (ok, m')"
  shows "links_ok m'" and "\<exists>v. registry m' = (registry m)[l := (registry m ! l)\<lparr>vl_sync_initialized := v\<rparr>]"
    and "the_sim c m' = the_sim c m"
proof -
  have init: "registry m2 = registry m1 \<and> the_sim c m2 = the_sim c m1" if "host_init m1 = (b, m2)" for m1 b m2
    using that by (auto simp: host_init_def registry_def the_sim_def split: list.splits)
  have same: "\<exists>v. registry m = (registry m)[l := (registry m ! l)\<lparr>vl_sync_initialized := v\<rparr>]"
    by (rule exI [of _ "vl_sync_initialized (registry m ! l)"]) simp
  obtain b1 m1 where i1: "host_init m = (b1, m1)" by fastforce
  obtain b2 m2 where i2: "host_init m1 = (b2, m2)" by fastforce
  have "links_ok m1" "links_ok m2"
    using registry_rely.object_init [OF assms(1) i1] registry_rely.object_init [OF _ i2] by auto
  then show "links_ok m'" "\<exists>v. registry m' = (registry m)[l := (registry m ! l)\<lparr>vl_sync_initialized := v\<rparr>]"
      "the_sim c m' = the_sim c m"
    using assms i1 i2 init [OF i1] init [OF i2] same links_ok_sync [of m2 l True]
    by (auto simp: initialize_link_sync_def split: if_splits)
qed

lemma links_ok_attach:
  assumes "links_ok m" and "sb_endpoint_index (the_sim c m) < 2"
  shows "links_ok (snd (attach_backend c m))"
proof (cases "sb_link (the_sim c m)")
  case (Some l)
  with assms show ?thesis by (simp add: attach_backend_def)
next
  case None
  define b where "b = the_sim c m"
  define m1 where "m1 = host_mutex_lock m"
  obtain t f where find: "find_link (registry m1) (sb_link_id b) 0 None = (t, f)" by fastforce
  have m1: "links_ok m1" unfolding m1_def by (rule registry_rely.lock [OF assms(1)])
  have len: "length (registry m1) = SPW_SIMULATOR_MAX_LOCAL_LINKS" using links_ok_registry [OF m1, of 0] by simp
  define t' where "t' = (if t = None then f else t)"
  show ?thesis
  proof (cases t')
    case None
    then show ?thesis
      using \<open>sb_link (the_sim c m) = None\<close> find m1
      by (simp add: attach_backend_def Let_def b_def [symmetric] m1_def [symmetric] t'_def)
  next
    case (Some l)
    have l: "l < SPW_SIMULATOR_MAX_LOCAL_LINKS \<and>
        (vl_allocated (registry m1 ! l) \<and> vl_link_id (registry m1 ! l) = sb_link_id b \<or>
         \<not> vl_allocated (registry m1 ! l) \<and> (\<forall>k \<in> set (registry m1). vl_allocated k \<longrightarrow> vl_link_id k \<noteq> sb_link_id b))"
      using Some find find_link_found [of "registry m1"] find_link_missing [of "registry m1"] len
      by (cases t) (fastforce simp: t'_def)+
    obtain ok m2 where sync: "initialize_link_sync l m1 = (ok, m2)" by fastforce
    note m2 = initialize_link_sync_ok [OF m1 conjunct1 [OF l] sync]
    obtain v where reg: "registry m2 = (registry m1)[l := (registry m1 ! l)\<lparr>vl_sync_initialized := v\<rparr>]"
      using m2(2) by blast
    have l2: "vl_allocated (registry m2 ! l) \<and> vl_link_id (registry m2 ! l) = sb_link_id b \<or>
        \<not> vl_allocated (registry m2 ! l) \<and> (\<forall>k \<in> set (registry m2). vl_allocated k \<longrightarrow> vl_link_id k \<noteq> sb_link_id b)"
      using l len set_update_subset_insert [of "registry m1" l] unfolding reg by fastforce
    define k where "k = (if vl_allocated (registry m2 ! l) then registry m2 ! l
      else (registry m2 ! l)\<lparr>vl_allocated := True, vl_link_id := sb_link_id b,
             vl_endpoints := [reset_endpoint, reset_endpoint]\<rparr>)"
    have len2: "l < length (registry m2)" using links_ok_registry [OF m2(1), of l] l by simp
    have "(if \<not> vl_allocated (registry m2 ! l)
          then put_link l ((registry m2 ! l)\<lparr>vl_allocated := True, vl_link_id := sb_link_id b,
                 vl_endpoints := [reset_endpoint, reset_endpoint]\<rparr>) m2 else m2) = put_link l k m2"
      using put_link_same [OF len2] by (simp add: k_def)
    moreover have "links_ok (put_link l k m2)" if "ep_attached (vl_endpoints k ! sb_endpoint_index b)"
    proof -
      have "vl_allocated (registry m2 ! l)"
        using that assms(2) by (auto simp: k_def b_def reset_endpoint_ok less_2_cases_iff One_nat_def split: if_splits)
      then show ?thesis using m2(1) put_link_same [OF len2] by (simp add: k_def)
    qed
    moreover have "links_ok (put_sim c (b\<lparr>sb_link := Some l\<rparr>) (refresh_link_states l
        (put_link l (k\<lparr>vl_endpoints := (vl_endpoints k)[sb_endpoint_index b := reset_endpoint\<lparr>ep_attached := True\<rparr>]\<rparr>) m2)))"
      if "\<not> ep_attached (vl_endpoints k ! sb_endpoint_index b)"
      by (rule links_ok_attach_at [OF m2(1) conjunct1 [OF l], of "sb_endpoint_index b"])
        (use that l2 assms(2) in \<open>simp_all add: k_def b_def\<close>)
    ultimately show ?thesis
      using \<open>sb_link (the_sim c m) = None\<close> find m1 m2(1) Some sync on_put_link [OF len2]
      by (simp add: attach_backend_def Let_def b_def [symmetric] m1_def [symmetric] t'_def [symmetric] split: if_split)
  qed
qed

lemma links_ok_put_detached:
  assumes "links_ok m" and "sb_link b = None" and "sb_endpoint_index b < 2"
  shows "links_ok (put_sim c b m)"
proof -
  have "owner_ok links b" for links using assms(2,3) by (simp add: owner_ok_def)
  moreover have "exclusive (f(c \<mapsto> b))" if "exclusive f" for f
    using that assms(2) by (auto simp: exclusive_def)
  ultimately show ?thesis
    using assms(1) by (simp add: holds_def sim_ok_def seen_def threads_def put_sim_def update_shared_def registry_ok_def)
qed

lemma the_sim_put [simp]: "the_sim c' (put_sim c b m) = (if c' = c then b else the_sim c' m)"
  by (simp add: the_sim_def put_sim_def update_shared_def)

lemma zero_descriptor_ok: "buffer_ok zero_descriptor"
  by (simp add: buffer_ok_def zero_descriptor_def)

lemma zero_backend_memory_ok:
  assumes "links_ok m"
  shows "links_ok (zero_backend_memory c m) \<and> the_sim c (zero_backend_memory c m) = zero_backend"
proof -
  have "links_ok (fold (\<lambda>b. put_buffer b zero_descriptor) bs m1) \<and>
      the_sim c (fold (\<lambda>b. put_buffer b zero_descriptor) bs m1) = the_sim c m1" if "links_ok m1" for bs m1
    using that
    by (induction bs arbitrary: m1)
      (simp_all add: links_ok_put_buffer zero_descriptor_ok)
  moreover have "links_ok (put_sim c zero_backend m)"
    by (rule links_ok_put_detached [OF assms]) (simp_all add: zero_backend_def)
  ultimately show ?thesis unfolding zero_backend_memory_def by (metis the_sim_put)
qed

lemma the_sim_zero_copy: "the_sim c (initialize_zero_copy_buffers c m) = (the_sim c m)\<lparr>sb_rx_buffer_acquired := False\<rparr>"
  by (simp add: initialize_zero_copy_buffers_def Let_def)

lemma the_sim_init: "host_init m = (b, m') \<Longrightarrow> the_sim c m' = the_sim c m"
  by (auto simp: host_init_def the_sim_def split: list.splits)

lemma links_ok_construct:
  assumes "links_ok m"
  shows "links_ok (snd (simulator_construct c config m))"
proof -
  define sim where "sim = as_simulator (the (pc_backend_config config))"
  define b where "b = zero_backend\<lparr>sb_link_id := sim_link_id sim,
      sb_endpoint_index := (if sim_endpoint sim = SPW_SIMULATOR_ENDPOINT_B then 1 else 0)\<rparr>"
  define m1 where "m1 = put_sim c b (zero_backend_memory c m)"
  have b: "sb_link b = None" "sb_endpoint_index b < 2" by (simp_all add: b_def zero_backend_def)
  note zero = zero_backend_memory_ok [OF assms, of c]
  have m1: "links_ok m1" unfolding m1_def by (rule links_ok_put_detached [OF conjunct1 [OF zero] b])
  obtain ok2 m2 where i2: "host_init m1 = (ok2, m2)" by fastforce
  obtain ok3 m3 where i3: "host_init m2 = (ok3, m3)" by fastforce
  have ok: "links_ok m2" "links_ok m3"
    using registry_rely.object_init [OF m1 i2] registry_rely.object_init [OF _ i3] by auto
  have sim3: "the_sim c m3 = b" using the_sim_init [OF i2] the_sim_init [OF i3] by (simp add: m1_def)
  define m4 where "m4 = initialize_zero_copy_buffers c (put_sim c (b\<lparr>sb_zero_copy_sync_initialized := True\<rparr>) m3)"
  have m4: "links_ok m4" "sb_endpoint_index (the_sim c m4) < 2"
    unfolding m4_def using b ok(2) by (simp_all add: links_ok_zero_copy links_ok_put_detached the_sim_zero_copy)
  obtain r m5 where att: "attach_backend c m4 = (r, m5)" by fastforce
  have m5: "links_ok m5" using links_ok_attach [OF m4] att by simp
  then have "links_ok (put_sim c ((the_sim c m5)\<lparr>sb_zero_copy_sync_initialized := False\<rparr>) m5)"
    by (simp add: links_ok_put_sim)
  with m1 ok m5 zero i2 i3 sim3 att show ?thesis
    by (simp add: simulator_construct_def Let_def sim_def [symmetric] b_def [symmetric] m1_def [symmetric]
        m4_def [symmetric])
qed

section \<open>Detaching\<close>

text \<open>Closing a port also relies on no other thread opening or closing the same port meanwhile.\<close>

definition owner_of :: "addr \<Rightarrow> sim_shared memory \<Rightarrow> (nat option \<times> nat \<times> u64) option" where
  "owner_of c s = map_option (\<lambda>b. (sb_link b, sb_endpoint_index b, sb_link_id b)) (sh_backends (m_backend s) c)"

definition owner_thread :: "addr \<Rightarrow> interference \<Rightarrow> bool" where
  "owner_thread c f \<longleftrightarrow> sim_thread f \<and> (\<forall>s. owner_of c (f s) = owner_of c s)"

interpretation owner_rely: rely "owner_thread c" "\<lambda>s. sim_ok s \<and> owner_of c s = own" for c own
  by unfold_locales (auto simp: owner_thread_def sim_thread_def)

lemma owner_thread_ok: "threads (owner_thread c) m \<Longrightarrow> threads sim_thread m"
  by (auto simp: threads_def owner_thread_def)

lemma registry_ok_detach:
  assumes "registry_ok s" and "sh_backends s c = Some b0" and "sb_link b0 = Some l" and "link_ok k"
    and "vl_allocated k \<Longrightarrow> vl_link_id k = vl_link_id (sh_registry s ! l)"
    and "\<And>e. e < 2 \<Longrightarrow> e \<noteq> sb_endpoint_index b0 \<Longrightarrow> ep_attached (vl_endpoints (sh_registry s ! l) ! e) \<Longrightarrow>
      ep_attached (vl_endpoints k ! e)"
    and "sb_link b = None" and "sb_endpoint_index b < 2"
  shows "registry_ok (s\<lparr>sh_registry := (sh_registry s)[l := k], sh_backends := (sh_backends s)(c \<mapsto> b)\<rparr>)"
proof -
  let ?R = "sh_registry s" and ?R' = "(sh_registry s)[l := k]"
  have len: "length ?R = SPW_SIMULATOR_MAX_LOCAL_LINKS" using assms(1) by (simp add: registry_ok_def)
  have own: "owner_ok ?R b'" if "sh_backends s c' = Some b'" for c' b'
    using assms(1) that by (auto simp: registry_ok_def)
  have l: "l < SPW_SIMULATOR_MAX_LOCAL_LINKS" "vl_allocated (?R ! l)"
    using own [OF assms(2)] assms(3) by (auto simp: owner_ok_def)
  have "owner_ok ?R' b'" if b': "sh_backends s c' = Some b'" and "c' \<noteq> c" for c' b'
  proof (cases "sb_link b' = Some l")
    case True
    then have "sb_endpoint_index b' \<noteq> sb_endpoint_index b0"
      using assms(1-3) that by (auto simp: registry_ok_def exclusive_def)
    then have att: "ep_attached (vl_endpoints k ! sb_endpoint_index b')"
      using own [OF b'] assms(6) True by (auto simp: owner_ok_def)
    then have "vl_allocated k"
      using assms(4) own [OF b'] by (auto simp: link_ok_def owner_ok_def less_2_cases_iff One_nat_def)
    then show ?thesis using att own [OF b'] assms(5) True len by (auto simp: owner_ok_def)
  next
    case False
    then show ?thesis using own [OF b'] by (auto simp: owner_ok_def)
  qed
  moreover have "owner_ok ?R' b" using assms(7,8) by (simp add: owner_ok_def)
  moreover have "unique_ids ?R'"
    using assms(1,5) l len by (auto simp: registry_ok_def unique_ids_def nth_list_update)
  moreover have "exclusive ((sh_backends s)(c \<mapsto> b))"
    using assms(1,7) by (auto simp: registry_ok_def exclusive_def)
  moreover have "\<forall>k' \<in> set ?R'. link_ok k'"
    using assms(1,4) set_update_subset_insert [of ?R l k] by (auto simp: registry_ok_def)
  ultimately show ?thesis using len by (auto simp: registry_ok_def)
qed

lemma links_ok_detach:
  assumes "links_ok m" and "threads (owner_thread c) m"
  shows "links_ok (detach_backend c m)"
proof (cases "sb_link (the_sim c m)")
  case None
  with assms show ?thesis by (simp add: detach_backend_def)
next
  case (Some l)
  define b where "b = the_sim c m"
  define e where "e = sb_endpoint_index b"
  define m1 where "m1 = host_mutex_lock (host_mutex_lock m)"
  have "holds (owner_thread c) (\<lambda>s. sim_ok s \<and> owner_of c s = owner_of c (seen m)) m"
    using assms by (simp add: holds_def)
  then have m1: "holds (owner_thread c) (\<lambda>s. sim_ok s \<and> owner_of c s = owner_of c (seen m)) m1"
    unfolding m1_def by (intro owner_rely.lock)
  then have inv: "links_ok m1" using owner_thread_ok by (auto simp: holds_def)
  let ?s = "sm_shared (m_backend m1)"
  have "sh_backends (sm_shared (m_backend m)) c = Some b"
    using Some by (cases "sh_backends (sm_shared (m_backend m)) c") (auto simp: the_sim_def zero_backend_def b_def)
  then obtain b1 where b1: "sh_backends ?s c = Some b1" "sb_link b1 = Some l" "sb_endpoint_index b1 = e"
    using m1 Some by (auto simp: holds_def owner_of_def seen_def b_def e_def)
  have the1: "the_sim c m1 = b1" using b1(1) by (simp add: the_sim_def)
  note l = links_ok_owner [OF inv, of c, unfolded the1, OF b1(2), unfolded b1(3)]
  obtain k where k: "registry m1 ! l = k" by blast
  have lk: "link_ok k" "l < length (registry m1)" using links_ok_registry [OF inv l(1)] k l(1) by auto
  let ?p = "endpoint l (1 - e) m1"
  define y where "y = (if ep_attached ?p \<and> ep_started ?p then ?p\<lparr>ep_state := SPW_LINK_CONNECTING,
      ep_statistics := (ep_statistics ?p)\<lparr>link_errors := link_errors (ep_statistics ?p) + 1\<rparr>\<rparr> else ?p)"
  define k1 where "k1 = k\<lparr>vl_endpoints := (if e = 0 then [reset_endpoint, y] else [y, reset_endpoint])\<rparr>"
  define k2 where "k2 = (if ep_attached y then k1 else k\<lparr>vl_allocated := False, vl_link_id := 0,
      vl_endpoints := [reset_endpoint, reset_endpoint]\<rparr>)"
  have e: "e = 0 \<or> e = 1" using l(2) by auto
  have peer: "endpoint l (1 - e) (put_endpoint l e reset_endpoint m1) = ?p"
    using endpoint_put [OF inv l] e by (auto simp: One_nat_def)
  have "(if ep_attached ?p \<and> ep_started ?p
      then put_endpoint l (1 - e) (?p\<lparr>ep_state := SPW_LINK_CONNECTING, ep_statistics := (ep_statistics ?p)
          \<lparr>link_errors := link_errors (ep_statistics ?p) + 1\<rparr>\<rparr>) (put_endpoint l e reset_endpoint m1)
      else put_endpoint l e reset_endpoint m1) = put_ends l e reset_endpoint y m1"
    using put_endpoint_ends(1) [OF inv l, of reset_endpoint] by (simp add: put_ends_def y_def)
  also have one: "\<dots> = put_link l k1 m1" unfolding put_ends_eq [OF inv l] k1_def k ..
  finally have two: "(if ep_attached ?p \<and> ep_started ?p
      then put_endpoint l (1 - e) (?p\<lparr>ep_state := SPW_LINK_CONNECTING, ep_statistics := (ep_statistics ?p)
          \<lparr>link_errors := link_errors (ep_statistics ?p) + 1\<rparr>\<rparr>) (put_endpoint l e reset_endpoint m1)
      else put_endpoint l e reset_endpoint m1) = put_link l k1 m1" .
  have att: "ep_attached (endpoint l 0 (put_link l k1 m1)) \<or> ep_attached (endpoint l 1 (put_link l k1 m1)) \<longleftrightarrow> ep_attached y"
    using e by (auto simp: on_put_link [OF lk(2)] k1_def reset_endpoint_ok One_nat_def)
  have link: "(if \<not> ep_attached (endpoint l 0 (put_link l k1 m1)) \<and> \<not> ep_attached (endpoint l 1 (put_link l k1 m1))
      then put_link l ((registry (put_link l k1 m1) ! l)\<lparr>vl_allocated := False, vl_link_id := 0,
             vl_endpoints := [reset_endpoint, reset_endpoint]\<rparr>) (put_link l k1 m1)
      else put_link l k1 m1) = put_link l k2 m1"
    using att lk(2) by (auto simp: k2_def k1_def put_link_def update_shared_def registry_def)
  have eq: "detach_backend c m = put_sim c (b1\<lparr>sb_link := None\<rparr>) (put_link l k2 m1)"
    using Some
    by (simp add: detach_backend_def Let_def b_def [symmetric] e_def [symmetric] m1_def [symmetric]
        peer two link [simplified put_link_simps] the1 cong: if_cong split del: if_split)
  have "ep_ok y \<and> (ep_started y \<longrightarrow> ep_state y = SPW_LINK_CONNECTING) \<and>
      (\<not> ep_started y \<longrightarrow> ep_state y = SPW_LINK_ERROR_RESET \<or> ep_state y = SPW_LINK_READY)"
    using links_ok_ends [OF inv l] by (auto simp: y_def ends_ok_def ep_ok_def state_ok_def split: if_splits)
  then have "ends_ok reset_endpoint y" by (auto simp: ends_ok_def state_ok_def reset_endpoint_ok)
  moreover have "vl_allocated k"
    using inv b1 k by (auto simp: holds_def sim_ok_def seen_def registry_ok_def owner_ok_def registry_def)
  ultimately have "link_ok k2"
    using ends_ok_sym e by (auto simp: k2_def k1_def link_ok_def reset_endpoint_ok One_nat_def)
  moreover have "ep_attached (vl_endpoints k2 ! i)" if "i < 2" "i \<noteq> e" "ep_attached (vl_endpoints k ! i)" for i
    using that e k by (auto simp: k2_def k1_def y_def endpoint_def less_2_cases_iff One_nat_def)
  ultimately have "registry_ok (?s\<lparr>sh_registry := (sh_registry ?s)[l := k2],
      sh_backends := (sh_backends ?s)(c \<mapsto> b1\<lparr>sb_link := None\<rparr>)\<rparr>)"
    using inv b1 k l(2)
    by (intro registry_ok_detach [where ?b0.0 = b1])
      (auto simp: holds_def sim_ok_def seen_def registry_def k2_def k1_def split: if_splits)
  with inv eq show ?thesis
    by (simp add: holds_def sim_ok_def seen_def threads_def put_sim_def put_link_def update_shared_def)
qed

lemma links_ok_destroy:
  "links_ok m \<Longrightarrow> threads (owner_thread c) m \<Longrightarrow> links_ok (simulator_destroy c m)"
  by (simp add: simulator_destroy_def Let_def links_ok_detach links_ok_put_sim)

section \<open>Reachable states\<close>

text \<open>
  Everything that is done to the simulator through one backend context: the constructor and the
  destructor, the operations of the table and the application writing to a buffer it owns. The storage behind a packet that is sent is
  as long as the packet says.
\<close>

inductive simulator_op :: "addr \<Rightarrow> simulator memory \<Rightarrow> simulator memory \<Rightarrow> bool" where
  construct: "simulator_op c m (snd (simulator_construct c (config :: unit spw_port_config) m))"
| destroy: "simulator_op c m (simulator_destroy c m)"
| start: "simulator_op c m (snd (simulator_start c m))"
| stop: "simulator_op c m (snd (simulator_stop c m))"
| reset: "simulator_op c m (snd (simulator_reset c m))"
| get_link_state: "simulator_op c m (snd (snd (simulator_get_link_state c st m)))"
| send: "tx_packet_ok pk \<Longrightarrow> simulator_op c m (snd (simulator_send c pk t m))"
| receive: "simulator_op c m (snd (snd (simulator_receive c pk t m)))"
| send_time_code: "simulator_op c m (snd (simulator_send_time_code c tc t m))"
| receive_time_code: "simulator_op c m (snd (snd (simulator_receive_time_code c tc t m)))"
| get_statistics: "simulator_op c m (snd (snd (simulator_get_statistics c out m)))"
| clear_statistics: "simulator_op c m (snd (simulator_clear_statistics c m))"
| acquire_tx: "simulator_op c m (snd (snd (simulator_acquire_tx_buffer c n t b m)))"
| submit_tx: "simulator_op c m (snd (simulator_submit_tx_buffer c a t m))"
| reclaim_tx: "simulator_op c m (snd (snd (simulator_reclaim_tx_buffer c t b m)))"
| release_tx: "simulator_op c m (snd (simulator_release_tx_buffer c a m))"
| acquire_rx: "simulator_op c m (snd (snd (simulator_acquire_rx_buffer c t b m)))"
| release_rx: "simulator_op c m (snd (simulator_release_rx_buffer c a m))"
| application: "buf_data (the_buffer a m) = Some d0 \<Longrightarrow> length d = length d0 \<Longrightarrow>
    simulator_op c m (put_buffer a ((the_buffer a m)\<lparr>buf_data := Some d, buf_length := n, buf_terminator := tm\<rparr>) m)"

text \<open>
  One call, with whatever the host does during it: the effects of other threads keep the invariant and
  leave the calling port's backend attached where it is.
\<close>

inductive simulator_step :: "sim_shared memory \<Rightarrow> sim_shared memory \<Rightarrow> bool" where
  call: "seen m = s \<Longrightarrow> threads (owner_thread c) m \<Longrightarrow> simulator_op c m m' \<Longrightarrow> simulator_step s (seen m')"

lemma simulator_op_links_ok: "simulator_op c m m' \<Longrightarrow> links_ok m \<Longrightarrow> threads (owner_thread c) m \<Longrightarrow> links_ok m'"
proof (induction rule: simulator_op.induct)
  case (application a m d0 d n c tm)
  then show ?case
    using the_buffer_ok [of m a] by (auto intro!: links_ok_put_buffer simp: buffer_ok_def)
qed (simp_all add: links_ok_construct links_ok_destroy links_ok_start links_ok_stop links_ok_reset
    links_ok_statistics links_ok_send links_ok_receive links_ok_send_time_code links_ok_receive_time_code
    links_ok_acquire_tx links_ok_submit_tx links_ok_reclaim_tx links_ok_release links_ok_acquire_rx)

lemma simulator_step_sim_ok: "simulator_step s s' \<Longrightarrow> sim_ok s \<Longrightarrow> sim_ok s'"
proof (induction rule: simulator_step.induct)
  case (call m s c m')
  then have "links_ok m"
    by (simp add: holds_def owner_thread_ok)
  then have "links_ok m'"
    using call by (blast intro: simulator_op_links_ok)
  then show ?case by (simp add: holds_def)
qed

text \<open>The state of a process before its first simulator port.\<close>

definition simulator_initial :: "sim_shared memory" where
  "simulator_initial = \<lparr>m_buffers = Map.empty, m_backend =
     \<lparr>sh_registry = replicate SPW_SIMULATOR_MAX_LOCAL_LINKS \<lparr>vl_sync_initialized = False, vl_allocated = False,
        vl_link_id = 0, vl_endpoints = [reset_endpoint, reset_endpoint]\<rparr>, sh_backends = Map.empty\<rparr>\<rparr>"

lemma sim_ok_initial: "sim_ok simulator_initial"
  by (auto simp: simulator_initial_def sim_ok_def registry_ok_def link_ok_def unique_ids_def
      exclusive_def reset_endpoint_ok One_nat_def simp del: replicate.simps)

lemma sim_ok_reachable: "simulator_step\<^sup>*\<^sup>* simulator_initial s \<Longrightarrow> sim_ok s"
  by (induction rule: rtranclp_induct) (auto intro: sim_ok_initial simulator_step_sim_ok)

definition link_end :: "sim_shared memory \<Rightarrow> nat \<Rightarrow> nat \<Rightarrow> simulator_endpoint_state" where
  "link_end s l e = vl_endpoints (sh_registry (m_backend s) ! l) ! e"

lemma link_end_ok:
  assumes "sim_ok s" and "l < SPW_SIMULATOR_MAX_LOCAL_LINKS" and "e < 2"
  shows "ends_ok (link_end s l e) (link_end s l (1 - e))"
proof -
  have "link_ok (sh_registry (m_backend s) ! l)"
    using assms(1,2) by (simp add: sim_ok_def registry_ok_def)
  with assms(3) ends_ok_sym show ?thesis
    by (auto simp: link_ok_def link_end_def less_2_cases_iff One_nat_def)
qed

text \<open>
  Property C3: in every state reachable by opening, closing and using simulator ports, with other
  threads running during every blocking call, the two endpoints of every link agree on the link
  state: both report \<open>RUN\<close> or neither does, an endpoint reports \<open>RUN\<close> exactly when both are started
  and \<open>CONNECTING\<close> exactly when it alone is, and only attached endpoints are started.
\<close>

theorem simulator_link_states_agree:
  assumes "simulator_step\<^sup>*\<^sup>* simulator_initial s" and "l < 16" and "e < 2"
    and "a = link_end s l e" and "b = link_end s l (1 - e)"
  shows "(ep_state a = SPW_LINK_RUN \<longleftrightarrow> ep_started a \<and> ep_started b) \<and>
    (ep_state a = SPW_LINK_RUN \<longleftrightarrow> ep_state b = SPW_LINK_RUN) \<and>
    (ep_state a = SPW_LINK_CONNECTING \<longleftrightarrow> ep_started a \<and> \<not> ep_started b) \<and>
    (ep_started a \<longrightarrow> ep_attached a)"
  using link_end_ok [OF sim_ok_reachable [OF assms(1)] assms(2,3)] assms(4,5)
  by (auto simp: ends_ok_def ep_ok_def state_ok_def split: if_splits)


end
