(* ===== verification/Simulator_Delivery.thy ===== *)
theory Simulator_Delivery
  imports Simulator_Links Packet_Channel
begin

text \<open>
  Packets on a simulator link: what one end sends is what the other end receives, with other threads
  running whenever an operation gives the mutex up. The other threads are described by what they may
  do to the queue between two operations: nothing, add packets, or take packets.
\<close>

section \<open>One direction of a link\<close>

declare One_nat_def [simp del]

definition side :: "addr \<Rightarrow> sim_shared memory \<Rightarrow> (nat \<times> nat) option" where
  "side c s = (case sh_backends (m_backend s) c of None \<Rightarrow> None
     | Some b \<Rightarrow> map_option (\<lambda>l. (l, sb_endpoint_index b)) (sb_link b))"

text \<open>\<open>c1\<close> is attached to one end of link \<open>l\<close> and \<open>c2\<close> to the other, \<open>e\<close>, where packets of \<open>c1\<close> arrive.\<close>

definition wired :: "addr \<Rightarrow> addr \<Rightarrow> nat \<Rightarrow> nat \<Rightarrow> sim_shared memory \<Rightarrow> bool" where
  "wired c1 c2 l e s \<longleftrightarrow> sim_ok s \<and> e < 2 \<and> side c1 s = Some (l, 1 - e) \<and> side c2 s = Some (l, e)"

definition arriving :: "nat \<Rightarrow> nat \<Rightarrow> sim_shared memory \<Rightarrow> logical_packet list" where
  "arriving l e s = packets_queued (ep_packets (link_end s l e))"

text \<open>Threads that keep both ends attached and change the queue at most as \<open>G\<close> allows.\<close>

definition wire_thread ::
    "(logical_packet list \<Rightarrow> logical_packet list \<Rightarrow> bool) \<Rightarrow> addr \<Rightarrow> addr \<Rightarrow> nat \<Rightarrow> nat \<Rightarrow> interference \<Rightarrow> bool" where
  "wire_thread G c1 c2 l e f \<longleftrightarrow> sim_thread f \<and>
     (\<forall>s. wired c1 c2 l e s \<longrightarrow> wired c1 c2 l e (f s) \<and> G (arriving l e s) (arriving l e (f s)))"

definition on_wire ::
    "(logical_packet list \<Rightarrow> logical_packet list \<Rightarrow> bool) \<Rightarrow> addr \<Rightarrow> addr \<Rightarrow> nat \<Rightarrow> nat \<Rightarrow> logical_packet list \<Rightarrow>
       sim_shared memory \<Rightarrow> bool" where
  "on_wire G c1 c2 l e q s \<longleftrightarrow> wired c1 c2 l e s \<and> G\<^sup>*\<^sup>* q (arriving l e s)"

interpretation wire_rely: rely "wire_thread G c1 c2 l e" "on_wire G c1 c2 l e q" for G c1 c2 l e q
  by unfold_locales (auto simp: wire_thread_def on_wire_def intro: rtranclp.rtrancl_into_rtrancl)

abbreviation wire_state ::
    "(logical_packet list \<Rightarrow> logical_packet list \<Rightarrow> bool) \<Rightarrow> addr \<Rightarrow> addr \<Rightarrow> nat \<Rightarrow> nat \<Rightarrow> logical_packet list \<Rightarrow>
       simulator memory \<Rightarrow> bool" where
  "wire_state G c1 c2 l e q \<equiv> holds (wire_thread G c1 c2 l e) (on_wire G c1 c2 l e q)"

lemma wire_state_links_ok: "wire_state G c1 c2 l e q m \<Longrightarrow> links_ok m"
  by (auto simp: holds_def on_wire_def wired_def wire_thread_def threads_def)

lemma wire_state_now: "wire_state G c1 c2 l e q m \<Longrightarrow> wire_state G c1 c2 l e (arriving l e (seen m)) m"
  by (auto simp: holds_def on_wire_def)

lemma endpoint_link_end: "endpoint l e m = link_end (seen m) l e"
  by (simp add: endpoint_def link_end_def seen_def registry_def)

lemma side_sim:
  "side c (seen m) = Some (l, e) \<Longrightarrow> sb_link (the_sim c m) = Some l \<and> sb_endpoint_index (the_sim c m) = e"
  by (auto simp: side_def the_sim_def seen_def split: option.splits)

lemma wire_state_sides:
  assumes "wire_state G c1 c2 l e q m"
  shows "sb_link (the_sim c1 m) = Some l" "sb_endpoint_index (the_sim c1 m) = 1 - e"
    "sb_link (the_sim c2 m) = Some l" "sb_endpoint_index (the_sim c2 m) = e" "e < 2"
    "l < SPW_SIMULATOR_MAX_LOCAL_LINKS" "1 - (1 - e) = e" "1 - e < 2"
proof -
  have *: "side c1 (seen m) = Some (l, 1 - e)" "side c2 (seen m) = Some (l, e)" and e: "e < 2"
    using assms by (simp_all add: holds_def on_wire_def wired_def)
  then show "sb_link (the_sim c1 m) = Some l" "sb_endpoint_index (the_sim c1 m) = 1 - e"
    "sb_link (the_sim c2 m) = Some l" "sb_endpoint_index (the_sim c2 m) = e" "e < 2"
    using side_sim by blast+
  then show "l < SPW_SIMULATOR_MAX_LOCAL_LINKS"
    using links_ok_owner(1) wire_state_links_ok [OF assms] by blast
  show "1 - (1 - e) = e" "1 - e < 2" using e by arith+
qed

lemma put_ends_threads [simp]: "threads R (put_ends l e x y m) = threads R m"
  by (simp add: threads_def put_ends_def put_endpoint_def put_link_def update_shared_def)

lemma side_put_ends [simp]: "side c (seen (put_ends l e x y m)) = side c (seen m)"
  by (simp add: side_def seen_def put_ends_def put_endpoint_def put_link_def update_shared_def)

lemma endpoint_put_ends:
  assumes "links_ok m" and "l < SPW_SIMULATOR_MAX_LOCAL_LINKS" and "e < 2"
  shows "endpoint l e (put_ends l e x y m) = x" "endpoint l (1 - e) (put_ends l e x y m) = y"
proof -
  have l: "l < length (registry m)" using links_ok_registry [OF assms(1,2)] assms(2) by simp
  have "e = 0 \<or> e = 1" using assms(3) by auto
  then show "endpoint l e (put_ends l e x y m) = x" "endpoint l (1 - e) (put_ends l e x y m) = y"
    by (auto simp: put_ends_eq [OF assms] on_put_link [OF l])
qed

lemma wire_state_put_ends:
  assumes "wire_state G c1 c2 l e q m" and "links_ok (put_ends l e x y m)" and "packets_queued (ep_packets x) = q'"
  shows "wire_state G c1 c2 l e q' (put_ends l e x y m)"
  using assms endpoint_put_ends(1) [OF wire_state_links_ok [OF assms(1)], of l e x y] wire_state_sides(5,6) [OF assms(1)]
  by (auto simp: holds_def on_wire_def wired_def arriving_def endpoint_link_end)

section \<open>Sending and receiving\<close>

text \<open>
  The operations take effect at one moment, on the queue the other threads have left by then.
\<close>

lemma send_on_wire:
  assumes "wire_state G c1 c2 l e q m" and "tx_packet_ok pk" and "simulator_send c1 pk t m = (r, m')"
  shows "\<exists>q1. G\<^sup>*\<^sup>* q q1 \<and> wire_state G c1 c2 l e (q1 @ (if r = SPW_OK then [logical_of pk] else [])) m' \<and>
    arriving l e (seen m') = q1 @ (if r = SPW_OK then [logical_of pk] else [])"
proof -
  note sides = wire_state_sides [OF assms(1)]
  obtain b m1 where wait: "wait_condition t (packet_space_ready l (1 - e)) (host_mutex_lock m) = (b, m1)" by fastforce
  have inv: "wire_state G c1 c2 l e q (host_mutex_lock m)" "wire_state G c1 c2 l e q m1"
    using wire_rely.lock [OF assms(1)] wire_rely.wait(1) [OF wait] by auto
  have same: ?thesis if "wire_state G c1 c2 l e q m'" "r \<noteq> SPW_OK"
    using that wire_state_now [OF that(1)] by (auto simp: holds_def on_wire_def)
  let ?y = "endpoint l e m1"
  have "r \<noteq> SPW_OK \<and> (m' = m \<or> m' = host_mutex_lock m \<or> m' = m1) \<or>
      m' = enqueue_at_peer l (1 - e) pk m1 \<and> r = SPW_OK \<and> pk_length pk \<le> SPW_SLOT_SIZE \<and>
        rb_count (ep_packets ?y) \<noteq> SPW_QUEUE_DEPTH"
    using assms(3) wait sides by (auto simp: simulator_send_def Let_def split: if_splits)
  then show ?thesis
  proof
    assume "r \<noteq> SPW_OK \<and> (m' = m \<or> m' = host_mutex_lock m \<or> m' = m1)"
    with assms(1) inv same show ?thesis by blast
  next
    assume run: "m' = enqueue_at_peer l (1 - e) pk m1 \<and> r = SPW_OK \<and> pk_length pk \<le> SPW_SLOT_SIZE \<and>
        rb_count (ep_packets ?y) \<noteq> SPW_QUEUE_DEPTH"
    note ok = wire_state_links_ok [OF inv(2)]
    obtain st where eq: "m' = put_ends l (1 - e) ((endpoint l (1 - e) m1)\<lparr>ep_statistics := st\<rparr>)
        (?y\<lparr>ep_packets := enqueue_packet pk (ep_packets ?y)\<rparr>) m1"
      using enqueue_ends [OF ok sides(6,8)] run sides(7) by metis
    then have eq: "m' = put_ends l e (?y\<lparr>ep_packets := enqueue_packet pk (ep_packets ?y)\<rparr>)
        ((endpoint l (1 - e) m1)\<lparr>ep_statistics := st\<rparr>) m1"
      using sides(5,6,7,8) by (auto simp: put_ends_eq [OF ok] less_2_cases_iff)
    have "packet_queue_inv (ep_packets ?y)"
      using links_ok_ends [OF ok sides(6,5)] by (simp add: ends_ok_def ep_ok_def)
    then have queued: "packets_queued (enqueue_packet pk (ep_packets ?y)) =
        packets_queued (ep_packets ?y) @ [logical_of pk]"
      using packetq.queued_enqueue packetq.size_room run assms(2)
      by (metis le_neq_implies_less slot_admissible_def)
    have "links_ok m'"
      using links_ok_enqueue [OF ok sides(6,8), of pk] run assms(2) sides(7) by (simp add: slot_admissible_def)
    then have "wire_state G c1 c2 l e (packets_queued (ep_packets ?y) @ [logical_of pk]) m'"
      unfolding eq by (rule wire_state_put_ends [OF inv(2)]) (simp add: queued)
    moreover have "arriving l e (seen m') = packets_queued (ep_packets ?y) @ [logical_of pk]"
      using endpoint_put_ends(1) [OF ok sides(6,5)] unfolding eq arriving_def by (simp add: endpoint_link_end [symmetric] queued)
    moreover have "G\<^sup>*\<^sup>* q (packets_queued (ep_packets ?y))"
      using inv(2) by (simp add: holds_def on_wire_def arriving_def endpoint_link_end)
    ultimately show ?thesis using run by auto
  qed
qed

lemma receive_on_wire:
  assumes "wire_state G c1 c2 l e q m" and "rx_packet_ok pk" and "simulator_receive c2 pk t m = (r, pk', m')"
  shows "\<exists>q1. G\<^sup>*\<^sup>* q q1 \<and> q1 = (if r = SPW_OK then [logical_of pk'] else []) @ arriving l e (seen m') \<and>
    wire_state G c1 c2 l e (arriving l e (seen m')) m'"
proof -
  note sides = wire_state_sides [OF assms(1)]
  obtain b m1 where wait: "wait_condition t (packet_receive_ready l e) (host_mutex_lock m) = (b, m1)" by fastforce
  have inv: "wire_state G c1 c2 l e q (host_mutex_lock m)" "wire_state G c1 c2 l e q m1"
    using wire_rely.lock [OF assms(1)] wire_rely.wait(1) [OF wait] by auto
  have same: ?thesis if "wire_state G c1 c2 l e q m'" "r \<noteq> SPW_OK"
    using that wire_state_now [OF that(1)] by (auto simp: holds_def on_wire_def)
  let ?x = "endpoint l e m1" and ?q = "ep_packets (endpoint l e m1)"
  let ?x' = "\<lambda>st. ?x\<lparr>ep_packets := ring_drop SPW_QUEUE_DEPTH ?q, ep_statistics := st\<rparr>"
  have "r \<noteq> SPW_OK \<and> (m' = m \<or> m' = host_mutex_lock m \<or> m' = m1) \<or>
      r = SPW_OK \<and> rb_count ?q \<noteq> 0 \<and> deliver_slot (ring_front ?q) pk = (SPW_OK, pk') \<and>
        (\<exists>st. m' = put_endpoint l e (?x' st) m1)"
    using assms(3) wait sides by (auto simp: simulator_receive_def Let_def split: if_splits prod.splits)
  then show ?thesis
  proof
    assume "r \<noteq> SPW_OK \<and> (m' = m \<or> m' = host_mutex_lock m \<or> m' = m1)"
    with assms(1) inv same show ?thesis by blast
  next
    note ok = wire_state_links_ok [OF inv(2)]
    assume "r = SPW_OK \<and> rb_count ?q \<noteq> 0 \<and> deliver_slot (ring_front ?q) pk = (SPW_OK, pk') \<and>
      (\<exists>st. m' = put_endpoint l e (?x' st) m1)"
    then obtain st where run: "r = SPW_OK" "rb_count ?q \<noteq> 0" "deliver_slot (ring_front ?q) pk = (SPW_OK, pk')"
        and eq: "m' = put_ends l e (?x' st) (endpoint l (1 - e) m1) m1"
      using put_endpoint_ends(1) [OF ok sides(6,5)] by metis
    have qinv: "packet_queue_inv ?q" using links_ok_ends [OF ok sides(6,5)] by (simp add: ends_ok_def ep_ok_def)
    have "links_ok m'"
      using links_ok_receive [OF wire_state_links_ok [OF assms(1)], of c2 pk t] assms(3) by simp
    then have st: "wire_state G c1 c2 l e (packets_queued (ring_drop SPW_QUEUE_DEPTH ?q)) m'"
      unfolding eq by (rule wire_state_put_ends [OF inv(2)]) simp
    have "arriving l e (seen m') = packets_queued (ring_drop SPW_QUEUE_DEPTH ?q)"
      using endpoint_put_ends(1) [OF ok sides(6,5)] unfolding eq arriving_def
      by (simp add: endpoint_link_end [symmetric])
    moreover have "packets_queued ?q = logical_of pk' # packets_queued (ring_drop SPW_QUEUE_DEPTH ?q)"
      using packetq.queued_front [OF qinv] deliver_slot_ok(1) [OF run(3) front_slot_ok [OF qinv] assms(2)] run(2)
      by simp
    moreover have "G\<^sup>*\<^sup>* q (packets_queued ?q)"
      using inv(2) by (simp add: holds_def on_wire_def arriving_def endpoint_link_end)
    ultimately show ?thesis using run(1) wire_state_now [OF st] by auto
  qed
qed

section \<open>Zero-copy buffers\<close>

text \<open>What the application sees in a buffer.\<close>

definition contents :: "spw_buffer \<Rightarrow> logical_packet" where
  "contents nb = (take (buf_length nb) (the (buf_data nb)), buf_terminator nb)"

lemma seen_put_buffer [simp]:
  "side c (seen (put_buffer b nb m)) = side c (seen m)" "arriving l e (seen (put_buffer b nb m)) = arriving l e (seen m)"
  by (simp_all add: side_def arriving_def link_end_def seen_def put_buffer_def)

lemma wire_state_put_buffer:
  "wire_state G c1 c2 l e q m \<Longrightarrow> buffer_ok nb \<Longrightarrow> wire_state G c1 c2 l e q (put_buffer b nb m)"
  using links_ok_put_buffer [OF wire_state_links_ok, of G c1 c2 l e q m nb b]
  by (auto simp: holds_def on_wire_def wired_def threads_def put_buffer_def arriving_def link_end_def seen_def side_def)

lemma wire_state_acquired:
  assumes "wire_state G c1 c2 l e q m"
  shows "wire_state G c1 c2 l e q (put_sim c ((the_sim c m)\<lparr>sb_rx_buffer_acquired := x\<rparr>) m)"
proof -
  have "links_ok (put_sim c ((the_sim c m)\<lparr>sb_rx_buffer_acquired := x\<rparr>) m)"
    by (rule links_ok_put_sim [OF wire_state_links_ok [OF assms]]) simp_all
  with assms show ?thesis
    by (auto simp: holds_def on_wire_def wired_def threads_def put_sim_def update_shared_def arriving_def
        link_end_def seen_def side_def the_sim_def zero_backend_def split: option.splits)
qed

lemma the_buffer_put_buffer: "the_buffer b (put_buffer b nb m) = nb"
  by (simp add: the_buffer_def put_buffer_def)

lemma submit_on_wire:
  assumes "wire_state G c1 c2 l e q m" and "simulator_submit_tx_buffer c1 b t m = (SPW_OK, m')"
  shows "\<exists>q1. G\<^sup>*\<^sup>* q q1 \<and> wire_state G c1 c2 l e (q1 @ [contents (the_buffer b (host_mutex_lock m))]) m'"
proof -
  define m1 where "m1 = host_mutex_lock m"
  define m2 where "m2 = put_buffer b ((the_buffer b m1)\<lparr>buf_state := SPW_BUFFER_STATE_BACKEND\<rparr>) m1"
  define pk where "pk = \<lparr>pk_data = buf_data (the_buffer b m1), pk_length = buf_length (the_buffer b m1),
      pk_capacity = buf_capacity (the_buffer b m1), pk_terminator = buf_terminator (the_buffer b m1)\<rparr>"
  obtain r m3 where send: "simulator_send c1 pk t m2 = (r, m3)" by fastforce
  have m1: "wire_state G c1 c2 l e q m1" unfolding m1_def by (rule wire_rely.lock [OF assms(1)])
  note nb = the_buffer_ok [OF wire_state_links_ok [OF m1], of b]
  have m2: "wire_state G c1 c2 l e q m2" unfolding m2_def by (rule wire_state_put_buffer [OF m1]) (simp add: nb)
  have run: "r = SPW_OK" "buf_length (the_buffer b m1) \<le> SPW_SLOT_SIZE"
      "m' = put_buffer b ((the_buffer b (host_mutex_lock m3))\<lparr>buf_state := SPW_BUFFER_STATE_COMPLETED\<rparr>) (host_mutex_lock m3)"
    using assms(2) send
    by (auto simp: simulator_submit_tx_buffer_def Let_def m1_def [symmetric] m2_def [symmetric] pk_def [symmetric]
        split: if_splits)
  then have pk: "tx_packet_ok pk" "logical_of pk = contents (the_buffer b m1)"
    using nb by (auto simp: pk_def tx_packet_ok_def buffer_ok_def logical_of_def packet_bytes_def contents_def)
  obtain q1 where q1: "G\<^sup>*\<^sup>* q q1" "wire_state G c1 c2 l e (q1 @ [logical_of pk]) m3"
    using send_on_wire [OF m2 pk(1) send] run(1) by auto
  note m4 = wire_rely.lock [OF q1(2)]
  have "wire_state G c1 c2 l e (q1 @ [logical_of pk]) m'"
    unfolding run(3) by (rule wire_state_put_buffer [OF m4]) (simp add: the_buffer_ok wire_state_links_ok [OF m4])
  with q1(1) show ?thesis using pk(2) by (auto simp: m1_def)
qed

lemma acquire_rx_on_wire:
  assumes "wire_state G c1 c2 l e q m" and "simulator_acquire_rx_buffer c2 t out m = (SPW_OK, b, m')"
  shows "b = Some (rx_buffer_addr c2) \<and>
    (\<exists>q2. G\<^sup>*\<^sup>* q (contents (the_buffer (rx_buffer_addr c2) m') # q2) \<and> wire_state G c1 c2 l e q2 m')"
proof -
  let ?b = "rx_buffer_addr c2"
  obtain ok m1 where wait: "wait_condition t (rx_buffer_ready c2) (host_mutex_lock m) = (ok, m1)" by fastforce
  define m2 where "m2 = put_sim c2 ((the_sim c2 m1)\<lparr>sb_rx_buffer_acquired := True\<rparr>) m1"
  define m3 where "m3 = put_buffer ?b ((the_buffer ?b m2)\<lparr>buf_state := SPW_BUFFER_STATE_BACKEND\<rparr>) m2"
  define pk where "pk = \<lparr>pk_data = buf_data (the_buffer ?b m3), pk_length = 0, pk_capacity = SPW_SLOT_SIZE,
      pk_terminator = SPW_TERMINATOR_EOP\<rparr>"
  obtain r pk' m4 where recv: "simulator_receive c2 pk t m3 = (r, pk', m4)"
    by (cases "simulator_receive c2 pk t m3")
  have "wire_state G c1 c2 l e q m1" by (rule wire_rely.wait(1) [OF wait wire_rely.lock [OF assms(1)]])
  then have m2: "wire_state G c1 c2 l e q m2" unfolding m2_def by (rule wire_state_acquired)
  have m3: "wire_state G c1 c2 l e q m3" unfolding m3_def
    by (rule wire_state_put_buffer [OF m2]) (simp add: the_buffer_ok [OF wire_state_links_ok [OF m2]])
  note ok3 = the_buffer_ok [OF wire_state_links_ok [OF m3], of ?b]
  have run: "r = SPW_OK" "b = Some ?b" "m' = put_buffer ?b ((the_buffer ?b (host_mutex_lock m4))\<lparr>buf_data := pk_data pk',
      buf_length := pk_length pk', buf_terminator := pk_terminator pk', buf_state := SPW_BUFFER_STATE_APPLICATION\<rparr>)
      (host_mutex_lock m4)"
    using assms(2) wait recv
    by (auto simp: simulator_acquire_rx_buffer_def Let_def m2_def [symmetric] m3_def [symmetric] pk_def [symmetric]
        split: if_splits)
  have rx: "rx_packet_ok pk" using ok3 by (auto simp: pk_def rx_packet_ok_def buffer_ok_def)
  obtain d where d: "pk_data pk' = Some d" "length d = SPW_SLOT_SIZE"
    using receive_storage [OF wire_state_links_ok [OF m3] recv] ok3 by (auto simp: pk_def buffer_ok_def)
  obtain q2 where q: "G\<^sup>*\<^sup>* q (logical_of pk' # q2)" "wire_state G c1 c2 l e q2 m4"
    using receive_on_wire [OF m3 rx recv] run(1) by auto
  note m5 = wire_rely.lock [OF q(2)]
  have "wire_state G c1 c2 l e q2 m'"
    unfolding run(3) by (rule wire_state_put_buffer [OF m5])
      (use the_buffer_ok [OF wire_state_links_ok [OF m5], of ?b] d in \<open>simp add: buffer_ok_def\<close>)
  moreover have "contents (the_buffer ?b m') = logical_of pk'"
    using d(1) by (simp add: run(3) the_buffer_put_buffer contents_def logical_of_def packet_bytes_def)
  ultimately show ?thesis using q(1) run(2) by auto
qed

section \<open>Blocking until a packet arrives\<close>

definition link_running :: "nat \<Rightarrow> sim_shared memory \<Rightarrow> bool" where
  "link_running l s \<longleftrightarrow> ep_started (link_end s l 0) \<and> ep_started (link_end s l 1)"

text \<open>Other threads that add packets and leave the link running.\<close>

definition sender_thread :: "addr \<Rightarrow> addr \<Rightarrow> nat \<Rightarrow> nat \<Rightarrow> interference \<Rightarrow> bool" where
  "sender_thread c1 c2 l e f \<longleftrightarrow> wire_thread (\<lambda>q q'. \<exists>x. q' = q @ x) c1 c2 l e f \<and>
     (\<forall>s. wired c1 c2 l e s \<longrightarrow> link_running l s \<longrightarrow> link_running l (f s))"

definition running_wire :: "addr \<Rightarrow> addr \<Rightarrow> nat \<Rightarrow> nat \<Rightarrow> logical_packet list \<Rightarrow> sim_shared memory \<Rightarrow> bool" where
  "running_wire c1 c2 l e q s \<longleftrightarrow> wired c1 c2 l e s \<and> link_running l s \<and> (\<exists>x. arriving l e s = q @ x)"

interpretation sender_rely: rely "sender_thread c1 c2 l e" "running_wire c1 c2 l e q" for c1 c2 l e q
  by unfold_locales (auto simp: sender_thread_def running_wire_def wire_thread_def)

lemma wait_loop_infinite:
  assumes "\<forall>w \<in> set (sm_wakeups (m_backend m)). fst w"
    and "k \<le> length (sm_wakeups (m_backend m))"
    and "\<And>m. ready m = rd (seen m)"
    and "rd (fold snd (take k (sm_wakeups (m_backend m))) (seen m))"
  shows "fst (wait_loop SPW_TIMEOUT_INFINITE d ready m)"
  using assms(1,2,4)
proof (induction k arbitrary: m)
  case 0
  then show ?case by (simp add: wait_loop.simps [of _ _ _ m] assms(3))
next
  case (Suc k)
  obtain f ws where ws: "sm_wakeups (m_backend m) = (True, f) # ws"
    using Suc.prems(1,2) by (cases "sm_wakeups (m_backend m)") auto
  define m1 where "m1 = interfere f (m\<lparr>m_backend := (m_backend m)\<lparr>sm_wakeups := ws\<rparr>\<rparr>)"
  have m1: "host_condition_wait m = (True, m1)" "sm_wakeups (m_backend m1) = ws" "seen m1 = f (seen m)"
    by (simp_all add: host_condition_wait_def ws m1_def seen_interfere)
  have "fst (wait_loop SPW_TIMEOUT_INFINITE d ready m1)"
    by (rule Suc.IH) (use Suc.prems ws m1 in auto)
  then show ?case using m1(1) by (simp add: wait_loop.simps [of _ _ _ m])
qed

lemma running_wire_receive:
  assumes "holds (sender_thread c1 c2 l e) (running_wire c1 c2 l e q) m" and "pk_data pk \<noteq> None"
    and "SPW_SLOT_SIZE \<le> pk_capacity pk"
    and "fst (wait_condition t (packet_receive_ready l e) (host_mutex_lock m))"
  shows "fst (simulator_receive c2 pk t m) = SPW_OK"
proof -
  obtain m1 where wait: "wait_condition t (packet_receive_ready l e) (host_mutex_lock m) = (True, m1)"
    using assms(4) by (metis prod.collapse)
  note lock = sender_rely.lock [OF assms(1)]
  have m1: "holds (sender_thread c1 c2 l e) (running_wire c1 c2 l e q) m1" "packet_receive_ready l e m1"
    using sender_rely.wait [OF wait lock] by auto
  have ok: "wired c1 c2 l e (seen m')" "links_ok m'" "link_running l (seen m')"
    if "holds (sender_thread c1 c2 l e) (running_wire c1 c2 l e q) m'" for m'
    using that by (auto simp: holds_def running_wire_def wired_def sender_thread_def wire_thread_def threads_def)
  have e: "e < 2" "sb_link (the_sim c2 m) = Some l" "sb_endpoint_index (the_sim c2 m) = e"
    using ok(1) [OF assms(1)] side_sim [of c2 m l e] by (auto simp: wired_def)
  then have l: "l < SPW_SIMULATOR_MAX_LOCAL_LINKS" using links_ok_owner(1) ok(2) [OF assms(1)] by blast
  have up: "ep_started (endpoint l e m')" "peer_available (endpoint l (1 - e) m')" "ep_attached (endpoint l e m')"
      "packet_queue_inv (ep_packets (endpoint l e m'))"
    if "holds (sender_thread c1 c2 l e) (running_wire c1 c2 l e q) m'" for m'
    using ok(3) [OF that] links_ok_ends [OF ok(2) [OF that] l e(1)] e(1)
    by (auto simp: link_running_def endpoint_link_end [symmetric] less_2_cases_iff peer_available_def ends_ok_def ep_ok_def One_nat_def)
  let ?s = "ring_front (ep_packets (endpoint l e m1))"
  have "slot_ok ?s" by (rule front_slot_ok [OF up(4) [OF m1(1)]])
  then have "fst (deliver_slot ?s pk) = SPW_OK"
    using assms(2,3) by (simp add: deliver_slot_result slot_ok_def)
  moreover have "rb_count (ep_packets (endpoint l e m1)) \<noteq> 0"
    using m1(2) up(1,2) [OF m1(1)] by (simp add: packet_receive_ready_def)
  ultimately show ?thesis
    using e wait up [OF lock] up [OF m1(1)]
    by (auto simp: simulator_receive_def Let_def split: prod.splits)
qed

section \<open>Ports at the two ends of a link\<close>

definition simulator_port :: "addr \<Rightarrow> addr \<Rightarrow> simulator world \<Rightarrow> bool" where
  "simulator_port p c w \<longleftrightarrow> (case w_ports w p of None \<Rightarrow> False
     | Some q \<Rightarrow> port_ops q = Some SIMULATOR_OPS \<and> backend_context q = Some c)"

definition linked_ports :: "addr \<Rightarrow> addr \<Rightarrow> addr \<Rightarrow> addr \<Rightarrow> nat \<Rightarrow> nat \<Rightarrow> simulator world \<Rightarrow> bool" where
  "linked_ports p1 p2 c1 c2 l e w \<longleftrightarrow> simulator_port p1 c1 w \<and> simulator_port p2 c2 w \<and>
     wired c1 c2 l e (seen (w_memory w)) \<and> threads (wire_thread (=) c1 c2 l e) (w_memory w)"

definition in_transit :: "nat \<Rightarrow> nat \<Rightarrow> simulator world \<Rightarrow> logical_packet list" where
  "in_transit l e w = arriving l e (seen (w_memory w))"

lemma simulator_port_ops:
  "simulator_port p c w \<Longrightarrow> the_ops w (Some p) = SIMULATOR_OPS \<and> the_context w (Some p) = c"
  by (auto simp: simulator_port_def the_ops_def the_context_def the_port_def split: option.splits)

lemma simulator_port_memory [simp]: "simulator_port p c (w\<lparr>w_memory := m\<rparr>) = simulator_port p c w"
  by (simp add: simulator_port_def)

lemma rtranclp_eq [simp]: "((=) :: 'a \<Rightarrow> 'a \<Rightarrow> bool)\<^sup>*\<^sup>* = (=)"
  by (auto simp: fun_eq_iff elim: rtranclp_induct)

lemma linked_ports_wire:
  "linked_ports p1 p2 c1 c2 l e w \<Longrightarrow> wire_state (=) c1 c2 l e (in_transit l e w) (w_memory w)"
  by (simp add: linked_ports_def holds_def on_wire_def in_transit_def)

lemma wire_linked_ports:
  "linked_ports p1 p2 c1 c2 l e w \<Longrightarrow> wire_state (=) c1 c2 l e q m \<Longrightarrow>
     linked_ports p1 p2 c1 c2 l e (w\<lparr>w_memory := m\<rparr>) \<and> in_transit l e (w\<lparr>w_memory := m\<rparr>) = q"
  by (simp add: linked_ports_def holds_def on_wire_def in_transit_def)

lemma port_send_wire:
  assumes "linked_ports p1 p2 c1 c2 l e w" and "tx_packet_ok pk" and "spw_port_send (Some p1) (Some pk) t w = (r, w')"
  shows "linked_ports p1 p2 c1 c2 l e w' \<and>
    in_transit l e w' = in_transit l e w @ (if r = SPW_OK then [logical_of pk] else [])"
proof -
  have op: "op_send (the_ops w (Some p1)) = simulator_send" "the_context w (Some p1) = c1"
    using assms(1) simulator_port_ops by (auto simp: linked_ports_def SIMULATOR_OPS_def)
  obtain r1 m where m: "simulator_send c1 pk t (w_memory w) = (r1, m)" by fastforce
  have "(r, w') = (r1, w\<lparr>w_memory := m\<rparr>) \<or> w' = w \<and> r \<noteq> SPW_OK"
    using assms(3) by (auto simp: spw_port_send_def backend_call_def op m Let_def split: if_splits)
  then show ?thesis
    using send_on_wire [OF linked_ports_wire [OF assms(1)] assms(2) m] assms(1) wire_linked_ports [OF assms(1), of _ m]
    by auto
qed

lemma port_receive_wire:
  assumes "linked_ports p1 p2 c1 c2 l e w" and "rx_packet_ok pk"
    and "spw_port_receive (Some p2) (Some pk) t w = (r, out, w')"
  shows "linked_ports p1 p2 c1 c2 l e w' \<and>
    in_transit l e w = (if r = SPW_OK then [logical_of (the out)] else []) @ in_transit l e w'"
proof -
  have op: "op_receive (the_ops w (Some p2)) = simulator_receive" "the_context w (Some p2) = c2"
    using assms(1) simulator_port_ops by (auto simp: linked_ports_def SIMULATOR_OPS_def)
  obtain r1 pk1 m where m: "simulator_receive c2 pk t (w_memory w) = (r1, pk1, m)"
    by (cases "simulator_receive c2 pk t (w_memory w)")
  have "(r, out, w') = (r1, Some pk1, w\<lparr>w_memory := m\<rparr>) \<or> w' = w \<and> r \<noteq> SPW_OK"
    using assms(3) by (auto simp: spw_port_receive_def backend_call_out_def op m Let_def split: if_splits)
  then show ?thesis
    using receive_on_wire [OF linked_ports_wire [OF assms(1)] assms(2) m] assms(1)
      wire_linked_ports [OF assms(1), of "arriving l e (seen m)" m]
    by auto
qed

interpretation simulator_channel: packet_channel "\<lambda>pk t. spw_port_send (Some p1) (Some pk) t"
  "\<lambda>pk t. spw_port_receive (Some p2) (Some pk) t" "in_transit l e" SPW_QUEUE_DEPTH "linked_ports p1 p2 c1 c2 l e"
  for p1 p2 c1 c2 l e
proof (unfold_locales, goal_cases)
  case (1 w pk t r w')
  then show ?case by (rule port_send_wire)
next
  case (2 w pk t r out w')
  then show ?case by (rule port_receive_wire)
next
  case (3 w)
  note st = linked_ports_wire [OF 3]
  have "ep_ok (endpoint l e (w_memory w))"
    using links_ok_ends [OF wire_state_links_ok [OF st] wire_state_sides(6,5) [OF st]] by (simp add: ends_ok_def)
  then show ?case
    by (simp add: in_transit_def arriving_def endpoint_link_end [symmetric] ep_ok_def packetq.length_queued_room)
qed

section \<open>Properties\<close>

text \<open>
  Property C2: two ports at the ends of one simulator link. Whatever sequence of sends on one and
  receives on the other is made, with whatever packets, storage and timeouts, and with other threads
  active during each call on everything but this direction of the link, the packets received are the
  packets accepted, unchanged and in order, and at most eight are in transit.
\<close>

theorem simulator_delivers_in_order:
  assumes "linked_ports p1 p2 c1 c2 l e w" and "in_transit l e w = []"
    and "transfers (\<lambda>pk t. spw_port_send (Some p1) (Some pk) t) (\<lambda>pk t. spw_port_receive (Some p2) (Some pk) t)
      ts w = (sent, received, w')"
    and "list_all transfer_ok ts"
  shows "\<exists>pending. sent = received @ pending \<and> length pending \<le> 8"
  by (rule simulator_channel.transfers_lossless [OF assms(3,1,2,4)])

text \<open>
  Property C7: zero-copy delivery. A buffer submitted on one end of an idle link is what the next
  receive buffer acquired on the other end shows: same bytes, same terminator, and the link is idle
  again afterwards.
\<close>

theorem simulator_zero_copy_delivery:
  assumes "wired c1 c2 l e (seen m)" and "threads (wire_thread (=) c1 c2 l e) m" and "arriving l e (seen m) = []"
    and "simulator_submit_tx_buffer c1 b t m = (SPW_OK, m1)"
    and "simulator_acquire_rx_buffer c2 t' out m1 = (SPW_OK, b', m2)"
  shows "b' = Some (rx_buffer_addr c2) \<and>
    contents (the_buffer (rx_buffer_addr c2) m2) = contents (the_buffer b (host_mutex_lock m)) \<and>
    arriving l e (seen m2) = []"
proof -
  have "wire_state (=) c1 c2 l e [] m" using assms(1-3) by (simp add: holds_def on_wire_def)
  from submit_on_wire [OF this assms(4)]
  have "wire_state (=) c1 c2 l e [contents (the_buffer b (host_mutex_lock m))] m1" by simp
  from acquire_rx_on_wire [OF this assms(5)] show ?thesis
    by (auto simp: holds_def on_wire_def)
qed


end
