(* ===== verification/Simulator_Samples.thy ===== *)
theory Simulator_Samples
  imports Simulator_Delivery Loopback
begin

text \<open>
  A concrete process with two simulator ports at the ends of one link, reached from the empty registry
  by the operations of the backend; the hypotheses of the simulator's properties hold in it.
\<close>

section \<open>The process\<close>

declare One_nat_def [simp del]

definition hosted :: "sim_shared memory \<Rightarrow> simulator memory" where
  "hosted s = \<lparr>m_buffers = m_buffers s, m_backend =
     \<lparr>sm_shared = m_backend s, sm_gaps = [], sm_wakeups = [], sm_clock = [], sm_inits = []\<rparr>\<rparr>"

definition sample_sim_config :: "u8 \<Rightarrow> unit spw_port_config" where
  "sample_sim_config e = (sample_port_config 2)\<lparr>pc_backend_config := Some (sample_backend_config
     \<lparr>as_simulator := \<lparr>sim_struct_size = 24, sim_version = 1, sim_link_id = 7, sim_endpoint = e\<rparr>\<rparr>)\<rparr>"

definition one_attached :: "simulator memory" where
  "one_attached = snd (simulator_construct 65536 (sample_sim_config 0) (hosted simulator_initial))"

definition both_attached :: "simulator memory" where
  "both_attached = snd (simulator_construct 131072 (sample_sim_config 1) one_attached)"

definition both_running :: "simulator memory" where
  "both_running = snd (simulator_start 131072 (snd (simulator_start 65536 both_attached)))"

definition quiet :: "simulator memory \<Rightarrow> bool" where
  "quiet m \<longleftrightarrow> sm_gaps (m_backend m) = [] \<and> sm_wakeups (m_backend m) = [] \<and> sm_inits (m_backend m) = []"

lemma quiet_host [simp]:
  "quiet m \<Longrightarrow> host_mutex_lock m = m" "quiet m \<Longrightarrow> host_init m = (True, m)"
  by (simp_all add: quiet_def host_mutex_lock_def host_init_def)

lemma quiet_put [simp]:
  "quiet (put_sim c b m) = quiet m" "quiet (put_link l k m) = quiet m" "quiet (put_endpoint l e x m) = quiet m"
  "quiet (put_buffer a nb m) = quiet m"
  by (simp_all add: quiet_def put_sim_def put_endpoint_def put_link_def update_shared_def put_buffer_def)

lemma registry_put [simp]:
  "registry (put_sim c b m) = registry m" "registry (put_buffer a nb m) = registry m"
  "registry (put_link l k m) = (registry m)[l := k]"
  by (simp_all add: registry_def put_sim_def put_link_def update_shared_def put_buffer_def)

lemma sample_sim_put [simp]:
  "the_sim c (put_sim c' b m) = (if c = c' then b else the_sim c m)" "the_sim c (put_link l k m) = the_sim c m"
  "the_sim c (put_endpoint l e x m) = the_sim c m"
  by (simp_all add: the_sim_def put_sim_def put_link_def put_endpoint_def update_shared_def)

lemma folded_buffers [simp]:
  "quiet (fold (\<lambda>b. put_buffer b nb) bs m) = quiet m"
  "registry (fold (\<lambda>b. put_buffer b nb) bs m) = registry m"
  "the_sim c (fold (\<lambda>b. put_buffer b nb) bs m) = the_sim c m"
  by (induction bs arbitrary: m) simp_all

lemma initialized_buffers [simp]:
  "quiet (initialize_tx_buffers c n m) = quiet m" "registry (initialize_tx_buffers c n m) = registry m"
  by (induction n) (simp_all add: Let_def)

lemma zero_copy_buffers [simp]:
  "quiet (initialize_zero_copy_buffers c m) = quiet m" "registry (initialize_zero_copy_buffers c m) = registry m"
  "the_sim c' (initialize_zero_copy_buffers c m) =
     (if c' = c then (the_sim c m)\<lparr>sb_rx_buffer_acquired := False\<rparr> else the_sim c' m)"
  by (simp_all add: initialize_zero_copy_buffers_def Let_def)

lemma zeroed_backend [simp]:
  "quiet (zero_backend_memory c m) = quiet m" "registry (zero_backend_memory c m) = registry m"
  "the_sim c' (zero_backend_memory c m) = (if c' = c then zero_backend else the_sim c' m)"
  by (simp_all add: zero_backend_memory_def)

definition sample_link :: "simulator_endpoint_state \<Rightarrow> simulator_endpoint_state \<Rightarrow> simulator_virtual_link" where
  "sample_link a b = \<lparr>vl_sync_initialized = True, vl_allocated = True, vl_link_id = 7, vl_endpoints = [a, b]\<rparr>"

definition sample_backend :: "nat \<Rightarrow> spw_simulator_backend" where
  "sample_backend e = \<lparr>sb_link_id = 7, sb_endpoint_index = e, sb_link = Some 0, sb_rx_buffer_acquired = False,
     sb_zero_copy_sync_initialized = True\<rparr>"

abbreviation idle_end :: simulator_endpoint_state where
  "idle_end \<equiv> reset_endpoint\<lparr>ep_attached := True\<rparr>"

abbreviation up_end :: "u8 \<Rightarrow> simulator_endpoint_state" where
  "up_end st \<equiv> reset_endpoint\<lparr>ep_attached := True, ep_started := True, ep_state := st\<rparr>"

lemma reset_endpoint_fields [simp]:
  "\<not> ep_attached reset_endpoint" "\<not> ep_started reset_endpoint" "packets_queued (ep_packets reset_endpoint) = []"
  by (simp_all add: reset_endpoint_def)

lemmas sample_eval = simulator_construct_def attach_backend_def initialize_link_sync_def refresh_link_states_def
  endpoint_def Let_def sample_link_def sample_backend_def zero_backend_def sample_sim_config_def One_nat_def

lemma find_link_free: "\<not> vl_allocated k \<Longrightarrow> find_link (replicate n k) i j (Some f) = (None, Some f)"
  by (induction n arbitrary: j) simp_all

lemma initial_registry:
  "quiet (hosted simulator_initial)" "length (registry (hosted simulator_initial)) = 16"
  "registry (hosted simulator_initial) ! 0 = \<lparr>vl_sync_initialized = False, vl_allocated = False, vl_link_id = 0,
     vl_endpoints = [reset_endpoint, reset_endpoint]\<rparr>"
  "find_link (registry (hosted simulator_initial)) i 0 None = (None, Some 0)"
  by (simp_all add: quiet_def hosted_def simulator_initial_def registry_def find_link_free replicate_Suc [of 15, simplified])

lemma one_attached_eval:
  "quiet one_attached" "registry one_attached = (registry (hosted simulator_initial))[0 := sample_link idle_end reset_endpoint]"
  "the_sim 65536 one_attached = sample_backend 0"
  using initial_registry by (simp_all add: one_attached_def sample_eval put_endpoint_def)

lemma find_first: "vl_allocated k \<Longrightarrow> xs \<noteq> [] \<Longrightarrow> find_link (xs[0 := k]) (vl_link_id k) 0 None = (Some 0, None)"
  by (cases xs) simp_all

lemma sample_registry_nonempty: "registry (hosted simulator_initial) \<noteq> []" "0 < length (registry (hosted simulator_initial))"
  using initial_registry(2) by auto

lemma both_attached_eval:
  "quiet both_attached" "registry both_attached = (registry (hosted simulator_initial))[0 := sample_link idle_end idle_end]"
  "the_sim 65536 both_attached = sample_backend 0" "the_sim 131072 both_attached = sample_backend 1"
  using one_attached_eval sample_registry_nonempty find_first [of "sample_link idle_end reset_endpoint" "registry (hosted simulator_initial)"]
  by (simp_all add: both_attached_def sample_eval put_endpoint_def)

lemma both_running_eval:
  "quiet both_running"
  "registry both_running = (registry (hosted simulator_initial))[0 := sample_link (up_end SPW_LINK_RUN) (up_end SPW_LINK_RUN)]"
  "the_sim 65536 both_running = sample_backend 0" "the_sim 131072 both_running = sample_backend 1"
  using both_attached_eval sample_registry_nonempty
  by (simp_all add: both_running_def simulator_start_def sample_eval put_endpoint_def)

lemma quiet_threads: "quiet m \<Longrightarrow> threads R m"
  by (simp add: quiet_def threads_def)

lemma quiet_step: "quiet m \<Longrightarrow> simulator_op c m m' \<Longrightarrow> simulator_step (seen m) (seen m')"
  by (rule simulator_step.call [OF refl quiet_threads])

lemma seen_hosted [simp]: "seen (hosted s) = s" "quiet (hosted s)"
  by (simp_all add: seen_def hosted_def quiet_def)

lemma start_65536: "quiet (snd (simulator_start 65536 both_attached))"
  using both_attached_eval sample_registry_nonempty by (simp add: simulator_start_def sample_eval)

lemma sample_steps:
  "simulator_step simulator_initial (seen one_attached)"
  "simulator_step (seen one_attached) (seen both_attached)"
  "simulator_step (seen both_attached) (seen (snd (simulator_start 65536 both_attached)))"
  "simulator_step (seen (snd (simulator_start 65536 both_attached))) (seen both_running)"
  using quiet_step [OF seen_hosted(2) simulator_op.construct, of simulator_initial 65536 "sample_sim_config 0"]
    quiet_step [OF one_attached_eval(1) simulator_op.construct, of 131072 "sample_sim_config 1"]
    quiet_step [OF both_attached_eval(1) simulator_op.start, of 65536]
    quiet_step [OF start_65536 simulator_op.start, of 131072]
  by (simp_all add: one_attached_def both_attached_def both_running_def)

lemma both_running_reachable: "simulator_step\<^sup>*\<^sup>* simulator_initial (seen both_running)"
  using sample_steps by (meson converse_rtranclp_into_rtranclp rtranclp.rtrancl_refl)

section \<open>Witnesses\<close>

theorem simulator_link_states_agree_witness:
  "ep_state (link_end (seen both_running) 0 0) = SPW_LINK_RUN \<and>
   (ep_state (link_end (seen both_running) 0 0) = SPW_LINK_RUN \<longleftrightarrow>
      ep_started (link_end (seen both_running) 0 0) \<and> ep_started (link_end (seen both_running) 0 1))"
proof -
  have "endpoint 0 0 both_running = up_end SPW_LINK_RUN"
    using sample_registry_nonempty by (simp add: endpoint_def both_running_eval sample_link_def)
  then show ?thesis
    using simulator_link_states_agree [OF both_running_reachable, of 0 0, OF _ _ refl refl]
    by (simp add: endpoint_link_end)
qed

lemma both_running_backends:
  "sh_backends (m_backend (seen both_running)) 65536 = Some (sample_backend 0)"
  "sh_backends (m_backend (seen both_running)) 131072 = Some (sample_backend 1)"
  using both_running_eval(3,4)
  by (auto simp: the_sim_def seen_def sample_backend_def zero_backend_def split: option.splits)


lemma both_running_wired:
  "wired 65536 131072 0 1 (seen both_running)" "link_running 0 (seen both_running)" "arriving 0 1 (seen both_running) = []"
proof -
  show "wired 65536 131072 0 1 (seen both_running)"
    using sim_ok_reachable [OF both_running_reachable] both_running_backends
    by (simp add: wired_def side_def sample_backend_def)
  have *: "link_end (seen both_running) 0 0 = up_end SPW_LINK_RUN" "link_end (seen both_running) 0 1 = up_end SPW_LINK_RUN"
    using sample_registry_nonempty
    by (simp_all add: endpoint_link_end [symmetric] endpoint_def both_running_eval sample_link_def One_nat_def)
  then show "link_running 0 (seen both_running)" "arriving 0 1 (seen both_running) = []"
    by (simp_all add: link_running_def arriving_def)
qed

definition sample_port :: "addr \<Rightarrow> addr \<Rightarrow> simulator spw_port" where
  "sample_port p c = \<lparr>port_ops = Some SIMULATOR_OPS, backend_context = Some c, destroy_backend = Some simulator_destroy,
     workspace_base = p, workspace_alignment = 16, release_workspace = False, locally_started = True,
     ownership_epoch = 1\<rparr>"

definition two_ports :: "simulator world" where
  "two_ports = \<lparr>w_ports = [4096 \<mapsto> sample_port 4096 65536, 8192 \<mapsto> sample_port 8192 131072], w_memory = both_running\<rparr>"

lemma two_ports_linked: "linked_ports 4096 8192 65536 131072 0 1 two_ports" "in_transit 0 1 two_ports = []"
  using both_running_wired quiet_threads [OF both_running_eval(1)]
  by (simp_all add: linked_ports_def two_ports_def simulator_port_def sample_port_def in_transit_def)

theorem simulator_delivers_in_order_witness:
  "\<exists>sent received w. transfers (\<lambda>pk t. spw_port_send (Some 4096) (Some pk) t)
     (\<lambda>pk t. spw_port_receive (Some 8192) (Some pk) t) sample_transfers two_ports = (sent, received, w) \<and>
     (\<exists>pending. sent = received @ pending \<and> length pending \<le> 8)"
proof -
  obtain sent received w where run: "transfers (\<lambda>pk t. spw_port_send (Some 4096) (Some pk) t)
     (\<lambda>pk t. spw_port_receive (Some 8192) (Some pk) t) sample_transfers two_ports = (sent, received, w)"
    by (metis prod.collapse)
  show ?thesis
    using run simulator_delivers_in_order [OF two_ports_linked run sample_transfers_ok] by blast
qed

subsection \<open>A thread that sends while another waits\<close>

definition sends_sample :: interference where
  "sends_sample s = seen (snd (simulator_send 65536 sample_packet 0 (hosted s)))"

lemma sample_packet_ok: "tx_packet_ok sample_packet"
  by (simp add: sample_packet_def tx_packet_ok_def)

lemma hosted_wire: "wired c1 c2 l e s \<Longrightarrow> wire_state G c1 c2 l e (arriving l e s) (hosted s)"
  by (simp add: holds_def on_wire_def quiet_threads)

lemma send_keeps_running:
  assumes "wired c1 c2 l e s" and "link_running l s"
  shows "link_running l (seen (snd (simulator_send c1 pk 0 (hosted s))))"
proof -
  note st = hosted_wire [OF assms(1), where G = "(=)"]
  note sides = wire_state_sides [OF st]
  obtain b m1 where wait: "wait_condition 0 (packet_space_ready l (1 - e)) (hosted s) = (b, m1)" by fastforce
  then have m1: "m1 = hosted s" by (auto simp: wait_condition_def split: if_splits)
  have "snd (simulator_send c1 pk 0 (hosted s)) \<in> {hosted s, enqueue_at_peer l (1 - e) pk (hosted s)}"
    using sides wait m1 by (auto simp: simulator_send_def Let_def)
  moreover have "link_running l (seen (enqueue_at_peer l (1 - e) pk (hosted s)))"
  proof -
    note ok = wire_state_links_ok [OF st]
    obtain st y where eq: "enqueue_at_peer l (1 - e) pk (hosted s) =
        put_ends l (1 - e) ((endpoint l (1 - e) (hosted s))\<lparr>ep_statistics := st\<rparr>)
          ((endpoint l (1 - (1 - e)) (hosted s))\<lparr>ep_packets := y\<rparr>) (hosted s)"
      using enqueue_ends [OF ok sides(6,8)] by metis
    have "e = 0 \<or> e = 1" using sides(5) by arith
    with assms(2) show ?thesis
      unfolding eq using endpoint_put_ends [OF ok sides(6), of 0] endpoint_put_ends [OF ok sides(6), of 1]
      by (auto simp: link_running_def endpoint_link_end [symmetric]) (simp_all add: endpoint_link_end)
  qed
  ultimately show ?thesis using assms(2) by auto
qed

lemma sends_sample_thread: "sender_thread 65536 131072 0 1 sends_sample"
proof -
  have "sim_ok (sends_sample s)" if "sim_ok s" for s
  proof -
    have "links_ok (hosted s)" using that by (simp add: holds_def quiet_threads)
    from links_ok_send [OF this sample_packet_ok] show ?thesis
      unfolding sends_sample_def holds_def by blast
  qed
  moreover have "wired 65536 131072 0 1 (sends_sample s) \<and>
      (\<exists>x. arriving 0 1 (sends_sample s) = arriving 0 1 s @ x)" if "wired 65536 131072 0 1 s" for s
  proof -
    obtain r m' where run: "simulator_send 65536 sample_packet 0 (hosted s) = (r, m')" by fastforce
    have "wire_state (=) 65536 131072 0 1 (arriving 0 1 s) (hosted s)" by (rule hosted_wire [OF that])
    from send_on_wire [OF this sample_packet_ok run] obtain q x
      where "wire_state (=) 65536 131072 0 1 q m'" "arriving 0 1 (seen m') = arriving 0 1 s @ x" by auto
    with run show ?thesis by (simp add: sends_sample_def holds_def on_wire_def)
  qed
  moreover have "link_running 0 (sends_sample s)" if "wired 65536 131072 0 1 s" "link_running 0 s" for s
    unfolding sends_sample_def by (rule send_keeps_running [OF that])
  ultimately show ?thesis
    unfolding sender_thread_def wire_thread_def sim_thread_def by simp
qed

lemma sends_sample_arrives: "arriving 0 1 (sends_sample (seen both_running)) = [logical_of sample_packet]"
proof -
  have same: "the_sim 65536 (hosted (seen both_running)) = sample_backend 0"
      "registry (hosted (seen both_running)) = registry both_running"
    using both_running_eval by (simp_all add: the_sim_def hosted_def seen_def registry_def)
  obtain r m' where run: "simulator_send 65536 sample_packet 0 (hosted (seen both_running)) = (r, m')" by fastforce
  then have "r = SPW_OK"
    using sample_registry_nonempty
    by (auto simp: simulator_send_def same endpoint_def both_running_eval sample_link_def sample_backend_def
        sample_packet_def valid_terminator_def wait_condition_def packet_space_ready_def peer_available_def
        reset_endpoint_def One_nat_def Let_def split: if_splits)
  with send_on_wire [OF hosted_wire [OF both_running_wired(1), where G = "(=)"] sample_packet_ok run] run show ?thesis
    by (simp add: sends_sample_def both_running_wired(3))
qed

definition waiting :: "simulator memory" where
  "waiting = both_running\<lparr>m_backend := (m_backend both_running)\<lparr>sm_wakeups := [(True, sends_sample)]\<rparr>\<rparr>"

definition large_packet :: spw_packet where
  "large_packet = \<lparr>pk_data = Some (replicate 4096 0), pk_length = 0, pk_capacity = 4096, pk_terminator = 0\<rparr>"


subsection \<open>Zero copy\<close>

definition sample_buffer :: "addr option \<Rightarrow> spw_buffer" where
  "sample_buffer own = \<lparr>buf_data = Some (replicate SPW_SLOT_SIZE 9), buf_length = 3, buf_capacity = SPW_SLOT_SIZE,
     buf_terminator = SPW_TERMINATOR_EOP, buf_owner = Some 65536, buf_direction = SPW_BUFFER_DIRECTION_TX,
     buf_state = SPW_BUFFER_STATE_APPLICATION, buf_token = 0, buf_owner_epoch = own, buf_epoch = 1\<rparr>"

definition with_buffer :: "addr option \<Rightarrow> simulator memory" where
  "with_buffer own = put_buffer 300000 (sample_buffer own) both_running"

lemma sample_buffer_ok: "buffer_ok (sample_buffer own)"
  by (simp add: buffer_ok_def sample_buffer_def)

lemma with_buffer_eval:
  "quiet (with_buffer own)" "the_buffer 300000 (with_buffer own) = sample_buffer own"
  "registry (with_buffer own) = registry both_running" "the_sim c (with_buffer own) = the_sim c both_running"
  "wired 65536 131072 0 1 (seen (with_buffer own))" "arriving 0 1 (seen (with_buffer own)) = []"
proof -
  show "wired 65536 131072 0 1 (seen (with_buffer own))"
    using wire_state_put_buffer [OF _ sample_buffer_ok, of "(=)" 65536 131072 0 1 "[]" both_running 300000 own]
      both_running_wired quiet_threads [OF both_running_eval(1)]
    by (simp add: with_buffer_def holds_def on_wire_def)
qed (use both_running_eval(1) both_running_wired(3) in \<open>simp_all add: with_buffer_def the_buffer_put_buffer\<close>)

definition sample_submitted :: spw_packet where
  "sample_submitted = \<lparr>pk_data = buf_data (sample_buffer None), pk_length = 3, pk_capacity = 4096,
     pk_terminator = SPW_TERMINATOR_EOP\<rparr>"

definition after_submit :: "simulator memory" where
  "after_submit = (let m = put_buffer 300000 ((sample_buffer None)\<lparr>buf_state := SPW_BUFFER_STATE_BACKEND\<rparr>) (with_buffer None);
     m = enqueue_at_peer 0 0 sample_submitted m
     in put_buffer 300000 ((the_buffer 300000 m)\<lparr>buf_state := SPW_BUFFER_STATE_COMPLETED\<rparr>) m)"

lemma quiet_enqueue [simp]: "quiet (enqueue_at_peer l e pk m) = quiet m" "the_sim c (enqueue_at_peer l e pk m) = the_sim c m"
  by (simp_all add: enqueue_at_peer_def Let_def)

lemma submit_sample: "simulator_submit_tx_buffer 65536 300000 0 (with_buffer None) = (SPW_OK, after_submit)"
proof -
  let ?m = "put_buffer 300000 ((sample_buffer None)\<lparr>buf_state := SPW_BUFFER_STATE_BACKEND\<rparr>) (with_buffer None)"
  have "simulator_send 65536 sample_submitted 0 ?m = (SPW_OK, enqueue_at_peer 0 0 sample_submitted ?m)"
    using sample_registry_nonempty with_buffer_eval
    by (simp add: simulator_send_def endpoint_def both_running_eval sample_link_def sample_backend_def
        valid_terminator_def wait_condition_def packet_space_ready_def peer_available_def sample_buffer_def
        sample_submitted_def reset_endpoint_def Let_def One_nat_def)
  then show ?thesis
    using with_buffer_eval
    by (auto simp: simulator_submit_tx_buffer_def Let_def valid_terminator_def sample_buffer_def after_submit_def
        sample_submitted_def)
qed

lemma after_submit_eval:
  "quiet after_submit" "the_sim 131072 after_submit = sample_backend 1"
  "endpoint 0 1 after_submit = (up_end SPW_LINK_RUN)\<lparr>ep_packets := enqueue_packet sample_submitted (ring_empty SPW_QUEUE_DEPTH zero_slot)\<rparr>"
  "endpoint 0 0 after_submit = (endpoint 0 0 after_submit)\<lparr>ep_attached := True, ep_started := True\<rparr>"
  using with_buffer_eval sample_registry_nonempty
  by (simp_all add: after_submit_def Let_def both_running_eval enqueue_at_peer_def endpoint_def sample_link_def
      put_endpoint_def reset_endpoint_def One_nat_def)

lemma acquire_sample: "fst (simulator_acquire_rx_buffer 131072 0 None after_submit) = SPW_OK"
proof -
  let ?b = "rx_buffer_addr 131072"
  define m2 where "m2 = put_sim 131072 ((sample_backend 1)\<lparr>sb_rx_buffer_acquired := True\<rparr>) after_submit"
  define m3 where "m3 = put_buffer ?b ((the_buffer ?b m2)\<lparr>buf_state := SPW_BUFFER_STATE_BACKEND\<rparr>) m2"
  define pk where "pk = \<lparr>pk_data = buf_data (the_buffer ?b m3), pk_length = 0, pk_capacity = SPW_SLOT_SIZE,
      pk_terminator = SPW_TERMINATOR_EOP\<rparr>"
  have "wire_state (=) 65536 131072 0 1 [] (with_buffer None)"
    using with_buffer_eval by (simp add: holds_def on_wire_def quiet_threads)
  with submit_on_wire [OF _ submit_sample] have "links_ok after_submit" using wire_state_links_ok by blast
  then have ok: "links_ok m3"
    unfolding m3_def m2_def by (intro links_ok_put_buffer links_ok_put_sim)
      (simp_all add: the_buffer_ok links_ok_put_sim after_submit_eval(2) sample_backend_def)
  have ends: "endpoint l e m3 = endpoint l e after_submit" "quiet m3" "the_sim 131072 m3 = (sample_backend 1)\<lparr>sb_rx_buffer_acquired := True\<rparr>" for l e
    using after_submit_eval(1) by (simp_all add: m3_def m2_def endpoint_def)
  have slot: "ps_length (ring_front (enqueue_packet sample_submitted (ring_empty SPW_QUEUE_DEPTH zero_slot))) = 3"
    by (simp add: ring_front_def enqueue_packet_def ring_put_def ring_empty_def store_packet_def sample_submitted_def)
  have "pk_data pk \<noteq> None" using the_buffer_ok [OF ok, of ?b] by (auto simp: pk_def buffer_ok_def)
  then have "fst (deliver_slot (ring_front (enqueue_packet sample_submitted (ring_empty SPW_QUEUE_DEPTH zero_slot))) pk) = SPW_OK"
    by (simp add: deliver_slot_result slot) (simp add: pk_def)
  moreover have "ep_started (endpoint 0 0 after_submit)" "ep_attached (endpoint 0 0 after_submit)"
    by (subst after_submit_eval(4), simp)+
  ultimately have "fst (simulator_receive 131072 pk 0 m3) = SPW_OK"
    using ends by (auto simp: simulator_receive_def sample_backend_def Let_def after_submit_eval(3) wait_condition_def
        packet_receive_ready_def peer_available_def enqueue_packet_def split: prod.splits)
  then show ?thesis
    using after_submit_eval(1,2) unfolding m3_def m2_def pk_def
    by (auto simp: simulator_acquire_rx_buffer_def Let_def wait_condition_def rx_buffer_ready_def sample_backend_def
        split: prod.splits)
qed

theorem simulator_zero_copy_delivery_witness:
  "\<exists>m2. simulator_acquire_rx_buffer 131072 0 None after_submit = (SPW_OK, Some (rx_buffer_addr 131072), m2) \<and>
     contents (the_buffer (rx_buffer_addr 131072) m2) = ([9, 9, 9], 0)"
proof -
  obtain b m2 where run: "simulator_acquire_rx_buffer 131072 0 None after_submit = (SPW_OK, b, m2)"
    using acquire_sample by (metis prod.collapse)
  have "contents (sample_buffer None) = ([9, 9, 9], 0)"
    by (simp add: contents_def sample_buffer_def numeral_3_eq_3)
  then show ?thesis
    using simulator_zero_copy_delivery [OF with_buffer_eval(5) quiet_threads [OF with_buffer_eval(1)] with_buffer_eval(6)
        submit_sample run] run with_buffer_eval(1,2) by auto
qed

subsection \<open>Reset\<close>

definition bound_world :: "simulator world" where
  "bound_world = two_ports\<lparr>w_memory := hosted \<lparr>m_buffers = [300000 \<mapsto> sample_buffer (Some 4096)],
     m_backend = m_backend (seen both_running)\<rparr>\<rparr>"

lemma bound_world_reset: "fst (api (Reset (Some 4096)) bound_world) = SPW_OK"
proof -
  let ?m = "w_memory bound_world"
  have m: "quiet ?m" "the_sim 65536 ?m = sample_backend 0" "registry ?m = registry both_running"
    using both_running_eval by (simp_all add: bound_world_def hosted_def quiet_def the_sim_def registry_def seen_def)
  then have "fst (simulator_reset 65536 ?m) = SPW_OK"
    using sample_registry_nonempty
    by (simp add: simulator_reset_def Let_def sample_backend_def endpoint_def both_running_eval sample_link_def)
  then show ?thesis
    by (auto simp: spw_port_reset_def validate_port_def backend_call_def the_ops_def the_context_def the_port_def
        bound_world_def two_ports_def sample_port_def SIMULATOR_OPS_def no_handle_def Let_def split: prod.splits)
qed

theorem simulator_reset_revokes_handles_witness:
  "\<exists>h w1. api (Reset (Some 4096)) bound_world = (SPW_OK, h, w1) \<and>
     (\<exists>r. api (Submit_Tx (Some 4096) (Some 300000) 0) w1 = (r, None, w1) \<and> r \<noteq> SPW_OK)"
proof -
  obtain h w1 where run: "api (Reset (Some 4096)) bound_world = (SPW_OK, h, w1)"
    using bound_world_reset by (metis prod.collapse)
  have "ports_from {SIMULATOR_OPS} {simulator_destroy} (threads binding_thread) bound_world"
    by (auto simp: ports_from_def bound_world_def two_ports_def sample_port_def quiet_threads split: if_splits)
  moreover have "epochs_ok bound_world" "epoch_room (Suc 0) bound_world"
    by (auto simp: epochs_ok_def epoch_room_def bound_world_def two_ports_def sample_port_def hosted_def
        sample_buffer_def split: if_splits)
  moreover have "m_buffers (w_memory bound_world) 300000 = Some (sample_buffer (Some 4096))"
      "buf_owner_epoch (sample_buffer (Some 4096)) = Some 4096"
    by (simp_all add: bound_world_def hosted_def sample_buffer_def)
  ultimately show ?thesis
    using simulator_reset_revokes_handles [of bound_world "[]" 300000 "sample_buffer (Some 4096)" 4096 h w1 "[]" w1
        "Submit_Tx (Some 4096) (Some 300000) 0"] run
    by auto
qed

end
