(* ===== verification/Vspd_Protocol.thy ===== *)
theory Vspd_Protocol
  imports Spw_Types
begin

text \<open>
  The VSPD protocol between the device backend and the daemon
  (\<open>src/backends/device/vspw_device_protocol.c\<close> and \<open>.h\<close>): the 40-byte header codec, the validation of
  a whole frame and the codecs of the fixed payloads. The lemmas show that every codec is invertible,
  that accepted headers have one encoding, and what an accepted frame guarantees to the code that
  reads it without further checks.

  \<open>int32_t\<close> fields are \<open>32 word\<close> read with \<open>sint\<close>.
\<close>

section \<open>Constants and data\<close>

abbreviation VSPD_MAGIC :: u32 where "VSPD_MAGIC \<equiv> 0x56535044"
abbreviation VSPD_VERSION_MAJOR :: u8 where "VSPD_VERSION_MAJOR \<equiv> 1"
abbreviation VSPD_VERSION_MINOR :: u8 where "VSPD_VERSION_MINOR \<equiv> 3"
abbreviation VSPD_HEADER_SIZE :: nat where "VSPD_HEADER_SIZE \<equiv> 40"
abbreviation VSPD_MAX_FRAME_PAYLOAD :: nat where "VSPD_MAX_FRAME_PAYLOAD \<equiv> 32768"
abbreviation VSPD_MAX_LOGICAL_PACKET :: nat where "VSPD_MAX_LOGICAL_PACKET \<equiv> 1048576"

abbreviation VSPD_MSG_HELLO :: u8 where "VSPD_MSG_HELLO \<equiv> 1"
abbreviation VSPD_MSG_ATTACH :: u8 where "VSPD_MSG_ATTACH \<equiv> 2"
abbreviation VSPD_MSG_DETACH :: u8 where "VSPD_MSG_DETACH \<equiv> 3"
abbreviation VSPD_MSG_START :: u8 where "VSPD_MSG_START \<equiv> 4"
abbreviation VSPD_MSG_STOP :: u8 where "VSPD_MSG_STOP \<equiv> 5"
abbreviation VSPD_MSG_RESET :: u8 where "VSPD_MSG_RESET \<equiv> 6"
abbreviation VSPD_MSG_GET_LINK_STATE :: u8 where "VSPD_MSG_GET_LINK_STATE \<equiv> 7"
abbreviation VSPD_MSG_GET_CAPABILITIES :: u8 where "VSPD_MSG_GET_CAPABILITIES \<equiv> 8"
abbreviation VSPD_MSG_DATA_TX :: u8 where "VSPD_MSG_DATA_TX \<equiv> 9"
abbreviation VSPD_MSG_DATA_RX :: u8 where "VSPD_MSG_DATA_RX \<equiv> 10"
abbreviation VSPD_MSG_TIME_CODE_TX :: u8 where "VSPD_MSG_TIME_CODE_TX \<equiv> 11"
abbreviation VSPD_MSG_TIME_CODE_RX :: u8 where "VSPD_MSG_TIME_CODE_RX \<equiv> 12"
abbreviation VSPD_MSG_GET_STATISTICS :: u8 where "VSPD_MSG_GET_STATISTICS \<equiv> 13"
abbreviation VSPD_MSG_CLEAR_STATISTICS :: u8 where "VSPD_MSG_CLEAR_STATISTICS \<equiv> 14"
abbreviation VSPD_MSG_LINK_STATE_EVENT :: u8 where "VSPD_MSG_LINK_STATE_EVENT \<equiv> 15"
abbreviation VSPD_MSG_GET_SERVER_INFO :: u8 where "VSPD_MSG_GET_SERVER_INFO \<equiv> 16"
abbreviation VSPD_MSG_GET_PORT_INFO :: u8 where "VSPD_MSG_GET_PORT_INFO \<equiv> 17"
abbreviation VSPD_MSG_GET_PORT_STATISTICS :: u8 where "VSPD_MSG_GET_PORT_STATISTICS \<equiv> 18"
abbreviation VSPD_MSG_CLEAR_PORT_STATISTICS :: u8 where "VSPD_MSG_CLEAR_PORT_STATISTICS \<equiv> 19"
abbreviation VSPD_MSG_SUBSCRIBE_PORT :: u8 where "VSPD_MSG_SUBSCRIBE_PORT \<equiv> 20"
abbreviation VSPD_MSG_UNSUBSCRIBE_PORT :: u8 where "VSPD_MSG_UNSUBSCRIBE_PORT \<equiv> 21"
abbreviation VSPD_MSG_PORT_SNAPSHOT_EVENT :: u8 where "VSPD_MSG_PORT_SNAPSHOT_EVENT \<equiv> 22"

abbreviation VSPD_FLAG_RESPONSE :: u8 where "VSPD_FLAG_RESPONSE \<equiv> 1"
abbreviation VSPD_FLAG_FRAGMENT_START :: u8 where "VSPD_FLAG_FRAGMENT_START \<equiv> 2"
abbreviation VSPD_FLAG_FRAGMENT_END :: u8 where "VSPD_FLAG_FRAGMENT_END \<equiv> 4"
abbreviation VSPD_FLAG_EOP :: u8 where "VSPD_FLAG_EOP \<equiv> 8"
abbreviation VSPD_FLAG_EEP :: u8 where "VSPD_FLAG_EEP \<equiv> 16"
abbreviation VSPD_FLAG_KNOWN_MASK :: u8 where "VSPD_FLAG_KNOWN_MASK \<equiv> 31"

abbreviation VSPD_HELLO_PAYLOAD_SIZE :: u32 where "VSPD_HELLO_PAYLOAD_SIZE \<equiv> 4"
abbreviation VSPD_LINK_STATE_PAYLOAD_SIZE :: u32 where "VSPD_LINK_STATE_PAYLOAD_SIZE \<equiv> 4"
abbreviation VSPD_CAPABILITIES_PAYLOAD_SIZE :: u32 where "VSPD_CAPABILITIES_PAYLOAD_SIZE \<equiv> 24"
abbreviation VSPD_TIME_CODE_PAYLOAD_SIZE :: u32 where "VSPD_TIME_CODE_PAYLOAD_SIZE \<equiv> 2"
abbreviation VSPD_STATISTICS_PAYLOAD_SIZE :: u32 where "VSPD_STATISTICS_PAYLOAD_SIZE \<equiv> 72"
abbreviation VSPD_SERVER_INFO_PAYLOAD_SIZE :: u32 where "VSPD_SERVER_INFO_PAYLOAD_SIZE \<equiv> 20"
abbreviation VSPD_PORT_INFO_PAYLOAD_SIZE :: u32 where "VSPD_PORT_INFO_PAYLOAD_SIZE \<equiv> 16"
abbreviation VSPD_PORT_SNAPSHOT_PAYLOAD_SIZE :: u32 where "VSPD_PORT_SNAPSHOT_PAYLOAD_SIZE \<equiv> 88"

abbreviation VSPD_PORT_INFO_ATTACHED :: u32 where "VSPD_PORT_INFO_ATTACHED \<equiv> 1"
abbreviation VSPD_PORT_INFO_STARTED :: u32 where "VSPD_PORT_INFO_STARTED \<equiv> 2"
abbreviation VSPD_PORT_INFO_RESET_LATCHED :: u32 where "VSPD_PORT_INFO_RESET_LATCHED \<equiv> 4"
abbreviation VSPD_PORT_INFO_EVER_ATTACHED :: u32 where "VSPD_PORT_INFO_EVER_ATTACHED \<equiv> 8"
abbreviation VSPD_PORT_INFO_BRIDGED :: u32 where "VSPD_PORT_INFO_BRIDGED \<equiv> 16"
abbreviation VSPD_PORT_INFO_KNOWN_MASK :: u32 where "VSPD_PORT_INFO_KNOWN_MASK \<equiv> 31"

abbreviation VSPD_STATUS_OK :: u32 where "VSPD_STATUS_OK \<equiv> 0"
abbreviation VSPD_STATUS_INVALID_ARGUMENT :: u32 where "VSPD_STATUS_INVALID_ARGUMENT \<equiv> - 1"
abbreviation VSPD_STATUS_INVALID_STATE :: u32 where "VSPD_STATUS_INVALID_STATE \<equiv> - 2"
abbreviation VSPD_STATUS_TIMEOUT :: u32 where "VSPD_STATUS_TIMEOUT \<equiv> - 3"
abbreviation VSPD_STATUS_UNSUPPORTED :: u32 where "VSPD_STATUS_UNSUPPORTED \<equiv> - 4"
abbreviation VSPD_STATUS_RESOURCE_EXHAUSTED :: u32 where "VSPD_STATUS_RESOURCE_EXHAUSTED \<equiv> - 5"
abbreviation VSPD_STATUS_LINK_UNAVAILABLE :: u32 where "VSPD_STATUS_LINK_UNAVAILABLE \<equiv> - 6"
abbreviation VSPD_STATUS_BUFFER_TOO_SMALL :: u32 where "VSPD_STATUS_BUFFER_TOO_SMALL \<equiv> - 7"
abbreviation VSPD_STATUS_INVALID_PACKET :: u32 where "VSPD_STATUS_INVALID_PACKET \<equiv> - 8"
abbreviation VSPD_STATUS_BACKEND :: u32 where "VSPD_STATUS_BACKEND \<equiv> - 9"

abbreviation VSPD_LINK_RUN :: u32 where "VSPD_LINK_RUN \<equiv> 5"

datatype vspd_codec_result =
    VSPD_CODEC_OK
  | VSPD_CODEC_INVALID_ARGUMENT
  | VSPD_CODEC_TRUNCATED
  | VSPD_CODEC_INVALID_MAGIC
  | VSPD_CODEC_UNSUPPORTED_VERSION
  | VSPD_CODEC_INVALID_HEADER
  | VSPD_CODEC_INVALID_TYPE
  | VSPD_CODEC_INVALID_FLAGS
  | VSPD_CODEC_INVALID_SIZE
  | VSPD_CODEC_INVALID_SHAPE

record vspd_header =
  vh_magic :: u32
  vh_version_major :: u8
  vh_version_minor :: u8
  vh_type :: u8
  vh_flags :: u8
  vh_header_size :: u16
  vh_reserved :: u16
  vh_payload_size :: u32
  vh_request_id :: u32
  vh_port_id :: u32
  vh_message_id :: u32
  vh_fragment_offset :: u32
  vh_total_size :: u32
  vh_status :: u32

record vspd_capabilities_payload =
  vc_bits :: u64
  vc_max_packet_size :: u32
  vc_tx_queue_depth :: u32
  vc_rx_queue_depth :: u32
  vc_buffer_alignment :: u32

record vspd_server_info_payload =
  vs_port_count :: u32
  vs_client_capacity :: u32
  vs_packet_queue_depth :: u32
  vs_time_code_queue_depth :: u32
  vs_max_logical_packet :: u32

record vspd_port_info_payload =
  vp_flags :: u32
  vp_link_state :: u32
  vp_packet_queue_count :: u32
  vp_time_code_queue_count :: u32

text \<open>\<open>vspd_statistics_payload_t\<close> has the fields of \<open>spw_statistics_t\<close>, in the same order.\<close>

type_synonym vspd_statistics_payload = spw_statistics

record vspd_port_snapshot_payload =
  vn_info :: vspd_port_info_payload
  vn_statistics :: vspd_statistics_payload

section \<open>Integer fields\<close>

definition vspd_read_be16 :: "bytes \<Rightarrow> nat \<Rightarrow> u16" where
  "vspd_read_be16 p off = push_bit 8 (ucast (p ! off)) OR ucast (p ! (off + 1))"

definition vspd_read_be32 :: "bytes \<Rightarrow> nat \<Rightarrow> u32" where
  "vspd_read_be32 p off = push_bit 24 (ucast (p ! off)) OR push_bit 16 (ucast (p ! (off + 1)))
     OR push_bit 8 (ucast (p ! (off + 2))) OR ucast (p ! (off + 3))"

definition vspd_read_be64 :: "bytes \<Rightarrow> nat \<Rightarrow> u64" where
  "vspd_read_be64 p off = push_bit 32 (ucast (vspd_read_be32 p off)) OR ucast (vspd_read_be32 p (off + 4))"

definition vspd_write_be16 :: "bytes \<Rightarrow> nat \<Rightarrow> u16 \<Rightarrow> bytes" where
  "vspd_write_be16 p off value = (p[off := ucast (drop_bit 8 value)])[off + 1 := ucast value]"

definition vspd_write_be32 :: "bytes \<Rightarrow> nat \<Rightarrow> u32 \<Rightarrow> bytes" where
  "vspd_write_be32 p off value =
     (((p[off := ucast (drop_bit 24 value)])[off + 1 := ucast (drop_bit 16 value)])
         [off + 2 := ucast (drop_bit 8 value)])[off + 3 := ucast value]"

definition vspd_write_be64 :: "bytes \<Rightarrow> nat \<Rightarrow> u64 \<Rightarrow> bytes" where
  "vspd_write_be64 p off value =
     vspd_write_be32 (vspd_write_be32 p off (ucast (drop_bit 32 value))) (off + 4) (ucast value)"

section \<open>Validation\<close>

definition vspd_type_valid :: "u8 \<Rightarrow> bool" where
  "vspd_type_valid type \<longleftrightarrow> type \<ge> VSPD_MSG_HELLO \<and> type \<le> VSPD_MSG_PORT_SNAPSHOT_EVENT"

definition vspd_type_is_event :: "u8 \<Rightarrow> bool" where
  "vspd_type_is_event type \<longleftrightarrow> type = VSPD_MSG_DATA_RX \<or> type = VSPD_MSG_TIME_CODE_RX \<or>
     type = VSPD_MSG_LINK_STATE_EVENT \<or> type = VSPD_MSG_PORT_SNAPSHOT_EVENT"

definition vspd_type_allows_response :: "u8 \<Rightarrow> bool" where
  "vspd_type_allows_response type \<longleftrightarrow> \<not> vspd_type_is_event type"

definition vspd_status_valid :: "u32 \<Rightarrow> bool" where
  "vspd_status_valid status \<longleftrightarrow> sint status \<le> sint VSPD_STATUS_OK \<and> sint status \<ge> sint VSPD_STATUS_BACKEND"

definition vspd_has_data_flags :: "u8 \<Rightarrow> bool" where
  "vspd_has_data_flags flags \<longleftrightarrow>
     flags AND (VSPD_FLAG_FRAGMENT_START OR VSPD_FLAG_FRAGMENT_END OR VSPD_FLAG_EOP OR VSPD_FLAG_EEP) \<noteq> 0"

definition vspd_success_response_payload_size :: "u8 \<Rightarrow> u32" where
  "vspd_success_response_payload_size type =
     (if type = VSPD_MSG_HELLO then VSPD_HELLO_PAYLOAD_SIZE
      else if type = VSPD_MSG_GET_LINK_STATE then VSPD_LINK_STATE_PAYLOAD_SIZE
      else if type = VSPD_MSG_GET_CAPABILITIES then VSPD_CAPABILITIES_PAYLOAD_SIZE
      else if type = VSPD_MSG_GET_STATISTICS \<or> type = VSPD_MSG_GET_PORT_STATISTICS
      then VSPD_STATISTICS_PAYLOAD_SIZE
      else if type = VSPD_MSG_GET_SERVER_INFO then VSPD_SERVER_INFO_PAYLOAD_SIZE
      else if type = VSPD_MSG_GET_PORT_INFO then VSPD_PORT_INFO_PAYLOAD_SIZE
      else 0)"

definition vspd_validate_common :: "vspd_header option \<Rightarrow> vspd_codec_result" where
  "vspd_validate_common header_ptr =
     (case header_ptr of None \<Rightarrow> VSPD_CODEC_INVALID_ARGUMENT
      | Some header \<Rightarrow>
          if vh_magic header \<noteq> VSPD_MAGIC then VSPD_CODEC_INVALID_MAGIC
          else if vh_version_major header \<noteq> VSPD_VERSION_MAJOR \<or> vh_version_minor header \<noteq> VSPD_VERSION_MINOR
          then VSPD_CODEC_UNSUPPORTED_VERSION
          else if vh_header_size header \<noteq> 40 \<or> vh_reserved header \<noteq> 0 then VSPD_CODEC_INVALID_HEADER
          else if \<not> vspd_type_valid (vh_type header) then VSPD_CODEC_INVALID_TYPE
          else if vh_flags header AND NOT VSPD_FLAG_KNOWN_MASK \<noteq> 0 then VSPD_CODEC_INVALID_FLAGS
          else if unat (vh_payload_size header) > VSPD_MAX_FRAME_PAYLOAD then VSPD_CODEC_INVALID_SIZE
          else VSPD_CODEC_OK)"

definition vspd_validate_data_shape :: "vspd_header \<Rightarrow> vspd_codec_result" where
  "vspd_validate_data_shape header =
     (let start = vh_flags header AND VSPD_FLAG_FRAGMENT_START;
          fin = vh_flags header AND VSPD_FLAG_FRAGMENT_END;
          eop = vh_flags header AND VSPD_FLAG_EOP;
          eep = vh_flags header AND VSPD_FLAG_EEP;
          fragment_end = (ucast (vh_fragment_offset header) :: u64) + ucast (vh_payload_size header) in
      if vh_message_id header = 0 \<or> unat (vh_total_size header) > VSPD_MAX_LOGICAL_PACKET
      then VSPD_CODEC_INVALID_SHAPE
      else if fragment_end > ucast (vh_total_size header) then VSPD_CODEC_INVALID_SHAPE
      else if vh_total_size header = 0 \<and>
        (vh_payload_size header \<noteq> 0 \<or> vh_fragment_offset header \<noteq> 0 \<or> start = 0 \<or> fin = 0)
      then VSPD_CODEC_INVALID_SHAPE
      else if vh_total_size header \<noteq> 0 \<and> vh_payload_size header = 0 then VSPD_CODEC_INVALID_SHAPE
      else if vh_total_size header \<noteq> 0 \<and> (vh_fragment_offset header = 0) \<noteq> (start \<noteq> 0)
      then VSPD_CODEC_INVALID_SHAPE
      else if vh_total_size header \<noteq> 0 \<and> (fragment_end = ucast (vh_total_size header)) \<noteq> (fin \<noteq> 0)
      then VSPD_CODEC_INVALID_SHAPE
      else if fin \<noteq> 0 then (if (eop \<noteq> 0) = (eep \<noteq> 0) then VSPD_CODEC_INVALID_SHAPE else VSPD_CODEC_OK)
      else if eop \<noteq> 0 \<or> eep \<noteq> 0 then VSPD_CODEC_INVALID_SHAPE
      else VSPD_CODEC_OK)"

text \<open>The \<open>switch\<close> over the request and event types that carry no packet data.\<close>

definition fixed_payload_size :: "u8 \<Rightarrow> u32 option" where
  "fixed_payload_size type =
     (if type = VSPD_MSG_HELLO then Some VSPD_HELLO_PAYLOAD_SIZE
      else if type \<in> {VSPD_MSG_ATTACH, VSPD_MSG_DETACH, VSPD_MSG_START, VSPD_MSG_STOP, VSPD_MSG_RESET,
        VSPD_MSG_GET_LINK_STATE, VSPD_MSG_GET_CAPABILITIES, VSPD_MSG_GET_STATISTICS,
        VSPD_MSG_CLEAR_STATISTICS, VSPD_MSG_GET_SERVER_INFO, VSPD_MSG_GET_PORT_INFO,
        VSPD_MSG_GET_PORT_STATISTICS, VSPD_MSG_CLEAR_PORT_STATISTICS, VSPD_MSG_SUBSCRIBE_PORT,
        VSPD_MSG_UNSUBSCRIBE_PORT} then Some 0
      else if type = VSPD_MSG_TIME_CODE_TX \<or> type = VSPD_MSG_TIME_CODE_RX
      then Some VSPD_TIME_CODE_PAYLOAD_SIZE
      else if type = VSPD_MSG_LINK_STATE_EVENT then Some VSPD_LINK_STATE_PAYLOAD_SIZE
      else if type = VSPD_MSG_PORT_SNAPSHOT_EVENT then Some VSPD_PORT_SNAPSHOT_PAYLOAD_SIZE
      else None)"

text \<open>The header part of the shape check, up to the first look at the payload.\<close>

definition header_shape :: "vspd_header \<Rightarrow> vspd_codec_result" where
  "header_shape header =
     (if vh_flags header AND VSPD_FLAG_RESPONSE \<noteq> 0
      then if \<not> vspd_type_allows_response (vh_type header) \<or> vh_request_id header = 0 \<or>
          vspd_has_data_flags (vh_flags header) \<or> vh_message_id header \<noteq> 0 \<or>
          vh_fragment_offset header \<noteq> 0 \<or> vh_total_size header \<noteq> 0 \<or>
          \<not> vspd_status_valid (vh_status header)
        then VSPD_CODEC_INVALID_SHAPE
        else if vh_payload_size header \<noteq> (if vh_status header = VSPD_STATUS_OK
            then vspd_success_response_payload_size (vh_type header) else 0)
        then VSPD_CODEC_INVALID_SHAPE
        else VSPD_CODEC_OK
      else if vh_status header \<noteq> VSPD_STATUS_OK then VSPD_CODEC_INVALID_SHAPE
      else if vspd_type_is_event (vh_type header) \<and> vh_request_id header \<noteq> 0 then VSPD_CODEC_INVALID_SHAPE
      else if \<not> vspd_type_is_event (vh_type header) \<and> vh_request_id header = 0 then VSPD_CODEC_INVALID_SHAPE
      else if vh_type header = VSPD_MSG_DATA_TX \<or> vh_type header = VSPD_MSG_DATA_RX
      then vspd_validate_data_shape header
      else if vspd_has_data_flags (vh_flags header) \<or> vh_message_id header \<noteq> 0 \<or>
          vh_fragment_offset header \<noteq> 0 \<or> vh_total_size header \<noteq> 0
      then VSPD_CODEC_INVALID_SHAPE
      else if fixed_payload_size (vh_type header) \<noteq> None \<and>
          fixed_payload_size (vh_type header) \<noteq> Some (vh_payload_size header)
      then VSPD_CODEC_INVALID_SHAPE
      else VSPD_CODEC_OK)"

definition vspd_validate_payload_shape :: "vspd_header \<Rightarrow> bytes option \<Rightarrow> vspd_codec_result" where
  "vspd_validate_payload_shape header payload_ptr =
     (let response = vh_flags header AND VSPD_FLAG_RESPONSE \<noteq> 0 in
      if header_shape header \<noteq> VSPD_CODEC_OK then header_shape header
      else if payload_ptr = None \<and> vh_payload_size header \<noteq> 0 then VSPD_CODEC_INVALID_ARGUMENT
      else case payload_ptr of None \<Rightarrow> VSPD_CODEC_OK
        | Some payload \<Rightarrow>
            if vh_type header = VSPD_MSG_HELLO \<and> vh_payload_size header = 4 \<and>
               (payload ! 0 \<noteq> VSPD_VERSION_MAJOR \<or> payload ! 1 \<noteq> VSPD_VERSION_MINOR \<or>
                payload ! 2 \<noteq> 0 \<or> payload ! 3 \<noteq> 0)
            then VSPD_CODEC_UNSUPPORTED_VERSION
            else if (vh_type header = VSPD_MSG_TIME_CODE_TX \<or> vh_type header = VSPD_MSG_TIME_CODE_RX) \<and>
               vh_payload_size header = VSPD_TIME_CODE_PAYLOAD_SIZE \<and> (payload ! 0 > 63 \<or> payload ! 1 > 3)
            then VSPD_CODEC_INVALID_SHAPE
            else if (vh_type header = VSPD_MSG_GET_LINK_STATE \<and> response \<and> vh_status header = VSPD_STATUS_OK \<or>
                vh_type header = VSPD_MSG_LINK_STATE_EVENT) \<and>
               vh_payload_size header = VSPD_LINK_STATE_PAYLOAD_SIZE \<and> vspd_read_be32 payload 0 > VSPD_LINK_RUN
            then VSPD_CODEC_INVALID_SHAPE
            else if (vh_type header = VSPD_MSG_GET_PORT_INFO \<and> response \<and> vh_status header = VSPD_STATUS_OK \<and>
                vh_payload_size header = VSPD_PORT_INFO_PAYLOAD_SIZE \<or>
                vh_type header = VSPD_MSG_PORT_SNAPSHOT_EVENT \<and>
                vh_payload_size header = VSPD_PORT_SNAPSHOT_PAYLOAD_SIZE) \<and>
               (vspd_read_be32 payload 0 AND NOT VSPD_PORT_INFO_KNOWN_MASK \<noteq> 0 \<or>
                vspd_read_be32 payload 4 > VSPD_LINK_RUN)
            then VSPD_CODEC_INVALID_SHAPE
            else VSPD_CODEC_OK)"

section \<open>Header codec\<close>

definition write_vspd_header :: "vspd_header \<Rightarrow> bytes \<Rightarrow> bytes" where
  "write_vspd_header header out =
     (let out = vspd_write_be32 out 0 (vh_magic header);
          out = out[4 := vh_version_major header];
          out = out[5 := vh_version_minor header];
          out = out[6 := vh_type header];
          out = out[7 := vh_flags header];
          out = vspd_write_be16 out 8 (vh_header_size header);
          out = vspd_write_be16 out 10 (vh_reserved header);
          out = vspd_write_be32 out 12 (vh_payload_size header);
          out = vspd_write_be32 out 16 (vh_request_id header);
          out = vspd_write_be32 out 20 (vh_port_id header);
          out = vspd_write_be32 out 24 (vh_message_id header);
          out = vspd_write_be32 out 28 (vh_fragment_offset header);
          out = vspd_write_be32 out 32 (vh_total_size header)
      in vspd_write_be32 out 36 (vh_status header))"

definition vspd_encode_header ::
    "vspd_header option \<Rightarrow> bytes option \<Rightarrow> vspd_codec_result \<times> bytes option" where
  "vspd_encode_header header_ptr out_ptr =
     (case out_ptr of None \<Rightarrow> (VSPD_CODEC_INVALID_ARGUMENT, None)
      | Some out \<Rightarrow> let result = vspd_validate_common header_ptr in
          if result \<noteq> VSPD_CODEC_OK then (result, Some out)
          else (VSPD_CODEC_OK, Some (write_vspd_header (the header_ptr) out)))"

definition read_vspd_header :: "bytes \<Rightarrow> vspd_header" where
  "read_vspd_header data = \<lparr>vh_magic = vspd_read_be32 data 0, vh_version_major = data ! 4,
     vh_version_minor = data ! 5, vh_type = data ! 6, vh_flags = data ! 7,
     vh_header_size = vspd_read_be16 data 8, vh_reserved = vspd_read_be16 data 10,
     vh_payload_size = vspd_read_be32 data 12, vh_request_id = vspd_read_be32 data 16,
     vh_port_id = vspd_read_be32 data 20, vh_message_id = vspd_read_be32 data 24,
     vh_fragment_offset = vspd_read_be32 data 28, vh_total_size = vspd_read_be32 data 32,
     vh_status = vspd_read_be32 data 36\<rparr>"

definition zero_vspd_header :: vspd_header where
  "zero_vspd_header = \<lparr>vh_magic = 0, vh_version_major = 0, vh_version_minor = 0, vh_type = 0, vh_flags = 0,
     vh_header_size = 0, vh_reserved = 0, vh_payload_size = 0, vh_request_id = 0, vh_port_id = 0,
     vh_message_id = 0, vh_fragment_offset = 0, vh_total_size = 0, vh_status = 0\<rparr>"

definition vspd_decode_header ::
    "bytes option \<Rightarrow> vspd_header option \<Rightarrow> vspd_codec_result \<times> vspd_header option" where
  "vspd_decode_header data_ptr out_header =
     (case data_ptr of None \<Rightarrow> (VSPD_CODEC_INVALID_ARGUMENT, out_header)
      | Some data \<Rightarrow>
          if out_header = None then (VSPD_CODEC_INVALID_ARGUMENT, out_header)
          else if length data < VSPD_HEADER_SIZE then (VSPD_CODEC_TRUNCATED, out_header)
          else let header = read_vspd_header data; result = vspd_validate_common (Some header)
            in if result \<noteq> VSPD_CODEC_OK then (result, Some zero_vspd_header) else (result, Some header))"

definition vspd_validate_frame ::
    "bytes option \<Rightarrow> vspd_header option \<Rightarrow> vspd_codec_result \<times> vspd_header option" where
  "vspd_validate_frame frame_ptr out_header =
     (case frame_ptr of None \<Rightarrow> (VSPD_CODEC_INVALID_ARGUMENT, out_header)
      | Some frame \<Rightarrow>
          case vspd_decode_header (Some frame) (Some zero_vspd_header) of (result, header_ptr) \<Rightarrow>
          if result \<noteq> VSPD_CODEC_OK then (result, out_header)
          else let header = the header_ptr; expected = VSPD_HEADER_SIZE + unat (vh_payload_size header) in
            if length frame \<noteq> expected
            then (if length frame < expected then VSPD_CODEC_TRUNCATED else VSPD_CODEC_INVALID_SIZE, out_header)
            else let payload = (if vh_payload_size header = 0 then None else Some (drop VSPD_HEADER_SIZE frame));
                   result = vspd_validate_payload_shape header payload in
              if result \<noteq> VSPD_CODEC_OK then (result, out_header)
              else (VSPD_CODEC_OK, if out_header = None then None else Some header))"

section \<open>Payload codecs\<close>

definition vspd_encode_u32_payload :: "u32 \<Rightarrow> bytes option \<Rightarrow> bytes option" where
  "vspd_encode_u32_payload value out = map_option (\<lambda>out. vspd_write_be32 out 0 value) out"

definition vspd_decode_u32_payload :: "bytes option \<Rightarrow> u32" where
  "vspd_decode_u32_payload data = (case data of None \<Rightarrow> 0 | Some data \<Rightarrow> vspd_read_be32 data 0)"

text \<open>
  What each codec does when its pointers are given; with a null pointer it returns without effect.
\<close>

definition encode_into :: "('a \<Rightarrow> bytes \<Rightarrow> bytes) \<Rightarrow> 'a option \<Rightarrow> bytes option \<Rightarrow> bytes option" where
  "encode_into write value out = (case (value, out) of (Some v, Some b) \<Rightarrow> Some (write v b) | _ \<Rightarrow> out)"

definition decode_into :: "(bytes \<Rightarrow> 'a) \<Rightarrow> bytes option \<Rightarrow> 'a option \<Rightarrow> 'a option" where
  "decode_into read data out = (case (data, out) of (Some b, Some _) \<Rightarrow> Some (read b) | _ \<Rightarrow> out)"

definition write_server_info :: "vspd_server_info_payload \<Rightarrow> bytes \<Rightarrow> bytes" where
  "write_server_info value out =
     (let out = vspd_write_be32 out 0 (vs_port_count value);
          out = vspd_write_be32 out 4 (vs_client_capacity value);
          out = vspd_write_be32 out 8 (vs_packet_queue_depth value);
          out = vspd_write_be32 out 12 (vs_time_code_queue_depth value)
      in vspd_write_be32 out 16 (vs_max_logical_packet value))"

definition read_server_info :: "bytes \<Rightarrow> vspd_server_info_payload" where
  "read_server_info data = \<lparr>vs_port_count = vspd_read_be32 data 0,
     vs_client_capacity = vspd_read_be32 data 4, vs_packet_queue_depth = vspd_read_be32 data 8,
     vs_time_code_queue_depth = vspd_read_be32 data 12, vs_max_logical_packet = vspd_read_be32 data 16\<rparr>"

definition write_port_info :: "vspd_port_info_payload \<Rightarrow> bytes \<Rightarrow> bytes" where
  "write_port_info value out =
     (let out = vspd_write_be32 out 0 (vp_flags value);
          out = vspd_write_be32 out 4 (vp_link_state value);
          out = vspd_write_be32 out 8 (vp_packet_queue_count value)
      in vspd_write_be32 out 12 (vp_time_code_queue_count value))"

definition read_port_info :: "bytes \<Rightarrow> vspd_port_info_payload" where
  "read_port_info data = \<lparr>vp_flags = vspd_read_be32 data 0, vp_link_state = vspd_read_be32 data 4,
     vp_packet_queue_count = vspd_read_be32 data 8, vp_time_code_queue_count = vspd_read_be32 data 12\<rparr>"

definition write_capabilities :: "vspd_capabilities_payload \<Rightarrow> bytes \<Rightarrow> bytes" where
  "write_capabilities value out =
     (let out = vspd_write_be64 out 0 (vc_bits value);
          out = vspd_write_be32 out 8 (vc_max_packet_size value);
          out = vspd_write_be32 out 12 (vc_tx_queue_depth value);
          out = vspd_write_be32 out 16 (vc_rx_queue_depth value)
      in vspd_write_be32 out 20 (vc_buffer_alignment value))"

definition read_capabilities :: "bytes \<Rightarrow> vspd_capabilities_payload" where
  "read_capabilities data = \<lparr>vc_bits = vspd_read_be64 data 0,
     vc_max_packet_size = vspd_read_be32 data 8, vc_tx_queue_depth = vspd_read_be32 data 12,
     vc_rx_queue_depth = vspd_read_be32 data 16, vc_buffer_alignment = vspd_read_be32 data 20\<rparr>"

definition write_statistics :: "vspd_statistics_payload \<Rightarrow> bytes \<Rightarrow> nat \<Rightarrow> bytes" where
  "write_statistics value out off =
     (let out = vspd_write_be64 out off (tx_packets value);
          out = vspd_write_be64 out (off + 8) (rx_packets value);
          out = vspd_write_be64 out (off + 16) (tx_bytes value);
          out = vspd_write_be64 out (off + 24) (rx_bytes value);
          out = vspd_write_be64 out (off + 32) (tx_time_codes value);
          out = vspd_write_be64 out (off + 40) (rx_time_codes value);
          out = vspd_write_be64 out (off + 48) (eep_packets value);
          out = vspd_write_be64 out (off + 56) (link_errors value)
      in vspd_write_be64 out (off + 64) (dropped_packets value))"

definition read_statistics :: "bytes \<Rightarrow> nat \<Rightarrow> vspd_statistics_payload" where
  "read_statistics data off = \<lparr>tx_packets = vspd_read_be64 data off,
     rx_packets = vspd_read_be64 data (off + 8), tx_bytes = vspd_read_be64 data (off + 16),
     rx_bytes = vspd_read_be64 data (off + 24), tx_time_codes = vspd_read_be64 data (off + 32),
     rx_time_codes = vspd_read_be64 data (off + 40), eep_packets = vspd_read_be64 data (off + 48),
     link_errors = vspd_read_be64 data (off + 56), dropped_packets = vspd_read_be64 data (off + 64)\<rparr>"

definition write_port_snapshot :: "vspd_port_snapshot_payload \<Rightarrow> bytes \<Rightarrow> bytes" where
  "write_port_snapshot value out =
     write_statistics (vn_statistics value) (write_port_info (vn_info value) out) 16"

definition read_port_snapshot :: "bytes \<Rightarrow> vspd_port_snapshot_payload" where
  "read_port_snapshot data = \<lparr>vn_info = read_port_info data,
     vn_statistics = read_statistics data 16\<rparr>"

definition vspd_encode_server_info :: "vspd_server_info_payload option \<Rightarrow> bytes option \<Rightarrow> bytes option" where
  "vspd_encode_server_info = encode_into write_server_info"

definition vspd_decode_server_info ::
    "bytes option \<Rightarrow> vspd_server_info_payload option \<Rightarrow> vspd_server_info_payload option" where
  "vspd_decode_server_info = decode_into read_server_info"

definition vspd_encode_port_info :: "vspd_port_info_payload option \<Rightarrow> bytes option \<Rightarrow> bytes option" where
  "vspd_encode_port_info = encode_into write_port_info"

definition vspd_decode_port_info ::
    "bytes option \<Rightarrow> vspd_port_info_payload option \<Rightarrow> vspd_port_info_payload option" where
  "vspd_decode_port_info = decode_into read_port_info"

definition vspd_encode_capabilities :: "vspd_capabilities_payload option \<Rightarrow> bytes option \<Rightarrow> bytes option" where
  "vspd_encode_capabilities = encode_into write_capabilities"

definition vspd_decode_capabilities ::
    "bytes option \<Rightarrow> vspd_capabilities_payload option \<Rightarrow> vspd_capabilities_payload option" where
  "vspd_decode_capabilities = decode_into read_capabilities"

definition vspd_encode_statistics :: "vspd_statistics_payload option \<Rightarrow> bytes option \<Rightarrow> bytes option" where
  "vspd_encode_statistics = encode_into (\<lambda>value out. write_statistics value out 0)"

definition vspd_decode_statistics ::
    "bytes option \<Rightarrow> vspd_statistics_payload option \<Rightarrow> vspd_statistics_payload option" where
  "vspd_decode_statistics = decode_into (\<lambda>data. read_statistics data 0)"

definition vspd_encode_port_snapshot :: "vspd_port_snapshot_payload option \<Rightarrow> bytes option \<Rightarrow> bytes option" where
  "vspd_encode_port_snapshot = encode_into write_port_snapshot"

definition vspd_decode_port_snapshot ::
    "bytes option \<Rightarrow> vspd_port_snapshot_payload option \<Rightarrow> vspd_port_snapshot_payload option" where
  "vspd_decode_port_snapshot = decode_into read_port_snapshot"

section \<open>Field lemmas\<close>

lemma vspd_write_length [simp]:
  "length (vspd_write_be16 d off v16) = length d" "length (vspd_write_be32 d off v32) = length d"
  "length (vspd_write_be64 d off v64) = length d"
  by (simp_all add: vspd_write_be16_def vspd_write_be32_def vspd_write_be64_def)

lemmas vspd_read_be = vspd_read_be16_def [folded be16_def] vspd_read_be32_def [folded be32_def]
  vspd_read_be64_def [folded be64_def]

lemma vspd_read_write:
  "off + 1 < length d \<Longrightarrow> vspd_read_be16 (vspd_write_be16 d off v16) off = v16"
  "off + 3 < length d \<Longrightarrow> vspd_read_be32 (vspd_write_be32 d off v32) off = v32"
  by (simp_all add: vspd_read_be vspd_write_be16_def vspd_write_be32_def be_simps)

lemma vspd_read_be32_other:
  "off + 3 < off' \<or> off' + 3 < off \<Longrightarrow> vspd_read_be32 (vspd_write_be32 d off v) off' = vspd_read_be32 d off'"
  by (auto simp: vspd_read_be vspd_write_be32_def)

lemma vspd_read_be64_same: "off + 7 < length d \<Longrightarrow> vspd_read_be64 (vspd_write_be64 d off v) off = v"
  by (simp add: vspd_read_be(3) vspd_write_be64_def vspd_read_be32_other vspd_read_write(2) be_simps)

lemma vspd_read_be64_other:
  "off + 7 < off' \<or> off' + 7 < off \<Longrightarrow> vspd_read_be64 (vspd_write_be64 d off v) off' = vspd_read_be64 d off'"
  by (auto simp: vspd_read_be(3) vspd_write_be64_def vspd_read_be32_other)

lemma vspd_read_be_mixed:
  "off + 3 < off' \<or> off' + 7 < off \<Longrightarrow> vspd_read_be64 (vspd_write_be32 d off v32) off' = vspd_read_be64 d off'"
  "off + 7 < off' \<or> off' + 3 < off \<Longrightarrow> vspd_read_be32 (vspd_write_be64 d off v64) off' = vspd_read_be32 d off'"
  by (auto simp: vspd_read_be(3) vspd_write_be64_def vspd_read_be32_other)

lemma vspd_write_read:
  "vspd_write_be16 d off (vspd_read_be16 d off) = d" "vspd_write_be32 d off (vspd_read_be32 d off) = d"
  by (simp_all add: vspd_read_be vspd_write_be16_def vspd_write_be32_def be_simps)

lemmas vspd_field_simps = vspd_read_write vspd_read_be32_other vspd_read_be64_same vspd_read_be64_other
  vspd_read_be_mixed

section \<open>Header lemmas\<close>

lemma write_vspd_header_length [simp]: "length (write_vspd_header h d) = length d"
  by (simp add: write_vspd_header_def Let_def)

lemma drop_write_vspd_header: "40 \<le> length d \<Longrightarrow> drop 40 (write_vspd_header h d) = drop 40 d"
  by (simp add: write_vspd_header_def Let_def vspd_write_be16_def vspd_write_be32_def drop_update_cancel)

lemma read_write_vspd_header:
  assumes "40 \<le> length d"
  shows "read_vspd_header (write_vspd_header h d) = h"
  using assms le_less_trans [of 0 39 "length d"]
  by (cases h) (simp add: write_vspd_header_def read_vspd_header_def Let_def vspd_write_be16_def vspd_write_be32_def
      vspd_read_be be_simps)

lemma write_read_vspd_header: "write_vspd_header (read_vspd_header d) d = d"
  by (simp add: write_vspd_header_def read_vspd_header_def vspd_write_read)

lemma decode_header_ok:
  "vspd_decode_header (Some d) (Some out) = (VSPD_CODEC_OK, Some h) \<longleftrightarrow>
     40 \<le> length d \<and> h = read_vspd_header d \<and> vspd_validate_common (Some h) = VSPD_CODEC_OK"
  by (auto simp: vspd_decode_header_def Let_def)

lemma validate_frame_ok:
  assumes "vspd_validate_frame (Some f) (Some out) = (VSPD_CODEC_OK, Some h)"
  shows "length f = 40 + unat (vh_payload_size h)" and "h = read_vspd_header f"
    and "vspd_validate_common (Some h) = VSPD_CODEC_OK"
    and "vspd_validate_payload_shape h (if vh_payload_size h = 0 then None else Some (drop 40 f)) = VSPD_CODEC_OK"
proof -
  obtain r hp where d: "vspd_decode_header (Some f) (Some zero_vspd_header) = (r, hp)" by fastforce
  have "r = VSPD_CODEC_OK" "hp = Some h" "length f = 40 + unat (vh_payload_size h)"
      "vspd_validate_payload_shape h (if vh_payload_size h = 0 then None else Some (drop 40 f)) = VSPD_CODEC_OK"
    using assms d by (auto simp: vspd_validate_frame_def Let_def vspd_decode_header_def split: if_splits)
  with d decode_header_ok [of f zero_vspd_header h]
  show "length f = 40 + unat (vh_payload_size h)" "h = read_vspd_header f"
    "vspd_validate_common (Some h) = VSPD_CODEC_OK"
    "vspd_validate_payload_shape h (if vh_payload_size h = 0 then None else Some (drop 40 f)) = VSPD_CODEC_OK"
    by auto
qed

lemma header_shape_ok: "vspd_validate_payload_shape h p = VSPD_CODEC_OK \<Longrightarrow> header_shape h = VSPD_CODEC_OK"
  by (auto simp: vspd_validate_payload_shape_def Let_def split: if_splits)

definition vspd_flag :: "vspd_header \<Rightarrow> u8 \<Rightarrow> bool" where
  "vspd_flag h flag \<longleftrightarrow> vh_flags h AND flag \<noteq> 0"

lemma data_shape_ok:
  assumes "vspd_validate_data_shape h = VSPD_CODEC_OK"
  shows "vh_message_id h \<noteq> 0"
    and "unat (vh_fragment_offset h) + unat (vh_payload_size h) \<le> unat (vh_total_size h)"
    and "unat (vh_total_size h) \<le> VSPD_MAX_LOGICAL_PACKET"
    and "vspd_flag h VSPD_FLAG_FRAGMENT_START \<longleftrightarrow> vh_fragment_offset h = 0"
    and "vspd_flag h VSPD_FLAG_FRAGMENT_END \<longleftrightarrow>
      unat (vh_fragment_offset h) + unat (vh_payload_size h) = unat (vh_total_size h)"
    and "vspd_flag h VSPD_FLAG_FRAGMENT_END \<Longrightarrow> vspd_flag h VSPD_FLAG_EOP \<noteq> vspd_flag h VSPD_FLAG_EEP"
    and "\<not> vspd_flag h VSPD_FLAG_FRAGMENT_END \<Longrightarrow> \<not> vspd_flag h VSPD_FLAG_EOP \<and> \<not> vspd_flag h VSPD_FLAG_EEP"
    and "vh_payload_size h = 0 \<longleftrightarrow> vh_total_size h = 0"
proof -
  let ?sum = "(ucast (vh_fragment_offset h) :: u64) + ucast (vh_payload_size h)"
  have u: "unat (ucast x :: u64) = unat x" for x :: u32 by (rule unat_ucast_widen) simp
  have sum: "unat ?sum = unat (vh_fragment_offset h) + unat (vh_payload_size h)"
  proof (subst unat_add_small)
    have "unat x < 2 ^ LENGTH(32)" for x :: u32 by (rule unsigned_less)
    from this [of "vh_fragment_offset h"] this [of "vh_payload_size h"]
    show "unat (ucast (vh_fragment_offset h) :: u64) + unat (ucast (vh_payload_size h) :: u64) < 2 ^ LENGTH(64)"
      by (simp add: u)
  qed (simp add: u)
  have le: "(?sum > ucast (vh_total_size h)) \<longleftrightarrow>
      unat (vh_fragment_offset h) + unat (vh_payload_size h) > unat (vh_total_size h)"
    by (simp add: word_less_nat_alt sum u)
  have eq: "(?sum = ucast (vh_total_size h)) \<longleftrightarrow>
      unat (vh_fragment_offset h) + unat (vh_payload_size h) = unat (vh_total_size h)"
    by (simp add: word_unat_eq_iff sum u)
  have zero: "vh_total_size h = 0 \<longleftrightarrow> unat (vh_total_size h) = 0" "vh_payload_size h = 0 \<longleftrightarrow> unat (vh_payload_size h) = 0"
      "vh_fragment_offset h = 0 \<longleftrightarrow> unat (vh_fragment_offset h) = 0"
    by (simp_all add: unat_eq_0)
  note shape = assms [unfolded vspd_validate_data_shape_def Let_def, unfolded le eq]
  show "vh_message_id h \<noteq> 0"
    "unat (vh_fragment_offset h) + unat (vh_payload_size h) \<le> unat (vh_total_size h)"
    "unat (vh_total_size h) \<le> VSPD_MAX_LOGICAL_PACKET"
    "vspd_flag h VSPD_FLAG_FRAGMENT_START \<longleftrightarrow> vh_fragment_offset h = 0"
    "vspd_flag h VSPD_FLAG_FRAGMENT_END \<longleftrightarrow>
      unat (vh_fragment_offset h) + unat (vh_payload_size h) = unat (vh_total_size h)"
    "vspd_flag h VSPD_FLAG_FRAGMENT_END \<Longrightarrow> vspd_flag h VSPD_FLAG_EOP \<noteq> vspd_flag h VSPD_FLAG_EEP"
    "\<not> vspd_flag h VSPD_FLAG_FRAGMENT_END \<Longrightarrow> \<not> vspd_flag h VSPD_FLAG_EOP \<and> \<not> vspd_flag h VSPD_FLAG_EEP"
    "vh_payload_size h = 0 \<longleftrightarrow> vh_total_size h = 0"
    using shape by (auto simp: vspd_flag_def split: if_splits)
qed

lemma write_payload_length [simp]:
  "length (write_server_info si d) = length d" "length (write_port_info pi d) = length d"
  "length (write_capabilities c d) = length d" "length (write_statistics st d off) = length d"
  by (simp_all add: write_server_info_def write_port_info_def write_capabilities_def write_statistics_def Let_def)

lemma read_write_statistics: "off + 72 \<le> length d \<Longrightarrow> read_statistics (write_statistics st d off) off = st"
  by (cases st) (simp add: write_statistics_def read_statistics_def Let_def vspd_field_simps)

lemma read_port_info_statistics: "read_port_info (write_statistics st d 16) = read_port_info d"
  by (simp add: write_statistics_def read_port_info_def Let_def vspd_field_simps)

lemma read_write_payloads:
  "20 \<le> length d \<Longrightarrow> read_server_info (write_server_info si d) = si"
  "16 \<le> length d \<Longrightarrow> read_port_info (write_port_info pi d) = pi"
  "24 \<le> length d \<Longrightarrow> read_capabilities (write_capabilities c d) = c"
  "88 \<le> length d \<Longrightarrow> read_port_snapshot (write_port_snapshot sn d) = sn"
proof -
  show "20 \<le> length d \<Longrightarrow> read_server_info (write_server_info si d) = si"
    by (cases si) (simp add: write_server_info_def read_server_info_def Let_def vspd_field_simps)
  show info: "16 \<le> length d \<Longrightarrow> read_port_info (write_port_info pi d) = pi" for pi
    by (cases pi) (simp add: write_port_info_def read_port_info_def Let_def vspd_field_simps)
  show "24 \<le> length d \<Longrightarrow> read_capabilities (write_capabilities c d) = c"
    by (cases c) (simp add: write_capabilities_def read_capabilities_def Let_def vspd_field_simps)
  show "88 \<le> length d \<Longrightarrow> read_port_snapshot (write_port_snapshot sn d) = sn"
    by (cases sn) (simp add: write_port_snapshot_def read_port_snapshot_def read_port_info_statistics info
        read_write_statistics)
qed

section \<open>Properties\<close>

text \<open>
  Property C23: the header codec is invertible in both directions. Every header that passes the
  common checks is encoded into forty bytes that decode to it, the bytes behind are kept; and every
  accepted header passes the checks and is encoded to exactly the bytes it was read from.
\<close>

theorem vspd_header_roundtrip:
  "(vspd_validate_common (Some h) = VSPD_CODEC_OK \<and> 40 \<le> length d \<longrightarrow>
     (\<exists>e. vspd_encode_header (Some h) (Some d) = (VSPD_CODEC_OK, Some e) \<and> length e = length d \<and>
        drop 40 e = drop 40 d \<and> vspd_decode_header (Some e) (Some out) = (VSPD_CODEC_OK, Some h))) \<and>
   (vspd_decode_header (Some src) (Some out) = (VSPD_CODEC_OK, Some g) \<longrightarrow>
     vspd_encode_header (Some g) (Some src) = (VSPD_CODEC_OK, Some src))"
  by (auto simp: vspd_encode_header_def decode_header_ok drop_write_vspd_header read_write_vspd_header
      write_read_vspd_header)

text \<open>
  Property C22: what an accepted data frame guarantees. The payload is present in full and no longer
  than the frame limit, it lies inside the logical packet (the sum of offset and length does not
  wrap), which is at most one mebibyte; the start flag marks offset zero, the end flag marks the last
  byte, and exactly the last fragment carries exactly one terminator.
\<close>

theorem vspd_data_frame_safe:
  assumes "vspd_validate_frame (Some f) (Some out) = (VSPD_CODEC_OK, Some h)"
    and "vh_type h = VSPD_MSG_DATA_TX \<or> vh_type h = VSPD_MSG_DATA_RX"
    and "\<not> vspd_flag h VSPD_FLAG_RESPONSE"
  shows "length f = 40 + unat (vh_payload_size h) \<and> unat (vh_payload_size h) \<le> 32768 \<and>
    unat (vh_fragment_offset h) + unat (vh_payload_size h) \<le> unat (vh_total_size h) \<and>
    unat (vh_total_size h) \<le> 1048576 \<and> vh_message_id h \<noteq> 0 \<and>
    (vspd_flag h VSPD_FLAG_FRAGMENT_START \<longleftrightarrow> vh_fragment_offset h = 0) \<and>
    (vspd_flag h VSPD_FLAG_FRAGMENT_END \<longleftrightarrow>
       unat (vh_fragment_offset h) + unat (vh_payload_size h) = unat (vh_total_size h)) \<and>
    (if vspd_flag h VSPD_FLAG_FRAGMENT_END then vspd_flag h VSPD_FLAG_EOP \<noteq> vspd_flag h VSPD_FLAG_EEP
     else \<not> vspd_flag h VSPD_FLAG_EOP \<and> \<not> vspd_flag h VSPD_FLAG_EEP)"
proof -
  note frame = validate_frame_ok [OF assms(1)]
  have "vspd_validate_data_shape h = VSPD_CODEC_OK"
    using header_shape_ok [OF frame(4)] assms(2,3)
    by (auto simp: header_shape_def vspd_flag_def split: if_splits)
  moreover have "unat (vh_payload_size h) \<le> 32768"
    using frame(3) by (auto simp: vspd_validate_common_def split: if_splits)
  ultimately show ?thesis using frame(1) data_shape_ok [of h] by auto
qed

text \<open>
  Property C24: every fixed payload is written and read back without loss: server information, port
  information, capabilities, statistics and port snapshots, in buffers of the size the protocol
  fixes for them.
\<close>

theorem vspd_payload_roundtrip:
  assumes "length d20 = 20" "length d16 = 16" "length d24 = 24" "length d72 = 72" "length d88 = 88" "length d4 = 4"
  shows "vspd_decode_server_info (vspd_encode_server_info (Some si) (Some d20)) (Some si') = Some si \<and>
    vspd_decode_port_info (vspd_encode_port_info (Some pi) (Some d16)) (Some pi') = Some pi \<and>
    vspd_decode_capabilities (vspd_encode_capabilities (Some c) (Some d24)) (Some c') = Some c \<and>
    vspd_decode_statistics (vspd_encode_statistics (Some st) (Some d72)) (Some st') = Some st \<and>
    vspd_decode_port_snapshot (vspd_encode_port_snapshot (Some sn) (Some d88)) (Some sn') = Some sn \<and>
    vspd_decode_u32_payload (vspd_encode_u32_payload v (Some d4)) = v"
  using assms
  by (simp add: vspd_decode_server_info_def vspd_encode_server_info_def vspd_decode_port_info_def
      vspd_encode_port_info_def vspd_decode_capabilities_def vspd_encode_capabilities_def
      vspd_decode_statistics_def vspd_encode_statistics_def vspd_decode_port_snapshot_def
      vspd_encode_port_snapshot_def encode_into_def decode_into_def read_write_payloads read_write_statistics
      vspd_decode_u32_payload_def vspd_encode_u32_payload_def vspd_read_write)

section \<open>Witnesses\<close>

definition sample_vspd_header :: vspd_header where
  "sample_vspd_header = \<lparr>vh_magic = VSPD_MAGIC, vh_version_major = 1, vh_version_minor = 3,
     vh_type = VSPD_MSG_DATA_TX, vh_flags = 14, vh_header_size = 40, vh_reserved = 0, vh_payload_size = 2,
     vh_request_id = 7, vh_port_id = 0, vh_message_id = 1, vh_fragment_offset = 0, vh_total_size = 2,
     vh_status = 0\<rparr>"

definition sample_vspd_frame :: bytes where
  "sample_vspd_frame = [0x56, 0x53, 0x50, 0x44, 1, 3, 9, 14, 0, 40, 0, 0, 0, 0, 0, 2, 0, 0, 0, 7, 0, 0, 0, 0,
     0, 0, 0, 1, 0, 0, 0, 0, 0, 0, 0, 2, 0, 0, 0, 0, 0xaa, 0xbb]"

lemma sample_vspd_header_ok: "vspd_validate_common (Some sample_vspd_header) = VSPD_CODEC_OK"
  by (simp add: vspd_validate_common_def sample_vspd_header_def vspd_type_valid_def)

lemma sample_vspd_frame_read: "read_vspd_header sample_vspd_frame = sample_vspd_header"
  by (simp add: read_vspd_header_def sample_vspd_frame_def sample_vspd_header_def vspd_read_be16_def vspd_read_be32_def)

theorem vspd_header_roundtrip_witness:
  "(\<exists>e. vspd_encode_header (Some sample_vspd_header) (Some (replicate 42 0)) = (VSPD_CODEC_OK, Some e) \<and>
     vspd_decode_header (Some e) (Some zero_vspd_header) = (VSPD_CODEC_OK, Some sample_vspd_header)) \<and>
   vspd_encode_header (Some sample_vspd_header) (Some sample_vspd_frame) = (VSPD_CODEC_OK, Some sample_vspd_frame)"
proof -
  have "vspd_decode_header (Some sample_vspd_frame) (Some zero_vspd_header) = (VSPD_CODEC_OK, Some sample_vspd_header)"
    unfolding decode_header_ok using sample_vspd_header_ok sample_vspd_frame_read by (simp add: sample_vspd_frame_def)
  then show ?thesis
    using vspd_header_roundtrip [of sample_vspd_header "replicate 42 0" zero_vspd_header sample_vspd_frame
        sample_vspd_header] sample_vspd_header_ok by auto
qed

theorem vspd_data_frame_safe_witness:
  "vspd_validate_frame (Some sample_vspd_frame) (Some zero_vspd_header) = (VSPD_CODEC_OK, Some sample_vspd_header) \<and>
   length sample_vspd_frame = 40 + unat (vh_payload_size sample_vspd_header) \<and>
   vspd_flag sample_vspd_header VSPD_FLAG_FRAGMENT_END"
proof -
  have "vspd_decode_header (Some sample_vspd_frame) (Some zero_vspd_header) = (VSPD_CODEC_OK, Some sample_vspd_header)"
    unfolding decode_header_ok using sample_vspd_header_ok sample_vspd_frame_read by (simp add: sample_vspd_frame_def)
  moreover have "header_shape sample_vspd_header = VSPD_CODEC_OK"
    by (simp add: header_shape_def sample_vspd_header_def vspd_type_is_event_def vspd_validate_data_shape_def Let_def)
  ultimately have v: "vspd_validate_frame (Some sample_vspd_frame) (Some zero_vspd_header) =
      (VSPD_CODEC_OK, Some sample_vspd_header)"
    by (simp add: vspd_validate_frame_def vspd_validate_payload_shape_def Let_def)
      (simp add: sample_vspd_header_def sample_vspd_frame_def)
  have "vh_type sample_vspd_header = VSPD_MSG_DATA_TX" "\<not> vspd_flag sample_vspd_header VSPD_FLAG_RESPONSE"
    by (simp_all add: sample_vspd_header_def vspd_flag_def)
  with v vspd_data_frame_safe [OF v] show ?thesis by (simp add: sample_vspd_header_def)
qed

theorem vspd_payload_roundtrip_witness:
  "length (replicate 20 (0 :: u8)) = 20 \<and> length (replicate 16 (0 :: u8)) = 16 \<and>
   length (replicate 24 (0 :: u8)) = 24 \<and> length (replicate 72 (0 :: u8)) = 72 \<and>
   length (replicate 88 (0 :: u8)) = 88 \<and> length (replicate 4 (0 :: u8)) = 4 \<and>
   vspd_decode_statistics (vspd_encode_statistics (Some zero_statistics) (Some (replicate 72 0))) (Some zero_statistics) =
     Some zero_statistics"
  using vspd_payload_roundtrip [of "replicate 20 0" "replicate 16 0" "replicate 24 0" "replicate 72 0"
      "replicate 88 0" "replicate 4 0" _ _ _ _ _ _ zero_statistics zero_statistics] by simp

end
