(* ===== verification/Driver_Backend.thy ===== *)
theory Driver_Backend
  imports Port_Calls
begin

text \<open>
  The driver backend (\<open>src/backends/driver/driver_backend.c\<close>): a table of callbacks supplied by a
  hardware driver, with slots that track which DMA buffers the driver has lent to the application.

  The driver is not part of the library: its state has any type \<open>'d\<close>, its callbacks are arbitrary
  functions on that state, and \<open>driver_context\<close> is part of them. A slot's buffer descriptor is in the
  buffer memory at its address inside the backend structure. \<open>slot->buffer.data\<close> and
  \<open>slot->driver_buffer.data\<close> point to the same storage, whose bytes are kept in the descriptor; they
  are put into the driver's view of the buffer whenever it is passed to a callback.
\<close>

section \<open>State\<close>

record driver_buffer_slot =
  sl_driver_buffer :: spw_driver_buffer
  sl_active :: bool

record 'd spw_driver_backend =
  bk_ops :: "'d spw_driver_ops option"
  bk_tx_slot_count :: nat
  bk_rx_slot_count :: nat
  bk_slots :: "driver_buffer_slot list"

record 'd drivers =
  dv_driver :: 'd
  dv_backends :: "addr \<rightharpoonup> 'd spw_driver_backend"

text \<open>Zeroed memory.\<close>

definition zero_driver_buffer :: spw_driver_buffer where
  "zero_driver_buffer = \<lparr>db_data = None, db_length = 0, db_capacity = 0, db_terminator = 0, db_token = 0\<rparr>"

definition zero_driver_slot :: driver_buffer_slot where
  "zero_driver_slot = \<lparr>sl_driver_buffer = zero_driver_buffer, sl_active = False\<rparr>"

definition empty_descriptor :: spw_buffer where
  "empty_descriptor = \<lparr>buf_data = None, buf_length = 0, buf_capacity = 0, buf_terminator = 0, buf_owner = None,
     buf_direction = 0, buf_state = SPW_BUFFER_STATE_FREE, buf_token = 0, buf_owner_epoch = None, buf_epoch = 0\<rparr>"

definition zero_driver_backend :: "'d spw_driver_backend" where
  "zero_driver_backend = \<lparr>bk_ops = None, bk_tx_slot_count = 0, bk_rx_slot_count = 0, bk_slots = []\<rparr>"

definition the_driver :: "addr \<Rightarrow> 'd drivers memory \<Rightarrow> 'd spw_driver_backend" where
  "the_driver ctx m = (case dv_backends (m_backend m) ctx of None \<Rightarrow> zero_driver_backend | Some b \<Rightarrow> b)"

definition put_driver :: "addr \<Rightarrow> 'd spw_driver_backend \<Rightarrow> 'd drivers memory \<Rightarrow> 'd drivers memory" where
  "put_driver ctx b m = m\<lparr>m_backend := (m_backend m)\<lparr>dv_backends := (dv_backends (m_backend m))(ctx \<mapsto> b)\<rparr>\<rparr>"

definition driver_ops :: "addr \<Rightarrow> 'd drivers memory \<Rightarrow> 'd spw_driver_ops" where
  "driver_ops ctx m = the (bk_ops (the_driver ctx m))"

text \<open>
  A slot has 120 bytes: 72 for the public descriptor, 40 for the driver's descriptor, and the active
  flag padded to 8. The structure before the slots has 32.
\<close>

definition slot_addr :: "addr \<Rightarrow> nat \<Rightarrow> addr" where
  "slot_addr ctx i = ctx + 32 + 120 * i"

definition slot_buffer :: "addr \<Rightarrow> nat \<Rightarrow> 'd drivers memory \<Rightarrow> spw_buffer" where
  "slot_buffer ctx i m = (case m_buffers m (slot_addr ctx i) of None \<Rightarrow> empty_descriptor | Some nb \<Rightarrow> nb)"

definition put_slot_buffer :: "addr \<Rightarrow> nat \<Rightarrow> spw_buffer \<Rightarrow> 'd drivers memory \<Rightarrow> 'd drivers memory" where
  "put_slot_buffer ctx i nb m = m\<lparr>m_buffers := (m_buffers m)(slot_addr ctx i \<mapsto> nb)\<rparr>"

definition put_slot :: "addr \<Rightarrow> nat \<Rightarrow> driver_buffer_slot \<Rightarrow> 'd drivers memory \<Rightarrow> 'd drivers memory" where
  "put_slot ctx i s m = put_driver ctx ((the_driver ctx m)\<lparr>bk_slots := (bk_slots (the_driver ctx m))[i := s]\<rparr>) m"

text \<open>A call of a callback, without and with an output parameter.\<close>

definition call_driver :: "('d \<Rightarrow> spw_result \<times> 'd) \<Rightarrow> 'd drivers memory \<Rightarrow> spw_result \<times> 'd drivers memory" where
  "call_driver f m = (let (result, d) = f (dv_driver (m_backend m))
     in (result, m\<lparr>m_backend := (m_backend m)\<lparr>dv_driver := d\<rparr>\<rparr>))"

definition call_driver_out ::
    "('d \<Rightarrow> spw_result \<times> 'o \<times> 'd) \<Rightarrow> 'd drivers memory \<Rightarrow> spw_result \<times> 'o \<times> 'd drivers memory" where
  "call_driver_out f m = (let (result, out, d) = f (dv_driver (m_backend m))
     in (result, out, m\<lparr>m_backend := (m_backend m)\<lparr>dv_driver := d\<rparr>\<rparr>))"

section \<open>Configuration\<close>

definition complete_dma_ops :: "'d spw_driver_ops \<Rightarrow> bool" where
  "complete_dma_ops ops \<longleftrightarrow> dops_acquire_tx_buffer ops \<noteq> None \<and> dops_submit_tx_buffer ops \<noteq> None \<and>
     dops_reclaim_tx_buffer ops \<noteq> None \<and> dops_release_tx_buffer ops \<noteq> None \<and>
     dops_acquire_rx_buffer ops \<noteq> None \<and> dops_release_rx_buffer ops \<noteq> None"

definition zero_copy_enabled_config :: "'d spw_driver_config \<Rightarrow> bool" where
  "zero_copy_enabled_config config \<longleftrightarrow> complete_dma_ops (the (drv_ops config)) \<and>
     drv_tx_buffer_slots config \<noteq> 0 \<and> drv_rx_buffer_slots config \<noteq> 0"

abbreviation SIZE_MAX :: nat where "SIZE_MAX \<equiv> 18446744073709551615"

definition driver_context_size_for_config :: "'d spw_port_config \<Rightarrow> u64 \<Rightarrow> spw_result \<times> u64" where
  "driver_context_size_for_config config out_context_size =
     (case pc_backend_config config of None \<Rightarrow> (SPW_ERR_INVALID_ARGUMENT, out_context_size)
      | Some bc \<Rightarrow>
          let driver = as_driver bc; tx = drv_tx_buffer_slots driver; rx = drv_rx_buffer_slots driver in
          if zero_copy_enabled_config driver \<and> tx > SIZE_MAX - rx
          then (SPW_ERR_RESOURCE_EXHAUSTED, out_context_size)
          else if zero_copy_enabled_config driver \<and> tx + rx > SIZE_MAX div 120
          then (SPW_ERR_RESOURCE_EXHAUSTED, out_context_size)
          else let slots_size = (if zero_copy_enabled_config driver then (tx + rx) * 120 else 0) in
            if slots_size > SIZE_MAX - 32 then (SPW_ERR_RESOURCE_EXHAUSTED, out_context_size)
            else (SPW_OK, of_nat (32 + slots_size)))"

definition clear_slot :: "addr \<Rightarrow> nat \<Rightarrow> 'd drivers memory \<Rightarrow> 'd drivers memory" where
  "clear_slot ctx i m = put_slot_buffer ctx i empty_descriptor (put_slot ctx i zero_driver_slot m)"

fun clear_first_slots :: "addr \<Rightarrow> nat \<Rightarrow> 'd drivers memory \<Rightarrow> 'd drivers memory" where
  "clear_first_slots ctx 0 m = m"
| "clear_first_slots ctx (Suc n) m = clear_slot ctx n (clear_first_slots ctx n m)"

definition clear_slots :: "addr \<Rightarrow> 'd drivers memory \<Rightarrow> 'd drivers memory" where
  "clear_slots ctx m =
     clear_first_slots ctx (bk_tx_slot_count (the_driver ctx m) + bk_rx_slot_count (the_driver ctx m)) m"

definition driver_construct ::
    "addr \<Rightarrow> 'd spw_port_config \<Rightarrow> 'd drivers memory \<Rightarrow> spw_result \<times> 'd drivers memory" where
  "driver_construct ctx config m =
     (let driver = as_driver (the (pc_backend_config config));
          n = (if zero_copy_enabled_config driver
               then drv_tx_buffer_slots driver + drv_rx_buffer_slots driver else 0);
          b = \<lparr>bk_ops = drv_ops driver, bk_tx_slot_count = 0, bk_rx_slot_count = 0,
               bk_slots = replicate n zero_driver_slot\<rparr>;
          m = put_driver ctx b m
      in if zero_copy_enabled_config driver
         then (SPW_OK, clear_slots ctx (put_driver ctx (b\<lparr>bk_tx_slot_count := drv_tx_buffer_slots driver,
                 bk_rx_slot_count := drv_rx_buffer_slots driver\<rparr>) m))
         else (SPW_OK, m))"

definition driver_destroy :: "addr \<Rightarrow> 'd drivers memory \<Rightarrow> 'd drivers memory" where
  "driver_destroy ctx m =
     (let m = clear_slots ctx m
      in put_driver ctx ((the_driver ctx m)\<lparr>bk_ops := None, bk_tx_slot_count := 0, bk_rx_slot_count := 0\<rparr>) m)"

section \<open>Forwarded operations\<close>

definition driver_start :: "addr \<Rightarrow> 'd drivers memory \<Rightarrow> spw_result \<times> 'd drivers memory" where
  "driver_start ctx m = call_driver (the (dops_start (driver_ops ctx m))) m"

definition driver_stop :: "addr \<Rightarrow> 'd drivers memory \<Rightarrow> spw_result \<times> 'd drivers memory" where
  "driver_stop ctx m = call_driver (the (dops_stop (driver_ops ctx m))) m"

definition driver_reset :: "addr \<Rightarrow> 'd drivers memory \<Rightarrow> spw_result \<times> 'd drivers memory" where
  "driver_reset ctx m =
     (let (result, m) = call_driver (the (dops_reset (driver_ops ctx m))) m
      in (result, if result = SPW_OK then clear_slots ctx m else m))"

definition driver_get_link_state ::
    "addr \<Rightarrow> u8 \<Rightarrow> 'd drivers memory \<Rightarrow> spw_result \<times> u8 \<times> 'd drivers memory" where
  "driver_get_link_state ctx out_state m =
     call_driver_out (\<lambda>d. the (dops_get_link_state (driver_ops ctx m)) d out_state) m"

definition driver_supports_zero_copy :: "addr \<Rightarrow> 'd drivers memory \<Rightarrow> bool" where
  "driver_supports_zero_copy ctx m \<longleftrightarrow> bk_tx_slot_count (the_driver ctx m) \<noteq> 0 \<and>
     bk_rx_slot_count (the_driver ctx m) \<noteq> 0 \<and> complete_dma_ops (driver_ops ctx m)"

definition driver_get_capabilities ::
    "addr \<Rightarrow> spw_capabilities \<Rightarrow> 'd drivers memory \<Rightarrow> spw_result \<times> spw_capabilities \<times> 'd drivers memory" where
  "driver_get_capabilities ctx out_capabilities m =
     (let ops = driver_ops ctx m;
          zero_copy = (bk_tx_slot_count (the_driver ctx m) \<noteq> 0 \<and> bk_rx_slot_count (the_driver ctx m) \<noteq> 0 \<and>
            complete_dma_ops ops);
          (result, caps, m) = call_driver_out (\<lambda>d. the (dops_get_capabilities ops) d out_capabilities) m in
      if result \<noteq> SPW_OK then (result, caps, m)
      else if cap_bits caps AND SPW_CAP_ZERO_COPY \<noteq> 0 \<and> \<not> zero_copy then (SPW_ERR_BACKEND, caps, m)
      else if cap_bits caps AND SPW_CAP_FAULT_INJECTION \<noteq> 0 then (SPW_ERR_UNSUPPORTED, caps, m)
      else if cap_bits caps AND SPW_CAP_TIME_CODE \<noteq> 0 \<and>
         (dops_send_time_code ops = None \<or> dops_receive_time_code ops = None) then (SPW_ERR_BACKEND, caps, m)
      else if cap_bits caps AND SPW_CAP_STATISTICS \<noteq> 0 \<and>
         (dops_get_statistics ops = None \<or> dops_clear_statistics ops = None) then (SPW_ERR_BACKEND, caps, m)
      else if cap_bits caps AND SPW_CAP_READINESS \<noteq> 0 \<and> dops_wait ops = None then (SPW_ERR_BACKEND, caps, m)
      else (SPW_OK, if dops_wait ops = None then caps\<lparr>cap_bits := cap_bits caps AND NOT SPW_CAP_READINESS\<rparr>
                    else caps, m))"

definition driver_send ::
    "addr \<Rightarrow> spw_packet \<Rightarrow> u64 \<Rightarrow> 'd drivers memory \<Rightarrow> spw_result \<times> 'd drivers memory" where
  "driver_send ctx packet timeout_us m =
     call_driver (\<lambda>d. the (dops_send (driver_ops ctx m)) d packet timeout_us) m"

definition driver_receive ::
    "addr \<Rightarrow> spw_packet \<Rightarrow> u64 \<Rightarrow> 'd drivers memory \<Rightarrow> spw_result \<times> spw_packet \<times> 'd drivers memory" where
  "driver_receive ctx packet timeout_us m =
     call_driver_out (\<lambda>d. the (dops_receive (driver_ops ctx m)) d packet timeout_us) m"

definition driver_send_time_code ::
    "addr \<Rightarrow> spw_time_code \<Rightarrow> u64 \<Rightarrow> 'd drivers memory \<Rightarrow> spw_result \<times> 'd drivers memory" where
  "driver_send_time_code ctx code timeout_us m =
     (case dops_send_time_code (driver_ops ctx m) of None \<Rightarrow> (SPW_ERR_UNSUPPORTED, m)
      | Some f \<Rightarrow> call_driver (\<lambda>d. f d code timeout_us) m)"

definition driver_receive_time_code ::
    "addr \<Rightarrow> spw_time_code \<Rightarrow> u64 \<Rightarrow> 'd drivers memory \<Rightarrow> spw_result \<times> spw_time_code \<times> 'd drivers memory" where
  "driver_receive_time_code ctx code timeout_us m =
     (case dops_receive_time_code (driver_ops ctx m) of None \<Rightarrow> (SPW_ERR_UNSUPPORTED, code, m)
      | Some f \<Rightarrow> call_driver_out (\<lambda>d. f d code timeout_us) m)"

definition driver_get_statistics ::
    "addr \<Rightarrow> spw_statistics \<Rightarrow> 'd drivers memory \<Rightarrow> spw_result \<times> spw_statistics \<times> 'd drivers memory" where
  "driver_get_statistics ctx out_statistics m =
     (case dops_get_statistics (driver_ops ctx m) of None \<Rightarrow> (SPW_ERR_UNSUPPORTED, zero_statistics, m)
      | Some f \<Rightarrow> call_driver_out (\<lambda>d. f d out_statistics) m)"

definition driver_clear_statistics :: "addr \<Rightarrow> 'd drivers memory \<Rightarrow> spw_result \<times> 'd drivers memory" where
  "driver_clear_statistics ctx m =
     (case dops_clear_statistics (driver_ops ctx m) of None \<Rightarrow> (SPW_ERR_UNSUPPORTED, m)
      | Some f \<Rightarrow> call_driver f m)"

definition driver_wait ::
    "addr \<Rightarrow> u32 \<Rightarrow> u64 \<Rightarrow> u32 \<Rightarrow> 'd drivers memory \<Rightarrow> spw_result \<times> u32 \<times> 'd drivers memory" where
  "driver_wait ctx interests timeout_us out_ready m =
     (case dops_wait (driver_ops ctx m) of None \<Rightarrow> (SPW_ERR_UNSUPPORTED, out_ready, m)
      | Some f \<Rightarrow> call_driver_out (\<lambda>d. f d interests timeout_us out_ready) m)"

section \<open>Buffers lent by the driver\<close>

definition find_free_slot :: "'d spw_driver_backend \<Rightarrow> nat \<Rightarrow> nat \<Rightarrow> nat option" where
  "find_free_slot b first count = List.find (\<lambda>i. \<not> sl_active (bk_slots b ! i)) [first..<first + count]"

definition token_in_use :: "'d spw_driver_backend \<Rightarrow> u64 \<Rightarrow> bool" where
  "token_in_use b token \<longleftrightarrow>
     list_ex (\<lambda>i. sl_active (bk_slots b ! i) \<and> db_token (sl_driver_buffer (bk_slots b ! i)) = token)
       [0..<bk_tx_slot_count b + bk_rx_slot_count b]"

definition find_slot_for_public_buffer :: "addr \<Rightarrow> addr \<Rightarrow> u8 \<Rightarrow> 'd drivers memory \<Rightarrow> nat option" where
  "find_slot_for_public_buffer ctx buffer direction m =
     (let b = the_driver ctx m in
      List.find (\<lambda>i. sl_active (bk_slots b ! i) \<and> slot_addr ctx i = buffer \<and>
          buf_owner (slot_buffer ctx i m) = Some ctx \<and> buf_direction (slot_buffer ctx i m) = direction)
        [0..<bk_tx_slot_count b + bk_rx_slot_count b])"

definition find_tx_slot_for_token :: "addr \<Rightarrow> u64 \<Rightarrow> 'd drivers memory \<Rightarrow> nat option" where
  "find_tx_slot_for_token ctx token m =
     (let b = the_driver ctx m in
      List.find (\<lambda>i. sl_active (bk_slots b ! i) \<and> db_token (sl_driver_buffer (bk_slots b ! i)) = token \<and>
          buf_state (slot_buffer ctx i m) = SPW_BUFFER_STATE_BACKEND) [0..<bk_tx_slot_count b])"

definition validate_driver_buffer :: "spw_driver_buffer \<Rightarrow> bool \<Rightarrow> spw_result" where
  "validate_driver_buffer buffer require_packet_metadata =
     (if db_length buffer > db_capacity buffer \<or> db_capacity buffer \<noteq> 0 \<and> db_data buffer = None
      then SPW_ERR_BACKEND
      else if require_packet_metadata \<and> \<not> valid_terminator (db_terminator buffer) then SPW_ERR_BACKEND
      else SPW_OK)"

text \<open>\<open>slot->driver_buffer = descriptor\<close>.\<close>

definition set_driver_buffer :: "addr \<Rightarrow> nat \<Rightarrow> spw_driver_buffer \<Rightarrow> 'd drivers memory \<Rightarrow> 'd drivers memory" where
  "set_driver_buffer ctx i descriptor m =
     put_slot ctx i ((bk_slots (the_driver ctx m) ! i)\<lparr>sl_driver_buffer := descriptor\<rparr>) m"

definition expose_slot :: "addr \<Rightarrow> nat \<Rightarrow> u8 \<Rightarrow> u8 \<Rightarrow> 'd drivers memory \<Rightarrow> 'd drivers memory" where
  "expose_slot ctx i direction state m =
     (let slot = bk_slots (the_driver ctx m) ! i; descriptor = sl_driver_buffer slot in
      put_slot_buffer ctx i ((slot_buffer ctx i m)\<lparr>buf_data := db_data descriptor,
         buf_length := db_length descriptor, buf_capacity := db_capacity descriptor,
         buf_terminator := db_terminator descriptor, buf_owner := Some ctx, buf_direction := direction,
         buf_state := state, buf_token := of_nat i\<rparr>)
       (put_slot ctx i (slot\<lparr>sl_active := True\<rparr>) m))"

text \<open>The driver's descriptor of a slot as a callback sees it.\<close>

definition lent_buffer :: "addr \<Rightarrow> nat \<Rightarrow> 'd drivers memory \<Rightarrow> spw_driver_buffer" where
  "lent_buffer ctx i m = (sl_driver_buffer (bk_slots (the_driver ctx m) ! i))
     \<lparr>db_data := buf_data (slot_buffer ctx i m)\<rparr>"

text \<open>\<open>slot->driver_buffer\<close> takes the length and terminator the application has set.\<close>

definition take_packet_metadata :: "addr \<Rightarrow> nat \<Rightarrow> 'd drivers memory \<Rightarrow> 'd drivers memory" where
  "take_packet_metadata ctx i m =
     (let slot = bk_slots (the_driver ctx m) ! i; nb = slot_buffer ctx i m
      in put_slot ctx i (slot\<lparr>sl_driver_buffer := (sl_driver_buffer slot)
           \<lparr>db_length := buf_length nb, db_terminator := buf_terminator nb\<rparr>\<rparr>) m)"

text \<open>The call of the optional synchronisation callback.\<close>

definition sync_call ::
    "('d \<Rightarrow> spw_driver_buffer \<Rightarrow> u32 \<Rightarrow> spw_result \<times> 'd) option \<Rightarrow> spw_driver_buffer \<Rightarrow> u32 \<Rightarrow>
     'd drivers memory \<Rightarrow> spw_result \<times> 'd drivers memory" where
  "sync_call sync buffer direction m =
     (case sync of None \<Rightarrow> (SPW_OK, m) | Some f \<Rightarrow> call_driver (\<lambda>d. f d buffer direction) m)"

definition driver_acquire_tx_buffer ::
    "addr \<Rightarrow> nat \<Rightarrow> u64 \<Rightarrow> addr option \<Rightarrow> 'd drivers memory \<Rightarrow> spw_result \<times> addr option \<times> 'd drivers memory" where
  "driver_acquire_tx_buffer ctx min_capacity timeout_us out_buffer m =
     (let b = the_driver ctx m; ops = driver_ops ctx m in
      case find_free_slot b 0 (bk_tx_slot_count b) of None \<Rightarrow> (SPW_ERR_RESOURCE_EXHAUSTED, out_buffer, m)
      | Some i \<Rightarrow>
          let (result, descriptor, m) = call_driver_out (\<lambda>d. the (dops_acquire_tx_buffer ops) d min_capacity
                timeout_us zero_driver_buffer) m in
          if result \<noteq> SPW_OK then (result, out_buffer, m)
          else if validate_driver_buffer descriptor False \<noteq> SPW_OK \<or> db_capacity descriptor < min_capacity \<or>
            token_in_use b (db_token descriptor)
          then (SPW_ERR_BACKEND, out_buffer, snd (call_driver (\<lambda>d. the (dops_release_tx_buffer ops) d descriptor) m))
          else (SPW_OK, Some (slot_addr ctx i), expose_slot ctx i
                 SPW_BUFFER_DIRECTION_TX SPW_BUFFER_STATE_APPLICATION (set_driver_buffer ctx i
                   (descriptor\<lparr>db_length := 0, db_terminator := SPW_TERMINATOR_EOP\<rparr>) m)))"

definition driver_submit_tx_buffer ::
    "addr \<Rightarrow> addr \<Rightarrow> u64 \<Rightarrow> 'd drivers memory \<Rightarrow> spw_result \<times> 'd drivers memory" where
  "driver_submit_tx_buffer ctx buffer timeout_us m =
     (let ops = driver_ops ctx m in
      case find_slot_for_public_buffer ctx buffer SPW_BUFFER_DIRECTION_TX m of
        None \<Rightarrow> (SPW_ERR_INVALID_STATE, m)
      | Some i \<Rightarrow>
          if buf_state (slot_buffer ctx i m) \<noteq> SPW_BUFFER_STATE_APPLICATION then (SPW_ERR_INVALID_STATE, m)
          else let m = take_packet_metadata ctx i m; lent = lent_buffer ctx i m in
            if \<not> valid_terminator (db_terminator lent) \<or> db_length lent > db_capacity lent
            then (SPW_ERR_INVALID_PACKET, m)
            else let (result, m) = sync_call (dops_sync_buffer ops) lent SPW_DRIVER_SYNC_TO_DEVICE m in
              if result \<noteq> SPW_OK then (result, m)
              else let (result, m) = call_driver (\<lambda>d. the (dops_submit_tx_buffer ops) d lent timeout_us) m
                in (result, if result = SPW_OK
                    then put_slot_buffer ctx i ((slot_buffer ctx i m)\<lparr>buf_state := SPW_BUFFER_STATE_BACKEND\<rparr>) m
                    else m))"

definition driver_reclaim_tx_buffer ::
    "addr \<Rightarrow> u64 \<Rightarrow> addr option \<Rightarrow> 'd drivers memory \<Rightarrow> spw_result \<times> addr option \<times> 'd drivers memory" where
  "driver_reclaim_tx_buffer ctx timeout_us out_buffer m =
     (let (result, descriptor, m) = call_driver_out (\<lambda>d. the (dops_reclaim_tx_buffer (driver_ops ctx m)) d
            timeout_us zero_driver_buffer) m in
      if result \<noteq> SPW_OK then (result, out_buffer, m)
      else case find_tx_slot_for_token ctx (db_token descriptor) m of None \<Rightarrow> (SPW_ERR_BACKEND, out_buffer, m)
        | Some i \<Rightarrow>
            if validate_driver_buffer descriptor False \<noteq> SPW_OK then (SPW_ERR_BACKEND, out_buffer, m)
            else (SPW_OK, Some (slot_addr ctx i),
                  expose_slot ctx i SPW_BUFFER_DIRECTION_TX SPW_BUFFER_STATE_APPLICATION
                    (set_driver_buffer ctx i descriptor m)))"

definition driver_release_tx_buffer ::
    "addr \<Rightarrow> addr \<Rightarrow> 'd drivers memory \<Rightarrow> spw_result \<times> 'd drivers memory" where
  "driver_release_tx_buffer ctx buffer m =
     (let ops = driver_ops ctx m in
      case find_slot_for_public_buffer ctx buffer SPW_BUFFER_DIRECTION_TX m of
        None \<Rightarrow> (SPW_ERR_INVALID_STATE, m)
      | Some i \<Rightarrow>
          if buf_state (slot_buffer ctx i m) \<noteq> SPW_BUFFER_STATE_APPLICATION then (SPW_ERR_INVALID_STATE, m)
          else let m = take_packet_metadata ctx i m; lent = lent_buffer ctx i m;
                 (result, m) = call_driver (\<lambda>d. the (dops_release_tx_buffer ops) d lent) m
            in (result, if result = SPW_OK then clear_slot ctx i m else m))"

definition driver_acquire_rx_buffer ::
    "addr \<Rightarrow> u64 \<Rightarrow> addr option \<Rightarrow> 'd drivers memory \<Rightarrow> spw_result \<times> addr option \<times> 'd drivers memory" where
  "driver_acquire_rx_buffer ctx timeout_us out_buffer m =
     (let b = the_driver ctx m; ops = driver_ops ctx m in
      case find_free_slot b (bk_tx_slot_count b) (bk_rx_slot_count b) of
        None \<Rightarrow> (SPW_ERR_RESOURCE_EXHAUSTED, out_buffer, m)
      | Some i \<Rightarrow>
          let (result, descriptor, m) = call_driver_out (\<lambda>d. the (dops_acquire_rx_buffer ops) d
                timeout_us zero_driver_buffer) m in
          if result \<noteq> SPW_OK then (result, out_buffer, m)
          else if validate_driver_buffer descriptor True \<noteq> SPW_OK \<or> token_in_use b (db_token descriptor)
          then (SPW_ERR_BACKEND, out_buffer, snd (call_driver (\<lambda>d. the (dops_release_rx_buffer ops) d descriptor) m))
          else let (result, m) = sync_call (dops_sync_buffer ops) descriptor SPW_DRIVER_SYNC_FROM_DEVICE m in
            if result \<noteq> SPW_OK
            then (result, out_buffer, snd (call_driver (\<lambda>d. the (dops_release_rx_buffer ops) d descriptor) m))
            else (SPW_OK, Some (slot_addr ctx i),
                  expose_slot ctx i SPW_BUFFER_DIRECTION_RX SPW_BUFFER_STATE_APPLICATION
                    (set_driver_buffer ctx i descriptor m)))"

definition driver_release_rx_buffer ::
    "addr \<Rightarrow> addr \<Rightarrow> 'd drivers memory \<Rightarrow> spw_result \<times> 'd drivers memory" where
  "driver_release_rx_buffer ctx buffer m =
     (let ops = driver_ops ctx m in
      case find_slot_for_public_buffer ctx buffer SPW_BUFFER_DIRECTION_RX m of
        None \<Rightarrow> (SPW_ERR_INVALID_STATE, m)
      | Some i \<Rightarrow>
          if buf_state (slot_buffer ctx i m) \<noteq> SPW_BUFFER_STATE_APPLICATION then (SPW_ERR_INVALID_STATE, m)
          else let lent = lent_buffer ctx i m;
                 (result, m) = call_driver (\<lambda>d. the (dops_release_rx_buffer ops) d lent) m
            in (result, if result = SPW_OK then clear_slot ctx i m else m))"

section \<open>Operation tables and factories\<close>

definition DRIVER_OPS :: "'d drivers spw_backend_ops" where
  "DRIVER_OPS = \<lparr>op_start = driver_start, op_stop = driver_stop, op_reset = driver_reset,
     op_get_link_state = driver_get_link_state, op_get_capabilities = driver_get_capabilities,
     op_supports_zero_copy = Some driver_supports_zero_copy, op_send = driver_send,
     op_receive = driver_receive, op_send_time_code = driver_send_time_code,
     op_receive_time_code = driver_receive_time_code, op_get_statistics = driver_get_statistics,
     op_clear_statistics = driver_clear_statistics, op_get_fault_statistics = None,
     op_clear_fault_statistics = None, op_acquire_tx_buffer = None, op_submit_tx_buffer = None,
     op_reclaim_tx_buffer = None, op_release_tx_buffer = None, op_acquire_rx_buffer = None,
     op_release_rx_buffer = None, op_wait = None\<rparr>"

definition DRIVER_WAIT_OPS :: "'d drivers spw_backend_ops" where
  "DRIVER_WAIT_OPS = DRIVER_OPS\<lparr>op_wait := Some driver_wait\<rparr>"

definition DRIVER_DMA_OPS :: "'d drivers spw_backend_ops" where
  "DRIVER_DMA_OPS = DRIVER_OPS\<lparr>op_acquire_tx_buffer := Some driver_acquire_tx_buffer,
     op_submit_tx_buffer := Some driver_submit_tx_buffer,
     op_reclaim_tx_buffer := Some driver_reclaim_tx_buffer,
     op_release_tx_buffer := Some driver_release_tx_buffer,
     op_acquire_rx_buffer := Some driver_acquire_rx_buffer,
     op_release_rx_buffer := Some driver_release_rx_buffer\<rparr>"

definition DRIVER_DMA_WAIT_OPS :: "'d drivers spw_backend_ops" where
  "DRIVER_DMA_WAIT_OPS = DRIVER_DMA_OPS\<lparr>op_wait := Some driver_wait\<rparr>"

definition DRIVER_FACTORY_WITH_OPS :: "'d drivers spw_backend_ops \<Rightarrow> ('d drivers, 'd) spw_backend_factory" where
  "DRIVER_FACTORY_WITH_OPS ops = \<lparr>context_size = 32, context_alignment = 8, f_construct = Some driver_construct,
     f_destroy = Some driver_destroy, f_ops = Some ops,
     context_size_for_config = Some driver_context_size_for_config\<rparr>"

definition spw_driver_backend_factory :: "bool \<Rightarrow> bool \<Rightarrow> ('d drivers, 'd) spw_backend_factory" where
  "spw_driver_backend_factory enable_wait enable_zero_copy =
     (if enable_zero_copy
      then if enable_wait then DRIVER_FACTORY_WITH_OPS DRIVER_DMA_WAIT_OPS
           else DRIVER_FACTORY_WITH_OPS DRIVER_DMA_OPS
      else if enable_wait then DRIVER_FACTORY_WITH_OPS DRIVER_WAIT_OPS
      else DRIVER_FACTORY_WITH_OPS DRIVER_OPS)"

lemmas driver_defs = driver_start_def driver_stop_def driver_reset_def driver_get_link_state_def
  driver_get_capabilities_def driver_send_def driver_receive_def driver_send_time_code_def
  driver_receive_time_code_def driver_get_statistics_def driver_clear_statistics_def driver_wait_def
  driver_acquire_tx_buffer_def driver_submit_tx_buffer_def driver_reclaim_tx_buffer_def
  driver_release_tx_buffer_def driver_acquire_rx_buffer_def driver_release_rx_buffer_def

lemmas DRIVER_TABLES = DRIVER_OPS_def DRIVER_WAIT_OPS_def DRIVER_DMA_OPS_def DRIVER_DMA_WAIT_OPS_def

end
