(* ===== verification/Driver_Slots.thy ===== *)
theory Driver_Slots
  imports Driver_Backend
begin

text \<open>
  The loans of the driver backend. A slot that is active records a buffer the driver has lent to the
  port; \<open>loans\<close> is the finite map from slots to the tokens of the lent buffers. Each operation is
  shown to act on it as the driver interface documents, for every driver: the callbacks are arbitrary.
\<close>

section \<open>Memory\<close>

lemma slot_addr_eq [simp]: "slot_addr ctx i = slot_addr ctx j \<longleftrightarrow> i = j"
  by (simp add: slot_addr_def)

lemma put_driver_simps [simp]:
  "the_driver ctx (put_driver ctx b m) = b"
  "m_buffers (put_driver ctx b m) = m_buffers m"
  "slot_buffer c i (put_driver ctx b m) = slot_buffer c i m"
  "dv_driver (m_backend (put_driver ctx b m)) = dv_driver (m_backend m)"
  by (simp_all add: put_driver_def the_driver_def slot_buffer_def)

lemma put_slot_simps [simp]:
  "the_driver ctx (put_slot ctx i s m) = (the_driver ctx m)\<lparr>bk_slots := (bk_slots (the_driver ctx m))[i := s]\<rparr>"
  "m_buffers (put_slot ctx i s m) = m_buffers m"
  "slot_buffer c j (put_slot ctx i s m) = slot_buffer c j m"
  "dv_driver (m_backend (put_slot ctx i s m)) = dv_driver (m_backend m)"
  by (simp_all add: put_slot_def)

lemma put_slot_buffer_simps [simp]:
  "the_driver c (put_slot_buffer ctx i nb m) = the_driver c m"
  "slot_buffer ctx j (put_slot_buffer ctx i nb m) = (if j = i then nb else slot_buffer ctx j m)"
  "dv_driver (m_backend (put_slot_buffer ctx i nb m)) = dv_driver (m_backend m)"
  by (simp_all add: put_slot_buffer_def slot_buffer_def the_driver_def)

lemma call_driver_simps:
  assumes "call_driver f m = (r, m')"
  shows "the_driver c m' = the_driver c m" "m_buffers m' = m_buffers m" "slot_buffer c i m' = slot_buffer c i m"
    "driver_ops c m' = driver_ops c m"
  using assms by (auto simp: call_driver_def the_driver_def slot_buffer_def driver_ops_def split: prod.splits)

lemma call_driver_out_simps:
  assumes "call_driver_out f m = (r, x, m')"
  shows "the_driver c m' = the_driver c m" "m_buffers m' = m_buffers m" "slot_buffer c i m' = slot_buffer c i m"
    "driver_ops c m' = driver_ops c m"
  using assms by (auto simp: call_driver_out_def the_driver_def slot_buffer_def driver_ops_def split: prod.splits)

lemma snd_call_driver [simp]:
  "the_driver c (snd (call_driver f m)) = the_driver c m" "m_buffers (snd (call_driver f m)) = m_buffers m"
  "slot_buffer c i (snd (call_driver f m)) = slot_buffer c i m"
  by (simp_all add: call_driver_def the_driver_def slot_buffer_def split: prod.splits)

lemma snd_call_driver_out [simp]:
  "the_driver c (snd (snd (call_driver_out f m))) = the_driver c m"
  "m_buffers (snd (snd (call_driver_out f m))) = m_buffers m"
  "slot_buffer c i (snd (snd (call_driver_out f m))) = slot_buffer c i m"
  by (simp_all add: call_driver_out_def the_driver_def slot_buffer_def split: prod.splits)

lemma find_free_slot_some:
  assumes "find_free_slot b first n = Some i"
  shows "first \<le> i \<and> i < first + n \<and> \<not> sl_active (bk_slots b ! i)"
  using assms by (auto simp: find_free_slot_def find_Some_iff)

lemma find_public_some:
  assumes "find_slot_for_public_buffer ctx a dir m = Some i"
  shows "i < bk_tx_slot_count (the_driver ctx m) + bk_rx_slot_count (the_driver ctx m) \<and>
    sl_active (bk_slots (the_driver ctx m) ! i) \<and> a = slot_addr ctx i \<and>
    buf_owner (slot_buffer ctx i m) = Some ctx \<and> buf_direction (slot_buffer ctx i m) = dir"
  using assms by (auto simp: find_slot_for_public_buffer_def Let_def find_Some_iff)

lemma find_token_some:
  assumes "find_tx_slot_for_token ctx t m = Some i"
  shows "i < bk_tx_slot_count (the_driver ctx m) \<and> sl_active (bk_slots (the_driver ctx m) ! i) \<and>
    db_token (sl_driver_buffer (bk_slots (the_driver ctx m) ! i)) = t \<and>
    buf_state (slot_buffer ctx i m) = SPW_BUFFER_STATE_BACKEND"
  using assms by (auto simp: find_tx_slot_for_token_def Let_def find_Some_iff)

section \<open>Loans\<close>

definition loans :: "addr \<Rightarrow> 'd drivers memory \<Rightarrow> nat \<rightharpoonup> u64" where
  "loans ctx m i = (let b = the_driver ctx m in
     if i < bk_tx_slot_count b + bk_rx_slot_count b \<and> sl_active (bk_slots b ! i)
     then Some (db_token (sl_driver_buffer (bk_slots b ! i))) else None)"

lemma loans_some:
  "loans ctx m i = Some t \<longleftrightarrow> i < bk_tx_slot_count (the_driver ctx m) + bk_rx_slot_count (the_driver ctx m) \<and>
     sl_active (bk_slots (the_driver ctx m) ! i) \<and> db_token (sl_driver_buffer (bk_slots (the_driver ctx m) ! i)) = t"
  by (simp add: loans_def Let_def) blast

lemma token_in_use_ran: "token_in_use (the_driver ctx m) t \<longleftrightarrow> t \<in> ran (loans ctx m)"
  by (simp add: ran_def loans_some token_in_use_def list_ex_iff Bex_def)

text \<open>
  The invariant: the slots of the table exist, no two loans have the same token, and the descriptor
  of a slot says what the slot is used for.
\<close>

definition slot_used_for :: "addr \<Rightarrow> nat \<Rightarrow> nat \<Rightarrow> bool \<Rightarrow> spw_buffer \<Rightarrow> bool" where
  "slot_used_for ctx tx i active nb \<longleftrightarrow>
     (if active
      then buf_owner nb = Some ctx \<and> buf_token nb = of_nat i \<and>
        (if i < tx
         then buf_direction nb = SPW_BUFFER_DIRECTION_TX \<and>
           (buf_state nb = SPW_BUFFER_STATE_APPLICATION \<or> buf_state nb = SPW_BUFFER_STATE_BACKEND)
         else buf_direction nb = SPW_BUFFER_DIRECTION_RX \<and> buf_state nb = SPW_BUFFER_STATE_APPLICATION)
      else buf_state nb = SPW_BUFFER_STATE_FREE)"

definition slots_ok :: "addr \<Rightarrow> 'd drivers memory \<Rightarrow> bool" where
  "slots_ok ctx m \<longleftrightarrow> (let b = the_driver ctx m; n = bk_tx_slot_count b + bk_rx_slot_count b in
     n \<le> length (bk_slots b) \<and>
     (\<forall>i t j. loans ctx m i = Some t \<and> loans ctx m j = Some t \<longrightarrow> i = j) \<and>
     (\<forall>i < n. slot_used_for ctx (bk_tx_slot_count b) i (sl_active (bk_slots b ! i)) (slot_buffer ctx i m)))"

text \<open>Only the backend structure and the usage fields of its descriptors matter.\<close>

definition same_slots :: "addr \<Rightarrow> 'd drivers memory \<Rightarrow> 'd drivers memory \<Rightarrow> bool" where
  "same_slots ctx m m' \<longleftrightarrow> the_driver ctx m' = the_driver ctx m \<and>
     (\<forall>i. buf_owner (slot_buffer ctx i m') = buf_owner (slot_buffer ctx i m) \<and>
          buf_direction (slot_buffer ctx i m') = buf_direction (slot_buffer ctx i m) \<and>
          buf_state (slot_buffer ctx i m') = buf_state (slot_buffer ctx i m) \<and>
          buf_token (slot_buffer ctx i m') = buf_token (slot_buffer ctx i m))"

lemma same_slots_loans: "same_slots ctx m m' \<Longrightarrow> loans ctx m' = loans ctx m"
  by (auto simp: same_slots_def loans_def)

lemma same_slots_ok:
  assumes "same_slots ctx m m'" and "slots_ok ctx m"
  shows "slots_ok ctx m'"
proof -
  have "slot_used_for ctx tx i act (slot_buffer ctx i m') = slot_used_for ctx tx i act (slot_buffer ctx i m)" for tx i act
    using assms(1) by (simp add: same_slots_def slot_used_for_def)
  moreover have "the_driver ctx m' = the_driver ctx m" using assms(1) by (simp add: same_slots_def)
  ultimately show ?thesis
    using assms(2) same_slots_loans [OF assms(1)] by (simp add: slots_ok_def)
qed

lemma same_slots_calls:
  "call_driver f m = (r, m') \<Longrightarrow> same_slots ctx m m'"
  "call_driver_out g m = (r, x, m') \<Longrightarrow> same_slots ctx m m'"
  "same_slots ctx m (snd (call_driver f m))"
  "same_slots ctx m m"
  "same_slots ctx m (snd (snd (call_driver_out g m)))"
  by (simp_all add: same_slots_def call_driver_simps [of f m r m'] call_driver_out_simps [of g m r x m'])

section \<open>What the operations do to the slots\<close>

lemma slots_ok_set:
  fixes ctx :: addr and m m' :: "'d drivers memory"
  defines "b \<equiv> the_driver ctx m"
  assumes "slots_ok ctx m" and i: "i < bk_tx_slot_count b + bk_rx_slot_count b"
    and b': "the_driver ctx m' = b\<lparr>bk_slots := (bk_slots b)[i := s]\<rparr>"
    and others: "\<And>j. j \<noteq> i \<Longrightarrow> slot_buffer ctx j m' = slot_buffer ctx j m"
    and used: "slot_used_for ctx (bk_tx_slot_count b) i (sl_active s) (slot_buffer ctx i m')"
    and new: "\<And>j. sl_active s \<Longrightarrow> loans ctx m j = Some (db_token (sl_driver_buffer s)) \<Longrightarrow> j = i"
  shows "slots_ok ctx m'"
    and "loans ctx m' = (loans ctx m)(i := if sl_active s then Some (db_token (sl_driver_buffer s)) else None)"
proof -
  have len: "i < length (bk_slots b)" using assms(2) i by (auto simp: slots_ok_def b_def Let_def)
  show loans: "loans ctx m' = (loans ctx m)(i := if sl_active s then Some (db_token (sl_driver_buffer s)) else None)"
    using i len by (auto simp: loans_def b' fun_eq_iff nth_list_update b_def Let_def)
  have "\<forall>k t j. loans ctx m' k = Some t \<and> loans ctx m' j = Some t \<longrightarrow> k = j"
    using assms(2) new by (auto simp: loans slots_ok_def Let_def)
  moreover have "slot_used_for ctx (bk_tx_slot_count b) j (sl_active ((bk_slots b)[i := s] ! j)) (slot_buffer ctx j m')"
    if "j < bk_tx_slot_count b + bk_rx_slot_count b" for j
    using that assms(2) used others [of j] len
    by (cases "j = i") (auto simp: slots_ok_def Let_def b_def [symmetric])
  ultimately show "slots_ok ctx m'"
    using assms(2) by (simp add: slots_ok_def b' Let_def b_def [symmetric])
qed

lemma whole_slot [simp]:
  "s\<lparr>sl_driver_buffer := d, sl_active := a\<rparr> = \<lparr>sl_driver_buffer = d, sl_active = a\<rparr>"
  by (cases s) simp

lemma exposed_driver:
  assumes "i < length (bk_slots (the_driver ctx m))"
  shows "the_driver ctx (expose_slot ctx i dir st (set_driver_buffer ctx i d m)) =
     (the_driver ctx m)\<lparr>bk_slots := (bk_slots (the_driver ctx m))[i := \<lparr>sl_driver_buffer = d, sl_active = True\<rparr>]\<rparr>"
    "slot_buffer ctx j (expose_slot ctx i dir st (set_driver_buffer ctx i d m)) =
       (if j = i then (slot_buffer ctx i m)\<lparr>buf_data := db_data d, buf_length := db_length d,
          buf_capacity := db_capacity d, buf_terminator := db_terminator d, buf_owner := Some ctx,
          buf_direction := dir, buf_state := st, buf_token := of_nat i\<rparr> else slot_buffer ctx j m)"
  using assms by (simp_all add: expose_slot_def set_driver_buffer_def Let_def)

lemma lend_slot:
  assumes "slots_ok ctx m" and "same_slots ctx m m1"
    and "i < bk_tx_slot_count (the_driver ctx m) + bk_rx_slot_count (the_driver ctx m)"
    and "\<And>j. loans ctx m j = Some (db_token d) \<Longrightarrow> j = i"
    and "dir = (if i < bk_tx_slot_count (the_driver ctx m) then SPW_BUFFER_DIRECTION_TX else SPW_BUFFER_DIRECTION_RX)"
    and "m' = expose_slot ctx i dir SPW_BUFFER_STATE_APPLICATION (set_driver_buffer ctx i d m1)"
  shows "slots_ok ctx m'" and "loans ctx m' = (loans ctx m)(i \<mapsto> db_token d)"
proof -
  have b: "the_driver ctx m1 = the_driver ctx m" and ok: "slots_ok ctx m1" and l: "loans ctx m1 = loans ctx m"
    using assms(2) same_slots_ok [OF assms(2,1)] same_slots_loans [OF assms(2)] by (simp_all add: same_slots_def)
  have len: "i < length (bk_slots (the_driver ctx m1))" using assms(1,3) b by (auto simp: slots_ok_def Let_def)
  note set = slots_ok_set [OF ok, of i m' "\<lparr>sl_driver_buffer = d, sl_active = True\<rparr>"]
  show "slots_ok ctx m'" by (rule set) (use assms len b l in \<open>auto simp: exposed_driver slot_used_for_def\<close>)
  have "loans ctx m' = (loans ctx m1)(i := if sl_active \<lparr>sl_driver_buffer = d, sl_active = True\<rparr>
      then Some (db_token (sl_driver_buffer \<lparr>sl_driver_buffer = d, sl_active = True\<rparr>)) else None)"
    by (rule set) (use assms len b l in \<open>auto simp: exposed_driver slot_used_for_def\<close>)
  then show "loans ctx m' = (loans ctx m)(i \<mapsto> db_token d)" by (simp add: l)
qed

lemma clear_slot_simps [simp]:
  "the_driver ctx (clear_slot ctx i m) = (the_driver ctx m)\<lparr>bk_slots := (bk_slots (the_driver ctx m))[i := zero_driver_slot]\<rparr>"
  "slot_buffer ctx j (clear_slot ctx i m) = (if j = i then empty_descriptor else slot_buffer ctx j m)"
  by (simp_all add: clear_slot_def)

lemma return_slot:
  assumes "slots_ok ctx m" and "same_slots ctx m m1"
    and "i < bk_tx_slot_count (the_driver ctx m) + bk_rx_slot_count (the_driver ctx m)"
  shows "slots_ok ctx (clear_slot ctx i m1)" and "loans ctx (clear_slot ctx i m1) = (loans ctx m)(i := None)"
proof -
  have b: "the_driver ctx m1 = the_driver ctx m" and ok: "slots_ok ctx m1" and l: "loans ctx m1 = loans ctx m"
    using assms(2) same_slots_ok [OF assms(2,1)] same_slots_loans [OF assms(2)] by (simp_all add: same_slots_def)
  note set = slots_ok_set [OF ok, of i "clear_slot ctx i m1" zero_driver_slot]
  show "slots_ok ctx (clear_slot ctx i m1)"
    by (rule set) (use assms b in \<open>auto simp: slot_used_for_def zero_driver_slot_def empty_descriptor_def\<close>)
  have "loans ctx (clear_slot ctx i m1) = (loans ctx m1)(i := if sl_active zero_driver_slot
      then Some (db_token (sl_driver_buffer zero_driver_slot)) else None)"
    by (rule set) (use assms b in \<open>auto simp: slot_used_for_def zero_driver_slot_def empty_descriptor_def\<close>)
  then show "loans ctx (clear_slot ctx i m1) = (loans ctx m)(i := None)"
    by (simp add: l zero_driver_slot_def)
qed

lemma clear_first_slots_simps:
  "bk_tx_slot_count (the_driver ctx (clear_first_slots ctx n m)) = bk_tx_slot_count (the_driver ctx m)"
  "bk_rx_slot_count (the_driver ctx (clear_first_slots ctx n m)) = bk_rx_slot_count (the_driver ctx m)"
  "bk_ops (the_driver ctx (clear_first_slots ctx n m)) = bk_ops (the_driver ctx m)"
  "length (bk_slots (the_driver ctx (clear_first_slots ctx n m))) = length (bk_slots (the_driver ctx m))"
  by (induction n) simp_all

lemma clear_first_slots_at:
  "i < n \<Longrightarrow> i < length (bk_slots (the_driver ctx m)) \<Longrightarrow>
     bk_slots (the_driver ctx (clear_first_slots ctx n m)) ! i = zero_driver_slot"
  "i < n \<Longrightarrow> slot_buffer ctx i (clear_first_slots ctx n m) = empty_descriptor"
  by (induction n) (auto simp: less_Suc_eq nth_list_update clear_first_slots_simps)

lemma clear_slots_ok:
  assumes "bk_tx_slot_count (the_driver ctx m) + bk_rx_slot_count (the_driver ctx m) \<le> length (bk_slots (the_driver ctx m))"
  shows "slots_ok ctx (clear_slots ctx m)" and "loans ctx (clear_slots ctx m) = Map.empty"
proof -
  show l: "loans ctx (clear_slots ctx m) = Map.empty"
    using assms by (auto simp: loans_def clear_slots_def Let_def clear_first_slots_simps clear_first_slots_at
        zero_driver_slot_def fun_eq_iff)
  show "slots_ok ctx (clear_slots ctx m)"
    using assms by (simp add: slots_ok_def l) (simp add: clear_slots_def Let_def clear_first_slots_simps
        clear_first_slots_at zero_driver_slot_def slot_used_for_def empty_descriptor_def)
qed

lemma construct_slots_ok:
  assumes "driver_construct ctx config m = (r, m')"
  shows "r = SPW_OK" and "slots_ok ctx m'" and "loans ctx m' = Map.empty"
proof -
  let ?drv = "as_driver (the (pc_backend_config config))"
  let ?b = "\<lparr>bk_ops = drv_ops ?drv, bk_tx_slot_count = 0, bk_rx_slot_count = 0, bk_slots = []\<rparr>"
  show "r = SPW_OK" using assms by (auto simp: driver_construct_def Let_def split: if_splits)
  have "slots_ok ctx m' \<and> loans ctx m' = Map.empty"
  proof (cases "zero_copy_enabled_config ?drv")
    case True
    with assms obtain m1 where "m' = clear_slots ctx m1" and
        "bk_tx_slot_count (the_driver ctx m1) + bk_rx_slot_count (the_driver ctx m1) \<le> length (bk_slots (the_driver ctx m1))"
      by (auto simp: driver_construct_def Let_def)
    then show ?thesis using clear_slots_ok by blast
  next
    case False
    with assms show ?thesis by (auto simp: driver_construct_def Let_def slots_ok_def loans_def fun_eq_iff)
  qed
  then show "slots_ok ctx m'" "loans ctx m' = Map.empty" by blast+
qed

lemma destroy_slots_ok:
  "slots_ok ctx (driver_destroy ctx m)" "loans ctx (driver_destroy ctx m) = Map.empty"
  by (simp_all add: driver_destroy_def slots_ok_def loans_def Let_def fun_eq_iff)

text \<open>An update that leaves a slot's token and use alone.\<close>

lemma touch_slot:
  fixes ctx :: addr and m m' :: "'d drivers memory"
  defines "b \<equiv> the_driver ctx m"
  assumes "slots_ok ctx m" and i: "i < bk_tx_slot_count b + bk_rx_slot_count b"
    and "the_driver ctx m' = b\<lparr>bk_slots := (bk_slots b)[i := s]\<rparr>"
    and "sl_active s = sl_active (bk_slots b ! i)"
    and "db_token (sl_driver_buffer s) = db_token (sl_driver_buffer (bk_slots b ! i))"
    and "\<And>j. j \<noteq> i \<Longrightarrow> slot_buffer ctx j m' = slot_buffer ctx j m"
    and "slot_used_for ctx (bk_tx_slot_count b) i (sl_active s) (slot_buffer ctx i m')"
  shows "slots_ok ctx m' \<and> loans ctx m' = loans ctx m"
proof -
  have same: "loans ctx m i = (if sl_active s then Some (db_token (sl_driver_buffer s)) else None)"
    using i assms(5,6) by (simp add: loans_def b_def Let_def)
  have "\<forall>i t j. loans ctx m i = Some t \<and> loans ctx m j = Some t \<longrightarrow> i = j"
    using assms(2) by (simp add: slots_ok_def Let_def)
  then have unique: "j = i" if "sl_active s" "loans ctx m j = Some (db_token (sl_driver_buffer s))" for j
    using that same by metis
  have "(loans ctx m)(i := if sl_active s then Some (db_token (sl_driver_buffer s)) else None) = loans ctx m"
    by (rule ext) (simp add: same)
  moreover have "loans ctx m' = (loans ctx m)(i := if sl_active s then Some (db_token (sl_driver_buffer s)) else None)"
    by (rule slots_ok_set [OF assms(2)]) (use i assms(4,7,8) unique in \<open>simp_all only: b_def\<close>)
  moreover have "slots_ok ctx m'"
    by (rule slots_ok_set [OF assms(2)]) (use i assms(4,7,8) unique in \<open>simp_all only: b_def\<close>)
  ultimately show ?thesis by (simp only:)
qed

lemma slot_used:
  assumes "slots_ok ctx m" and "i < bk_tx_slot_count (the_driver ctx m) + bk_rx_slot_count (the_driver ctx m)"
  shows "slot_used_for ctx (bk_tx_slot_count (the_driver ctx m)) i (sl_active (bk_slots (the_driver ctx m) ! i))
    (slot_buffer ctx i m)"
  using assms by (simp add: slots_ok_def Let_def)

lemma metadata_slots:
  assumes "slots_ok ctx m" and "i < bk_tx_slot_count (the_driver ctx m) + bk_rx_slot_count (the_driver ctx m)"
  shows "slots_ok ctx (take_packet_metadata ctx i m) \<and> loans ctx (take_packet_metadata ctx i m) = loans ctx m"
  by (rule touch_slot [OF assms, where s = "(bk_slots (the_driver ctx m) ! i)\<lparr>sl_driver_buffer :=
        (sl_driver_buffer (bk_slots (the_driver ctx m) ! i))\<lparr>db_length := buf_length (slot_buffer ctx i m),
          db_terminator := buf_terminator (slot_buffer ctx i m)\<rparr>\<rparr>"])
    (use slot_used [OF assms] in \<open>simp_all add: take_packet_metadata_def Let_def\<close>)

lemma metadata_simps [simp]:
  "slot_buffer ctx j (take_packet_metadata ctx i m) = slot_buffer ctx j m"
  "bk_tx_slot_count (the_driver ctx (take_packet_metadata ctx i m)) = bk_tx_slot_count (the_driver ctx m)"
  "bk_rx_slot_count (the_driver ctx (take_packet_metadata ctx i m)) = bk_rx_slot_count (the_driver ctx m)"
  by (simp_all add: take_packet_metadata_def Let_def)

lemma metadata_active:
  "sl_active (bk_slots (the_driver ctx (take_packet_metadata ctx i m)) ! j) = sl_active (bk_slots (the_driver ctx m) ! j)"
  by (cases "i < length (bk_slots (the_driver ctx m))")
    (simp_all add: take_packet_metadata_def Let_def nth_list_update list_update_beyond)

lemma sent_slots:
  assumes "slots_ok ctx m" and "i < bk_tx_slot_count (the_driver ctx m)" and "sl_active (bk_slots (the_driver ctx m) ! i)"
  shows "slots_ok ctx (put_slot_buffer ctx i ((slot_buffer ctx i m)\<lparr>buf_state := SPW_BUFFER_STATE_BACKEND\<rparr>) m) \<and>
    loans ctx (put_slot_buffer ctx i ((slot_buffer ctx i m)\<lparr>buf_state := SPW_BUFFER_STATE_BACKEND\<rparr>) m) = loans ctx m"
proof -
  have i: "i < bk_tx_slot_count (the_driver ctx m) + bk_rx_slot_count (the_driver ctx m)" using assms(2) by simp
  show ?thesis
    by (rule touch_slot [OF assms(1) i, where s = "bk_slots (the_driver ctx m) ! i"])
      (use slot_used [OF assms(1) i] assms(2,3) in \<open>simp_all add: slot_used_for_def\<close>)
qed

text \<open>A transmit slot is told from a receive slot by the direction of its descriptor.\<close>

lemma public_slot:
  assumes "slots_ok ctx m" and "find_slot_for_public_buffer ctx a dir m = Some i"
  shows "a = slot_addr ctx i" and "loans ctx m i \<noteq> None"
    and "i < bk_tx_slot_count (the_driver ctx m) + bk_rx_slot_count (the_driver ctx m)"
    and "sl_active (bk_slots (the_driver ctx m) ! i)"
    and "dir = SPW_BUFFER_DIRECTION_TX \<Longrightarrow> i < bk_tx_slot_count (the_driver ctx m)"
  using find_public_some [OF assms(2)] slot_used [OF assms(1), of i]
  by (auto simp: loans_def slot_used_for_def Let_def split: if_splits)

section \<open>Operations\<close>

lemma acquire_tx_slots:
  assumes "slots_ok ctx m" and "driver_acquire_tx_buffer ctx n t out m = (r, a, m')"
  shows "slots_ok ctx m' \<and> (if r = SPW_OK
    then \<exists>i token. a = Some (slot_addr ctx i) \<and> i < bk_tx_slot_count (the_driver ctx m) \<and> loans ctx m i = None \<and>
      token \<notin> ran (loans ctx m) \<and> loans ctx m' = (loans ctx m)(i \<mapsto> token) \<and>
      n \<le> buf_capacity (slot_buffer ctx i m') \<and> buf_state (slot_buffer ctx i m') = SPW_BUFFER_STATE_APPLICATION
    else a = out \<and> loans ctx m' = loans ctx m)"
proof (cases "find_free_slot (the_driver ctx m) 0 (bk_tx_slot_count (the_driver ctx m))")
  case None
  then show ?thesis using assms by (auto simp: driver_acquire_tx_buffer_def Let_def)
next
  case (Some i)
  let ?call = "call_driver_out (\<lambda>d. the (dops_acquire_tx_buffer (driver_ops ctx m)) d n t zero_driver_buffer) m"
  obtain r1 d m1 where c: "?call = (r1, d, m1)" by (metis prod_cases3)
  note same = same_slots_calls(2) [OF c, of ctx]
  let ?d = "d\<lparr>db_length := 0, db_terminator := SPW_TERMINATOR_EOP\<rparr>"
  let ?m = "expose_slot ctx i SPW_BUFFER_DIRECTION_TX SPW_BUFFER_STATE_APPLICATION (set_driver_buffer ctx i ?d m1)"
  have i: "i < bk_tx_slot_count (the_driver ctx m)" "loans ctx m i = None"
    using find_free_slot_some [OF Some] by (auto simp: loans_def Let_def)
  have len: "i < length (bk_slots (the_driver ctx m1))"
    using i(1) assms(1) same by (simp add: slots_ok_def same_slots_def Let_def)
  show ?thesis
  proof (cases "r = SPW_OK")
    case True
    then have "r1 = SPW_OK" and d: "n \<le> db_capacity d" "db_token d \<notin> ran (loans ctx m)"
        and m': "a = Some (slot_addr ctx i)" "m' = ?m"
      using assms(2) Some c by (auto simp: driver_acquire_tx_buffer_def Let_def token_in_use_ran split: if_splits)
    have free: "j = i" if "loans ctx m j = Some (db_token ?d)" for j using d(2) that by (auto simp: ran_def)
    have "slots_ok ctx ?m" "loans ctx ?m = (loans ctx m)(i \<mapsto> db_token ?d)"
      using lend_slot [OF assms(1) same, where i = i and d = ?d and dir = SPW_BUFFER_DIRECTION_TX,
          OF _ free _ refl] i by simp_all
    then show ?thesis using True d m' i by (auto simp: exposed_driver [OF len])
  next
    case False
    then have "a = out \<and> same_slots ctx m m'"
      using assms(2) Some c same same_slots_calls(3) [of ctx m1]
      by (auto simp: driver_acquire_tx_buffer_def Let_def same_slots_def split: if_splits)
    then show ?thesis using False same_slots_ok same_slots_loans assms(1) by metis
  qed
qed

lemma same_slots_keep:
  assumes "slots_ok ctx m \<and> loans ctx m = l" and "same_slots ctx m m'"
  shows "slots_ok ctx m' \<and> loans ctx m' = l"
  using assms same_slots_ok [OF assms(2)] same_slots_loans [OF assms(2)] by simp

lemma same_slots_trans: "same_slots ctx m m1 \<Longrightarrow> same_slots ctx m1 m2 \<Longrightarrow> same_slots ctx m m2"
  by (simp add: same_slots_def)

lemma sync_same_slots: "sync_call sync d dir m = (r, m') \<Longrightarrow> same_slots ctx m m'"
  by (auto simp: sync_call_def same_slots_calls split: option.splits)

lemma submit_slots:
  assumes "slots_ok ctx m" and "driver_submit_tx_buffer ctx a t m = (r, m')"
  shows "slots_ok ctx m' \<and> loans ctx m' = loans ctx m"
proof (cases "find_slot_for_public_buffer ctx a SPW_BUFFER_DIRECTION_TX m")
  case None
  then show ?thesis using assms by (simp add: driver_submit_tx_buffer_def)
next
  case (Some i)
  note slot = public_slot [OF assms(1) Some]
  let ?m1 = "take_packet_metadata ctx i m"
  let ?lent = "lent_buffer ctx i ?m1"
  obtain r2 m2 where c2: "sync_call (dops_sync_buffer (driver_ops ctx m)) ?lent SPW_DRIVER_SYNC_TO_DEVICE ?m1 = (r2, m2)"
    by fastforce
  obtain r3 m3 where c3: "call_driver (\<lambda>d. the (dops_submit_tx_buffer (driver_ops ctx m)) d ?lent t) m2 = (r3, m3)"
    by fastforce
  note m1 = metadata_slots [OF assms(1) slot(3)]
  note m2 = same_slots_keep [OF m1 sync_same_slots [OF c2]]
  note m3 = same_slots_keep [OF m2 same_slots_calls(1) [OF c3]]
  have "the_driver ctx m3 = the_driver ctx ?m1"
    using sync_same_slots [OF c2, of ctx] same_slots_calls(1) [OF c3, of ctx] by (simp add: same_slots_def)
  then have m4: "slots_ok ctx (put_slot_buffer ctx i ((slot_buffer ctx i m3)\<lparr>buf_state := SPW_BUFFER_STATE_BACKEND\<rparr>) m3) \<and>
      loans ctx (put_slot_buffer ctx i ((slot_buffer ctx i m3)\<lparr>buf_state := SPW_BUFFER_STATE_BACKEND\<rparr>) m3) = loans ctx m"
    using sent_slots [OF conjunct1 [OF m3], of i] m3 slot(4,5) by (simp add: metadata_active)
  have "m' \<in> {m, ?m1, m2, m3, put_slot_buffer ctx i ((slot_buffer ctx i m3)\<lparr>buf_state := SPW_BUFFER_STATE_BACKEND\<rparr>) m3}"
    using assms(2) by (auto simp: driver_submit_tx_buffer_def Some Let_def c2 c3 split: if_splits)
  then show ?thesis using assms(1) m1 m2 m3 m4 by blast
qed

lemma reclaim_slots:
  assumes "slots_ok ctx m" and "driver_reclaim_tx_buffer ctx t out m = (r, a, m')"
  shows "slots_ok ctx m' \<and> loans ctx m' = loans ctx m \<and> (if r = SPW_OK
    then \<exists>i. a = Some (slot_addr ctx i) \<and> i < bk_tx_slot_count (the_driver ctx m) \<and> loans ctx m i \<noteq> None \<and>
      buf_state (slot_buffer ctx i m) = SPW_BUFFER_STATE_BACKEND \<and>
      buf_state (slot_buffer ctx i m') = SPW_BUFFER_STATE_APPLICATION
    else a = out)"
proof -
  let ?call = "call_driver_out (\<lambda>d. the (dops_reclaim_tx_buffer (driver_ops ctx m)) d t zero_driver_buffer) m"
  obtain r1 d m1 where c: "?call = (r1, d, m1)" by (metis prod_cases3)
  note same = same_slots_calls(2) [OF c, of ctx]
  have b: "the_driver ctx m1 = the_driver ctx m" using same by (simp add: same_slots_def)
  show ?thesis
  proof (cases "r = SPW_OK")
    case True
    then obtain i where i: "find_tx_slot_for_token ctx (db_token d) m1 = Some i" and a: "a = Some (slot_addr ctx i)"
        and m': "m' = expose_slot ctx i SPW_BUFFER_DIRECTION_TX SPW_BUFFER_STATE_APPLICATION (set_driver_buffer ctx i d m1)"
      using assms(2) c by (auto simp: driver_reclaim_tx_buffer_def split: if_splits option.splits)
    note slot = find_token_some [OF i, unfolded b]
    have l: "loans ctx m i = Some (db_token d)" using slot by (simp add: loans_some)
    have unique: "j = i" if "loans ctx m j = Some (db_token d)" for j
      using that l assms(1) unfolding slots_ok_def Let_def by metis
    have len: "i < length (bk_slots (the_driver ctx m1))"
      using slot assms(1) b by (simp add: slots_ok_def Let_def)
    have "slots_ok ctx m'" "loans ctx m' = (loans ctx m)(i \<mapsto> db_token d)"
      using lend_slot [OF assms(1) same, where i = i and d = d and dir = SPW_BUFFER_DIRECTION_TX,
          OF _ unique _ m'] slot by simp_all
    moreover have "(loans ctx m)(i \<mapsto> db_token d) = loans ctx m" using l by (simp add: fun_upd_idem)
    moreover have "buf_state (slot_buffer ctx i m) = SPW_BUFFER_STATE_BACKEND" using slot same by (simp add: same_slots_def)
    ultimately show ?thesis using True a slot l m' by (simp add: exposed_driver [OF len])
  next
    case False
    then have "a = out \<and> m' = m1"
      using assms(2) c by (auto simp: driver_reclaim_tx_buffer_def split: if_splits option.splits)
    then show ?thesis using False same_slots_keep [of ctx m, OF _ same] assms(1) by simp
  qed
qed

lemma release_tx_slots:
  assumes "slots_ok ctx m" and "driver_release_tx_buffer ctx a m = (r, m')"
  shows "slots_ok ctx m' \<and> (if r = SPW_OK
    then \<exists>i. a = slot_addr ctx i \<and> loans ctx m i \<noteq> None \<and> loans ctx m' = (loans ctx m)(i := None)
    else loans ctx m' = loans ctx m)"
proof (cases "find_slot_for_public_buffer ctx a SPW_BUFFER_DIRECTION_TX m")
  case None
  then show ?thesis using assms by (auto simp: driver_release_tx_buffer_def)
next
  case (Some i)
  note slot = public_slot [OF assms(1) Some]
  let ?m1 = "take_packet_metadata ctx i m"
  obtain r2 m2 where c: "call_driver (\<lambda>d. the (dops_release_tx_buffer (driver_ops ctx m)) d (lent_buffer ctx i ?m1)) ?m1 = (r2, m2)"
    by fastforce
  note m1 = metadata_slots [OF assms(1) slot(3)]
  note same = same_slots_calls(1) [OF c, of ctx]
  note m2 = same_slots_keep [OF m1 same]
  have m3: "slots_ok ctx (clear_slot ctx i m2) \<and> loans ctx (clear_slot ctx i m2) = (loans ctx m)(i := None)"
    using return_slot [OF conjunct1 [OF m1] same, of i] m1 slot(3) by simp
  have "(r = SPW_OK \<longrightarrow> m' = clear_slot ctx i m2) \<and> (r \<noteq> SPW_OK \<longrightarrow> m' = m \<or> m' = m2)"
    using assms(2) by (auto simp: driver_release_tx_buffer_def Some Let_def c split: if_splits)
  then show ?thesis using assms(1) m2 m3 slot(1,2) by auto
qed

lemma release_rx_slots:
  assumes "slots_ok ctx m" and "driver_release_rx_buffer ctx a m = (r, m')"
  shows "slots_ok ctx m' \<and> (if r = SPW_OK
    then \<exists>i. a = slot_addr ctx i \<and> loans ctx m i \<noteq> None \<and> loans ctx m' = (loans ctx m)(i := None)
    else loans ctx m' = loans ctx m)"
proof (cases "find_slot_for_public_buffer ctx a SPW_BUFFER_DIRECTION_RX m")
  case None
  then show ?thesis using assms by (auto simp: driver_release_rx_buffer_def)
next
  case (Some i)
  note slot = public_slot [OF assms(1) Some]
  obtain r2 m2 where c: "call_driver (\<lambda>d. the (dops_release_rx_buffer (driver_ops ctx m)) d (lent_buffer ctx i m)) m = (r2, m2)"
    by fastforce
  note same = same_slots_calls(1) [OF c, of ctx]
  note m2 = same_slots_keep [OF conjI [OF assms(1) refl] same]
  note m3 = return_slot [OF assms(1) same slot(3)]
  have "(r = SPW_OK \<longrightarrow> m' = clear_slot ctx i m2) \<and> (r \<noteq> SPW_OK \<longrightarrow> m' = m \<or> m' = m2)"
    using assms(2) by (auto simp: driver_release_rx_buffer_def Some Let_def c split: if_splits)
  then show ?thesis using assms(1) m2 m3 slot(1,2) by auto
qed

lemma acquire_rx_slots:
  assumes "slots_ok ctx m" and "driver_acquire_rx_buffer ctx t out m = (r, a, m')"
  shows "slots_ok ctx m' \<and> (if r = SPW_OK
    then \<exists>i token. a = Some (slot_addr ctx i) \<and> bk_tx_slot_count (the_driver ctx m) \<le> i \<and> loans ctx m i = None \<and>
      token \<notin> ran (loans ctx m) \<and> loans ctx m' = (loans ctx m)(i \<mapsto> token) \<and>
      buf_length (slot_buffer ctx i m') \<le> buf_capacity (slot_buffer ctx i m') \<and>
      valid_terminator (buf_terminator (slot_buffer ctx i m')) \<and>
      buf_state (slot_buffer ctx i m') = SPW_BUFFER_STATE_APPLICATION
    else a = out \<and> loans ctx m' = loans ctx m)"
proof (cases "find_free_slot (the_driver ctx m) (bk_tx_slot_count (the_driver ctx m)) (bk_rx_slot_count (the_driver ctx m))")
  case None
  then show ?thesis using assms by (auto simp: driver_acquire_rx_buffer_def Let_def)
next
  case (Some i)
  let ?call = "call_driver_out (\<lambda>d. the (dops_acquire_rx_buffer (driver_ops ctx m)) d t zero_driver_buffer) m"
  obtain r1 d m1 where c: "?call = (r1, d, m1)" by (metis prod_cases3)
  obtain r2 m2 where c2: "sync_call (dops_sync_buffer (driver_ops ctx m)) d SPW_DRIVER_SYNC_FROM_DEVICE m1 = (r2, m2)"
    by fastforce
  note same1 = same_slots_calls(2) [OF c, of ctx]
  note same = same_slots_trans [OF same1 sync_same_slots [OF c2]]
  let ?m = "expose_slot ctx i SPW_BUFFER_DIRECTION_RX SPW_BUFFER_STATE_APPLICATION (set_driver_buffer ctx i d m2)"
  have i: "bk_tx_slot_count (the_driver ctx m) \<le> i"
      "i < bk_tx_slot_count (the_driver ctx m) + bk_rx_slot_count (the_driver ctx m)" "loans ctx m i = None"
    using find_free_slot_some [OF Some] by (auto simp: loans_def Let_def)
  have len: "i < length (bk_slots (the_driver ctx m2))"
    using i(2) assms(1) same by (simp add: slots_ok_def same_slots_def Let_def)
  show ?thesis
  proof (cases "r = SPW_OK")
    case True
    then have d: "validate_driver_buffer d True = SPW_OK" "db_token d \<notin> ran (loans ctx m)"
        and m': "a = Some (slot_addr ctx i)" "m' = ?m"
      using assms(2) Some c c2 by (auto simp: driver_acquire_rx_buffer_def Let_def token_in_use_ran split: if_splits)
    have free: "j = i" if "loans ctx m j = Some (db_token d)" for j using d(2) that by (auto simp: ran_def)
    have "slots_ok ctx ?m" "loans ctx ?m = (loans ctx m)(i \<mapsto> db_token d)"
      using lend_slot [OF assms(1) same, where i = i and d = d and dir = SPW_BUFFER_DIRECTION_RX,
          OF _ free _ refl] i by simp_all
    then show ?thesis using True d m' i
      by (auto simp: exposed_driver [OF len] validate_driver_buffer_def split: if_splits)
  next
    case False
    then have "a = out \<and> m' \<in> {m1, m2, snd (call_driver (\<lambda>s. the (dops_release_rx_buffer (driver_ops ctx m)) s d) m1),
        snd (call_driver (\<lambda>s. the (dops_release_rx_buffer (driver_ops ctx m)) s d) m2)}"
      using assms(2) Some c c2 by (auto simp: driver_acquire_rx_buffer_def Let_def split: if_splits)
    then have "a = out \<and> same_slots ctx m m'"
      using same1 same same_slots_trans [OF same1 same_slots_calls(3)] same_slots_trans [OF same same_slots_calls(3)]
      by blast
    then show ?thesis using False same_slots_ok same_slots_loans assms(1) by metis
  qed
qed

lemma reset_slots:
  assumes "slots_ok ctx m" and "driver_reset ctx m = (r, m')"
  shows "slots_ok ctx m' \<and> loans ctx m' = (if r = SPW_OK then Map.empty else loans ctx m)"
proof -
  obtain r1 m1 where c: "call_driver (the (dops_reset (driver_ops ctx m))) m = (r1, m1)" by fastforce
  note m1 = same_slots_keep [OF conjI [OF assms(1) refl] same_slots_calls(1) [OF c]]
  have "bk_tx_slot_count (the_driver ctx m1) + bk_rx_slot_count (the_driver ctx m1) \<le> length (bk_slots (the_driver ctx m1))"
    using m1 by (simp add: slots_ok_def Let_def)
  then show ?thesis using assms(2) c m1 clear_slots_ok [of ctx m1] by (auto simp: driver_reset_def)
qed

lemma forwarded_same_slots:
  "same_slots ctx m (snd (driver_start ctx m))"
  "same_slots ctx m (snd (driver_stop ctx m))"
  "same_slots ctx m (snd (snd (driver_get_link_state ctx ls m)))"
  "same_slots ctx m (snd (snd (driver_get_capabilities ctx caps m)))"
  "same_slots ctx m (snd (driver_send ctx pk t m))"
  "same_slots ctx m (snd (snd (driver_receive ctx pk t m)))"
  "same_slots ctx m (snd (driver_send_time_code ctx tc t m))"
  "same_slots ctx m (snd (snd (driver_receive_time_code ctx tc t m)))"
  "same_slots ctx m (snd (snd (driver_get_statistics ctx st m)))"
  "same_slots ctx m (snd (driver_clear_statistics ctx m))"
  "same_slots ctx m (snd (snd (driver_wait ctx i t e m)))"
  by (auto simp: driver_defs same_slots_calls Let_def split: prod.splits option.splits)

section \<open>Reachable states\<close>

text \<open>
  The steps that concern the backend at \<open>ctx\<close>: its constructor, its destructor, its operations, and
  anything else that leaves the backend structure and the usage fields of its descriptors alone
  (accesses of the application to its buffers, the binding of a buffer to a port, other backends).
\<close>

inductive driver_op :: "addr \<Rightarrow> 'd drivers memory \<Rightarrow> 'd drivers memory \<Rightarrow> bool" for ctx where
  construct: "driver_construct ctx config m = (r, m') \<Longrightarrow> driver_op ctx m m'"
| destroy: "driver_op ctx m (driver_destroy ctx m)"
| start: "driver_op ctx m (snd (driver_start ctx m))"
| stop: "driver_op ctx m (snd (driver_stop ctx m))"
| reset: "driver_reset ctx m = (r, m') \<Longrightarrow> driver_op ctx m m'"
| link_state: "driver_op ctx m (snd (snd (driver_get_link_state ctx ls m)))"
| capabilities: "driver_op ctx m (snd (snd (driver_get_capabilities ctx caps m)))"
| send: "driver_op ctx m (snd (driver_send ctx pk t m))"
| receive: "driver_op ctx m (snd (snd (driver_receive ctx pk t m)))"
| send_time_code: "driver_op ctx m (snd (driver_send_time_code ctx tc t m))"
| receive_time_code: "driver_op ctx m (snd (snd (driver_receive_time_code ctx tc t m)))"
| statistics: "driver_op ctx m (snd (snd (driver_get_statistics ctx st m)))"
| clear_statistics: "driver_op ctx m (snd (driver_clear_statistics ctx m))"
| wait: "driver_op ctx m (snd (snd (driver_wait ctx ev t out_ev m)))"
| acquire_tx: "driver_acquire_tx_buffer ctx n t out m = (r, a, m') \<Longrightarrow> driver_op ctx m m'"
| submit_tx: "driver_submit_tx_buffer ctx buffer t m = (r, m') \<Longrightarrow> driver_op ctx m m'"
| reclaim_tx: "driver_reclaim_tx_buffer ctx t out m = (r, a, m') \<Longrightarrow> driver_op ctx m m'"
| release_tx: "driver_release_tx_buffer ctx buffer m = (r, m') \<Longrightarrow> driver_op ctx m m'"
| acquire_rx: "driver_acquire_rx_buffer ctx t out m = (r, a, m') \<Longrightarrow> driver_op ctx m m'"
| release_rx: "driver_release_rx_buffer ctx buffer m = (r, m') \<Longrightarrow> driver_op ctx m m'"
| other: "same_slots ctx m m' \<Longrightarrow> driver_op ctx m m'"

lemmas forwarded_slots_ok = forwarded_same_slots [THEN same_slots_ok]

lemma driver_op_slots_ok:
  assumes "driver_op ctx m m'" and "slots_ok ctx m"
  shows "slots_ok ctx m'"
  using assms(1)
proof cases
  case construct
  then show ?thesis by (rule construct_slots_ok)
next
  case reset
  then show ?thesis by (rule reset_slots [OF assms(2), THEN conjunct1])
next
  case acquire_tx
  then show ?thesis by (rule acquire_tx_slots [OF assms(2), THEN conjunct1])
next
  case submit_tx
  then show ?thesis by (rule submit_slots [OF assms(2), THEN conjunct1])
next
  case reclaim_tx
  then show ?thesis by (rule reclaim_slots [OF assms(2), THEN conjunct1])
next
  case release_tx
  then show ?thesis by (rule release_tx_slots [OF assms(2), THEN conjunct1])
next
  case acquire_rx
  then show ?thesis by (rule acquire_rx_slots [OF assms(2), THEN conjunct1])
next
  case release_rx
  then show ?thesis by (rule release_rx_slots [OF assms(2), THEN conjunct1])
next
  case other
  then show ?thesis using assms(2) by (rule same_slots_ok)
qed (simp_all add: assms(2) forwarded_slots_ok destroy_slots_ok)

lemma driver_reachable_ok:
  assumes "driver_construct ctx config m0 = (r, m1)" and "(driver_op ctx)\<^sup>*\<^sup>* m1 m"
  shows "slots_ok ctx m"
  using assms(2)
proof induction
  case base
  then show ?case by (rule construct_slots_ok [OF assms(1)])
next
  case (step m m')
  from step(2,3) show ?case by (rule driver_op_slots_ok)
qed

end
