(* ===== verification/Driver_Contract.thy ===== *)
theory Driver_Contract
  imports Driver_Slots
begin

text \<open>
  What the driver backend promises for every driver: who holds which buffer, what reaches the driver's
  callbacks, which capabilities are reported, how large the backend structure is, and that a reset
  revokes the buffers handed out before it.
\<close>

section \<open>Ownership fields\<close>

text \<open>No operation writes the fields that bind a buffer to a port, except to clear them.\<close>

lemma keeps_bindings_put:
  assumes "keeps_bindings m m1"
    and "buf_owner_epoch nb = None \<or> buf_owner_epoch nb = buf_owner_epoch (slot_buffer ctx i m1) \<and>
      buf_epoch nb = buf_epoch (slot_buffer ctx i m1)"
  shows "keeps_bindings m (put_slot_buffer ctx i nb m1)"
proof (rule keeps_bindings_trans [OF assms(1)])
  show "keeps_bindings m1 (put_slot_buffer ctx i nb m1)"
    using assms(2) by (auto simp: keeps_bindings_def put_slot_buffer_def slot_buffer_def empty_descriptor_def
        split: option.splits)
qed

lemma keeps_bindings_same: "keeps_bindings m m1 \<Longrightarrow> m_buffers m2 = m_buffers m1 \<Longrightarrow> keeps_bindings m m2"
  by (simp add: keeps_bindings_def)

lemma keeps_bindings_driver:
  "call_driver f m1 = (r, m2) \<Longrightarrow> keeps_bindings m m1 \<Longrightarrow> keeps_bindings m m2"
  "call_driver_out g m1 = (r, x, m2) \<Longrightarrow> keeps_bindings m m1 \<Longrightarrow> keeps_bindings m m2"
  "keeps_bindings m m1 \<Longrightarrow> keeps_bindings m (snd (sync_call sync d dir m1))"
  "keeps_bindings m m1 \<Longrightarrow> keeps_bindings m (snd (call_driver f m1))"
  "keeps_bindings m m1 \<Longrightarrow> keeps_bindings m (snd (snd (call_driver_out g m1)))"
  "keeps_bindings m m1 \<Longrightarrow> keeps_bindings m (put_driver ctx b m1)"
  "keeps_bindings m m1 \<Longrightarrow> keeps_bindings m (set_driver_buffer ctx i d m1)"
  "keeps_bindings m m1 \<Longrightarrow> keeps_bindings m (take_packet_metadata ctx i m1)"
  by (auto elim!: keeps_bindings_same dest: call_driver_simps(2) call_driver_out_simps(2)
      simp: set_driver_buffer_def take_packet_metadata_def sync_call_def Let_def split: option.splits)

lemma keeps_bindings_descriptor:
  "keeps_bindings m m1 \<Longrightarrow> keeps_bindings m (put_slot_buffer ctx i ((slot_buffer ctx i m1)\<lparr>buf_state := st\<rparr>) m1)"
  "keeps_bindings m m1 \<Longrightarrow> keeps_bindings m (expose_slot ctx i dir st m1)"
  "keeps_bindings m m1 \<Longrightarrow> keeps_bindings m (clear_slot ctx i m1)"
  by (auto intro!: keeps_bindings_put elim: keeps_bindings_same
      simp: expose_slot_def clear_slot_def empty_descriptor_def Let_def)

lemma sync_call_slot: "slot_buffer c i (snd (sync_call sync d dir m)) = slot_buffer c i m"
  by (simp add: sync_call_def split: option.split)

lemma keeps_bindings_clear: "keeps_bindings m m1 \<Longrightarrow> keeps_bindings m (clear_first_slots ctx n m1)"
  by (induction n) (simp_all add: keeps_bindings_descriptor)

lemma keeps_bindings_destroy: "keeps_bindings m (driver_destroy ctx m)"
  by (simp add: driver_destroy_def clear_slots_def Let_def keeps_bindings_driver keeps_bindings_clear keeps_bindings_refl)

lemma keeps_bindings_forwarded:
  "keeps_bindings m (snd (driver_start ctx m))"
  "keeps_bindings m (snd (driver_stop ctx m))"
  "keeps_bindings m (snd (driver_reset ctx m))"
  "keeps_bindings m (snd (snd (driver_get_link_state ctx ls m)))"
  "keeps_bindings m (snd (snd (driver_get_capabilities ctx caps m)))"
  "keeps_bindings m (snd (driver_send ctx pk t m))"
  "keeps_bindings m (snd (snd (driver_receive ctx pk t m)))"
  "keeps_bindings m (snd (driver_send_time_code ctx tc t m))"
  "keeps_bindings m (snd (snd (driver_receive_time_code ctx tc t m)))"
  "keeps_bindings m (snd (snd (driver_get_statistics ctx st m)))"
  "keeps_bindings m (snd (driver_clear_statistics ctx m))"
  "keeps_bindings m (snd (snd (driver_wait ctx i t e m)))"
  by (simp_all add: driver_defs clear_slots_def Let_def case_prod_beta keeps_bindings_refl
      keeps_bindings_driver(3-) keeps_bindings_clear split: option.split)

lemma keeps_bindings_loans:
  "keeps_bindings m (snd (snd (driver_acquire_tx_buffer ctx n t out m)))"
  "keeps_bindings m (snd (driver_submit_tx_buffer ctx a t m))"
  "keeps_bindings m (snd (snd (driver_reclaim_tx_buffer ctx t out m)))"
  "keeps_bindings m (snd (driver_release_tx_buffer ctx a m))"
  "keeps_bindings m (snd (snd (driver_acquire_rx_buffer ctx t out m)))"
  "keeps_bindings m (snd (driver_release_rx_buffer ctx a m))"
  by (simp_all add: driver_defs Let_def case_prod_beta keeps_bindings_refl keeps_bindings_descriptor
      keeps_bindings_driver(3-) keeps_bindings_put sync_call_slot split: option.split)

lemma driver_table_fields:
  assumes "ops \<in> {DRIVER_OPS, DRIVER_WAIT_OPS, DRIVER_DMA_OPS, DRIVER_DMA_WAIT_OPS}"
  shows "op_start ops = driver_start" "op_stop ops = driver_stop" "op_reset ops = driver_reset"
    "op_get_link_state ops = driver_get_link_state" "op_get_capabilities ops = driver_get_capabilities"
    "op_send ops = driver_send" "op_receive ops = driver_receive"
    "op_send_time_code ops = driver_send_time_code" "op_receive_time_code ops = driver_receive_time_code"
    "op_get_statistics ops = driver_get_statistics" "op_clear_statistics ops = driver_clear_statistics"
    "op_get_fault_statistics ops = None" "op_clear_fault_statistics ops = None"
    "op_acquire_tx_buffer ops = Some f1 \<Longrightarrow> f1 = driver_acquire_tx_buffer"
    "op_submit_tx_buffer ops = Some f2 \<Longrightarrow> f2 = driver_submit_tx_buffer"
    "op_reclaim_tx_buffer ops = Some f3 \<Longrightarrow> f3 = driver_reclaim_tx_buffer"
    "op_release_tx_buffer ops = Some f4 \<Longrightarrow> f4 = driver_release_tx_buffer"
    "op_acquire_rx_buffer ops = Some f5 \<Longrightarrow> f5 = driver_acquire_rx_buffer"
    "op_release_rx_buffer ops = Some f6 \<Longrightarrow> f6 = driver_release_rx_buffer"
    "op_wait ops = Some f7 \<Longrightarrow> f7 = driver_wait"
  using assms by (auto simp: DRIVER_TABLES)

lemma driver_tables_keep:
  assumes "ops \<in> {DRIVER_OPS, DRIVER_WAIT_OPS, DRIVER_DMA_OPS, DRIVER_DMA_WAIT_OPS}" and "backend_step ops m m'"
  shows "keeps_bindings m m'"
  using assms(2)
  by cases (simp_all add: driver_table_fields(1-13) [OF assms(1)] keeps_bindings_forwarded,
      (drule driver_table_fields(14-20) [OF assms(1)], simp add: keeps_bindings_loans keeps_bindings_forwarded)+)

interpretation driver_frame: binding_frame
    "{DRIVER_OPS, DRIVER_WAIT_OPS, DRIVER_DMA_OPS, DRIVER_DMA_WAIT_OPS}" "{driver_destroy}" "\<lambda>_. True"
  by unfold_locales (simp_all add: driver_tables_keep keeps_bindings_destroy)

section \<open>Submission\<close>

lemma lent_fields:
  assumes "slots_ok ctx m" and "loans ctx m i = Some token"
  shows "db_data (lent_buffer ctx i (take_packet_metadata ctx i m)) = buf_data (slot_buffer ctx i m)"
    "db_length (lent_buffer ctx i (take_packet_metadata ctx i m)) = buf_length (slot_buffer ctx i m)"
    "db_terminator (lent_buffer ctx i (take_packet_metadata ctx i m)) = buf_terminator (slot_buffer ctx i m)"
    "db_token (lent_buffer ctx i (take_packet_metadata ctx i m)) = token"
proof -
  have "i < length (bk_slots (the_driver ctx m))" using assms by (auto simp: slots_ok_def loans_some Let_def)
  then show "db_data (lent_buffer ctx i (take_packet_metadata ctx i m)) = buf_data (slot_buffer ctx i m)"
    "db_length (lent_buffer ctx i (take_packet_metadata ctx i m)) = buf_length (slot_buffer ctx i m)"
    "db_terminator (lent_buffer ctx i (take_packet_metadata ctx i m)) = buf_terminator (slot_buffer ctx i m)"
    "db_token (lent_buffer ctx i (take_packet_metadata ctx i m)) = token"
    using assms(2) by (auto simp: lent_buffer_def take_packet_metadata_def loans_some Let_def)
qed

text \<open>A buffer that the driver holds is refused.\<close>

lemma driver_holds_refused:
  assumes "buf_state (slot_buffer ctx i m) = SPW_BUFFER_STATE_BACKEND"
  shows "driver_submit_tx_buffer ctx (slot_addr ctx i) t m = (SPW_ERR_INVALID_STATE, m)"
    and "driver_release_tx_buffer ctx (slot_addr ctx i) m = (SPW_ERR_INVALID_STATE, m)"
    and "driver_release_rx_buffer ctx (slot_addr ctx i) m = (SPW_ERR_INVALID_STATE, m)"
proof -
  have "find_slot_for_public_buffer ctx (slot_addr ctx i) dir m \<in> {None, Some i}" for dir
    using find_public_some [of ctx "slot_addr ctx i" dir m]
    by (cases "find_slot_for_public_buffer ctx (slot_addr ctx i) dir m") auto
  from this [of SPW_BUFFER_DIRECTION_TX] this [of SPW_BUFFER_DIRECTION_RX]
  show "driver_submit_tx_buffer ctx (slot_addr ctx i) t m = (SPW_ERR_INVALID_STATE, m)"
    and "driver_release_tx_buffer ctx (slot_addr ctx i) m = (SPW_ERR_INVALID_STATE, m)"
    and "driver_release_rx_buffer ctx (slot_addr ctx i) m = (SPW_ERR_INVALID_STATE, m)"
    using assms by (auto simp: driver_submit_tx_buffer_def driver_release_tx_buffer_def
        driver_release_rx_buffer_def Let_def)
qed

lemma submit_ok:
  assumes "slots_ok ctx m" and "driver_submit_tx_buffer ctx a t m = (SPW_OK, m')"
  obtains i m1 m2 m3 lent where "find_slot_for_public_buffer ctx a SPW_BUFFER_DIRECTION_TX m = Some i"
    and "buf_state (slot_buffer ctx i m) = SPW_BUFFER_STATE_APPLICATION"
    and "m1 = take_packet_metadata ctx i m" and "lent = lent_buffer ctx i m1"
    and "valid_terminator (db_terminator lent)" and "db_length lent \<le> db_capacity lent"
    and "sync_call (dops_sync_buffer (driver_ops ctx m)) lent SPW_DRIVER_SYNC_TO_DEVICE m1 = (SPW_OK, m2)"
    and "call_driver (\<lambda>d. the (dops_submit_tx_buffer (driver_ops ctx m)) d lent t) m2 = (SPW_OK, m3)"
    and "m' = put_slot_buffer ctx i ((slot_buffer ctx i m3)\<lparr>buf_state := SPW_BUFFER_STATE_BACKEND\<rparr>) m3"
  using assms(2)
  by (auto simp: driver_submit_tx_buffer_def Let_def split: option.splits if_splits prod.splits)

text \<open>
  The steps during which the driver keeps the buffer \<open>a\<close>: all of \<^const>\<open>driver_op\<close> but construction,
  destruction, a reset that succeeds, and a reclaim that returns this very buffer.
\<close>

inductive keeping_op :: "addr \<Rightarrow> addr \<Rightarrow> 'd drivers memory \<Rightarrow> 'd drivers memory \<Rightarrow> bool" for ctx a where
  keep_start: "keeping_op ctx a m (snd (driver_start ctx m))"
| keep_stop: "keeping_op ctx a m (snd (driver_stop ctx m))"
| keep_failed_reset: "driver_reset ctx m = (r, m') \<Longrightarrow> r \<noteq> SPW_OK \<Longrightarrow> keeping_op ctx a m m'"
| keep_link_state: "keeping_op ctx a m (snd (snd (driver_get_link_state ctx ls m)))"
| keep_capabilities: "keeping_op ctx a m (snd (snd (driver_get_capabilities ctx caps m)))"
| keep_send: "keeping_op ctx a m (snd (driver_send ctx pk t m))"
| keep_receive: "keeping_op ctx a m (snd (snd (driver_receive ctx pk t m)))"
| keep_send_time_code: "keeping_op ctx a m (snd (driver_send_time_code ctx tc t m))"
| keep_receive_time_code: "keeping_op ctx a m (snd (snd (driver_receive_time_code ctx tc t m)))"
| keep_statistics: "keeping_op ctx a m (snd (snd (driver_get_statistics ctx st m)))"
| keep_clear_statistics: "keeping_op ctx a m (snd (driver_clear_statistics ctx m))"
| keep_wait: "keeping_op ctx a m (snd (snd (driver_wait ctx ev t out_ev m)))"
| keep_acquire_tx: "driver_acquire_tx_buffer ctx n t out m = (r, b, m') \<Longrightarrow> keeping_op ctx a m m'"
| keep_submit_tx: "driver_submit_tx_buffer ctx buffer t m = (r, m') \<Longrightarrow> keeping_op ctx a m m'"
| keep_reclaim_tx: "driver_reclaim_tx_buffer ctx t out m = (r, b, m') \<Longrightarrow> r = SPW_OK \<longrightarrow> b \<noteq> Some a \<Longrightarrow>
    keeping_op ctx a m m'"
| keep_release_tx: "driver_release_tx_buffer ctx buffer m = (r, m') \<Longrightarrow> keeping_op ctx a m m'"
| keep_acquire_rx: "driver_acquire_rx_buffer ctx t out m = (r, b, m') \<Longrightarrow> keeping_op ctx a m m'"
| keep_release_rx: "driver_release_rx_buffer ctx buffer m = (r, m') \<Longrightarrow> keeping_op ctx a m m'"
| keep_other: "same_slots ctx m m' \<Longrightarrow> keeping_op ctx a m m'"

lemma keeping_op_driver_op: "keeping_op ctx a m m' \<Longrightarrow> driver_op ctx m m'"
  by (induction rule: keeping_op.induct) (auto intro: driver_op.intros)

text \<open>The slot of a buffer that the driver holds.\<close>

definition held :: "addr \<Rightarrow> nat \<Rightarrow> 'd drivers memory \<Rightarrow> bool" where
  "held ctx i m \<longleftrightarrow> loans ctx m i \<noteq> None \<and> buf_state (slot_buffer ctx i m) = SPW_BUFFER_STATE_BACKEND"

lemma held_same_slots: "same_slots ctx m m' \<Longrightarrow> held ctx i m \<Longrightarrow> held ctx i m'"
  using same_slots_loans [of ctx m m'] by (simp add: held_def same_slots_def)

lemma held_active: "held ctx i m \<Longrightarrow> sl_active (bk_slots (the_driver ctx m) ! i)"
  by (auto simp: held_def loans_def Let_def split: if_splits)

lemma state_exposed:
  "buf_state (slot_buffer ctx j (expose_slot ctx i dir st (set_driver_buffer ctx i d m))) =
     (if j = i then st else buf_state (slot_buffer ctx j m))"
  by (simp add: expose_slot_def set_driver_buffer_def Let_def)

lemma held_not_free:
  "held ctx i m \<Longrightarrow> find_free_slot (the_driver ctx m) first n = Some j \<Longrightarrow> i \<noteq> j"
  using find_free_slot_some [of "the_driver ctx m" first n j] held_active [of ctx i m] by auto

lemma held_acquire_kept:
  assumes "held ctx i m"
  shows "buf_state (slot_buffer ctx i (snd (snd (driver_acquire_tx_buffer ctx n t out m)))) = SPW_BUFFER_STATE_BACKEND"
    and "buf_state (slot_buffer ctx i (snd (snd (driver_acquire_rx_buffer ctx t out m)))) = SPW_BUFFER_STATE_BACKEND"
  using assms held_not_free [OF assms]
  by (auto simp: driver_acquire_tx_buffer_def driver_acquire_rx_buffer_def Let_def case_prod_beta held_def
      state_exposed sync_call_slot split: option.split)

lemma held_submit_kept:
  assumes "held ctx i m"
  shows "buf_state (slot_buffer ctx i (snd (driver_submit_tx_buffer ctx a t m))) = SPW_BUFFER_STATE_BACKEND"
    and "buf_state (slot_buffer ctx i (snd (driver_release_tx_buffer ctx a m))) = SPW_BUFFER_STATE_BACKEND"
    and "buf_state (slot_buffer ctx i (snd (driver_release_rx_buffer ctx a m))) = SPW_BUFFER_STATE_BACKEND"
  using assms
  by (auto simp: driver_submit_tx_buffer_def driver_release_tx_buffer_def driver_release_rx_buffer_def Let_def
      case_prod_beta held_def sync_call_slot split: option.split)

lemma held_reclaim_kept:
  assumes "held ctx i m" and "driver_reclaim_tx_buffer ctx t out m = (r, b, m')"
    and "r = SPW_OK \<longrightarrow> b \<noteq> Some (slot_addr ctx i)"
  shows "buf_state (slot_buffer ctx i m') = SPW_BUFFER_STATE_BACKEND"
  using assms
  by (auto simp: driver_reclaim_tx_buffer_def case_prod_beta held_def state_exposed
      split: option.splits if_splits)

lemma release_keeps_held:
  assumes "slots_ok ctx m" and "held ctx i m"
  shows "driver_release_tx_buffer ctx a m = (r, m') \<Longrightarrow> loans ctx m' i \<noteq> None"
    and "driver_release_rx_buffer ctx a m = (r, m') \<Longrightarrow> loans ctx m' i \<noteq> None"
proof -
  have st: "buf_state (slot_buffer ctx i m) = SPW_BUFFER_STATE_BACKEND" "loans ctx m i \<noteq> None"
    using assms(2) by (simp_all add: held_def)
  note refused = driver_holds_refused(2,3) [OF st(1)]
  show "loans ctx m' i \<noteq> None" if c: "driver_release_tx_buffer ctx a m = (r, m')"
    using release_tx_slots [OF assms(1) c] st(2) refused(1) c by (auto split: if_splits)
  show "loans ctx m' i \<noteq> None" if c: "driver_release_rx_buffer ctx a m = (r, m')"
    using release_rx_slots [OF assms(1) c] st(2) refused(2) c by (auto split: if_splits)
qed

lemma keeping_op_held:
  assumes "keeping_op ctx (slot_addr ctx i) m m'" and "slots_ok ctx m" and "held ctx i m"
  shows "held ctx i m'"
  using assms(1)
proof cases
  case (keep_failed_reset r)
  then have "same_slots ctx m m'"
    using same_slots_calls(3) [of ctx m "the (dops_reset (driver_ops ctx m))"]
    by (auto simp: driver_reset_def split: prod.splits if_splits)
  then show ?thesis using assms(3) by (rule held_same_slots)
next
  case (keep_acquire_tx n t out r b)
  then show ?thesis
    using assms(3) held_acquire_kept(1) [OF assms(3), of n t out] acquire_tx_slots [OF assms(2) keep_acquire_tx]
    by (auto simp: held_def split: if_splits)
next
  case (keep_submit_tx buffer t r)
  then show ?thesis
    using assms(3) held_submit_kept(1) [OF assms(3), of buffer t] submit_slots [OF assms(2) keep_submit_tx]
    by (auto simp: held_def)
next
  case (keep_reclaim_tx t out r b)
  then show ?thesis
    using assms(3) held_reclaim_kept [OF assms(3) keep_reclaim_tx] reclaim_slots [OF assms(2) keep_reclaim_tx(1)]
    by (auto simp: held_def)
next
  case (keep_release_tx buffer r)
  then show ?thesis
    using held_submit_kept(2) [OF assms(3), of buffer] release_keeps_held(1) [OF assms(2,3) keep_release_tx]
    by (auto simp: held_def)
next
  case (keep_acquire_rx t out r b)
  then show ?thesis
    using assms(3) held_acquire_kept(2) [OF assms(3), of t out] acquire_rx_slots [OF assms(2) keep_acquire_rx]
    by (auto simp: held_def split: if_splits)
next
  case (keep_release_rx buffer r)
  then show ?thesis
    using held_submit_kept(3) [OF assms(3), of buffer] release_keeps_held(2) [OF assms(2,3) keep_release_rx]
    by (auto simp: held_def)
next
  case keep_other
  then show ?thesis using assms(3) by (rule held_same_slots)
qed (use assms(3) in \<open>simp_all add: forwarded_same_slots [THEN held_same_slots]\<close>)

lemma keeping_run_held:
  assumes "(keeping_op ctx (slot_addr ctx i))\<^sup>*\<^sup>* m m'" and "slots_ok ctx m" and "held ctx i m"
  shows "held ctx i m'"
proof -
  have "slots_ok ctx m' \<and> held ctx i m'" using assms
  proof induction
    case (step x y)
    then show ?case
      using keeping_op_held [OF step(2)] driver_op_slots_ok [OF keeping_op_driver_op [OF step(2)]] by blast
  qed simp
  then show ?thesis by blast
qed

section \<open>Size\<close>

lemma driver_config_slots:
  assumes "validate_driver_config config = SPW_OK"
  shows "\<exists>bc ops. pc_backend_config config = Some bc \<and> drv_ops (as_driver bc) = Some ops \<and>
    drv_tx_buffer_slots (as_driver bc) \<le> 64 \<and> drv_rx_buffer_slots (as_driver bc) \<le> 64"
  using assms by (auto simp: validate_driver_config_def Let_def not_less split: option.splits if_splits)

section \<open>Properties\<close>

text \<open>
  Property C9: whatever the driver's callbacks do, in every state reached from the construction of a
  driver backend by its operations no two buffers on loan have the same token, and the descriptor of
  each slot says how the slot is used: a buffer on loan belongs to this backend, in the direction of
  its slot, held by the application or (transmit buffers only) by the driver; every other slot is free.
\<close>

theorem driver_loans_exclusive:
  assumes "driver_construct ctx config m0 = (r, m1)" and "(driver_op ctx)\<^sup>*\<^sup>* m1 m"
  shows "inj_on (loans ctx m) (dom (loans ctx m)) \<and>
    (\<forall>i < bk_tx_slot_count (the_driver ctx m) + bk_rx_slot_count (the_driver ctx m).
       slot_used_for ctx (bk_tx_slot_count (the_driver ctx m)) i (loans ctx m i \<noteq> None) (slot_buffer ctx i m))"
proof -
  have ok: "slots_ok ctx m" by (rule driver_reachable_ok [OF assms])
  have "\<forall>i t j. loans ctx m i = Some t \<and> loans ctx m j = Some t \<longrightarrow> i = j"
    using ok by (simp add: slots_ok_def Let_def)
  then have "inj_on (loans ctx m) (dom (loans ctx m))" unfolding inj_on_def dom_def by fastforce
  moreover have "loans ctx m i \<noteq> None \<longleftrightarrow> sl_active (bk_slots (the_driver ctx m) ! i)"
    if "i < bk_tx_slot_count (the_driver ctx m) + bk_rx_slot_count (the_driver ctx m)" for i
    using that by (simp add: loans_def Let_def)
  ultimately show ?thesis using slot_used [OF ok] by simp
qed

text \<open>
  Property C8: the operations act on the loans as the driver interface documents. An acquisition adds
  one loan, in a slot that was free, with a token that no other loan has, and with at least the
  capacity asked for (transmit) or a well-formed packet (receive); submission keeps the loans;
  reclaiming returns a buffer the driver held, without changing the loans; a release ends exactly the
  loan of the buffer released; a reset ends all of them; and a call that fails changes none.
\<close>

theorem driver_loan_operations:
  assumes "driver_construct ctx config m0 = (r, m1)" and "(driver_op ctx)\<^sup>*\<^sup>* m1 m"
  shows "(driver_acquire_tx_buffer ctx n t out m = (r1, a1, n1) \<longrightarrow> (if r1 = SPW_OK
      then \<exists>i token. a1 = Some (slot_addr ctx i) \<and> i < bk_tx_slot_count (the_driver ctx m) \<and> loans ctx m i = None \<and>
        token \<notin> ran (loans ctx m) \<and> loans ctx n1 = (loans ctx m)(i \<mapsto> token) \<and> n \<le> buf_capacity (slot_buffer ctx i n1) \<and>
        buf_state (slot_buffer ctx i n1) = SPW_BUFFER_STATE_APPLICATION
      else a1 = out \<and> loans ctx n1 = loans ctx m)) \<and>
   (driver_acquire_rx_buffer ctx t out m = (r2, a2, n2) \<longrightarrow> (if r2 = SPW_OK
      then \<exists>i token. a2 = Some (slot_addr ctx i) \<and> bk_tx_slot_count (the_driver ctx m) \<le> i \<and> loans ctx m i = None \<and>
        token \<notin> ran (loans ctx m) \<and> loans ctx n2 = (loans ctx m)(i \<mapsto> token) \<and>
        buf_length (slot_buffer ctx i n2) \<le> buf_capacity (slot_buffer ctx i n2) \<and>
        valid_terminator (buf_terminator (slot_buffer ctx i n2)) \<and>
        buf_state (slot_buffer ctx i n2) = SPW_BUFFER_STATE_APPLICATION
      else a2 = out \<and> loans ctx n2 = loans ctx m)) \<and>
   (driver_submit_tx_buffer ctx buffer t m = (r3, n3) \<longrightarrow> loans ctx n3 = loans ctx m) \<and>
   (driver_reclaim_tx_buffer ctx t out m = (r4, a4, n4) \<longrightarrow> loans ctx n4 = loans ctx m \<and> (if r4 = SPW_OK
      then \<exists>i. a4 = Some (slot_addr ctx i) \<and> i < bk_tx_slot_count (the_driver ctx m) \<and> loans ctx m i \<noteq> None \<and>
        buf_state (slot_buffer ctx i m) = SPW_BUFFER_STATE_BACKEND \<and>
        buf_state (slot_buffer ctx i n4) = SPW_BUFFER_STATE_APPLICATION
      else a4 = out)) \<and>
   (driver_release_tx_buffer ctx buffer m = (r5, n5) \<longrightarrow> (if r5 = SPW_OK
      then \<exists>i. buffer = slot_addr ctx i \<and> loans ctx m i \<noteq> None \<and> loans ctx n5 = (loans ctx m)(i := None)
      else loans ctx n5 = loans ctx m)) \<and>
   (driver_release_rx_buffer ctx buffer m = (r6, n6) \<longrightarrow> (if r6 = SPW_OK
      then \<exists>i. buffer = slot_addr ctx i \<and> loans ctx m i \<noteq> None \<and> loans ctx n6 = (loans ctx m)(i := None)
      else loans ctx n6 = loans ctx m)) \<and>
   (driver_reset ctx m = (r7, n7) \<longrightarrow> loans ctx n7 = (if r7 = SPW_OK then Map.empty else loans ctx m))"
proof -
  note ok = driver_reachable_ok [OF assms]
  show ?thesis
    by (intro conjI impI)
      (drule acquire_tx_slots [OF ok] acquire_rx_slots [OF ok] submit_slots [OF ok] reclaim_slots [OF ok]
        release_tx_slots [OF ok] release_rx_slots [OF ok] reset_slots [OF ok], elim conjE, assumption)+
qed

text \<open>
  Property C10: what reaches the driver. A successful submission hands the driver exactly one
  descriptor: the token under which it lent the buffer, the bytes the application has written, and
  the length and terminator the application has set, checked against the capacity; first to the
  synchronisation callback, when there is one, then to the submit callback. From then on, whatever
  operations follow on the backend, the buffer can be neither submitted nor released again, both
  being refused without reaching the driver, until a reclaim returns this buffer or the backend is
  reset, destroyed or constructed anew.
\<close>

theorem driver_submit_reaches_driver:
  assumes "driver_construct ctx config m0 = (r, m1)" and "(driver_op ctx)\<^sup>*\<^sup>* m1 m"
    and "driver_submit_tx_buffer ctx a t m = (SPW_OK, m')"
  shows "\<exists>i lent d. a = slot_addr ctx i \<and> buf_state (slot_buffer ctx i m) = SPW_BUFFER_STATE_APPLICATION \<and>
    loans ctx m i = Some (db_token lent) \<and> db_data lent = buf_data (slot_buffer ctx i m) \<and>
    db_length lent = buf_length (slot_buffer ctx i m) \<and> db_terminator lent = buf_terminator (slot_buffer ctx i m) \<and>
    db_length lent \<le> db_capacity lent \<and> valid_terminator (db_terminator lent) \<and>
    (case dops_sync_buffer (driver_ops ctx m) of None \<Rightarrow> d = dv_driver (m_backend m)
     | Some sync \<Rightarrow> sync (dv_driver (m_backend m)) lent SPW_DRIVER_SYNC_TO_DEVICE = (SPW_OK, d)) \<and>
    the (dops_submit_tx_buffer (driver_ops ctx m)) d lent t = (SPW_OK, dv_driver (m_backend m')) \<and>
    (\<forall>m'' t'. (keeping_op ctx a)\<^sup>*\<^sup>* m' m'' \<longrightarrow>
       driver_submit_tx_buffer ctx a t' m'' = (SPW_ERR_INVALID_STATE, m'') \<and>
       driver_release_tx_buffer ctx a m'' = (SPW_ERR_INVALID_STATE, m''))"
proof -
  note ok = driver_reachable_ok [OF assms(1,2)]
  obtain i n1 n2 n3 lent where i: "find_slot_for_public_buffer ctx a SPW_BUFFER_DIRECTION_TX m = Some i"
    and st: "buf_state (slot_buffer ctx i m) = SPW_BUFFER_STATE_APPLICATION"
    and n1: "n1 = take_packet_metadata ctx i m" and lent: "lent = lent_buffer ctx i n1"
    and checked: "valid_terminator (db_terminator lent)" "db_length lent \<le> db_capacity lent"
    and sync: "sync_call (dops_sync_buffer (driver_ops ctx m)) lent SPW_DRIVER_SYNC_TO_DEVICE n1 = (SPW_OK, n2)"
    and submit: "call_driver (\<lambda>d. the (dops_submit_tx_buffer (driver_ops ctx m)) d lent t) n2 = (SPW_OK, n3)"
    and m': "m' = put_slot_buffer ctx i ((slot_buffer ctx i n3)\<lparr>buf_state := SPW_BUFFER_STATE_BACKEND\<rparr>) n3"
    using submit_ok [OF ok assms(3)] .
  note slot = public_slot [OF ok i]
  from slot(2) obtain token where token: "loans ctx m i = Some token" by blast
  note fields = lent_fields [OF ok token, folded n1, folded lent]
  have "dv_driver (m_backend n1) = dv_driver (m_backend m)"
    by (simp add: n1 take_packet_metadata_def Let_def)
  then have "case dops_sync_buffer (driver_ops ctx m) of None \<Rightarrow> dv_driver (m_backend n2) = dv_driver (m_backend m)
     | Some sync \<Rightarrow> sync (dv_driver (m_backend m)) lent SPW_DRIVER_SYNC_TO_DEVICE = (SPW_OK, dv_driver (m_backend n2))"
    using sync by (auto simp: sync_call_def call_driver_def split: option.splits prod.splits)
  moreover have "the (dops_submit_tx_buffer (driver_ops ctx m)) (dv_driver (m_backend n2)) lent t =
      (SPW_OK, dv_driver (m_backend m'))"
    using submit by (auto simp: call_driver_def m' split: prod.splits)
  moreover have "driver_submit_tx_buffer ctx a t' m'' = (SPW_ERR_INVALID_STATE, m'') \<and>
      driver_release_tx_buffer ctx a m'' = (SPW_ERR_INVALID_STATE, m'')"
    if run: "(keeping_op ctx a)\<^sup>*\<^sup>* m' m''" for m'' t'
  proof -
    have "held ctx i m'" using submit_slots [OF ok assms(3)] token by (simp add: held_def) (simp add: m')
    then have "held ctx i m''"
      using keeping_run_held [of ctx i m' m''] run submit_slots [OF ok assms(3)] slot(1) by blast
    then show ?thesis using driver_holds_refused [of ctx i m''] slot(1) by (simp add: held_def)
  qed
  ultimately show ?thesis
    using slot(1) st token fields checked by blast
qed


text \<open>
  Property C25: the memory reserved for a driver backend holds exactly its structure and its slots.
  For every accepted configuration the size is computed without wrap-around, and every slot of the
  constructed backend lies inside it, behind the structure and apart from the other slots.
\<close>

theorem driver_context_holds_slots:
  assumes "validate_driver_config config = SPW_OK" and "driver_construct ctx config m0 = (r, m)"
    and "n = bk_tx_slot_count (the_driver ctx m) + bk_rx_slot_count (the_driver ctx m)"
  shows "\<exists>size. driver_context_size_for_config config out = (SPW_OK, size) \<and> unat size = 32 + 120 * n \<and>
    length (bk_slots (the_driver ctx m)) = n \<and>
    (\<forall>i < n. ctx + 32 \<le> slot_addr ctx i \<and> slot_addr ctx i + 120 \<le> ctx + unat size) \<and>
    (\<forall>i j. i < j \<longrightarrow> slot_addr ctx i + 120 \<le> slot_addr ctx j)"
proof -
  obtain bc ops where bc: "pc_backend_config config = Some bc" "drv_ops (as_driver bc) = Some ops"
    and bound: "drv_tx_buffer_slots (as_driver bc) \<le> 64" "drv_rx_buffer_slots (as_driver bc) \<le> 64"
    using driver_config_slots [OF assms(1)] by metis
  have n: "n = (if zero_copy_enabled_config (as_driver bc)
      then drv_tx_buffer_slots (as_driver bc) + drv_rx_buffer_slots (as_driver bc) else 0)"
    and len: "length (bk_slots (the_driver ctx m)) = n"
    using assms(2,3) bc(1)
    by (auto simp: driver_construct_def Let_def clear_slots_def clear_first_slots_simps split: if_splits)
  have "n \<le> 128" using n bound by (auto split: if_splits)
  then have size: "unat (of_nat (32 + n * 120) :: u64) = 32 + 120 * n"
    by (subst unat_of_nat) (simp add: take_bit_nat_eq_self)
  have "\<not> SIZE_MAX - drv_rx_buffer_slots (as_driver bc) < drv_tx_buffer_slots (as_driver bc)"
    using bound by arith
  moreover have "drv_tx_buffer_slots (as_driver bc) + drv_rx_buffer_slots (as_driver bc) \<le> SIZE_MAX div 120"
    using bound by simp
  moreover have "n * 120 \<le> SIZE_MAX - 32" using \<open>n \<le> 128\<close> by simp
  ultimately have "driver_context_size_for_config config out = (SPW_OK, of_nat (32 + n * 120))"
    by (cases "zero_copy_enabled_config (as_driver bc)")
      (simp_all add: driver_context_size_for_config_def bc(1) n Let_def)
  then show ?thesis using size len by (auto simp: slot_addr_def mult.commute)
qed

text \<open>
  Property C26: a reset revokes every buffer that a driver port has handed out. Whatever calls follow
  on any driver ports and whatever the drivers answer, a handle held over the reset is refused by
  every operation that takes a handle, without any effect, until it is handed out again.
\<close>

theorem driver_reset_revokes_handles:
  assumes "ports_from {DRIVER_OPS, DRIVER_WAIT_OPS, DRIVER_DMA_OPS, DRIVER_DMA_WAIT_OPS} {driver_destroy} (\<lambda>_. True) w"
    and "epochs_ok w" and "epoch_room (Suc (length cs)) w"
    and "m_buffers (w_memory w) b = Some nb" and "buf_owner_epoch nb = Some p"
    and "api (Reset (Some p)) w = (SPW_OK, h, w1)" and "api_run cs w1 = (rs, w2)"
    and "\<forall>(r, h) \<in> set rs. h \<noteq> Some b"
    and "call_buffer c = Some b"
  shows "\<exists>r. api c w2 = (r, None, w2) \<and> r \<noteq> SPW_OK"
  using assms by (rule driver_frame.reset_revokes)

section \<open>Witnesses\<close>

text \<open>A driver that numbers the buffers it lends and holds them until they are reclaimed.\<close>

definition dma_buffer :: "nat \<Rightarrow> spw_driver_buffer" where
  "dma_buffer n = \<lparr>db_data = Some [0, 0, 0, 0], db_length = 0, db_capacity = 4, db_terminator = SPW_TERMINATOR_EOP,
     db_token = of_nat n\<rparr>"

definition dma_ops :: "nat spw_driver_ops" where
  "dma_ops = \<lparr>dops_struct_size = 160, dops_version = 2, dops_start = Some (\<lambda>d. (SPW_OK, d)),
     dops_stop = Some (\<lambda>d. (SPW_OK, d)), dops_reset = Some (\<lambda>d. (SPW_OK, d)),
     dops_get_link_state = Some (\<lambda>d s. (SPW_OK, SPW_LINK_RUN, d)),
     dops_get_capabilities = Some (\<lambda>d c. (SPW_OK, c\<lparr>cap_bits := SPW_CAP_ZERO_COPY\<rparr>, d)),
     dops_send = Some (\<lambda>d p t. (SPW_OK, d)), dops_receive = Some (\<lambda>d p t. (SPW_ERR_TIMEOUT, p, d)),
     dops_send_time_code = None, dops_receive_time_code = None, dops_get_statistics = None,
     dops_clear_statistics = None, dops_wait = None,
     dops_acquire_tx_buffer = Some (\<lambda>d n t b. (SPW_OK, dma_buffer d, Suc d)),
     dops_submit_tx_buffer = Some (\<lambda>d b t. (SPW_OK, d)),
     dops_reclaim_tx_buffer = Some (\<lambda>d t b. (SPW_OK, dma_buffer (d - 1), d)),
     dops_release_tx_buffer = Some (\<lambda>d b. (SPW_OK, d)),
     dops_acquire_rx_buffer = Some (\<lambda>d t b. (SPW_OK, dma_buffer d, Suc d)),
     dops_release_rx_buffer = Some (\<lambda>d b. (SPW_OK, d)), dops_sync_buffer = None\<rparr>"

definition dma_config :: "nat spw_port_config" where
  "dma_config = \<lparr>pc_struct_size = 32, pc_version = 1, pc_backend = SPW_BACKEND_DRIVER, pc_flags = 0,
     pc_backend_config = Some \<lparr>as_simulator = as_simulator sample_backend_config,
       as_udp = as_udp sample_backend_config, as_device = as_device sample_backend_config,
       as_driver = \<lparr>drv_struct_size = 48, drv_version = 2, drv_ops = Some dma_ops, drv_reserved = 0,
         drv_tx_buffer_slots = 2, drv_rx_buffer_slots = 1\<rparr>\<rparr>,
     pc_backend_config_size = 320\<rparr>"

definition dma_memory :: "nat drivers memory" where
  "dma_memory = \<lparr>m_buffers = Map.empty, m_backend = \<lparr>dv_driver = 7, dv_backends = Map.empty\<rparr>\<rparr>"

definition dma_opened :: "nat drivers memory" where
  "dma_opened = snd (driver_construct 1000 dma_config dma_memory)"

definition dma_lent :: "nat drivers memory" where
  "dma_lent = snd (snd (driver_acquire_tx_buffer 1000 3 0 None dma_opened))"

lemma dma_opened_eq: "driver_construct 1000 dma_config dma_memory = (SPW_OK, dma_opened)"
  unfolding dma_opened_def by (metis construct_slots_ok(1) prod.collapse)

lemma dma_lent_eq: "driver_acquire_tx_buffer 1000 3 0 None dma_opened = (SPW_OK, Some 1032, dma_lent)"
proof -
  have "fst (driver_acquire_tx_buffer 1000 3 0 None dma_opened) = SPW_OK"
    "fst (snd (driver_acquire_tx_buffer 1000 3 0 None dma_opened)) = Some 1032"
    by code_simp+
  then show ?thesis unfolding dma_lent_def by (metis prod.collapse)
qed

lemma dma_lent_reached: "(driver_op 1000)\<^sup>*\<^sup>* dma_opened dma_lent"
  using driver_op.acquire_tx [OF dma_lent_eq] by blast

theorem driver_loans_exclusive_witness:
  "driver_construct 1000 dma_config dma_memory = (SPW_OK, dma_opened) \<and> (driver_op 1000)\<^sup>*\<^sup>* dma_opened dma_lent \<and>
   loans 1000 dma_lent 0 = Some 7 \<and> inj_on (loans 1000 dma_lent) (dom (loans 1000 dma_lent))"
proof -
  have "loans 1000 dma_lent 0 = Some 7" by code_simp
  then show ?thesis
    using driver_loans_exclusive [OF dma_opened_eq dma_lent_reached] dma_opened_eq dma_lent_reached by blast
qed

theorem driver_loan_operations_witness:
  "\<exists>i token m'. driver_acquire_tx_buffer 1000 3 0 None dma_opened = (SPW_OK, Some (slot_addr 1000 i), m') \<and>
     loans 1000 m' = (loans 1000 dma_opened)(i \<mapsto> token) \<and> token \<notin> ran (loans 1000 dma_opened)"
proof -
  obtain i token where "Some 1032 = Some (slot_addr 1000 i)" "token \<notin> ran (loans 1000 dma_opened)"
      "loans 1000 dma_lent = (loans 1000 dma_opened)(i \<mapsto> token)"
    using driver_loan_operations [OF dma_opened_eq rtranclp.rtrancl_refl, of 3 0 None SPW_OK "Some 1032" dma_lent,
        THEN conjunct1, rule_format, OF dma_lent_eq] by auto
  then show ?thesis using dma_lent_eq by auto
qed

theorem driver_submit_reaches_driver_witness:
  "\<exists>m'. driver_submit_tx_buffer 1000 1032 0 dma_lent = (SPW_OK, m') \<and>
     (let m'' = snd (snd (driver_acquire_tx_buffer 1000 3 0 None m'))
      in driver_submit_tx_buffer 1000 1032 0 m'' = (SPW_ERR_INVALID_STATE, m''))"
proof -
  have "fst (driver_submit_tx_buffer 1000 1032 0 dma_lent) = SPW_OK" by code_simp
  then obtain m' where m': "driver_submit_tx_buffer 1000 1032 0 dma_lent = (SPW_OK, m')" by (metis prod.collapse)
  have "(keeping_op 1000 1032)\<^sup>*\<^sup>* m' (snd (snd (driver_acquire_tx_buffer 1000 3 0 None m')))"
    by (rule r_into_rtranclp)
      (rule keep_acquire_tx [of 1000 3 0 None m' "fst (driver_acquire_tx_buffer 1000 3 0 None m')"
          "fst (snd (driver_acquire_tx_buffer 1000 3 0 None m'))"], simp)
  then show ?thesis
    using driver_submit_reaches_driver [OF dma_opened_eq dma_lent_reached m'] m' by (auto simp: Let_def)
qed


theorem driver_context_holds_slots_witness:
  "\<exists>size. validate_driver_config dma_config = SPW_OK \<and>
     driver_context_size_for_config dma_config 0 = (SPW_OK, size) \<and> unat size = 32 + 120 * 3"
proof -
  have v: "validate_driver_config dma_config = SPW_OK" by code_simp
  have "3 = bk_tx_slot_count (the_driver 1000 dma_opened) + bk_rx_slot_count (the_driver 1000 dma_opened)" by code_simp
  from driver_context_holds_slots [OF v dma_opened_eq this, of 0] v show ?thesis by blast
qed

definition dma_port :: "nat drivers spw_port" where
  "dma_port = \<lparr>port_ops = Some DRIVER_DMA_OPS, backend_context = Some 1000, destroy_backend = Some driver_destroy,
     workspace_base = 4096, workspace_alignment = 16, release_workspace = False, locally_started = True,
     ownership_epoch = 1\<rparr>"

definition dma_world :: "nat drivers world" where
  "dma_world = \<lparr>w_ports = [4096 \<mapsto> dma_port], w_memory = dma_lent\<lparr>m_buffers := (m_buffers dma_lent)(1032 \<mapsto>
     (slot_buffer 1000 0 dma_lent)\<lparr>buf_owner_epoch := Some 4096, buf_epoch := 1\<rparr>)\<rparr>\<rparr>"

lemma dma_world_reset: "fst (api (Reset (Some 4096)) dma_world) = SPW_OK"
  by code_simp

theorem driver_reset_revokes_handles_witness:
  "\<exists>h w1. api (Reset (Some 4096)) dma_world = (SPW_OK, h, w1) \<and>
     (\<exists>r. api (Submit_Tx (Some 4096) (Some 1032) 0) w1 = (r, None, w1) \<and> r \<noteq> SPW_OK)"
proof -
  obtain h w1 where run: "api (Reset (Some 4096)) dma_world = (SPW_OK, h, w1)"
    using dma_world_reset by (metis prod.collapse)
  let ?nb = "(slot_buffer 1000 0 dma_lent)\<lparr>buf_owner_epoch := Some 4096, buf_epoch := 1\<rparr>"
  have "ports_from {DRIVER_OPS, DRIVER_WAIT_OPS, DRIVER_DMA_OPS, DRIVER_DMA_WAIT_OPS} {driver_destroy} (\<lambda>_. True) dma_world"
    by (auto simp: ports_from_def dma_world_def dma_port_def split: if_splits)
  moreover have "keeps_bindings dma_memory dma_lent"
    unfolding dma_lent_def dma_opened_def driver_construct_def
    by (auto simp: Let_def clear_slots_def intro!: keeps_bindings_trans [OF _ keeps_bindings_loans(1)]
        keeps_bindings_clear keeps_bindings_driver(6) keeps_bindings_refl)
  then have unbound: "buf_owner_epoch nb = None" if "m_buffers dma_lent b = Some nb" for b nb
    using that by (force simp: keeps_bindings_def dma_memory_def)
  have "epochs_ok dma_world"
    by (auto simp: epochs_ok_def dma_world_def dma_port_def dest: unbound split: if_splits)
  moreover have "epoch_room (Suc 0) dma_world"
    by (auto simp: epoch_room_def dma_world_def dma_port_def split: if_splits)
  moreover have "m_buffers (w_memory dma_world) 1032 = Some ?nb" "buf_owner_epoch ?nb = Some 4096"
    by (simp_all add: dma_world_def)
  ultimately show ?thesis
    using driver_reset_revokes_handles [of dma_world "[]" 1032 ?nb 4096 h w1 "[]" w1
        "Submit_Tx (Some 4096) (Some 1032) 0"] run
    by auto
qed

end
