(* ===== verification/Vspd_Frames.thy ===== *)
theory Vspd_Frames
  imports Vspd_Protocol
begin

text \<open>
  The frames that the device backend and the daemon build. Both fill a zeroed header the same way
  (\<open>base_header\<close>), encode it in front of the payload (\<open>vspd_frame\<close>), and cut a packet into fragments
  by the same computation (\<open>data_header\<close>). Here it is shown that what one side builds is what
  \<open>vspd_validate_frame\<close> on the other side accepts, with the header it was built from.
\<close>

unbundle bit_operations_syntax

section \<open>Frames\<close>

text \<open>\<open>memset (&header, 0, ...)\<close> and the five fields that every frame has.\<close>

definition base_header :: "u8 \<Rightarrow> vspd_header" where
  "base_header type = zero_vspd_header\<lparr>vh_magic := VSPD_MAGIC, vh_version_major := VSPD_VERSION_MAJOR,
     vh_version_minor := VSPD_VERSION_MINOR, vh_type := type, vh_header_size := 40\<rparr>"

text \<open>
  The header is encoded at the start of a local buffer and the payload copied behind it; only these
  bytes are sent, the rest of the buffer is never read. \<open>None\<close> is a failure of the encoder.
\<close>

definition vspd_frame :: "vspd_header \<Rightarrow> bytes \<Rightarrow> bytes option" where
  "vspd_frame header payload =
     (case vspd_encode_header (Some header) (Some (replicate VSPD_HEADER_SIZE 0)) of
        (result, out) \<Rightarrow> if result \<noteq> VSPD_CODEC_OK then None else Some (the out @ payload))"

lemma vspd_frame_some:
  "vspd_frame h p = Some f \<longleftrightarrow> vspd_validate_common (Some h) = VSPD_CODEC_OK \<and>
     f = write_vspd_header h (replicate 40 0) @ p"
  by (auto simp: vspd_frame_def vspd_encode_header_def Let_def)

lemma vspd_frame_ok:
  "vspd_validate_common (Some h) = VSPD_CODEC_OK \<Longrightarrow> vspd_frame h p = Some (write_vspd_header h (replicate 40 0) @ p)"
  by (simp add: vspd_frame_some)

lemma read_vspd_header_append:
  assumes "length d = 40"
  shows "read_vspd_header (d @ p) = read_vspd_header d"
  using assms by (simp add: read_vspd_header_def vspd_read_be16_def vspd_read_be32_def nth_append)

lemma validate_vspd_frame:
  assumes "vspd_frame h p = Some f" and "length p = unat (vh_payload_size h)"
    and "vspd_validate_payload_shape h (if vh_payload_size h = 0 then None else Some p) = VSPD_CODEC_OK"
  shows "vspd_validate_frame (Some f) (Some out) = (VSPD_CODEC_OK, Some h)"
    and "length f = 40 + length p" and "drop 40 f = p"
proof -
  note f = assms(1) [unfolded vspd_frame_some]
  show "length f = 40 + length p" "drop 40 f = p" using f by simp_all
  have "read_vspd_header f = h" using f by (simp add: read_vspd_header_append read_write_vspd_header)
  then have "vspd_decode_header (Some f) (Some zero_vspd_header) = (VSPD_CODEC_OK, Some h)"
    using f by (simp add: decode_header_ok)
  with \<open>drop 40 f = p\<close> \<open>length f = 40 + length p\<close> assms(2,3)
  show "vspd_validate_frame (Some f) (Some out) = (VSPD_CODEC_OK, Some h)"
    by (cases "vh_payload_size h = 0") (simp_all add: vspd_validate_frame_def Let_def)
qed

section \<open>Fragments of a packet\<close>

definition chunk_at :: "u32 \<Rightarrow> u32 \<Rightarrow> u32" where
  "chunk_at len offset =
     (let remaining = len - offset in if unat remaining > VSPD_MAX_FRAME_PAYLOAD then 32768 else remaining)"

definition final_at :: "u32 \<Rightarrow> u32 \<Rightarrow> bool" where
  "final_at len offset \<longleftrightarrow> len = 0 \<or> offset + chunk_at len offset = len"

definition data_flags :: "u32 \<Rightarrow> u32 \<Rightarrow> u8 \<Rightarrow> u8" where
  "data_flags len offset terminator =
     (let flags = (if offset = 0 then VSPD_FLAG_FRAGMENT_START else 0)
      in if final_at len offset
         then flags OR VSPD_FLAG_FRAGMENT_END OR
           (if terminator = SPW_TERMINATOR_EEP then VSPD_FLAG_EEP else VSPD_FLAG_EOP)
         else flags)"

definition data_header :: "u8 \<Rightarrow> u32 \<Rightarrow> u32 \<Rightarrow> u32 \<Rightarrow> u32 \<Rightarrow> u32 \<Rightarrow> u8 \<Rightarrow> vspd_header" where
  "data_header type request_id port_id message_id len offset terminator =
     (base_header type)\<lparr>vh_payload_size := chunk_at len offset, vh_request_id := request_id,
       vh_port_id := port_id, vh_message_id := message_id, vh_fragment_offset := offset,
       vh_total_size := len, vh_flags := data_flags len offset terminator\<rparr>"

text \<open>A position where a fragment starts: the loops only visit such offsets.\<close>

definition fragment_position :: "u32 \<Rightarrow> u32 \<Rightarrow> bool" where
  "fragment_position len offset \<longleftrightarrow> unat len \<le> VSPD_MAX_LOGICAL_PACKET \<and> (offset < len \<or> len = 0 \<and> offset = 0)"

lemma fragment_position_start: "unat len \<le> VSPD_MAX_LOGICAL_PACKET \<Longrightarrow> fragment_position len 0"
  by (simp add: fragment_position_def word_gt_0)

lemma chunk_at_unat:
  assumes "fragment_position len offset"
  shows "unat (chunk_at len offset) = min VSPD_MAX_FRAME_PAYLOAD (unat len - unat offset)"
    and "unat offset + unat (chunk_at len offset) \<le> unat len"
    and "chunk_at len offset = 0 \<longleftrightarrow> len = 0"
proof -
  have le: "offset \<le> len" using assms by (auto simp: fragment_position_def)
  have r: "unat (len - offset) = unat len - unat offset" using le by (simp add: unat_sub)
  show c: "unat (chunk_at len offset) = min VSPD_MAX_FRAME_PAYLOAD (unat len - unat offset)"
    by (simp add: chunk_at_def Let_def r)
  show "unat offset + unat (chunk_at len offset) \<le> unat len"
    using le by (simp add: c word_le_nat_alt)
  have "chunk_at len offset = 0 \<longleftrightarrow> unat (chunk_at len offset) = 0" by (simp add: unat_eq_0)
  also have "\<dots> \<longleftrightarrow> len = 0"
    using assms by (auto simp: c fragment_position_def word_less_nat_alt unat_eq_0)
  finally show "chunk_at len offset = 0 \<longleftrightarrow> len = 0" .
qed

lemma chunk_progress:
  assumes "n = offset + chunk_at len offset" and "n \<noteq> len"
  shows "unat (len - n) < unat (len - offset)"
proof (cases "unat (len - offset) > VSPD_MAX_FRAME_PAYLOAD")
  case True
  then have c: "chunk_at len offset = 32768" by (simp add: chunk_at_def)
  from True have "(32768 :: u32) \<le> len - offset" by (simp add: word_le_nat_alt)
  then have "unat (len - offset - 32768) = unat (len - offset) - 32768" by (simp add: unat_sub)
  with True c assms(1) show ?thesis by (simp add: diff_diff_eq)
next
  case False
  then show ?thesis using assms by (simp add: chunk_at_def)
qed

lemma final_at_unat:
  assumes "fragment_position len offset"
  shows "final_at len offset \<longleftrightarrow> unat offset + unat (chunk_at len offset) = unat len"
proof -
  note c = chunk_at_unat [OF assms]
  have "unat len < 2 ^ LENGTH(32)" by (rule unsigned_less)
  then have "unat (offset + chunk_at len offset) = unat offset + unat (chunk_at len offset)"
    using c(2) by (subst unat_add_lem [symmetric]) simp
  then show ?thesis using c(3) assms by (auto simp: final_at_def word_unat_eq_iff fragment_position_def word_less_nat_alt)
qed

lemma next_fragment_position:
  assumes "fragment_position len offset" and "\<not> final_at len offset"
  shows "fragment_position len (offset + chunk_at len offset)"
    and "unat (offset + chunk_at len offset) = unat offset + unat (chunk_at len offset)"
    and "chunk_at len offset = 32768"
proof -
  note c = chunk_at_unat [OF assms(1)]
  have "unat len < 2 ^ LENGTH(32)" by (rule unsigned_less)
  then show s: "unat (offset + chunk_at len offset) = unat offset + unat (chunk_at len offset)"
    using c(2) by (subst unat_add_lem [symmetric]) simp
  have less: "unat offset + unat (chunk_at len offset) < unat len"
    using assms c(2) by (simp add: final_at_unat)
  then show "fragment_position len (offset + chunk_at len offset)"
    using assms(1) s by (simp add: fragment_position_def word_less_nat_alt)
  have "unat (chunk_at len offset) = 32768" using less c(1) by linarith
  then show "chunk_at len offset = 32768" by (simp add: word_unat_eq_iff)
qed

lemma data_flags_simps [simp]:
  "data_flags len offset t AND VSPD_FLAG_RESPONSE = 0"
  "data_flags len offset t AND - 32 = 0"
  "data_flags len offset t AND VSPD_FLAG_FRAGMENT_START = 0 \<longleftrightarrow> offset \<noteq> 0"
  "data_flags len offset t AND VSPD_FLAG_FRAGMENT_END = 0 \<longleftrightarrow> \<not> final_at len offset"
  "data_flags len offset t AND VSPD_FLAG_EOP = 0 \<longleftrightarrow> \<not> (final_at len offset \<and> t \<noteq> SPW_TERMINATOR_EEP)"
  "data_flags len offset t AND VSPD_FLAG_EEP = 0 \<longleftrightarrow> \<not> (final_at len offset \<and> t = SPW_TERMINATOR_EEP)"
  by (auto simp: data_flags_def Let_def)

lemma data_header_fields [simp]:
  "vh_type (data_header ty rid p mid len off t) = ty"
  "vh_flags (data_header ty rid p mid len off t) = data_flags len off t"
  "vh_payload_size (data_header ty rid p mid len off t) = chunk_at len off"
  "vh_request_id (data_header ty rid p mid len off t) = rid"
  "vh_port_id (data_header ty rid p mid len off t) = p"
  "vh_message_id (data_header ty rid p mid len off t) = mid"
  "vh_fragment_offset (data_header ty rid p mid len off t) = off"
  "vh_total_size (data_header ty rid p mid len off t) = len"
  "vh_status (data_header ty rid p mid len off t) = 0"
  by (simp_all add: data_header_def base_header_def zero_vspd_header_def)

lemma data_header_common:
  assumes "fragment_position len off" and "vspd_type_valid ty"
  shows "vspd_validate_common (Some (data_header ty rid p mid len off t)) = VSPD_CODEC_OK"
  using assms chunk_at_unat(1) [OF assms(1)]
  by (simp add: vspd_validate_common_def) (simp add: data_header_def base_header_def zero_vspd_header_def)

lemma data_header_shape:
  assumes "fragment_position len off" and "mid \<noteq> 0"
    and "ty = VSPD_MSG_DATA_TX \<and> rid \<noteq> 0 \<or> ty = VSPD_MSG_DATA_RX \<and> rid = 0"
  shows "vspd_validate_payload_shape (data_header ty rid p mid len off t) payload = VSPD_CODEC_OK \<or>
    payload = None \<and> len \<noteq> 0"
proof -
  note c = chunk_at_unat [OF assms(1)]
  have u: "unat (ucast x :: u64) = unat x" for x :: u32 by (rule unat_ucast_widen) simp
  have "unat x < 2 ^ LENGTH(32)" for x :: u32 by (rule unsigned_less)
  from this [of off] this [of "chunk_at len off"]
  have sum: "unat ((ucast off :: u64) + ucast (chunk_at len off)) = unat off + unat (chunk_at len off)"
    by (subst unat_add_small) (simp_all add: u)
  have inside: "\<not> (ucast len :: u64) < (ucast off :: u64) + ucast (chunk_at len off)"
    using c(2) by (simp add: word_less_nat_alt sum u)
  have last: "(ucast off :: u64) + ucast (chunk_at len off) = ucast len \<longleftrightarrow> final_at len off"
    by (simp add: word_unat_eq_iff sum u final_at_unat [OF assms(1)])
  have zero: "len = 0 \<Longrightarrow> off = 0 \<and> final_at len off" "unat len \<le> VSPD_MAX_LOGICAL_PACKET"
    using assms(1) by (auto simp: fragment_position_def final_at_def)
  have shape: "vspd_validate_data_shape (data_header ty rid p mid len off t) = VSPD_CODEC_OK"
  proof (cases "len = 0")
    case True
    with assms(2) zero c(3) show ?thesis
      by (simp add: vspd_validate_data_shape_def Let_def inside [unfolded True, simplified] final_at_def)
  next
    case False
    with assms(2) zero c(3) show ?thesis by (simp add: vspd_validate_data_shape_def Let_def inside last)
  qed
  have type: "ty = VSPD_MSG_DATA_TX \<or> ty = VSPD_MSG_DATA_RX" "vspd_type_is_event ty \<longleftrightarrow> rid = 0"
    using assms(3) by (auto simp: vspd_type_is_event_def)
  then have head: "header_shape (data_header ty rid p mid len off t) = VSPD_CODEC_OK"
    using shape by (simp add: header_shape_def)
  show ?thesis
  proof (cases payload)
    case None
    then show ?thesis using head c(3) by (simp add: vspd_validate_payload_shape_def)
  next
    case (Some x)
    have "vspd_validate_payload_shape (data_header ty rid p mid len off t) payload = VSPD_CODEC_OK"
      using type(1) head by (elim disjE) (simp_all add: vspd_validate_payload_shape_def Some)
    then show ?thesis ..
  qed
qed

text \<open>A fragment built by one side is accepted by the other, with the header it was built from.\<close>

lemma data_frame_accepted:
  assumes "fragment_position len off" and "mid \<noteq> 0"
    and "ty = VSPD_MSG_DATA_TX \<and> rid \<noteq> 0 \<or> ty = VSPD_MSG_DATA_RX \<and> rid = 0"
    and "length p = unat (chunk_at len off)"
  obtains f where "vspd_frame (data_header ty rid port mid len off t) p = Some f"
    and "vspd_validate_frame (Some f) (Some out) = (VSPD_CODEC_OK, Some (data_header ty rid port mid len off t))"
    and "length f = 40 + length p" and "drop 40 f = p"
proof -
  let ?h = "data_header ty rid port mid len off t"
  have "vspd_type_valid ty" using assms(3) by (auto simp: vspd_type_valid_def)
  then obtain f where f: "vspd_frame ?h p = Some f"
    using data_header_common [OF assms(1)] vspd_frame_ok by blast
  have "vspd_validate_payload_shape ?h (if vh_payload_size ?h = 0 then None else Some p) = VSPD_CODEC_OK"
    using data_header_shape [OF assms(1-3), of port t "if vh_payload_size ?h = 0 then None else Some p"]
      chunk_at_unat(3) [OF assms(1)] by auto
  with f assms(4) validate_vspd_frame [OF f] that show ?thesis by simp
qed

section \<open>The frames of a packet\<close>

text \<open>The reference description of the fragmentation: the bytes from every multiple of the payload limit on.\<close>

definition fragment_total :: "nat \<Rightarrow> nat" where
  "fragment_total n = max 1 ((n + (VSPD_MAX_FRAME_PAYLOAD - 1)) div VSPD_MAX_FRAME_PAYLOAD)"

definition fragment_bytes :: "bytes \<Rightarrow> nat \<Rightarrow> bytes" where
  "fragment_bytes data k = take VSPD_MAX_FRAME_PAYLOAD (drop (VSPD_MAX_FRAME_PAYLOAD * k) data)"

definition fragment_header :: "u8 \<Rightarrow> u32 \<Rightarrow> u32 \<Rightarrow> u32 \<Rightarrow> u8 \<Rightarrow> bytes \<Rightarrow> nat \<Rightarrow> vspd_header" where
  "fragment_header type request_id port_id message_id terminator data k =
     data_header type request_id port_id message_id (of_nat (length data)) (of_nat (VSPD_MAX_FRAME_PAYLOAD * k)) terminator"

definition packet_frames :: "u8 \<Rightarrow> u32 \<Rightarrow> u32 \<Rightarrow> u32 \<Rightarrow> u8 \<Rightarrow> bytes \<Rightarrow> bytes list" where
  "packet_frames type request_id port_id message_id terminator data =
     map (\<lambda>k. the (vspd_frame (fragment_header type request_id port_id message_id terminator data k) (fragment_bytes data k)))
       [0..<fragment_total (length data)]"

lemma fragment_total_cases: "fragment_total 0 = 1" "0 < n \<Longrightarrow> fragment_total n = (n + 32767) div 32768"
  by (simp_all add: fragment_total_def max_def)

lemma fragment_position_nat:
  assumes "n \<le> VSPD_MAX_LOGICAL_PACKET" and "k < fragment_total n"
  shows "unat (of_nat n :: u32) = n" and "unat (of_nat (VSPD_MAX_FRAME_PAYLOAD * k) :: u32) = VSPD_MAX_FRAME_PAYLOAD * k"
    and "fragment_position (of_nat n) (of_nat (VSPD_MAX_FRAME_PAYLOAD * k))"
proof -
  have k: "32768 * k < n \<or> n = 0 \<and> k = 0"
  proof (cases "n = 0")
    case True
    then show ?thesis using assms(2) by (simp add: fragment_total_def)
  next
    case False
    then have "k < (n + 32767) div 32768" using assms(2) by (auto simp: fragment_total_def max_def split: if_splits)
    then show ?thesis by linarith
  qed
  show n: "unat (of_nat n :: u32) = n" using assms(1) by (simp add: unat_of_nat take_bit_nat_eq_self)
  show o: "unat (of_nat (VSPD_MAX_FRAME_PAYLOAD * k) :: u32) = VSPD_MAX_FRAME_PAYLOAD * k"
    using assms(1) k by (subst unat_of_nat) (auto intro!: take_bit_nat_eq_self)
  show "fragment_position (of_nat n) (of_nat (VSPD_MAX_FRAME_PAYLOAD * k))"
    using k assms(1) n o by (auto simp: fragment_position_def word_less_nat_alt)
qed

lemma fragment_chunk:
  assumes "length data \<le> VSPD_MAX_LOGICAL_PACKET" and "k < fragment_total (length data)"
  shows "unat (chunk_at (of_nat (length data)) (of_nat (VSPD_MAX_FRAME_PAYLOAD * k))) = length (fragment_bytes data k)"
    and "final_at (of_nat (length data)) (of_nat (VSPD_MAX_FRAME_PAYLOAD * k)) \<longleftrightarrow> Suc k = fragment_total (length data)"
proof -
  note p = fragment_position_nat [OF assms]
  note c = chunk_at_unat(1) [OF p(3), unfolded p]
  show "unat (chunk_at (of_nat (length data)) (of_nat (VSPD_MAX_FRAME_PAYLOAD * k))) = length (fragment_bytes data k)"
    using c by (simp add: fragment_bytes_def min.commute)
  show "final_at (of_nat (length data)) (of_nat (VSPD_MAX_FRAME_PAYLOAD * k)) \<longleftrightarrow> Suc k = fragment_total (length data)"
    using assms(2) p(3) unfolding final_at_unat [OF p(3)] c p(1,2)
    by (cases "length data = 0") (auto simp: fragment_total_cases fragment_position_def word_less_nat_alt p)
qed

lemma fragment_next:
  fixes data :: bytes
  assumes "length data \<le> VSPD_MAX_LOGICAL_PACKET" and "Suc k < fragment_total (length data)"
  shows "chunk_at (of_nat (length data)) (of_nat (VSPD_MAX_FRAME_PAYLOAD * k)) = 32768"
    and "(of_nat (VSPD_MAX_FRAME_PAYLOAD * k) :: u32) + 32768 = of_nat (VSPD_MAX_FRAME_PAYLOAD * Suc k)"
    and "VSPD_MAX_FRAME_PAYLOAD * Suc k < length data"
proof -
  have k: "k < fragment_total (length data)" "\<not> final_at (of_nat (length data)) (of_nat (VSPD_MAX_FRAME_PAYLOAD * k))"
    using assms fragment_chunk(2) [OF assms(1), of k] by auto
  show "chunk_at (of_nat (length data)) (of_nat (VSPD_MAX_FRAME_PAYLOAD * k)) = 32768"
    using next_fragment_position(3) [OF fragment_position_nat(3) k(2)] assms(1) k(1) by blast
  show "(of_nat (VSPD_MAX_FRAME_PAYLOAD * k) :: u32) + 32768 = of_nat (VSPD_MAX_FRAME_PAYLOAD * Suc k)"
    by (simp add: algebra_simps)
  show "VSPD_MAX_FRAME_PAYLOAD * Suc k < length data"
    using assms(2) by (simp add: fragment_total_def max_def split: if_splits)
qed

lemma fragment_accepted:
  assumes "length data \<le> VSPD_MAX_LOGICAL_PACKET" and "k < fragment_total (length data)" and "mid \<noteq> 0"
    and "ty = VSPD_MSG_DATA_TX \<and> rid \<noteq> 0 \<or> ty = VSPD_MSG_DATA_RX \<and> rid = 0"
  obtains f where "vspd_frame (fragment_header ty rid port mid t data k) (fragment_bytes data k) = Some f"
    and "vspd_validate_frame (Some f) (Some out) = (VSPD_CODEC_OK, Some (fragment_header ty rid port mid t data k))"
    and "length f = 40 + length (fragment_bytes data k)" and "drop 40 f = fragment_bytes data k"
  using data_frame_accepted [OF fragment_position_nat(3) [OF assms(1,2)] assms(3,4) fragment_chunk(1) [OF assms(1,2), symmetric]]
  unfolding fragment_header_def by metis

lemma fragments_concat: "concat (map (fragment_bytes data) [0..<k]) = take (VSPD_MAX_FRAME_PAYLOAD * k) data"
  by (induction k) (simp_all add: fragment_bytes_def take_add [symmetric] add.commute)

lemma fragments_cover: "concat (map (fragment_bytes data) [0..<fragment_total (length data)]) = data"
proof -
  have "length data \<le> VSPD_MAX_FRAME_PAYLOAD * fragment_total (length data)"
    by (simp add: fragment_total_def max_def) linarith
  then show ?thesis by (simp only: fragments_concat take_all)
qed

end
