(* ===== verification/Device_Backend.thy ===== *)
theory Device_Backend
  imports Port_Calls Vspd_Frames
begin

text \<open>
  The device backend (\<open>src/backends/device/device_backend.c\<close>): a port of the virtual device daemon,
  reached over a local socket with the VSPD protocol.

  The operating system is not part of the library. What it answers to the calls that a context makes
  is a finite script: the readings of the clock, the results of \<open>socket\<close>, \<open>connect\<close>, \<open>send\<close>, \<open>recv\<close> and
  \<open>poll\<close>, each consumed in order by the call that asks for it. When a script has run out the socket is
  broken and a wait times out. The theorems quantify over all scripts, so they hold for everything
  the system and the daemon may do in a run in which every call returns. The records the socket has
  accepted and the descriptors opened and closed are kept in logs. \<open>rx_data\<close> is a function on the
  positions of the array; that only its positions are written is a theorem.
\<close>

unbundle bit_operations_syntax

section \<open>State\<close>

datatype errno = EINTR | EAGAIN | EOTHER

datatype send_outcome = Sent nat | Send_error errno
datatype recv_outcome = Received bytes | Recv_error errno
datatype poll_outcome = Poll_ready u16 | Poll_timeout | Poll_error errno

abbreviation DEVICE_TIME_CODE_QUEUE_DEPTH :: nat where "DEVICE_TIME_CODE_QUEUE_DEPTH \<equiv> 8"

record device_context =
  dc_config :: spw_device_config
  dc_fd :: int
  dc_next_request_id :: u32
  dc_next_message_id :: u32
  dc_desired_started :: bool
  dc_state :: u8
  dc_capabilities :: spw_capabilities
  rx_active :: bool
  rx_ready :: bool
  rx_message_id :: u32
  rx_total_size :: u32
  rx_next_offset :: u32
  rx_terminator :: u8
  rx_data :: "nat \<Rightarrow> u8"
  dc_time_codes :: "spw_time_code list"
  dc_time_code_head :: nat
  dc_time_code_count :: nat

record device = device_context +
  hs_clock :: "(u64 \<times> u64) option list"
  hs_sockets :: "int list"
  hs_connects :: "bool list"
  hs_sends :: "send_outcome list"
  hs_receives :: "recv_outcome list"
  hs_polls :: "poll_outcome list"
  hs_sent :: "bytes list"
  hs_opened :: "int list"
  hs_closed :: "int list"

type_synonym devices = "addr \<rightharpoonup> device"

definition zero_device_config :: spw_device_config where
  "zero_device_config = \<lparr>dev_struct_size = 0, dev_version = 0, dev_port_id = 0, dev_reserved = 0,
     dev_endpoint = replicate 108 0\<rparr>"

definition zero_capabilities :: spw_capabilities where
  "zero_capabilities = \<lparr>cap_bits = 0, cap_max_packet_size = 0, cap_tx_queue_depth = 0,
     cap_rx_queue_depth = 0, cap_buffer_alignment = 0\<rparr>"

text \<open>\<open>memset (context, 0, sizeof (*context))\<close>; the host is not part of the context.\<close>

definition zero_context :: "device \<Rightarrow> device" where
  "zero_context d = d\<lparr>dc_config := zero_device_config, dc_fd := 0, dc_next_request_id := 0,
     dc_next_message_id := 0, dc_desired_started := False, dc_state := 0,
     dc_capabilities := zero_capabilities, rx_active := False, rx_ready := False, rx_message_id := 0,
     rx_total_size := 0, rx_next_offset := 0, rx_terminator := 0, rx_data := (\<lambda>_. 0),
     dc_time_codes := replicate DEVICE_TIME_CODE_QUEUE_DEPTH \<lparr>time_count = 0, control_flags = 0\<rparr>,
     dc_time_code_head := 0, dc_time_code_count := 0\<rparr>"

section \<open>Time\<close>

abbreviation UINT64_MAX :: u64 where "UINT64_MAX \<equiv> - 1"

definition monotonic_us :: "device \<Rightarrow> u64 \<times> device" where
  "monotonic_us d = (case hs_clock d of [] \<Rightarrow> (0, d)
     | None # ts \<Rightarrow> (0, d\<lparr>hs_clock := ts\<rparr>)
     | Some (tv_sec, tv_nsec) # ts \<Rightarrow> (tv_sec * 1000000 + tv_nsec div 1000, d\<lparr>hs_clock := ts\<rparr>))"

definition deadline_for :: "u64 \<Rightarrow> device \<Rightarrow> u64 \<times> device" where
  "deadline_for timeout_us d =
     (if timeout_us = SPW_TIMEOUT_INFINITE then (UINT64_MAX, d)
      else let (now, d) = monotonic_us d
        in (if UINT64_MAX - now < timeout_us then UINT64_MAX - 1 else now + timeout_us, d))"

definition poll_timeout_ms :: "u64 \<Rightarrow> device \<Rightarrow> int \<times> device" where
  "poll_timeout_ms deadline d =
     (if deadline = UINT64_MAX then (- 1, d)
      else let (now, d) = monotonic_us d in
        if now \<ge> deadline then (0, d)
        else let remaining = deadline - now
          in (if remaining > 2147483647 * 1000 then 2147483647 else uint ((remaining + 999) div 1000), d))"

definition status_to_result :: "u32 \<Rightarrow> spw_result" where
  "status_to_result status =
     (if status = VSPD_STATUS_OK then SPW_OK
      else if status = VSPD_STATUS_INVALID_ARGUMENT then SPW_ERR_INVALID_ARGUMENT
      else if status = VSPD_STATUS_INVALID_STATE then SPW_ERR_INVALID_STATE
      else if status = VSPD_STATUS_TIMEOUT then SPW_ERR_TIMEOUT
      else if status = VSPD_STATUS_UNSUPPORTED then SPW_ERR_UNSUPPORTED
      else if status = VSPD_STATUS_RESOURCE_EXHAUSTED then SPW_ERR_RESOURCE_EXHAUSTED
      else if status = VSPD_STATUS_LINK_UNAVAILABLE then SPW_ERR_LINK_UNAVAILABLE
      else if status = VSPD_STATUS_BUFFER_TOO_SMALL then SPW_ERR_BUFFER_TOO_SMALL
      else if status = VSPD_STATUS_INVALID_PACKET then SPW_ERR_INVALID_PACKET
      else SPW_ERR_BACKEND)"

section \<open>The socket\<close>

definition clear_rx :: "device \<Rightarrow> device" where
  "clear_rx d = d\<lparr>rx_active := False, rx_ready := False, rx_message_id := 0, rx_total_size := 0,
     rx_next_offset := 0, rx_terminator := SPW_TERMINATOR_EOP\<rparr>"

definition close_fd :: "device \<Rightarrow> device" where
  "close_fd d = (if dc_fd d \<ge> 0 then d\<lparr>hs_closed := hs_closed d @ [dc_fd d]\<rparr> else d)"

definition mark_disconnected :: "device \<Rightarrow> device" where
  "mark_disconnected d =
     (clear_rx ((close_fd d)\<lparr>dc_fd := - 1, dc_state := SPW_LINK_ERROR_WAIT\<rparr>))
       \<lparr>dc_time_code_head := 0, dc_time_code_count := 0\<rparr>"

abbreviation POLLIN :: u16 where "POLLIN \<equiv> 1"
abbreviation POLLOUT :: u16 where "POLLOUT \<equiv> 4"
abbreviation POLLERR :: u16 where "POLLERR \<equiv> 8"
abbreviation POLLHUP :: u16 where "POLLHUP \<equiv> 16"
abbreviation POLLNVAL :: u16 where "POLLNVAL \<equiv> 32"

text \<open>The loop of \<open>wait_fd\<close>, one result of \<open>poll\<close> per round.\<close>

fun wait_polls :: "poll_outcome list \<Rightarrow> u16 \<Rightarrow> u64 \<Rightarrow> device \<Rightarrow> spw_result \<times> device" where
  "wait_polls [] events deadline d = (SPW_ERR_TIMEOUT, (snd (poll_timeout_ms deadline d))\<lparr>hs_polls := []\<rparr>)"
| "wait_polls (p # ps) events deadline d =
     (let d = (snd (poll_timeout_ms deadline d))\<lparr>hs_polls := ps\<rparr> in
      case p of
        Poll_ready revents \<Rightarrow>
          if revents AND (POLLERR OR POLLHUP OR POLLNVAL) \<noteq> 0
          then (SPW_ERR_LINK_UNAVAILABLE, mark_disconnected d)
          else if revents AND events \<noteq> 0 then (SPW_OK, d)
          else wait_polls ps events deadline d
      | Poll_timeout \<Rightarrow> (SPW_ERR_TIMEOUT, d)
      | Poll_error e \<Rightarrow>
          if e \<noteq> EINTR then (SPW_ERR_LINK_UNAVAILABLE, mark_disconnected d)
          else wait_polls ps events deadline d)"

definition wait_fd :: "u16 \<Rightarrow> u64 \<Rightarrow> device \<Rightarrow> spw_result \<times> device" where
  "wait_fd events deadline d = wait_polls (hs_polls d) events deadline d"

text \<open>\<open>deadline != UINT64_MAX && poll_timeout_ms (deadline) == 0\<close>.\<close>

definition deadline_passed :: "u64 \<Rightarrow> device \<Rightarrow> bool \<times> device" where
  "deadline_passed deadline d =
     (if deadline = UINT64_MAX then (False, d)
      else let (ms, d) = poll_timeout_ms deadline d in (ms = 0, d))"

text \<open>The loops of \<open>send_record\<close> and \<open>receive_record\<close>, one result of \<open>send\<close> or \<open>recv\<close> per round.\<close>

fun send_attempts :: "send_outcome list \<Rightarrow> bytes \<Rightarrow> u64 \<Rightarrow> device \<Rightarrow> spw_result \<times> device" where
  "send_attempts [] data deadline d = (SPW_ERR_LINK_UNAVAILABLE, mark_disconnected (d\<lparr>hs_sends := []\<rparr>))"
| "send_attempts (s # ss) data deadline d =
     (let d = d\<lparr>hs_sends := ss\<rparr> in
      case s of
        Sent n \<Rightarrow>
          if n = length data then (SPW_OK, d\<lparr>hs_sent := hs_sent d @ [data]\<rparr>)
          else (SPW_ERR_BACKEND, mark_disconnected d)
      | Send_error EINTR \<Rightarrow>
          let (passed, d) = deadline_passed deadline d
          in if passed then (SPW_ERR_TIMEOUT, d) else send_attempts ss data deadline d
      | Send_error EAGAIN \<Rightarrow>
          let (result, d) = wait_fd POLLOUT deadline d
          in if result \<noteq> SPW_OK then (result, d) else send_attempts ss data deadline d
      | Send_error EOTHER \<Rightarrow> (SPW_ERR_LINK_UNAVAILABLE, mark_disconnected d))"

definition send_record :: "bytes \<Rightarrow> u64 \<Rightarrow> device \<Rightarrow> spw_result \<times> device" where
  "send_record data deadline d = send_attempts (hs_sends d) data deadline d"

abbreviation FRAME_CAPACITY :: nat where "FRAME_CAPACITY \<equiv> VSPD_HEADER_SIZE + VSPD_MAX_FRAME_PAYLOAD"

fun receive_attempts :: "recv_outcome list \<Rightarrow> u64 \<Rightarrow> device \<Rightarrow> spw_result \<times> bytes \<times> device" where
  "receive_attempts [] deadline d = (SPW_ERR_LINK_UNAVAILABLE, [], mark_disconnected (d\<lparr>hs_receives := []\<rparr>))"
| "receive_attempts (r # rs) deadline d =
     (let d = d\<lparr>hs_receives := rs\<rparr> in
      case r of
        Received data \<Rightarrow>
          if data \<noteq> [] then (SPW_OK, take FRAME_CAPACITY data, d)
          else (SPW_ERR_LINK_UNAVAILABLE, [], mark_disconnected d)
      | Recv_error EINTR \<Rightarrow>
          let (passed, d) = deadline_passed deadline d
          in if passed then (SPW_ERR_TIMEOUT, [], d) else receive_attempts rs deadline d
      | Recv_error EAGAIN \<Rightarrow>
          let (result, d) = wait_fd POLLIN deadline d
          in if result \<noteq> SPW_OK then (result, [], d) else receive_attempts rs deadline d
      | Recv_error EOTHER \<Rightarrow> (SPW_ERR_LINK_UNAVAILABLE, [], mark_disconnected d))"

definition receive_record :: "u64 \<Rightarrow> device \<Rightarrow> spw_result \<times> bytes \<times> device" where
  "receive_record deadline d = receive_attempts (hs_receives d) deadline d"

section \<open>Events\<close>

definition queue_time_code :: "bytes \<Rightarrow> device \<Rightarrow> bool \<times> device" where
  "queue_time_code payload d =
     (if dc_time_code_count d \<ge> DEVICE_TIME_CODE_QUEUE_DEPTH then (False, d)
      else let index = (dc_time_code_head d + dc_time_code_count d) mod DEVICE_TIME_CODE_QUEUE_DEPTH
        in (True, d\<lparr>dc_time_codes := (dc_time_codes d)[index :=
             \<lparr>time_count = payload ! 0, control_flags = payload ! 1\<rparr>],
             dc_time_code_count := dc_time_code_count d + 1\<rparr>))"

text \<open>\<open>memcpy (dst + offset, src, size)\<close> on an array given by its contents.\<close>

definition copy_to :: "(nat \<Rightarrow> u8) \<Rightarrow> nat \<Rightarrow> bytes \<Rightarrow> nat \<Rightarrow> nat \<Rightarrow> u8" where
  "copy_to dst offset src count = (\<lambda>i. if offset \<le> i \<and> i < offset + count then src ! (i - offset) else dst i)"

definition process_data_event :: "vspd_header \<Rightarrow> bytes option \<Rightarrow> device \<Rightarrow> spw_result \<times> device" where
  "process_data_event header payload d =
     (let start = vh_flags header AND VSPD_FLAG_FRAGMENT_START \<noteq> 0;
          fin = vh_flags header AND VSPD_FLAG_FRAGMENT_END \<noteq> 0 in
      if rx_ready d then (SPW_ERR_RESOURCE_EXHAUSTED, d)
      else if start \<and> (rx_active d \<or> vh_fragment_offset header \<noteq> 0 \<or>
        unat (vh_total_size header) > VSPD_MAX_LOGICAL_PACKET) then (SPW_ERR_BACKEND, d)
      else if \<not> start \<and> (\<not> rx_active d \<or> rx_message_id d \<noteq> vh_message_id header \<or>
        rx_total_size d \<noteq> vh_total_size header) then (SPW_ERR_BACKEND, d)
      else let d = (if start then d\<lparr>rx_active := True, rx_message_id := vh_message_id header,
                      rx_total_size := vh_total_size header, rx_next_offset := 0\<rparr> else d) in
        if vh_fragment_offset header \<noteq> rx_next_offset d \<or>
          vh_payload_size header > rx_total_size d - rx_next_offset d then (SPW_ERR_BACKEND, clear_rx d)
        else let d = (if vh_payload_size header \<noteq> 0
                      then d\<lparr>rx_data := copy_to (rx_data d) (unat (rx_next_offset d)) (the payload)
                             (unat (vh_payload_size header))\<rparr> else d);
               d = d\<lparr>rx_next_offset := rx_next_offset d + vh_payload_size header\<rparr> in
          if fin
          then if rx_next_offset d \<noteq> rx_total_size d then (SPW_ERR_BACKEND, clear_rx d)
            else (SPW_OK, d\<lparr>rx_terminator := (if vh_flags header AND VSPD_FLAG_EEP \<noteq> 0 then SPW_TERMINATOR_EEP
                   else SPW_TERMINATOR_EOP), rx_active := False, rx_ready := True\<rparr>)
          else (SPW_OK, d))"

definition process_event :: "vspd_header \<Rightarrow> bytes option \<Rightarrow> device \<Rightarrow> spw_result \<times> device" where
  "process_event header payload d =
     (if vh_type header = VSPD_MSG_LINK_STATE_EVENT
      then (SPW_OK, d\<lparr>dc_state := ucast (vspd_decode_u32_payload payload)\<rparr>)
      else if vh_type header = VSPD_MSG_TIME_CODE_RX
      then let (queued, d) = queue_time_code (the payload) d
        in (if queued then SPW_OK else SPW_ERR_RESOURCE_EXHAUSTED, d)
      else if vh_type header = VSPD_MSG_DATA_RX then process_data_event header payload d
      else (SPW_ERR_BACKEND, d))"

text \<open>\<open>vspd_validate_frame (frame, frame_size, &header)\<close> and the payload behind the header.\<close>

definition received_header :: "bytes \<Rightarrow> vspd_header option" where
  "received_header frame =
     (case vspd_validate_frame (Some frame) (Some zero_vspd_header) of
        (result, header) \<Rightarrow> if result = VSPD_CODEC_OK then header else None)"

definition received_payload :: "vspd_header \<Rightarrow> bytes \<Rightarrow> bytes option" where
  "received_payload header frame = (if vh_payload_size header = 0 then None else Some (drop VSPD_HEADER_SIZE frame))"

section \<open>Requests\<close>

lemma host_receives_unchanged [simp]:
  "hs_receives (snd (monotonic_us d)) = hs_receives d"
  "hs_receives (snd (poll_timeout_ms deadline d)) = hs_receives d"
  "hs_receives (snd (deadline_passed deadline d)) = hs_receives d"
  "hs_receives (clear_rx d) = hs_receives d"
  "hs_receives (mark_disconnected d) = hs_receives d"
  by (auto simp: monotonic_us_def poll_timeout_ms_def deadline_passed_def clear_rx_def mark_disconnected_def
      close_fd_def Let_def split: list.splits option.splits prod.splits)

lemma wait_polls_receives [simp]: "hs_receives (snd (wait_polls ps events deadline d)) = hs_receives d"
  by (induction ps arbitrary: d) (auto simp: Let_def split: poll_outcome.splits)

lemma wait_fd_receives [simp]: "hs_receives (snd (wait_fd events deadline d)) = hs_receives d"
  by (simp add: wait_fd_def)

lemma process_event_receives [simp]: "hs_receives (snd (process_event h p d)) = hs_receives d"
  by (auto simp: process_event_def process_data_event_def queue_time_code_def Let_def)

lemma process_event_receives': "process_event h p d = (r, d') \<Longrightarrow> hs_receives d' = hs_receives d"
  using process_event_receives by (metis snd_conv)

lemma receive_attempts_shorter:
  "receive_attempts rs deadline d = (r, data, d') \<Longrightarrow>
     length (hs_receives d') \<le> length rs \<and> (r = SPW_OK \<longrightarrow> length (hs_receives d') < length rs)"
proof (induction rs arbitrary: d)
  case Nil
  then show ?case by auto
next
  case (Cons out rs)
  show ?case
  proof (cases out)
    case (Received x1)
    then show ?thesis using Cons.prems by (auto simp: Let_def split: if_splits)
  next
    case (Recv_error e)
    let ?d = "d\<lparr>hs_receives := rs\<rparr>"
    obtain passed d1 where p: "deadline_passed deadline ?d = (passed, d1)" by fastforce
    obtain r2 d2 where w: "wait_fd POLLIN deadline ?d = (r2, d2)" by fastforce
    have "hs_receives d1 = rs" "hs_receives d2 = rs"
      using host_receives_unchanged(3) [of deadline ?d] wait_fd_receives [of POLLIN deadline ?d]
      by (simp_all add: p w)
    then show ?thesis
      using Cons.prems Cons.IH [of d1] Cons.IH [of d2] Recv_error p w
      by (cases e) (auto simp: Let_def split: if_splits)
  qed
qed

lemma receive_record_shorter:
  assumes "receive_record deadline d = (SPW_OK, data, d')"
  shows "length (hs_receives d') < length (hs_receives d)"
  using receive_attempts_shorter [OF assms [unfolded receive_record_def]] by simp

text \<open>
  \<open>wait_response\<close>: the output parameters are passed with their old contents; \<open>None\<close> is a null
  pointer. The loop ends because every round consumes a record.
\<close>

function wait_response ::
    "u8 \<Rightarrow> u32 \<Rightarrow> u32 \<Rightarrow> bytes option \<Rightarrow> u32 \<Rightarrow> u32 \<Rightarrow> u64 \<Rightarrow> device \<Rightarrow>
     spw_result \<times> u32 \<times> bytes option \<times> u32 \<times> device" where
  "wait_response type request_id status response capacity response_size deadline d =
     (case receive_record deadline d of (result, frame, d1) \<Rightarrow>
      if result \<noteq> SPW_OK then (result, status, response, response_size, d1)
      else case received_header frame of
        None \<Rightarrow> (SPW_ERR_BACKEND, status, response, response_size, mark_disconnected d1)
      | Some header \<Rightarrow>
          if vh_flags header AND VSPD_FLAG_RESPONSE \<noteq> 0
          then if vh_type header \<noteq> type \<or> vh_request_id header \<noteq> request_id
            then (SPW_ERR_BACKEND, status, response, response_size, mark_disconnected d1)
            else if vh_payload_size header > capacity then (SPW_ERR_BACKEND, status, response, response_size, d1)
            else (SPW_OK, vh_status header,
              map_option (\<lambda>out. drop VSPD_HEADER_SIZE frame @ drop (unat (vh_payload_size header)) out) response,
              vh_payload_size header, d1)
          else case process_event header (received_payload header frame) d1 of (result, d2) \<Rightarrow>
            if result \<noteq> SPW_OK then (result, status, response, response_size, d2)
            else wait_response type request_id status response capacity response_size deadline d2)"
  by pat_completeness auto
termination
  by (relation "measure (\<lambda>(_, _, _, _, _, _, _, d). length (hs_receives d))")
    (auto dest!: sym [of _ "receive_record _ _"] sym [of _ "process_event _ _ _"] receive_record_shorter
      process_event_receives')

declare wait_response.simps [simp del]

definition send_request ::
    "u8 \<Rightarrow> bytes option \<Rightarrow> u32 \<Rightarrow> bytes option \<Rightarrow> u32 \<Rightarrow> u32 \<Rightarrow> u64 \<Rightarrow> device \<Rightarrow>
     spw_result \<times> bytes option \<times> u32 \<times> device" where
  "send_request type payload payload_size response capacity response_size deadline d =
     (let request_id = dc_next_request_id d; d = d\<lparr>dc_next_request_id := request_id + 1\<rparr> in
      if payload_size > VSPD_STATISTICS_PAYLOAD_SIZE then (SPW_ERR_INVALID_ARGUMENT, response, response_size, d)
      else let header = (base_header type)\<lparr>vh_payload_size := payload_size, vh_request_id := request_id,
             vh_port_id := dev_port_id (dc_config d)\<rparr>
        in case vspd_frame header (if payload_size \<noteq> 0 then take (unat payload_size) (the payload) else []) of
             None \<Rightarrow> (SPW_ERR_BACKEND, response, response_size, d)
           | Some frame \<Rightarrow>
               let (result, d) = send_record frame deadline d in
               if result \<noteq> SPW_OK then (result, response, response_size, d)
               else let (result, status, response, response_size, d) =
                      wait_response type request_id VSPD_STATUS_BACKEND response capacity response_size deadline d
                 in (if result = SPW_OK then status_to_result status else result, response, response_size, d))"

text \<open>A request without payloads.\<close>

definition send_empty_request :: "u8 \<Rightarrow> u64 \<Rightarrow> device \<Rightarrow> spw_result \<times> device" where
  "send_empty_request type deadline d =
     (let (result, _, _, d) = send_request type None 0 None 0 0 deadline d in (result, d))"

section \<open>Sessions\<close>

definition open_socket :: "device \<Rightarrow> device" where
  "open_socket d = (case hs_sockets d of [] \<Rightarrow> d\<lparr>dc_fd := - 1\<rparr>
     | fd # fds \<Rightarrow> d\<lparr>dc_fd := fd, hs_sockets := fds, hs_opened := (if fd \<ge> 0 then hs_opened d @ [fd] else hs_opened d)\<rparr>)"

definition connect_socket :: "device \<Rightarrow> bool \<times> device" where
  "connect_socket d = (case hs_connects d of [] \<Rightarrow> (False, d)
     | c # cs \<Rightarrow> (c, d\<lparr>hs_connects := cs\<rparr>))"

definition hello_payload :: bytes where
  "hello_payload = [VSPD_VERSION_MAJOR, VSPD_VERSION_MINOR, 0, 0]"

text \<open>The steps of \<open>connect_session\<close> after the connection: attaching, then the capabilities, then the start.\<close>

definition resume_started :: "u64 \<Rightarrow> device \<Rightarrow> spw_result \<times> device" where
  "resume_started deadline d =
     (if dc_desired_started d
      then let (result, d) = send_empty_request VSPD_MSG_START deadline d
        in if result \<noteq> SPW_OK then (result, mark_disconnected d) else (SPW_OK, d)
      else (SPW_OK, d))"

definition fetch_capabilities :: "bytes \<Rightarrow> u32 \<Rightarrow> u64 \<Rightarrow> device \<Rightarrow> spw_result \<times> device" where
  "fetch_capabilities response response_size deadline d =
     (let (result, response, response_size, d) =
        send_request VSPD_MSG_GET_CAPABILITIES None 0 (Some response) 24 response_size deadline d in
      if result \<noteq> SPW_OK \<or> response_size \<noteq> VSPD_CAPABILITIES_PAYLOAD_SIZE
      then (if result = SPW_OK then SPW_ERR_BACKEND else result, mark_disconnected d)
      else let wire = the (vspd_decode_capabilities response (Some \<lparr>vc_bits = 0, vc_max_packet_size = 0,
                 vc_tx_queue_depth = 0, vc_rx_queue_depth = 0, vc_buffer_alignment = 0\<rparr>))
        in resume_started deadline (d\<lparr>dc_capabilities := \<lparr>cap_bits = vc_bits wire,
             cap_max_packet_size = unat (vc_max_packet_size wire),
             cap_tx_queue_depth = unat (vc_tx_queue_depth wire),
             cap_rx_queue_depth = unat (vc_rx_queue_depth wire),
             cap_buffer_alignment = unat (vc_buffer_alignment wire)\<rparr>\<rparr>))"

definition attach_session :: "bytes \<Rightarrow> u32 \<Rightarrow> u64 \<Rightarrow> device \<Rightarrow> spw_result \<times> device" where
  "attach_session response response_size deadline d =
     (let (result, d) = send_empty_request VSPD_MSG_ATTACH deadline d in
      if result \<noteq> SPW_OK then (result, mark_disconnected d)
      else fetch_capabilities response response_size deadline
        ((clear_rx (d\<lparr>dc_state := SPW_LINK_ERROR_RESET\<rparr>))\<lparr>dc_time_code_head := 0, dc_time_code_count := 0\<rparr>))"

definition connect_session :: "u64 \<Rightarrow> device \<Rightarrow> spw_result \<times> device" where
  "connect_session deadline d =
     (let d = open_socket d in
      if dc_fd d < 0 then (SPW_ERR_LINK_UNAVAILABLE, d)
      else let (connected, d) = connect_socket d in
        if \<not> connected then (SPW_ERR_LINK_UNAVAILABLE, mark_disconnected d)
        else let (result, response, response_size, d) = send_request VSPD_MSG_HELLO (Some hello_payload)
               VSPD_HELLO_PAYLOAD_SIZE (Some (replicate 24 0)) 24 0 deadline d in
          if result \<noteq> SPW_OK \<or> response_size \<noteq> VSPD_HELLO_PAYLOAD_SIZE \<or> take 4 (the response) \<noteq> hello_payload
          then (if result = SPW_OK then SPW_ERR_UNSUPPORTED else result, mark_disconnected d)
          else attach_session (the response) response_size deadline d)"

definition ensure_connected :: "u64 \<Rightarrow> device \<Rightarrow> spw_result \<times> device" where
  "ensure_connected deadline d = (if dc_fd d \<ge> 0 then (SPW_OK, d) else connect_session deadline d)"

definition request_simple :: "u8 \<Rightarrow> u64 \<Rightarrow> device \<Rightarrow> spw_result \<times> device" where
  "request_simple type timeout_us d =
     (let (deadline, d) = deadline_for timeout_us d; (result, d) = ensure_connected deadline d in
      if result \<noteq> SPW_OK then (result, d) else send_empty_request type deadline d)"

section \<open>Operations on a context\<close>

definition construct_context :: "spw_device_config \<Rightarrow> device \<Rightarrow> spw_result \<times> device" where
  "construct_context config d =
     (let d = (zero_context d)\<lparr>dc_config := config, dc_fd := - 1, dc_next_request_id := 1,
            dc_next_message_id := 1, dc_state := SPW_LINK_ERROR_RESET\<rparr>;
          (deadline, d) = deadline_for 1000000 d
      in connect_session deadline d)"

definition destroy_context :: "device \<Rightarrow> device" where
  "destroy_context d =
     (if dc_fd d \<ge> 0
      then let (deadline, d) = deadline_for 100000 d; d = snd (send_empty_request VSPD_MSG_DETACH deadline d)
        in (close_fd d)\<lparr>dc_fd := - 1\<rparr>
      else d\<lparr>dc_fd := - 1\<rparr>)"

definition start_context :: "device \<Rightarrow> spw_result \<times> device" where
  "start_context d = request_simple VSPD_MSG_START SPW_TIMEOUT_INFINITE (d\<lparr>dc_desired_started := True\<rparr>)"

definition stop_context :: "device \<Rightarrow> spw_result \<times> device" where
  "stop_context d = request_simple VSPD_MSG_STOP SPW_TIMEOUT_INFINITE (d\<lparr>dc_desired_started := False\<rparr>)"

definition reset_context :: "device \<Rightarrow> spw_result \<times> device" where
  "reset_context d =
     (let (result, d) = request_simple VSPD_MSG_RESET SPW_TIMEOUT_INFINITE (d\<lparr>dc_desired_started := False\<rparr>)
      in (result, if result = SPW_OK then (clear_rx d)\<lparr>dc_time_code_head := 0, dc_time_code_count := 0\<rparr> else d))"

definition link_state_of_context :: "device \<Rightarrow> spw_result \<times> u8 \<times> device" where
  "link_state_of_context d =
     (let (deadline, d) = deadline_for 250000 d; (result, d) = ensure_connected deadline d in
      if result \<noteq> SPW_OK then (result, dc_state d, d)
      else let (result, payload, payload_size, d) = send_request VSPD_MSG_GET_LINK_STATE None 0
             (Some (replicate 4 0)) 4 0 deadline d;
             d = (if result = SPW_OK \<and> payload_size = VSPD_LINK_STATE_PAYLOAD_SIZE
                  then d\<lparr>dc_state := ucast (vspd_decode_u32_payload payload)\<rparr> else d)
        in (result, dc_state d, d))"

text \<open>The loop of \<open>device_send\<close> over the fragments of a packet.\<close>

function send_fragments :: "spw_packet \<Rightarrow> u32 \<Rightarrow> u32 \<Rightarrow> u32 \<Rightarrow> u64 \<Rightarrow> device \<Rightarrow> spw_result \<times> device" where
  "send_fragments packet request_id message_id offset deadline d =
     (let len = of_nat (pk_length packet); chunk = chunk_at len offset;
          fin = (pk_length packet = 0 \<or> offset + chunk = len);
          flags = (if offset = 0 then VSPD_FLAG_FRAGMENT_START else 0);
          header = (base_header VSPD_MSG_DATA_TX)\<lparr>vh_payload_size := chunk, vh_request_id := request_id,
            vh_port_id := dev_port_id (dc_config d), vh_message_id := message_id,
            vh_fragment_offset := offset, vh_total_size := len,
            vh_flags := (if fin then flags OR VSPD_FLAG_FRAGMENT_END OR
              (if pk_terminator packet = SPW_TERMINATOR_EEP then VSPD_FLAG_EEP else VSPD_FLAG_EOP) else flags)\<rparr>;
          data = (if chunk \<noteq> 0 then take (unat chunk) (drop (unat offset) (the (pk_data packet))) else []) in
      case vspd_frame header data of None \<Rightarrow> (SPW_ERR_BACKEND, d)
      | Some frame \<Rightarrow>
          let (result, d) = send_record frame deadline d in
          if result \<noteq> SPW_OK then (result, d)
          else if fin
          then let (result, status, _, _, d) =
                 wait_response VSPD_MSG_DATA_TX request_id VSPD_STATUS_BACKEND None 0 0 deadline d
            in (if result = SPW_OK then status_to_result status else result, d)
          else if unat (offset + chunk) < pk_length packet
          then send_fragments packet request_id message_id (offset + chunk) deadline d
          else (SPW_ERR_BACKEND, d))"
  by pat_completeness auto
termination
  by (relation "measure (\<lambda>(packet, _, _, offset, _, _). unat ((of_nat (pk_length packet) :: u32) - offset))")
    (simp_all add: chunk_progress)

declare send_fragments.simps [simp del]

definition send_on_context :: "spw_packet \<Rightarrow> u64 \<Rightarrow> device \<Rightarrow> spw_result \<times> device" where
  "send_on_context packet timeout_us d =
     (let (deadline, d) = deadline_for timeout_us d; (result, d) = ensure_connected deadline d in
      if result \<noteq> SPW_OK then (result, d)
      else let request_id = dc_next_request_id d; message_id = dc_next_message_id d
        in send_fragments packet request_id message_id 0 deadline
             (d\<lparr>dc_next_request_id := request_id + 1, dc_next_message_id := message_id + 1\<rparr>))"

text \<open>
  One round of the loops of \<open>service_until_packet\<close> and \<open>device_receive_time_code\<close>: a record is received
  and processed. A record that is not a valid event is answered with an error.
\<close>

definition service_record :: "u64 \<Rightarrow> device \<Rightarrow> spw_result \<times> device" where
  "service_record deadline d =
     (case receive_record deadline d of (result, frame, d) \<Rightarrow>
      if result \<noteq> SPW_OK then (result, d)
      else case received_header frame of None \<Rightarrow> (SPW_ERR_BACKEND, d)
        | Some header \<Rightarrow>
            if vh_flags header AND VSPD_FLAG_RESPONSE \<noteq> 0 then (SPW_ERR_BACKEND, d)
            else process_event header (received_payload header frame) d)"

lemma service_record_shorter:
  assumes "service_record deadline d = (SPW_OK, d')"
  shows "length (hs_receives d') < length (hs_receives d)"
proof -
  obtain r frame d1 where c: "receive_record deadline d = (r, frame, d1)" by (metis prod_cases3)
  with assms have "r = SPW_OK" and "hs_receives d' = hs_receives d1"
    by (auto simp: service_record_def dest: process_event_receives' split: if_splits option.splits)
  with receive_record_shorter c show ?thesis by metis
qed

function service_until_packet :: "u64 \<Rightarrow> device \<Rightarrow> spw_result \<times> device" where
  "service_until_packet deadline d =
     (if rx_ready d then (SPW_OK, d)
      else case service_record deadline d of (result, d1) \<Rightarrow>
        if result \<noteq> SPW_OK then (result, d1) else service_until_packet deadline d1)"
  by pat_completeness auto
termination
  by (relation "measure (\<lambda>(_, d). length (hs_receives d))")
    (auto dest!: sym [of _ "service_record _ _"] service_record_shorter)

declare service_until_packet.simps [simp del]

function service_until_time_code :: "u64 \<Rightarrow> device \<Rightarrow> spw_result \<times> device" where
  "service_until_time_code deadline d =
     (if dc_time_code_count d \<noteq> 0 then (SPW_OK, d)
      else case service_record deadline d of (result, d1) \<Rightarrow>
        if result \<noteq> SPW_OK then (result, d1) else service_until_time_code deadline d1)"
  by pat_completeness auto
termination
  by (relation "measure (\<lambda>(_, d). length (hs_receives d))")
    (auto dest!: sym [of _ "service_record _ _"] service_record_shorter)

declare service_until_time_code.simps [simp del]

definition receive_on_context :: "spw_packet \<Rightarrow> u64 \<Rightarrow> device \<Rightarrow> spw_result \<times> spw_packet \<times> device" where
  "receive_on_context packet timeout_us d =
     (let (deadline, d) = deadline_for timeout_us d; (result, d) = ensure_connected deadline d in
      if result \<noteq> SPW_OK then (result, packet, d)
      else let (result, d) = (if \<not> rx_ready d then service_until_packet deadline d else (SPW_OK, d)) in
        if result \<noteq> SPW_OK then (result, packet, d)
        else let packet = packet\<lparr>pk_length := unat (rx_total_size d), pk_terminator := rx_terminator d\<rparr> in
          if pk_capacity packet < unat (rx_total_size d) then (SPW_ERR_BUFFER_TOO_SMALL, packet, d)
          else let packet = (if rx_total_size d \<noteq> 0
                 then packet\<lparr>pk_data := map_option (\<lambda>out. List.map (rx_data d) [0..<unat (rx_total_size d)] @
                   drop (unat (rx_total_size d)) out) (pk_data packet)\<rparr> else packet)
            in (SPW_OK, packet, clear_rx d))"

definition send_time_code_on_context :: "spw_time_code \<Rightarrow> u64 \<Rightarrow> device \<Rightarrow> spw_result \<times> device" where
  "send_time_code_on_context code timeout_us d =
     (let (deadline, d) = deadline_for timeout_us d; (result, d) = ensure_connected deadline d in
      if result \<noteq> SPW_OK then (result, d)
      else let (result, _, _, d) = send_request VSPD_MSG_TIME_CODE_TX (Some [time_count code, control_flags code]) 2
             None 0 0 deadline d
        in (result, d))"

definition receive_time_code_on_context :: "spw_time_code \<Rightarrow> u64 \<Rightarrow> device \<Rightarrow> spw_result \<times> spw_time_code \<times> device" where
  "receive_time_code_on_context code timeout_us d =
     (let (deadline, d) = deadline_for timeout_us d; (result, d) = ensure_connected deadline d in
      if result \<noteq> SPW_OK then (result, code, d)
      else let (result, d) = service_until_time_code deadline d in
        if result \<noteq> SPW_OK then (result, code, d)
        else (SPW_OK, dc_time_codes d ! dc_time_code_head d,
              d\<lparr>dc_time_code_head := (dc_time_code_head d + 1) mod DEVICE_TIME_CODE_QUEUE_DEPTH,
                dc_time_code_count := dc_time_code_count d - 1\<rparr>))"

definition device_ready_events :: "device \<Rightarrow> u32 \<Rightarrow> u32" where
  "device_ready_events d interests =
     (if interests AND SPW_READY_RX_PACKET \<noteq> 0 \<and> rx_ready d then SPW_READY_RX_PACKET else SPW_READY_NONE) OR
     (if interests AND SPW_READY_RX_TIME_CODE \<noteq> 0 \<and> dc_time_code_count d \<noteq> 0
      then SPW_READY_RX_TIME_CODE else SPW_READY_NONE)"

definition device_service_event :: "u64 \<Rightarrow> device \<Rightarrow> spw_result \<times> device" where
  "device_service_event deadline d =
     (case receive_record deadline d of (result, frame, d) \<Rightarrow>
      if result \<noteq> SPW_OK then (result, d)
      else case received_header frame of None \<Rightarrow> (SPW_ERR_BACKEND, mark_disconnected d)
        | Some header \<Rightarrow>
            if vh_flags header AND VSPD_FLAG_RESPONSE \<noteq> 0 then (SPW_ERR_BACKEND, mark_disconnected d)
            else process_event header (received_payload header frame) d)"

lemma device_service_event_shorter:
  assumes "device_service_event deadline d = (SPW_OK, d')"
  shows "length (hs_receives d') < length (hs_receives d)"
proof -
  obtain r frame d1 where c: "receive_record deadline d = (r, frame, d1)" by (metis prod_cases3)
  with assms have "r = SPW_OK" and "hs_receives d' = hs_receives d1"
    by (auto simp: device_service_event_def dest: process_event_receives' split: if_splits option.splits)
  with receive_record_shorter c show ?thesis by metis
qed

function wait_for_events :: "u32 \<Rightarrow> u64 \<Rightarrow> u32 \<Rightarrow> device \<Rightarrow> spw_result \<times> u32 \<times> device" where
  "wait_for_events interests deadline out_ready d =
     (case device_service_event deadline d of (result, d1) \<Rightarrow>
      if result \<noteq> SPW_OK then (result, out_ready, d1)
      else let ready = device_ready_events d1 interests in
        if ready \<noteq> SPW_READY_NONE then (SPW_OK, ready, d1)
        else wait_for_events interests deadline out_ready d1)"
  by pat_completeness auto
termination
  by (relation "measure (\<lambda>(_, _, _, d). length (hs_receives d))")
    (auto dest!: sym [of _ "device_service_event _ _"] device_service_event_shorter)

declare wait_for_events.simps [simp del]

definition wait_on_context :: "u32 \<Rightarrow> u64 \<Rightarrow> device \<Rightarrow> spw_result \<times> u32 \<times> device" where
  "wait_on_context interests timeout_us d =
     (let (deadline, d) = deadline_for timeout_us d; ready = device_ready_events d interests in
      if ready \<noteq> SPW_READY_NONE then (SPW_OK, ready, d)
      else let (result, d) = ensure_connected deadline d in
        if result \<noteq> SPW_OK then (result, SPW_READY_NONE, d)
        else wait_for_events interests deadline SPW_READY_NONE d)"

definition statistics_of_context :: "spw_statistics \<Rightarrow> device \<Rightarrow> spw_result \<times> spw_statistics \<times> device" where
  "statistics_of_context out_statistics d =
     (let (deadline, d) = deadline_for 250000 d; (result, d) = ensure_connected deadline d in
      if result \<noteq> SPW_OK then (result, out_statistics, d)
      else let (result, payload, payload_size, d) = send_request VSPD_MSG_GET_STATISTICS None 0
             (Some (replicate 72 0)) 72 0 deadline d in
        if result \<noteq> SPW_OK \<or> payload_size \<noteq> VSPD_STATISTICS_PAYLOAD_SIZE
        then (if result = SPW_OK then SPW_ERR_BACKEND else result, out_statistics, d)
        else (SPW_OK, the (vspd_decode_statistics payload (Some zero_statistics)), d))"

section \<open>The backend\<close>

text \<open>Memory that holds no context reads as a zeroed one on a host whose scripts have run out.\<close>

definition blank_device :: device where
  "blank_device = \<lparr>dc_config = zero_device_config, dc_fd = 0, dc_next_request_id = 0,
     dc_next_message_id = 0, dc_desired_started = False, dc_state = 0,
     dc_capabilities = zero_capabilities, rx_active = False, rx_ready = False, rx_message_id = 0,
     rx_total_size = 0, rx_next_offset = 0, rx_terminator = 0, rx_data = (\<lambda>_. 0),
     dc_time_codes = replicate DEVICE_TIME_CODE_QUEUE_DEPTH \<lparr>time_count = 0, control_flags = 0\<rparr>,
     dc_time_code_head = 0, dc_time_code_count = 0, hs_clock = [], hs_sockets = [], hs_connects = [],
     hs_sends = [], hs_receives = [], hs_polls = [], hs_sent = [], hs_opened = [], hs_closed = []\<rparr>"

definition the_device :: "addr \<Rightarrow> devices memory \<Rightarrow> device" where
  "the_device ctx m = (case m_backend m ctx of None \<Rightarrow> blank_device | Some d \<Rightarrow> d)"

definition put_device :: "addr \<Rightarrow> device \<Rightarrow> devices memory \<Rightarrow> devices memory" where
  "put_device ctx d m = m\<lparr>m_backend := (m_backend m)(ctx \<mapsto> d)\<rparr>"

definition on_device :: "(device \<Rightarrow> 'r \<times> device) \<Rightarrow> addr \<Rightarrow> devices memory \<Rightarrow> 'r \<times> devices memory" where
  "on_device f ctx m = (let (r, d) = f (the_device ctx m) in (r, put_device ctx d m))"

definition on_device_out ::
    "(device \<Rightarrow> 'r \<times> 'o \<times> device) \<Rightarrow> addr \<Rightarrow> devices memory \<Rightarrow> 'r \<times> 'o \<times> devices memory" where
  "on_device_out f ctx m = (let (r, out, d) = f (the_device ctx m) in (r, out, put_device ctx d m))"

definition device_construct :: "addr \<Rightarrow> 'd spw_port_config \<Rightarrow> devices memory \<Rightarrow> spw_result \<times> devices memory" where
  "device_construct ctx config = on_device (construct_context (as_device (the (pc_backend_config config)))) ctx"

definition device_destroy :: "addr \<Rightarrow> devices memory \<Rightarrow> devices memory" where
  "device_destroy ctx m = put_device ctx (destroy_context (the_device ctx m)) m"

definition device_start :: "addr \<Rightarrow> devices memory \<Rightarrow> spw_result \<times> devices memory" where
  "device_start = on_device start_context"

definition device_stop :: "addr \<Rightarrow> devices memory \<Rightarrow> spw_result \<times> devices memory" where
  "device_stop = on_device stop_context"

definition device_reset :: "addr \<Rightarrow> devices memory \<Rightarrow> spw_result \<times> devices memory" where
  "device_reset = on_device reset_context"

definition device_get_link_state :: "addr \<Rightarrow> u8 \<Rightarrow> devices memory \<Rightarrow> spw_result \<times> u8 \<times> devices memory" where
  "device_get_link_state ctx out_state = on_device_out link_state_of_context ctx"

definition device_get_capabilities ::
    "addr \<Rightarrow> spw_capabilities \<Rightarrow> devices memory \<Rightarrow> spw_result \<times> spw_capabilities \<times> devices memory" where
  "device_get_capabilities ctx out_capabilities m = (SPW_OK, dc_capabilities (the_device ctx m), m)"

definition device_supports_zero_copy :: "addr \<Rightarrow> devices memory \<Rightarrow> bool" where
  "device_supports_zero_copy ctx m = False"

definition device_send :: "addr \<Rightarrow> spw_packet \<Rightarrow> u64 \<Rightarrow> devices memory \<Rightarrow> spw_result \<times> devices memory" where
  "device_send ctx packet timeout_us = on_device (send_on_context packet timeout_us) ctx"

definition device_receive ::
    "addr \<Rightarrow> spw_packet \<Rightarrow> u64 \<Rightarrow> devices memory \<Rightarrow> spw_result \<times> spw_packet \<times> devices memory" where
  "device_receive ctx packet timeout_us = on_device_out (receive_on_context packet timeout_us) ctx"

definition device_send_time_code ::
    "addr \<Rightarrow> spw_time_code \<Rightarrow> u64 \<Rightarrow> devices memory \<Rightarrow> spw_result \<times> devices memory" where
  "device_send_time_code ctx code timeout_us = on_device (send_time_code_on_context code timeout_us) ctx"

definition device_receive_time_code ::
    "addr \<Rightarrow> spw_time_code \<Rightarrow> u64 \<Rightarrow> devices memory \<Rightarrow> spw_result \<times> spw_time_code \<times> devices memory" where
  "device_receive_time_code ctx code timeout_us = on_device_out (receive_time_code_on_context code timeout_us) ctx"

definition device_wait :: "addr \<Rightarrow> u32 \<Rightarrow> u64 \<Rightarrow> u32 \<Rightarrow> devices memory \<Rightarrow> spw_result \<times> u32 \<times> devices memory" where
  "device_wait ctx interests timeout_us out_ready = on_device_out (wait_on_context interests timeout_us) ctx"

definition device_get_statistics ::
    "addr \<Rightarrow> spw_statistics \<Rightarrow> devices memory \<Rightarrow> spw_result \<times> spw_statistics \<times> devices memory" where
  "device_get_statistics ctx out_statistics = on_device_out (statistics_of_context out_statistics) ctx"

definition device_clear_statistics :: "addr \<Rightarrow> devices memory \<Rightarrow> spw_result \<times> devices memory" where
  "device_clear_statistics = on_device (request_simple VSPD_MSG_CLEAR_STATISTICS 250000)"

definition device_get_fault_statistics ::
    "addr \<Rightarrow> spw_fault_statistics \<Rightarrow> devices memory \<Rightarrow> spw_result \<times> spw_fault_statistics \<times> devices memory" where
  "device_get_fault_statistics ctx out_statistics m = (SPW_ERR_UNSUPPORTED, zero_fault_statistics, m)"

definition device_clear_fault_statistics :: "addr \<Rightarrow> devices memory \<Rightarrow> spw_result \<times> devices memory" where
  "device_clear_fault_statistics ctx m = (SPW_ERR_UNSUPPORTED, m)"

definition unsupported_acquire_tx ::
    "addr \<Rightarrow> nat \<Rightarrow> u64 \<Rightarrow> addr option \<Rightarrow> devices memory \<Rightarrow> spw_result \<times> addr option \<times> devices memory" where
  "unsupported_acquire_tx ctx capacity timeout_us out m = (SPW_ERR_UNSUPPORTED, out, m)"

definition unsupported_submit_tx :: "addr \<Rightarrow> addr \<Rightarrow> u64 \<Rightarrow> devices memory \<Rightarrow> spw_result \<times> devices memory" where
  "unsupported_submit_tx ctx buffer timeout_us m = (SPW_ERR_UNSUPPORTED, m)"

definition unsupported_reclaim_tx ::
    "addr \<Rightarrow> u64 \<Rightarrow> addr option \<Rightarrow> devices memory \<Rightarrow> spw_result \<times> addr option \<times> devices memory" where
  "unsupported_reclaim_tx ctx timeout_us out m = (SPW_ERR_UNSUPPORTED, out, m)"

definition unsupported_release_tx :: "addr \<Rightarrow> addr \<Rightarrow> devices memory \<Rightarrow> spw_result \<times> devices memory" where
  "unsupported_release_tx ctx buffer m = (SPW_ERR_UNSUPPORTED, m)"

definition unsupported_acquire_rx ::
    "addr \<Rightarrow> u64 \<Rightarrow> addr option \<Rightarrow> devices memory \<Rightarrow> spw_result \<times> addr option \<times> devices memory" where
  "unsupported_acquire_rx ctx timeout_us out m = (SPW_ERR_UNSUPPORTED, out, m)"

definition unsupported_release_rx :: "addr \<Rightarrow> addr \<Rightarrow> devices memory \<Rightarrow> spw_result \<times> devices memory" where
  "unsupported_release_rx ctx buffer m = (SPW_ERR_UNSUPPORTED, m)"

definition DEVICE_OPS :: "devices spw_backend_ops" where
  "DEVICE_OPS = \<lparr>op_start = device_start, op_stop = device_stop, op_reset = device_reset,
     op_get_link_state = device_get_link_state, op_get_capabilities = device_get_capabilities,
     op_supports_zero_copy = Some device_supports_zero_copy, op_send = device_send,
     op_receive = device_receive, op_send_time_code = device_send_time_code,
     op_receive_time_code = device_receive_time_code, op_get_statistics = device_get_statistics,
     op_clear_statistics = device_clear_statistics,
     op_get_fault_statistics = Some device_get_fault_statistics,
     op_clear_fault_statistics = Some device_clear_fault_statistics,
     op_acquire_tx_buffer = Some unsupported_acquire_tx, op_submit_tx_buffer = Some unsupported_submit_tx,
     op_reclaim_tx_buffer = Some unsupported_reclaim_tx, op_release_tx_buffer = Some unsupported_release_tx,
     op_acquire_rx_buffer = Some unsupported_acquire_rx, op_release_rx_buffer = Some unsupported_release_rx,
     op_wait = Some device_wait\<rparr>"

definition DEVICE_FACTORY :: "(devices, 'd) spw_backend_factory" where
  "DEVICE_FACTORY = \<lparr>context_size = 1048816, context_alignment = 8, f_construct = Some device_construct,
     f_destroy = Some device_destroy, f_ops = Some DEVICE_OPS, context_size_for_config = None\<rparr>"

definition spw_device_backend_factory :: "(devices, 'd) spw_backend_factory" where
  "spw_device_backend_factory = DEVICE_FACTORY"

end
