(* ===== verification/Device_Session.thy ===== *)
theory Device_Session
  imports Device_Backend "HOL-Library.Multiset"
begin

text \<open>
  Invariants of a device context. The interface \<open>device_invariant\<close> lists the primitive steps of a
  context: answers of the host, events, disconnection, a new socket, and the fields that the
  operations write. A predicate that the primitive steps keep is kept by every operation, whatever
  the host and the daemon do; the lemmas of the locale prove this once. It is used for the
  well-formedness of a context and for its use of file descriptors.
\<close>

section \<open>The interface\<close>

definition idle_rx :: "device \<Rightarrow> device" where
  "idle_rx d = (clear_rx d)\<lparr>dc_time_code_head := 0, dc_time_code_count := 0\<rparr>"

definition take_time_code :: "device \<Rightarrow> device" where
  "take_time_code d = d\<lparr>dc_time_code_head := (dc_time_code_head d + 1) mod DEVICE_TIME_CODE_QUEUE_DEPTH,
     dc_time_code_count := dc_time_code_count d - 1\<rparr>"

definition fresh_context :: "spw_device_config \<Rightarrow> device \<Rightarrow> device" where
  "fresh_context config d = (zero_context d)\<lparr>dc_config := config, dc_fd := - 1, dc_next_request_id := 1,
     dc_next_message_id := 1, dc_state := SPW_LINK_ERROR_RESET\<rparr>"

definition drop_fd :: "device \<Rightarrow> device" where
  "drop_fd d = (close_fd d)\<lparr>dc_fd := - 1\<rparr>"

text \<open>A response that is accepted comes from a valid response frame to this request.\<close>

lemma wait_response_ok:
  "wait_response ty rid st resp cap n dl d = (SPW_OK, st', resp', n', d') \<Longrightarrow>
     \<exists>f h. received_header f = Some h \<and> vh_flags h AND VSPD_FLAG_RESPONSE \<noteq> 0 \<and> vh_type h = ty \<and>
       vh_request_id h = rid \<and> st' = vh_status h \<and> n' = vh_payload_size h \<and> vh_payload_size h \<le> cap \<and>
       resp' = map_option (\<lambda>out. drop VSPD_HEADER_SIZE f @ drop (unat (vh_payload_size h)) out) resp"
proof (induction ty rid st resp cap n dl d rule: wait_response.induct)
  case (1 ty rid st resp cap n dl d)
  obtain r f d1 where c: "receive_record dl d = (r, f, d1)" by (metis prod_cases3)
  note eq = "1.prems" [unfolded wait_response.simps [of ty rid st resp cap n dl d] c prod.case]
  have "r = SPW_OK" using eq by (auto split: if_splits)
  obtain h where h: "received_header f = Some h" using eq \<open>r = SPW_OK\<close> by (auto split: option.splits)
  show ?case
  proof (cases "vh_flags h AND VSPD_FLAG_RESPONSE = 0")
    case True
    obtain r2 d2 where e: "process_event h (received_payload h f) d1 = (r2, d2)" by fastforce
    have "r2 = SPW_OK" and "wait_response ty rid st resp cap n dl d2 = (SPW_OK, st', resp', n', d')"
      using eq \<open>r = SPW_OK\<close> h True e by (auto split: if_splits)
    then show ?thesis
      using "1.IH" [OF c [symmetric] refl _ h _ e [symmetric]] True \<open>r = SPW_OK\<close> by simp
  next
    case False
    with eq \<open>r = SPW_OK\<close> h have "vh_type h = ty \<and> vh_request_id h = rid \<and> st' = vh_status h \<and>
        n' = vh_payload_size h \<and> vh_payload_size h \<le> cap \<and>
        resp' = map_option (\<lambda>out. drop VSPD_HEADER_SIZE f @ drop (unat (vh_payload_size h)) out) resp"
      by (auto split: if_splits)
    with h False show ?thesis by blast
  qed
qed

lemma status_ok: "status_to_result st = SPW_OK \<longleftrightarrow> st = VSPD_STATUS_OK"
  by (auto simp: status_to_result_def)

lemma send_request_ok:
  assumes "send_request ty p n resp cap m dl d = (SPW_OK, resp', m', d')"
  shows "\<exists>f h. received_header f = Some h \<and> vh_flags h AND VSPD_FLAG_RESPONSE \<noteq> 0 \<and> vh_type h = ty \<and>
    vh_status h = VSPD_STATUS_OK \<and> m' = vh_payload_size h \<and>
    resp' = map_option (\<lambda>out. drop VSPD_HEADER_SIZE f @ drop (unat (vh_payload_size h)) out) resp"
proof -
  obtain d1 st d2 where "wait_response ty (dc_next_request_id d) VSPD_STATUS_BACKEND resp cap m dl d1 =
      (SPW_OK, st, resp', m', d2)" "status_to_result st = SPW_OK"
    using assms by (auto simp: send_request_def Let_def split: if_splits option.splits prod.splits)
  then show ?thesis using wait_response_ok status_ok by metis
qed

lemma received_header_some:
  assumes "received_header f = Some h"
  shows "vspd_validate_frame (Some f) (Some zero_vspd_header) = (VSPD_CODEC_OK, Some h)"
  using assms by (auto simp: received_header_def split: prod.splits if_splits)

text \<open>The link states that the daemon reports are those of the library.\<close>

lemma link_state_payload:
  assumes "received_header f = Some h" and "vh_payload_size h = VSPD_LINK_STATE_PAYLOAD_SIZE"
    and "vh_type h = VSPD_MSG_LINK_STATE_EVENT \<or> vh_type h = VSPD_MSG_GET_LINK_STATE \<and>
      vh_flags h AND VSPD_FLAG_RESPONSE \<noteq> 0 \<and> vh_status h = VSPD_STATUS_OK"
  shows "vspd_read_be32 (drop 40 f) 0 \<le> 5" and "length f = 44"
proof -
  note v = validate_frame_ok [OF received_header_some [OF assms(1)]]
  show "length f = 44" using v(1) assms(2) by simp
  show "vspd_read_be32 (drop 40 f) 0 \<le> 5"
    using v(4) assms(2,3) by (auto simp: vspd_validate_payload_shape_def Let_def split: if_splits)
qed

lemma link_state_small: "(v :: u32) \<le> 5 \<Longrightarrow> (ucast v :: u8) \<le> SPW_LINK_RUN"
  by (simp add: word_le_nat_alt unsigned_ucast_eq take_bit_nat_eq_self)

locale device_invariant =
  fixes P :: "device \<Rightarrow> bool"
  assumes host: "P d \<Longrightarrow> P (d\<lparr>hs_clock := c\<rparr>)" "P d \<Longrightarrow> P (d\<lparr>hs_polls := ps\<rparr>)" "P d \<Longrightarrow> P (d\<lparr>hs_sends := ss\<rparr>)"
      "P d \<Longrightarrow> P (d\<lparr>hs_receives := rs\<rparr>)" "P d \<Longrightarrow> P (d\<lparr>hs_connects := cs\<rparr>)" "P d \<Longrightarrow> P (d\<lparr>hs_sent := fs\<rparr>)"
    and fields: "P d \<Longrightarrow> P (d\<lparr>dc_next_request_id := i\<rparr>)" "P d \<Longrightarrow> P (d\<lparr>dc_next_message_id := i\<rparr>)"
      "P d \<Longrightarrow> P (d\<lparr>dc_desired_started := b\<rparr>)" "P d \<Longrightarrow> P (d\<lparr>dc_capabilities := k\<rparr>)"
    and states: "P d \<Longrightarrow> s \<le> SPW_LINK_RUN \<Longrightarrow> P (d\<lparr>dc_state := s\<rparr>)"
    and event: "P d \<Longrightarrow> received_header f = Some h \<Longrightarrow> P (snd (process_event h (received_payload h f) d))"
    and disconnected: "P d \<Longrightarrow> P (mark_disconnected d)"
    and socketed: "P d \<Longrightarrow> dc_fd d < 0 \<Longrightarrow> P (open_socket d)"
    and idled: "P d \<Longrightarrow> P (idle_rx d)"
    and cleared: "P d \<Longrightarrow> P (clear_rx d)"
    and taken: "P d \<Longrightarrow> dc_time_code_count d \<noteq> 0 \<Longrightarrow> P (take_time_code d)"
    and dropped: "P d \<Longrightarrow> P (drop_fd d)"
    and fresh: "P d \<Longrightarrow> dc_fd d < 0 \<Longrightarrow> P (fresh_context config d)"
begin

lemma clock_keeps: "P d \<Longrightarrow> P (snd (monotonic_us d))"
  by (auto simp: monotonic_us_def host split: list.splits option.splits)

lemma timing_keeps:
  "P d \<Longrightarrow> P (snd (deadline_for t d))" "P d \<Longrightarrow> P (snd (poll_timeout_ms dl d))"
  "P d \<Longrightarrow> P (snd (deadline_passed dl d))"
proof -
  show "P d \<Longrightarrow> P (snd (deadline_for t d))"
    using clock_keeps [of d] by (auto simp: deadline_for_def split: prod.splits)
  show poll: "P d \<Longrightarrow> P (snd (poll_timeout_ms dl d))"
    using clock_keeps [of d] by (auto simp: poll_timeout_ms_def Let_def split: prod.splits)
  then show "P d \<Longrightarrow> P (snd (deadline_passed dl d))"
    by (auto simp: deadline_passed_def split: prod.splits)
qed

lemma wait_polls_keeps: "P d \<Longrightarrow> P (snd (wait_polls ps events dl d))"
proof (induction ps arbitrary: d)
  case Nil
  then show ?case by (simp add: timing_keeps host)
next
  case (Cons p ps)
  let ?d = "(snd (poll_timeout_ms dl d))\<lparr>hs_polls := ps\<rparr>"
  have "P ?d" using Cons.prems by (simp add: timing_keeps host)
  with Cons.IH [of ?d] show ?case
    by (cases p) (simp_all add: Let_def disconnected)
qed

lemma wait_fd_keeps: "P d \<Longrightarrow> P (snd (wait_fd events dl d))"
  by (simp add: wait_fd_def wait_polls_keeps)

lemma send_attempts_keeps: "P d \<Longrightarrow> P (snd (send_attempts ss data dl d))"
proof (induction ss arbitrary: d)
  case Nil
  then show ?case by (simp add: host disconnected)
next
  case (Cons s ss)
  let ?d = "d\<lparr>hs_sends := ss\<rparr>"
  have P: "P ?d" using Cons.prems by (simp add: host)
  have "P (snd (deadline_passed dl ?d))" "P (snd (wait_fd POLLOUT dl ?d))"
    using P by (simp_all add: timing_keeps wait_fd_keeps)
  with P Cons.IH show ?case
    by (auto simp: Let_def host disconnected case_prod_beta split: send_outcome.splits errno.splits)
qed

lemma send_record_keeps: "P d \<Longrightarrow> P (snd (send_record data dl d))"
  by (simp add: send_record_def send_attempts_keeps)

lemma receive_attempts_keeps: "P d \<Longrightarrow> P (snd (snd (receive_attempts rs dl d)))"
proof (induction rs arbitrary: d)
  case Nil
  then show ?case by (simp add: host disconnected)
next
  case (Cons r rs)
  let ?d = "d\<lparr>hs_receives := rs\<rparr>"
  have P: "P ?d" using Cons.prems by (simp add: host)
  have "P (snd (deadline_passed dl ?d))" "P (snd (wait_fd POLLIN dl ?d))"
    using P by (simp_all add: timing_keeps wait_fd_keeps)
  with P Cons.IH show ?case
    by (auto simp: Let_def host disconnected case_prod_beta split: recv_outcome.splits errno.splits)
qed

lemma receive_record_keeps: "P d \<Longrightarrow> P (snd (snd (receive_record dl d)))"
  by (simp add: receive_record_def receive_attempts_keeps)

lemma wait_response_keeps:
  "P d \<Longrightarrow> P (snd (snd (snd (snd (wait_response ty rid st resp cap n dl d)))))"
proof (induction ty rid st resp cap n dl d rule: wait_response.induct)
  case (1 ty rid st resp cap n dl d)
  obtain r f d1 where c: "receive_record dl d = (r, f, d1)" by (metis prod_cases3)
  have d1: "P d1" using receive_record_keeps [OF "1.prems", of dl] by (simp add: c)
  show ?case
  proof (cases "r = SPW_OK \<and> (\<exists>h. received_header f = Some h \<and> vh_flags h AND VSPD_FLAG_RESPONSE = 0)")
    case True
    then obtain h where h: "received_header f = Some h" "vh_flags h AND VSPD_FLAG_RESPONSE = 0" by blast
    obtain r2 d2 where e: "process_event h (received_payload h f) d1 = (r2, d2)" by fastforce
    have "P d2" using event [OF d1 h(1)] by (simp add: e)
    then show ?thesis
      using True h "1.IH" [OF c [symmetric] refl _ h(1) _ e [symmetric]]
      by (subst wait_response.simps) (simp add: c e)
  next
    case False
    with d1 show ?thesis
      by (subst wait_response.simps) (auto simp: c disconnected split: option.splits)
  qed
qed

lemma send_request_keeps: "P d \<Longrightarrow> P (snd (snd (snd (send_request ty p n resp cap m dl d))))"
  by (auto simp: send_request_def Let_def fields case_prod_beta send_record_keeps wait_response_keeps
      split: option.splits)

lemma link_state_keeps:
  assumes "P d" and "send_request VSPD_MSG_GET_LINK_STATE p n (Some (replicate 4 0)) cap m dl d' = (SPW_OK, resp, 4, d'')"
  shows "P (d\<lparr>dc_state := ucast (vspd_decode_u32_payload resp)\<rparr>)"
proof -
  obtain f h where "received_header f = Some h" "vh_flags h AND VSPD_FLAG_RESPONSE \<noteq> 0"
      "vh_type h = VSPD_MSG_GET_LINK_STATE" "vh_status h = VSPD_STATUS_OK" "vh_payload_size h = 4"
      "resp = Some (drop 40 f @ drop (unat (vh_payload_size h)) (replicate 4 0))"
    using send_request_ok [OF assms(2)] by auto
  with link_state_payload [of f h] have "vspd_decode_u32_payload resp \<le> 5"
    by (simp add: vspd_decode_u32_payload_def)
  with assms(1) states link_state_small show ?thesis by blast
qed

lemma send_empty_request_keeps: "P d \<Longrightarrow> P (snd (send_empty_request ty dl d))"
  using send_request_keeps [of d ty None 0 None 0 0 dl] by (simp add: send_empty_request_def case_prod_beta)

lemma session_keeps:
  "P d \<Longrightarrow> P (snd (resume_started dl d))"
  "P d \<Longrightarrow> P (snd (fetch_capabilities resp n dl d))"
  "P d \<Longrightarrow> P (snd (attach_session resp n dl d))"
proof -
  show start: "P d \<Longrightarrow> P (snd (resume_started dl d))" for d
    by (simp add: resume_started_def case_prod_beta Let_def send_empty_request_keeps disconnected)
  show caps: "P d \<Longrightarrow> P (snd (fetch_capabilities resp n dl d))" for d
    by (simp add: fetch_capabilities_def case_prod_beta Let_def send_request_keeps disconnected start fields)
  show "P d \<Longrightarrow> P (snd (attach_session resp n dl d))"
    using caps by (simp add: attach_session_def case_prod_beta Let_def send_empty_request_keeps disconnected
        idle_rx_def [symmetric] idled states)
qed

lemma connect_session_keeps:
  assumes "P d" and "dc_fd d < 0"
  shows "P (snd (connect_session dl d))"
proof -
  have "P (open_socket d)" by (rule socketed [OF assms])
  moreover from this have "P (snd (connect_socket (open_socket d)))"
    by (simp add: connect_socket_def host split: list.split)
  ultimately show ?thesis
    by (simp add: connect_session_def case_prod_beta Let_def send_request_keeps disconnected session_keeps)
qed

lemma ensure_connected_keeps: "P d \<Longrightarrow> P (snd (ensure_connected dl d))"
  by (simp add: ensure_connected_def connect_session_keeps)

lemma request_simple_keeps: "P d \<Longrightarrow> P (snd (request_simple ty t d))"
  by (simp add: request_simple_def case_prod_beta Let_def ensure_connected_keeps timing_keeps send_empty_request_keeps)

lemma control_keeps:
  "P d \<Longrightarrow> P (snd (start_context d))" "P d \<Longrightarrow> P (snd (stop_context d))" "P d \<Longrightarrow> P (snd (reset_context d))"
  by (simp_all add: start_context_def stop_context_def reset_context_def case_prod_beta Let_def
      request_simple_keeps fields idled idle_rx_def [symmetric])

lemma destroy_keeps: "P d \<Longrightarrow> P (destroy_context d)"
proof (cases "dc_fd d \<ge> 0")
  case True
  assume "P d"
  then show ?thesis
    using True by (simp add: destroy_context_def case_prod_beta Let_def send_empty_request_keeps timing_keeps
        dropped drop_fd_def [symmetric])
next
  case False
  assume "P d"
  with False dropped [of d] show ?thesis by (simp add: destroy_context_def drop_fd_def close_fd_def)
qed

lemma construct_keeps:
  assumes "P d" and "dc_fd d < 0"
  shows "P (snd (construct_context config d))"
proof -
  let ?d = "fresh_context config d"
  have "P ?d" by (rule fresh [OF assms])
  moreover have "dc_fd (snd (deadline_for t ?d)) < 0" for t
    by (auto simp: deadline_for_def monotonic_us_def fresh_context_def split: prod.splits list.splits option.splits)
  ultimately show ?thesis
    by (simp add: construct_context_def case_prod_beta Let_def fresh_context_def [symmetric] connect_session_keeps
        timing_keeps)
qed

lemma link_state_of_context_keeps: "P d \<Longrightarrow> P (snd (snd (link_state_of_context d)))"
proof -
  assume "P d"
  obtain dl d1 where t: "deadline_for 250000 d = (dl, d1)" by fastforce
  obtain r d2 where c: "ensure_connected dl d1 = (r, d2)" by fastforce
  obtain r3 resp n d3 where q: "send_request VSPD_MSG_GET_LINK_STATE None 0 (Some (replicate 4 0)) 4 0 dl d2 = (r3, resp, n, d3)"
    by (metis prod_cases4)
  have "P d2" using ensure_connected_keeps [OF timing_keeps(1) [OF \<open>P d\<close>, of 250000], of dl] by (simp add: t c)
  moreover from this have "P d3" using send_request_keeps [of d2] q by (metis snd_conv)
  moreover from this have "r3 = SPW_OK \<Longrightarrow> n = 4 \<Longrightarrow> P (d3\<lparr>dc_state := ucast (vspd_decode_u32_payload resp)\<rparr>)"
    using link_state_keeps q by blast
  ultimately show ?thesis by (simp add: link_state_of_context_def t c q Let_def)
qed

lemma send_fragments_keeps: "P d \<Longrightarrow> P (snd (send_fragments pk rid mid off dl d))"
proof (induction pk rid mid off dl d rule: send_fragments.induct)
  case (1 pk rid mid off dl d)
  note IH = "1.IH" [OF refl refl refl refl refl refl]
  show ?case
  proof (subst send_fragments.simps, unfold Let_def, split option.split, intro conjI allI impI, goal_cases)
    case 1
    then show ?case using "1.prems" by simp
  next
    case (2 frame)
    obtain r d1 where c: "send_record frame dl d = (r, d1)" by fastforce
    have "P d1" using send_record_keeps [OF "1.prems", of frame dl] by (simp add: c)
    then show ?case
      using IH [OF 2 refl c [symmetric]] by (auto simp: c case_prod_beta wait_response_keeps)
  qed
qed

lemma send_on_context_keeps: "P d \<Longrightarrow> P (snd (send_on_context pk t d))"
  by (simp add: send_on_context_def case_prod_beta Let_def ensure_connected_keeps timing_keeps send_fragments_keeps fields)

lemma service_keeps:
  "P d \<Longrightarrow> P (snd (service_record dl d))" "P d \<Longrightarrow> P (snd (device_service_event dl d))"
  using receive_record_keeps [of d dl]
  by (auto simp: service_record_def device_service_event_def disconnected event split: prod.splits option.splits)

lemma service_until_packet_keeps: "P d \<Longrightarrow> P (snd (service_until_packet dl d))"
proof (induction dl d rule: service_until_packet.induct)
  case (1 dl d)
  obtain r d1 where c: "service_record dl d = (r, d1)" by fastforce
  have "P d1" using service_keeps(1) [OF "1.prems", of dl] by (simp add: c)
  then show ?case
    using "1.IH" [OF _ c [symmetric]] "1.prems" by (subst service_until_packet.simps) (simp add: c)
qed

lemma service_until_time_code_keeps: "P d \<Longrightarrow> P (snd (service_until_time_code dl d))"
proof (induction dl d rule: service_until_time_code.induct)
  case (1 dl d)
  obtain r d1 where c: "service_record dl d = (r, d1)" by fastforce
  have "P d1" using service_keeps(1) [OF "1.prems", of dl] by (simp add: c)
  then show ?case
    using "1.IH" [OF _ c [symmetric]] "1.prems" by (subst service_until_time_code.simps) (simp add: c)
qed

lemma wait_for_events_keeps: "P d \<Longrightarrow> P (snd (snd (wait_for_events ev dl out d)))"
proof (induction ev dl out d rule: wait_for_events.induct)
  case (1 ev dl out d)
  obtain r d1 where c: "device_service_event dl d = (r, d1)" by fastforce
  have "P d1" using service_keeps(2) [OF "1.prems", of dl] by (simp add: c)
  then show ?case
    using "1.IH" [OF c [symmetric]] by (subst wait_for_events.simps) (simp add: c Let_def)
qed

lemma data_keeps:
  "P d \<Longrightarrow> P (snd (snd (receive_on_context pk t d)))"
  "P d \<Longrightarrow> P (snd (send_time_code_on_context tc t d))"
  "P d \<Longrightarrow> P (snd (snd (wait_on_context ev t d)))"
  "P d \<Longrightarrow> P (snd (snd (statistics_of_context st d)))"
  by (simp_all add: receive_on_context_def send_time_code_on_context_def wait_on_context_def statistics_of_context_def
      case_prod_beta Let_def ensure_connected_keeps timing_keeps service_until_packet_keeps send_request_keeps
      wait_for_events_keeps cleared)

lemma time_code_waited: "fst (service_until_time_code dl d) = SPW_OK \<Longrightarrow> dc_time_code_count (snd (service_until_time_code dl d)) \<noteq> 0"
proof (induction dl d rule: service_until_time_code.induct)
  case (1 dl d)
  obtain r d1 where c: "service_record dl d = (r, d1)" by fastforce
  with "1.IH" [OF _ c [symmetric]] "1.prems" show ?case
    by (auto simp: service_until_time_code.simps [of dl d] split: if_splits)
qed

lemma receive_time_code_keeps: "P d \<Longrightarrow> P (snd (snd (receive_time_code_on_context tc t d)))"
  using taken [OF _ time_code_waited, unfolded take_time_code_def]
  by (simp add: receive_time_code_on_context_def case_prod_beta Let_def ensure_connected_keeps timing_keeps
      service_until_time_code_keeps)

end

text \<open>
  The operations on one context. A context is constructed only in memory that holds no live one.
\<close>

inductive device_op :: "device \<Rightarrow> device \<Rightarrow> bool" where
  construct: "dc_fd d < 0 \<Longrightarrow> device_op d (snd (construct_context config d))"
| destroy: "device_op d (destroy_context d)"
| start: "device_op d (snd (start_context d))"
| stop: "device_op d (snd (stop_context d))"
| reset: "device_op d (snd (reset_context d))"
| link_state: "device_op d (snd (snd (link_state_of_context d)))"
| send: "device_op d (snd (send_on_context pk t d))"
| receive: "device_op d (snd (snd (receive_on_context pk t d)))"
| send_time_code: "device_op d (snd (send_time_code_on_context tc t d))"
| receive_time_code: "device_op d (snd (snd (receive_time_code_on_context tc t d)))"
| wait: "device_op d (snd (snd (wait_on_context ev t d)))"
| statistics: "device_op d (snd (snd (statistics_of_context st d)))"
| clear_statistics: "device_op d (snd (request_simple VSPD_MSG_CLEAR_STATISTICS 250000 d))"

context device_invariant
begin

lemma op_keeps: "device_op d d' \<Longrightarrow> P d \<Longrightarrow> P d'"
  by (induction rule: device_op.induct)
    (simp_all add: construct_keeps destroy_keeps control_keeps link_state_of_context_keeps send_on_context_keeps
      data_keeps receive_time_code_keeps request_simple_keeps)

lemma run_keeps: "device_op\<^sup>*\<^sup>* d d' \<Longrightarrow> P d \<Longrightarrow> P d'"
  by (induction rule: rtranclp_induct) (auto intro: op_keeps)

end

section \<open>Well-formed contexts\<close>

definition device_ok :: "device \<Rightarrow> bool" where
  "device_ok d \<longleftrightarrow> length (dc_time_codes d) = DEVICE_TIME_CODE_QUEUE_DEPTH \<and>
     dc_time_code_head d < DEVICE_TIME_CODE_QUEUE_DEPTH \<and> dc_time_code_count d \<le> DEVICE_TIME_CODE_QUEUE_DEPTH \<and>
     list_all (\<lambda>tc. time_count tc \<le> 63 \<and> control_flags tc \<le> 3) (dc_time_codes d) \<and>
     dc_state d \<le> SPW_LINK_RUN \<and>
     unat (rx_total_size d) \<le> VSPD_MAX_LOGICAL_PACKET \<and> rx_next_offset d \<le> rx_total_size d \<and>
     \<not> (rx_active d \<and> rx_ready d) \<and> (rx_ready d \<longrightarrow> rx_next_offset d = rx_total_size d) \<and>
     (\<forall>i \<ge> VSPD_MAX_LOGICAL_PACKET. rx_data d i = 0)"

lemma device_ok_copy:
  assumes "device_ok d" and "\<not> rx_ready d" and "n \<le> rx_total_size d - rx_next_offset d"
  shows "device_ok (d\<lparr>rx_data := copy_to (rx_data d) (unat (rx_next_offset d)) p (unat n),
    rx_next_offset := rx_next_offset d + n\<rparr>)"
proof -
  have "unat n \<le> unat (rx_total_size d) - unat (rx_next_offset d)"
    using assms by (simp add: device_ok_def word_le_nat_alt unat_sub)
  moreover have "unat (rx_next_offset d) \<le> unat (rx_total_size d)"
    using assms(1) by (simp add: device_ok_def word_le_nat_alt)
  ultimately have le: "unat (rx_next_offset d) + unat n \<le> unat (rx_total_size d)" by simp
  moreover have "unat (rx_total_size d) < 2 ^ LENGTH(32)" by (rule unsigned_less)
  ultimately have "unat (rx_next_offset d + n) = unat (rx_next_offset d) + unat n"
    by (subst unat_add_lem [symmetric]) simp
  with assms le show ?thesis by (simp add: device_ok_def copy_to_def word_le_nat_alt)
qed

lemma device_ok_clear: "device_ok d \<Longrightarrow> device_ok (clear_rx d)"
  by (simp add: device_ok_def clear_rx_def)

lemma device_ok_data:
  assumes "device_ok d"
  shows "device_ok (snd (process_data_event h p d))"
proof -
  define d1 where "d1 = (if vh_flags h AND VSPD_FLAG_FRAGMENT_START \<noteq> 0 then d\<lparr>rx_active := True,
    rx_message_id := vh_message_id h, rx_total_size := vh_total_size h, rx_next_offset := 0\<rparr> else d)"
  define n where "n = vh_payload_size h"
  define d2 where "d2 = d1\<lparr>rx_data := (if n \<noteq> 0 then copy_to (rx_data d1) (unat (rx_next_offset d1)) (the p) (unat n)
    else rx_data d1), rx_next_offset := rx_next_offset d1 + n\<rparr>"
  have d2_eq: "(if n \<noteq> 0 then d1\<lparr>rx_data := copy_to (rx_data d1) (unat (rx_next_offset d1)) (the p) (unat n)\<rparr> else d1)
      \<lparr>rx_next_offset := rx_next_offset (if n \<noteq> 0 then d1\<lparr>rx_data := copy_to (rx_data d1) (unat (rx_next_offset d1))
        (the p) (unat n)\<rparr> else d1) + n\<rparr> = d2"
    by (simp add: d2_def)
  have copy: "device_ok d1 \<Longrightarrow> \<not> rx_ready d1 \<Longrightarrow> n \<le> rx_total_size d1 - rx_next_offset d1 \<Longrightarrow> device_ok d2"
    using device_ok_copy [of d1 n "the p"] by (auto simp: d2_def copy_to_def)
  have finish: "device_ok d2 \<Longrightarrow> rx_next_offset d2 = rx_total_size d2 \<Longrightarrow>
      device_ok (d2\<lparr>rx_terminator := t, rx_active := False, rx_ready := True\<rparr>)" for t
    by (simp add: device_ok_def)
  have first: "\<not> rx_ready d \<Longrightarrow> vh_flags h AND VSPD_FLAG_FRAGMENT_START \<noteq> 0 \<Longrightarrow>
      unat (vh_total_size h) \<le> VSPD_MAX_LOGICAL_PACKET \<Longrightarrow> device_ok d1 \<and> \<not> rx_ready d1"
    "\<not> rx_ready d \<Longrightarrow> vh_flags h AND VSPD_FLAG_FRAGMENT_START = 0 \<Longrightarrow> device_ok d1 \<and> \<not> rx_ready d1"
    using assms by (simp_all add: d1_def device_ok_def)
  show ?thesis
    unfolding process_data_event_def Let_def n_def [symmetric] d1_def [symmetric] d2_eq
    using assms first copy finish device_ok_clear [of d1] device_ok_clear [of d2]
    by (auto simp: not_less not_le)
qed

lemma device_ok_event:
  assumes "device_ok d" and "received_header f = Some h"
  shows "device_ok (snd (process_event h (received_payload h f) d))"
proof -
  note v = validate_frame_ok [OF received_header_some [OF assms(2)]]
  note shape = header_shape_ok [OF v(4)]
  consider (state) "vh_type h = VSPD_MSG_LINK_STATE_EVENT" | (code) "vh_type h = VSPD_MSG_TIME_CODE_RX"
    | (data) "vh_type h = VSPD_MSG_DATA_RX"
    | (other) "vh_type h \<notin> {VSPD_MSG_LINK_STATE_EVENT, VSPD_MSG_TIME_CODE_RX, VSPD_MSG_DATA_RX}" by blast
  then show ?thesis
  proof cases
    case state
    then have "vh_payload_size h = 4"
      using shape by (auto simp: header_shape_def vspd_type_allows_response_def vspd_type_is_event_def
          fixed_payload_size_def split: if_splits)
    with state link_state_payload [OF assms(2)]
    have "ucast (vspd_decode_u32_payload (received_payload h f)) \<le> SPW_LINK_RUN"
      by (simp add: vspd_decode_u32_payload_def received_payload_def link_state_small)
    with state assms(1) show ?thesis by (simp add: process_event_def device_ok_def)
  next
    case code
    then have "vh_payload_size h = 2"
      using shape by (auto simp: header_shape_def vspd_type_allows_response_def vspd_type_is_event_def
          fixed_payload_size_def split: if_splits)
    moreover from this code v(4) have "drop 40 f ! 0 \<le> 63 \<and> drop 40 f ! 1 \<le> 3"
      by (auto simp: vspd_validate_payload_shape_def Let_def split: if_splits)
    ultimately show ?thesis
      using code assms(1)
      by (auto simp: process_event_def queue_time_code_def device_ok_def received_payload_def Let_def
          list_all_length nth_list_update)
  next
    case data
    then show ?thesis using device_ok_data [OF assms(1)] by (simp add: process_event_def)
  next
    case other
    then show ?thesis using assms(1) by (simp add: process_event_def)
  qed
qed

lemma device_ok_fresh: "device_ok (fresh_context config d)"
  by (simp add: device_ok_def fresh_context_def zero_context_def list_all_length)

interpretation well_formed: device_invariant device_ok
  by unfold_locales
    (auto simp: device_ok_event device_ok_clear device_ok_fresh, auto simp: device_ok_def mark_disconnected_def close_fd_def clear_rx_def open_socket_def
      idle_rx_def take_time_code_def drop_fd_def split: list.splits)

section \<open>File descriptors\<close>

definition fd_balanced :: "device \<Rightarrow> bool" where
  "fd_balanced d \<longleftrightarrow> mset (hs_opened d) = mset (hs_closed d) + (if dc_fd d \<ge> 0 then {#dc_fd d#} else {#})"

lemma process_event_descriptors:
  "dc_fd (snd (process_event h p d)) = dc_fd d" "hs_opened (snd (process_event h p d)) = hs_opened d"
  "hs_closed (snd (process_event h p d)) = hs_closed d"
  by (simp_all add: process_event_def process_data_event_def queue_time_code_def clear_rx_def Let_def)

interpretation descriptors: device_invariant fd_balanced
  by unfold_locales
    (auto simp: fd_balanced_def process_event_descriptors mark_disconnected_def close_fd_def clear_rx_def
      open_socket_def idle_rx_def take_time_code_def drop_fd_def fresh_context_def zero_context_def
      split: list.splits)

lemma fd_balanced_fresh: "hs_opened d = hs_closed d \<Longrightarrow> fd_balanced (fresh_context config d)"
  by (simp add: fd_balanced_def fresh_context_def zero_context_def)

lemma construct_fresh: "construct_context config d = construct_context config (fresh_context config d)"
  by (simp add: construct_context_def fresh_context_def zero_context_def)

lemma fresh_no_fd: "dc_fd (fresh_context config d) < 0"
  by (simp add: fresh_context_def)

text \<open>A session that cannot be set up, and a context that is destroyed, hold no descriptor.\<close>

lemma mark_disconnected_fd: "dc_fd (mark_disconnected d) < 0"
  by (simp add: mark_disconnected_def clear_rx_def)

lemma session_failed_fd:
  "resume_started dl d = (r, d') \<Longrightarrow> r \<noteq> SPW_OK \<Longrightarrow> dc_fd d' < 0"
  "fetch_capabilities resp n dl d = (r, d') \<Longrightarrow> r \<noteq> SPW_OK \<Longrightarrow> dc_fd d' < 0"
  "attach_session resp n dl d = (r, d') \<Longrightarrow> r \<noteq> SPW_OK \<Longrightarrow> dc_fd d' < 0"
proof -
  show resume: "resume_started dl d = (r, d') \<Longrightarrow> r \<noteq> SPW_OK \<Longrightarrow> dc_fd d' < 0" for dl d r d'
    by (auto simp: resume_started_def mark_disconnected_fd split: if_splits prod.splits)
  show fetch: "fetch_capabilities resp n dl d = (r, d') \<Longrightarrow> r \<noteq> SPW_OK \<Longrightarrow> dc_fd d' < 0" for resp n dl d r d'
    by (auto simp: fetch_capabilities_def Let_def mark_disconnected_fd dest: resume split: if_splits prod.splits)
  show "attach_session resp n dl d = (r, d') \<Longrightarrow> r \<noteq> SPW_OK \<Longrightarrow> dc_fd d' < 0"
    by (auto simp: attach_session_def mark_disconnected_fd dest: fetch split: if_splits prod.splits)
qed

lemma connect_failed_fd: "connect_session dl d = (r, d') \<Longrightarrow> r \<noteq> SPW_OK \<Longrightarrow> dc_fd d' < 0"
  by (auto simp: connect_session_def Let_def mark_disconnected_fd dest: session_failed_fd split: if_splits prod.splits)

lemma destroy_fd: "dc_fd (destroy_context d) < 0"
  by (simp add: destroy_context_def case_prod_beta Let_def)

section \<open>Properties\<close>

text \<open>
  Property C13. Whatever the host and the daemon answer, the context of a port stays well formed under
  every sequence of operations: the queue of time-codes has its eight slots and its indices stay in
  range, every queued time-code and the link state are values of their types, the packet that is being
  received never exceeds one mebibyte nor its announced size, and no byte behind the reception
  buffer is ever written.
\<close>

theorem device_context_well_formed:
  assumes "device_op\<^sup>*\<^sup>* (snd (construct_context config d0)) d"
  shows "device_ok d"
  using well_formed.run_keeps [OF assms] well_formed.construct_keeps [OF device_ok_fresh fresh_no_fd]
  by (metis construct_fresh)

text \<open>A host on which the first connection is refused and the second one breaks after the first request.\<close>

definition sample_session_config :: spw_device_config where
  "sample_session_config = zero_device_config\<lparr>dev_struct_size := 120, dev_version := 1, dev_endpoint := [47, 97]\<rparr>"

definition sample_host :: device where
  "sample_host = blank_device\<lparr>hs_sockets := [3, 4], hs_connects := [False, True],
     hs_sends := [Send_error EINTR, Sent 44], hs_receives := [Recv_error EAGAIN, Received []], hs_polls := [Poll_ready POLLIN]\<rparr>"

definition sample_session :: device where
  "sample_session = snd (start_context (snd (construct_context sample_session_config sample_host)))"

lemma sample_session_op: "device_op\<^sup>*\<^sup>* (snd (construct_context sample_session_config sample_host)) sample_session"
  unfolding sample_session_def by (rule r_into_rtranclp) (rule device_op.start)

lemma sample_construct:
  "fst (construct_context sample_session_config sample_host) = SPW_ERR_LINK_UNAVAILABLE"
  by (simp add: construct_context_def deadline_for_def monotonic_us_def zero_context_def sample_host_def blank_device_def
      connect_session_def open_socket_def connect_socket_def)

lemma sample_session_run:
  "dc_desired_started sample_session \<and> length (hs_sent sample_session) = 1 \<and> hs_opened sample_session = [3, 4] \<and>
   hs_closed sample_session = [3, 4]"
  by (simp add: sample_session_def start_context_def request_simple_def ensure_connected_def mark_disconnected_def
      construct_context_def deadline_for_def monotonic_us_def zero_context_def sample_host_def blank_device_def
      connect_session_def open_socket_def connect_socket_def close_fd_def clear_rx_def send_request_def Let_def
      vspd_frame_ok vspd_validate_common_def vspd_type_valid_def base_header_def zero_vspd_header_def hello_payload_def
      sample_session_config_def zero_device_config_def send_record_def wait_response.simps receive_record_def
      deadline_passed_def wait_fd_def poll_timeout_ms_def)

theorem device_context_well_formed_witness:
  "device_ok sample_session \<and> dc_desired_started sample_session \<and> length (hs_sent sample_session) = 1"
  using device_context_well_formed [OF sample_session_op] sample_session_run by simp

text \<open>
  Property C14. A context neither leaks a descriptor nor closes one twice: at every moment the
  descriptors it has opened are those it has closed and the one it holds; a context whose
  construction fails, and one that is destroyed, holds none.
\<close>

theorem device_descriptors_balanced:
  assumes "hs_opened d0 = hs_closed d0" and "device_op\<^sup>*\<^sup>* (snd (construct_context config d0)) d"
  shows "mset (hs_opened d) = mset (hs_closed d) + (if dc_fd d \<ge> 0 then {#dc_fd d#} else {#}) \<and>
    (fst (construct_context config d0) \<noteq> SPW_OK \<longrightarrow> dc_fd (snd (construct_context config d0)) < 0) \<and>
    mset (hs_opened (destroy_context d)) = mset (hs_closed (destroy_context d))"
proof -
  have "fd_balanced (snd (construct_context config d0))"
    using descriptors.construct_keeps [OF fd_balanced_fresh [OF assms(1)] fresh_no_fd] by (metis construct_fresh)
  then have "fd_balanced d" by (rule descriptors.run_keeps [OF assms(2)])
  moreover from this have "fd_balanced (destroy_context d)" by (rule descriptors.destroy_keeps)
  moreover have "fst (construct_context config d0) \<noteq> SPW_OK \<longrightarrow> dc_fd (snd (construct_context config d0)) < 0"
    using connect_failed_fd [OF surjective_pairing] by (simp add: construct_context_def case_prod_beta Let_def)
  ultimately show ?thesis using destroy_fd [of d] by (simp add: fd_balanced_def)
qed

theorem device_descriptors_balanced_witness:
  "mset (hs_opened (destroy_context sample_session)) = mset (hs_closed (destroy_context sample_session)) \<and>
   hs_opened sample_session = [3, 4] \<and> dc_fd (snd (construct_context sample_session_config sample_host)) < 0"
proof -
  have "hs_opened sample_host = hs_closed sample_host" by (simp add: sample_host_def blank_device_def)
  from device_descriptors_balanced [OF this sample_session_op] sample_session_run sample_construct
  show ?thesis by simp
qed

end
