(* ===== verification/Device_Transfer.thy ===== *)
theory Device_Transfer
  imports Device_Session
begin

text \<open>
  Packets through a device context. A packet that is sent leaves as exactly the fragments of
  \<open>packet_frames\<close>, and a packet whose fragments arrive is handed to the application unchanged.
\<close>

unbundle bit_operations_syntax

section \<open>What is sent\<close>

text \<open>The records sent and the configuration, which receiving and waiting do not change.\<close>

definition outside :: "device \<Rightarrow> bytes list \<times> spw_device_config" where
  "outside d = (hs_sent d, dc_config d)"

lemma outside_unchanged [simp]:
  "outside (snd (monotonic_us d)) = outside d"
  "outside (snd (poll_timeout_ms deadline d)) = outside d"
  "outside (snd (deadline_passed deadline d)) = outside d"
  "outside (snd (deadline_for t d)) = outside d"
  "outside (clear_rx d) = outside d"
  "outside (mark_disconnected d) = outside d"
  "outside (d\<lparr>hs_receives := rs\<rparr>) = outside d"
  "outside (d\<lparr>hs_polls := ps\<rparr>) = outside d"
  "outside (d\<lparr>hs_sends := ss\<rparr>) = outside d"
  by (auto simp: outside_def monotonic_us_def poll_timeout_ms_def deadline_passed_def deadline_for_def clear_rx_def
      mark_disconnected_def close_fd_def Let_def split: list.splits option.splits prod.splits)

lemma wait_polls_outside [simp]: "outside (snd (wait_polls ps events deadline d)) = outside d"
  by (induction ps arbitrary: d) (auto simp: Let_def split: poll_outcome.splits)

lemma wait_fd_outside [simp]: "outside (snd (wait_fd events deadline d)) = outside d"
  by (simp add: wait_fd_def)

lemma process_event_outside [simp]: "outside (snd (process_event h p d)) = outside d"
  by (simp add: outside_def process_event_def process_data_event_def queue_time_code_def Let_def clear_rx_def)

lemma receive_attempts_outside [simp]: "outside (snd (snd (receive_attempts rs deadline d))) = outside d"
  by (induction rs arbitrary: d) (auto simp: Let_def case_prod_beta split: recv_outcome.splits errno.splits)

lemma receive_record_outside [simp]: "outside (snd (snd (receive_record deadline d))) = outside d"
  by (simp add: receive_record_def)

lemma wait_response_outside [simp]:
  "outside (snd (snd (snd (snd (wait_response ty rid st resp cap n dl d))))) = outside d"
proof (induction ty rid st resp cap n dl d rule: wait_response.induct)
  case (1 ty rid st resp cap n dl d)
  obtain r f d1 where c: "receive_record dl d = (r, f, d1)" by (metis prod_cases3)
  have o: "outside d1 = outside d" using receive_record_outside [of dl d] by (simp add: c)
  show ?case
  proof (cases "r = SPW_OK \<and> (\<exists>h. received_header f = Some h \<and> vh_flags h AND VSPD_FLAG_RESPONSE = 0)")
    case True
    then obtain h where h: "r = SPW_OK" "received_header f = Some h" "vh_flags h AND VSPD_FLAG_RESPONSE = 0" by blast
    obtain r2 d2 where e: "process_event h (received_payload h f) d1 = (r2, d2)" by fastforce
    have "outside d2 = outside d" using process_event_outside [of h "received_payload h f" d1] o by (simp add: e)
    then show ?thesis
      using "1.IH" [OF c [symmetric] refl _ h(2) _ e [symmetric]] h c e
      by (simp add: wait_response.simps [of ty rid st resp cap n dl d])
  next
    case False
    then show ?thesis using o c
      by (auto simp: wait_response.simps [of ty rid st resp cap n dl d] split: option.splits)
  qed
qed

lemma send_attempts_outside:
  "send_attempts ss data deadline d = (r, d') \<Longrightarrow>
     outside d' = (if r = SPW_OK then (hs_sent d @ [data], dc_config d) else outside d)"
proof (induction ss arbitrary: d)
  case Nil
  then show ?case by auto
next
  case (Cons s ss)
  let ?d = "d\<lparr>hs_sends := ss\<rparr>"
  obtain passed d1 where p: "deadline_passed deadline ?d = (passed, d1)" by fastforce
  obtain r2 d2 where w: "wait_fd POLLOUT deadline ?d = (r2, d2)" by fastforce
  have o: "outside d1 = outside d" "outside d2 = outside d"
    using outside_unchanged(3) [of deadline ?d] wait_fd_outside [of POLLOUT deadline ?d] by (simp_all add: p w)
  show ?case
  proof (cases s)
    case (Sent n)
    show ?thesis
    proof (cases "n = length data")
      case True
      with Sent Cons.prems show ?thesis by (auto simp: outside_def)
    next
      case False
      with Sent Cons.prems have "r = SPW_ERR_BACKEND" "d' = mark_disconnected ?d" by (simp_all add: Let_def)
      then show ?thesis by simp
    qed
  next
    case (Send_error e)
    have "send_attempts ss data deadline d1 = (r, d') \<or> send_attempts ss data deadline d2 = (r, d') \<or>
        r \<noteq> SPW_OK \<and> d' \<in> {d1, d2, mark_disconnected ?d}"
      using Cons.prems Send_error p w by (cases e) (auto simp: Let_def split: if_splits)
    then show ?thesis using Cons.IH [of d1] Cons.IH [of d2] o by (auto simp: outside_def [of d1] outside_def [of d2] outside_def [of d])
  qed
qed

lemma send_record_outside:
  "send_record data deadline d = (r, d') \<Longrightarrow>
     outside d' = (if r = SPW_OK then (hs_sent d @ [data], dc_config d) else outside d)"
  by (simp add: send_record_def send_attempts_outside)

text \<open>One round of the loop of \<open>device_send\<close>, in terms of the fragments of the packet.\<close>

lemma send_fragments_step:
  assumes "pk_data pk = Some out" and "pk_length pk \<le> length out" and "pk_length pk \<le> VSPD_MAX_LOGICAL_PACKET"
    and "k < fragment_total (pk_length pk)"
  defines "data \<equiv> take (pk_length pk) out"
  shows "send_fragments pk rid mid (of_nat (VSPD_MAX_FRAME_PAYLOAD * k)) dl d =
    (case vspd_frame (fragment_header VSPD_MSG_DATA_TX rid (dev_port_id (dc_config d)) mid (pk_terminator pk) data k)
        (fragment_bytes data k) of None \<Rightarrow> (SPW_ERR_BACKEND, d)
     | Some frame \<Rightarrow>
         let (result, d) = send_record frame dl d in
         if result \<noteq> SPW_OK then (result, d)
         else if Suc k = fragment_total (pk_length pk)
         then let (result, status, _, _, d) = wait_response VSPD_MSG_DATA_TX rid VSPD_STATUS_BACKEND None 0 0 dl d
           in (if result = SPW_OK then status_to_result status else result, d)
         else send_fragments pk rid mid (of_nat (VSPD_MAX_FRAME_PAYLOAD * Suc k)) dl d)"
proof -
  let ?n = "pk_length pk" let ?len = "of_nat ?n :: u32" let ?off = "of_nat (VSPD_MAX_FRAME_PAYLOAD * k) :: u32"
  have len: "length data = ?n" using assms(2) by (simp add: data_def)
  note p = fragment_position_nat [OF assms(3,4)]
  have c: "unat (chunk_at ?len ?off) = length (fragment_bytes data k)"
      "final_at ?len ?off \<longleftrightarrow> Suc k = fragment_total ?n"
    using fragment_chunk [of data k] assms(3,4) len by simp_all
  have zero: "?n = 0 \<longleftrightarrow> ?len = 0" using unat_eq_0 [of ?len] by (simp only: p(1))
  have fin: "(?n = 0 \<or> ?off + chunk_at ?len ?off = ?len) \<longleftrightarrow> Suc k = fragment_total ?n"
    using c(2) zero by (simp add: final_at_def)
  have bytes: "(if chunk_at ?len ?off \<noteq> 0 then take (unat (chunk_at ?len ?off)) (drop (unat ?off) (the (pk_data pk))) else []) =
      fragment_bytes data k"
  proof -
    have "fragment_bytes data k = take (min VSPD_MAX_FRAME_PAYLOAD (?n - VSPD_MAX_FRAME_PAYLOAD * k)) (drop (VSPD_MAX_FRAME_PAYLOAD * k) out)"
      by (simp add: fragment_bytes_def data_def drop_take)
    moreover have "unat (chunk_at ?len ?off) = min VSPD_MAX_FRAME_PAYLOAD (?n - VSPD_MAX_FRAME_PAYLOAD * k)"
      using chunk_at_unat(1) [OF p(3)] by (simp only: p(1,2))
    ultimately have "take (unat (chunk_at ?len ?off)) (drop (unat ?off) (the (pk_data pk))) = fragment_bytes data k"
      by (simp only: assms(1) p(2) option.sel)
    then show ?thesis using c(1) by (metis length_0_conv unat_0)
  qed
  have header: "(base_header VSPD_MSG_DATA_TX)\<lparr>vh_payload_size := chunk_at ?len ?off, vh_request_id := rid,
      vh_port_id := port, vh_message_id := mid, vh_fragment_offset := ?off, vh_total_size := ?len,
      vh_flags := (if ?n = 0 \<or> ?off + chunk_at ?len ?off = ?len
        then (if ?off = 0 then VSPD_FLAG_FRAGMENT_START else 0) OR VSPD_FLAG_FRAGMENT_END OR
          (if pk_terminator pk = SPW_TERMINATOR_EEP then VSPD_FLAG_EEP else VSPD_FLAG_EOP)
        else (if ?off = 0 then VSPD_FLAG_FRAGMENT_START else 0))\<rparr> =
      fragment_header VSPD_MSG_DATA_TX rid port mid (pk_terminator pk) data k" for port
    unfolding fin fragment_header_def data_header_def data_flags_def len c(2) Let_def ..
  have more: "Suc k \<noteq> fragment_total ?n \<Longrightarrow> ?off + chunk_at ?len ?off = of_nat (VSPD_MAX_FRAME_PAYLOAD * Suc k) \<and>
      unat (of_nat (VSPD_MAX_FRAME_PAYLOAD * Suc k) :: u32) < ?n"
  proof -
    assume "Suc k \<noteq> fragment_total ?n"
    with assms(4) have k: "Suc k < fragment_total ?n" by simp
    note n = fragment_next [of data k, unfolded len, OF assms(3) k]
    show ?thesis using n(3) unfolding n(1,2) fragment_position_nat(2) [OF assms(3) k] by blast
  qed
  show ?thesis
  proof (cases "Suc k = fragment_total ?n")
    case True
    show ?thesis unfolding send_fragments.simps [of pk rid mid ?off dl d] Let_def
      unfolding header bytes unfolding fin
      by (simp only: True refl if_True)
  next
    case False
    show ?thesis unfolding send_fragments.simps [of pk rid mid ?off dl d] Let_def
      unfolding header bytes unfolding fin
      by (simp only: False more [OF False] if_False if_True)
  qed
qed


lemma send_fragments_ok:
  assumes "pk_data pk = Some out" and "pk_length pk \<le> length out" and "pk_length pk \<le> VSPD_MAX_LOGICAL_PACKET"
    and "k < fragment_total (pk_length pk)"
    and "send_fragments pk rid mid (of_nat (VSPD_MAX_FRAME_PAYLOAD * k)) dl d = (SPW_OK, d')"
  shows "hs_sent d' = hs_sent d @ drop k (packet_frames VSPD_MSG_DATA_TX rid (dev_port_id (dc_config d)) mid
    (pk_terminator pk) (take (pk_length pk) out))"
  using assms(4,5)
proof (induction "fragment_total (pk_length pk) - k" arbitrary: k d)
  case 0
  then show ?case by simp
next
  case (Suc n)
  let ?port = "dev_port_id (dc_config d)" let ?data = "take (pk_length pk) out"
  let ?frames = "packet_frames VSPD_MSG_DATA_TX rid ?port mid (pk_terminator pk) ?data"
  have len: "length ?data = pk_length pk" "length ?frames = fragment_total (pk_length pk)"
    using assms(2) by (simp_all add: packet_frames_def)
  note run = Suc.prems(2) [unfolded send_fragments_step [OF assms(1-3) Suc.prems(1)]]
  obtain f where f: "vspd_frame (fragment_header VSPD_MSG_DATA_TX rid ?port mid (pk_terminator pk) ?data k)
      (fragment_bytes ?data k) = Some f"
    using run by (auto split: option.splits)
  then have nth: "?frames ! k = f" using Suc.prems(1) len(1) by (simp add: packet_frames_def)
  obtain r d1 where s: "send_record f dl d = (r, d1)" by fastforce
  have "r = SPW_OK" using run f s by (auto split: if_splits)
  with send_record_outside [OF s] have d1: "hs_sent d1 = hs_sent d @ [f]" "dc_config d1 = dc_config d"
    by (auto simp: outside_def)
  have drop: "drop k ?frames = f # drop (Suc k) ?frames"
    using nth Suc.prems(1) len(2) by (simp add: Cons_nth_drop_Suc [symmetric])
  show ?case
  proof (cases "Suc k = fragment_total (pk_length pk)")
    case True
    obtain r2 st resp n d2 where w: "wait_response VSPD_MSG_DATA_TX rid VSPD_STATUS_BACKEND None 0 0 dl d1 = (r2, st, resp, n, d2)"
      by (metis prod_cases5)
    have "d' = d2" using run f s \<open>r = SPW_OK\<close> True w by simp
    then have "hs_sent d' = hs_sent d1"
      using wait_response_outside [of VSPD_MSG_DATA_TX rid VSPD_STATUS_BACKEND None 0 0 dl d1] by (simp add: w outside_def)
    with True len(2) d1 drop show ?thesis by simp
  next
    case False
    with run f s \<open>r = SPW_OK\<close> have "send_fragments pk rid mid (of_nat (VSPD_MAX_FRAME_PAYLOAD * Suc k)) dl d1 = (SPW_OK, d')"
      by simp
    from Suc.hyps(1) [OF _ _ this] Suc.hyps(2) False Suc.prems(1)
    have "hs_sent d' = hs_sent d1 @ drop (Suc k) (packet_frames VSPD_MSG_DATA_TX rid (dev_port_id (dc_config d1)) mid
        (pk_terminator pk) ?data)" by linarith
    with d1 drop show ?thesis by simp
  qed
qed

section \<open>What is received\<close>

text \<open>The reception of a packet after its first \<open>k\<close> fragments.\<close>

definition receiving :: "u32 \<Rightarrow> bytes \<Rightarrow> nat \<Rightarrow> device \<Rightarrow> bool" where
  "receiving mid data k d \<longleftrightarrow> \<not> rx_ready d \<and> (rx_active d \<longleftrightarrow> 0 < k) \<and>
     (0 < k \<longrightarrow> rx_message_id d = mid \<and> rx_total_size d = of_nat (length data) \<and>
        rx_next_offset d = of_nat (VSPD_MAX_FRAME_PAYLOAD * k)) \<and>
     (\<forall>i < VSPD_MAX_FRAME_PAYLOAD * k. rx_data d i = data ! i)"

definition received :: "u8 \<Rightarrow> bytes \<Rightarrow> device \<Rightarrow> bool" where
  "received terminator data d \<longleftrightarrow> rx_ready d \<and> rx_total_size d = of_nat (length data) \<and>
     rx_terminator d = (if terminator = SPW_TERMINATOR_EEP then SPW_TERMINATOR_EEP else SPW_TERMINATOR_EOP) \<and>
     (\<forall>i < length data. rx_data d i = data ! i)"

lemma receive_fragment:
  assumes "length data \<le> VSPD_MAX_LOGICAL_PACKET" and "k < fragment_total (length data)" and "receiving mid data k d"
    and "process_event (fragment_header VSPD_MSG_DATA_RX 0 port mid t data k) payload d = (r, d')"
    and "fragment_bytes data k \<noteq> [] \<Longrightarrow> payload = Some (fragment_bytes data k)"
  shows "r = SPW_OK" and "if Suc k = fragment_total (length data) then received t data d' else receiving mid data (Suc k) d'"
proof -
  note of_nat_mult [simp del]
  let ?n = "length data" let ?len = "of_nat ?n :: u32" let ?off = "of_nat (VSPD_MAX_FRAME_PAYLOAD * k) :: u32"
  let ?chunk = "chunk_at ?len ?off" let ?h = "fragment_header VSPD_MSG_DATA_RX 0 port mid t data k"
  note p = fragment_position_nat [OF assms(1,2)]
  note c = fragment_chunk [OF assms(1,2)]
  have off: "?off = 0 \<longleftrightarrow> k = 0" using unat_eq_0 [of ?off] by (simp only: p(2)) simp
  have fields: "vh_type ?h = VSPD_MSG_DATA_RX" "vh_message_id ?h = mid" "vh_total_size ?h = ?len" "vh_fragment_offset ?h = ?off"
      "vh_payload_size ?h = ?chunk" "vh_flags ?h AND VSPD_FLAG_FRAGMENT_START = 0 \<longleftrightarrow> k \<noteq> 0"
      "vh_flags ?h AND VSPD_FLAG_FRAGMENT_END = 0 \<longleftrightarrow> Suc k \<noteq> fragment_total ?n"
      "vh_flags ?h AND VSPD_FLAG_EEP = 0 \<longleftrightarrow> \<not> (Suc k = fragment_total ?n \<and> t = SPW_TERMINATOR_EEP)"
    unfolding fragment_header_def by (simp_all only: data_header_fields data_flags_simps c(2) off)
  define d1 where "d1 = (if k = 0 then d\<lparr>rx_active := True, rx_message_id := mid, rx_total_size := ?len, rx_next_offset := 0\<rparr> else d)"
  have d1: "rx_next_offset d1 = ?off" "rx_total_size d1 = ?len" "rx_message_id d1 = mid" "rx_active d1" "\<not> rx_ready d1"
      "rx_data d1 = rx_data d"
    using assms(3) off by (auto simp: d1_def receiving_def)
  define d2 where "d2 = d1\<lparr>rx_data := (if ?chunk \<noteq> 0 then copy_to (rx_data d1) (VSPD_MAX_FRAME_PAYLOAD * k) (the payload)
      (length (fragment_bytes data k)) else rx_data d1),
    rx_next_offset := ?off + ?chunk\<rparr>"
  have d2_eq: "(if ?chunk \<noteq> 0 then d1\<lparr>rx_data := copy_to (rx_data d1) (unat (rx_next_offset d1)) (the payload) (unat ?chunk)\<rparr> else d1)
      \<lparr>rx_next_offset := rx_next_offset (if ?chunk \<noteq> 0 then d1\<lparr>rx_data := copy_to (rx_data d1) (unat (rx_next_offset d1))
        (the payload) (unat ?chunk)\<rparr> else d1) + ?chunk\<rparr> = d2"
    unfolding d2_def by (cases "?chunk = 0") (simp_all add: d1 p(2) c(1))
  have inside: "\<not> ?len - ?off < ?chunk"
    using chunk_at_unat(2) [OF p(3)] by (simp add: word_less_nat_alt unat_sub word_le_nat_alt)
  have stored: "\<forall>i < VSPD_MAX_FRAME_PAYLOAD * k + length (fragment_bytes data k). rx_data d2 i = data ! i"
  proof (intro allI impI)
    fix i assume i: "i < VSPD_MAX_FRAME_PAYLOAD * k + length (fragment_bytes data k)"
    show "rx_data d2 i = data ! i"
    proof (cases "i < VSPD_MAX_FRAME_PAYLOAD * k")
      case True
      then show ?thesis using assms(3) by (simp add: d2_def d1 copy_to_def receiving_def)
    next
      case False
      with i have "fragment_bytes data k \<noteq> []" and "?chunk \<noteq> 0" using c(1) by auto
      then have "rx_data d2 i = fragment_bytes data k ! (i - VSPD_MAX_FRAME_PAYLOAD * k)"
        using False i assms(5) c(1) by (simp add: d2_def copy_to_def)
      also have "\<dots> = data ! i" using False i by (simp add: fragment_bytes_def)
      finally show ?thesis .
    qed
  qed
  have run: "process_event ?h payload d =
      (SPW_OK, if Suc k = fragment_total ?n then d2\<lparr>rx_terminator := (if t = SPW_TERMINATOR_EEP then SPW_TERMINATOR_EEP
          else SPW_TERMINATOR_EOP), rx_active := False, rx_ready := True\<rparr> else d2)"
  proof -
    have guards: "\<not> rx_ready d" "\<not> (k = 0 \<and> (rx_active d \<or> ?off \<noteq> 0 \<or> VSPD_MAX_LOGICAL_PACKET < unat ?len))"
        "\<not> (k \<noteq> 0 \<and> (\<not> rx_active d \<or> rx_message_id d \<noteq> mid \<or> rx_total_size d \<noteq> ?len))"
      using assms(1,3) off p(1) by (auto simp: receiving_def)
    have fits: "\<not> (?off \<noteq> rx_next_offset d1 \<or> rx_total_size d1 - rx_next_offset d1 < ?chunk)"
      using inside by (simp only: d1) simp
    have whole: "Suc k = fragment_total ?n \<Longrightarrow> \<not> rx_next_offset d2 \<noteq> rx_total_size d2"
      using c(2) chunk_at_unat(3) [OF p(3)] p(3) by (auto simp: d2_def d1 final_at_def fragment_position_def)
    show ?thesis
      unfolding process_event_def process_data_event_def Let_def fields not_not
      unfolding d1_def [symmetric] unfolding d2_eq
      using guards fits whole by (cases "Suc k = fragment_total ?n") simp_all
  qed
  then show "r = SPW_OK" using assms(4) by simp
  show "if Suc k = fragment_total (length data) then received t data d' else receiving mid data (Suc k) d'"
  proof (cases "Suc k = fragment_total ?n")
    case True
    then have "length data \<le> VSPD_MAX_FRAME_PAYLOAD * k + length (fragment_bytes data k)"
      using final_at_unat [OF p(3)] c p by simp
    with True run assms(4) stored show ?thesis by (auto simp: received_def d2_def d1)
  next
    case False
    with assms(2) have "Suc k < fragment_total ?n" by simp
    note n = fragment_next [OF assms(1) this]
    have "length (fragment_bytes data k) = VSPD_MAX_FRAME_PAYLOAD" using c(1) unfolding n(1) by simp
    with False run assms(4) stored n d1 show ?thesis by (auto simp: receiving_def d2_def)
  qed
qed

lemma packet_frames_nth:
  assumes "length data \<le> VSPD_MAX_LOGICAL_PACKET" and "mid \<noteq> 0"
    and "ty = VSPD_MSG_DATA_TX \<and> rid \<noteq> 0 \<or> ty = VSPD_MSG_DATA_RX \<and> rid = 0" and "k < fragment_total (length data)"
  obtains f where "packet_frames ty rid port mid t data ! k = f" and "received_header f = Some (fragment_header ty rid port mid t data k)"
    and "length f = 40 + length (fragment_bytes data k)" and "drop 40 f = fragment_bytes data k"
proof -
  from fragment_accepted [OF assms(1,4,2,3), of port t zero_vspd_header]
  obtain f where f: "vspd_frame (fragment_header ty rid port mid t data k) (fragment_bytes data k) = Some f"
    "vspd_validate_frame (Some f) (Some zero_vspd_header) = (VSPD_CODEC_OK, Some (fragment_header ty rid port mid t data k))"
    "length f = 40 + length (fragment_bytes data k)" "drop 40 f = fragment_bytes data k" .
  have "packet_frames ty rid port mid t data ! k = f" using f(1) assms(4) by (simp add: packet_frames_def)
  moreover have "received_header f = Some (fragment_header ty rid port mid t data k)" using f(2) by (simp add: received_header_def)
  ultimately show thesis using that f(3,4) by blast
qed

lemma packet_frames_length [simp]: "length (packet_frames ty rid port mid t data) = fragment_total (length data)"
  by (simp add: packet_frames_def)

lemma packet_frames_ok:
  assumes "length data \<le> VSPD_MAX_LOGICAL_PACKET" and "mid \<noteq> 0"
    and "ty = VSPD_MSG_DATA_TX \<and> rid \<noteq> 0 \<or> ty = VSPD_MSG_DATA_RX \<and> rid = 0"
  shows "\<forall>f \<in> set (packet_frames ty rid port mid t data). received_header f \<noteq> None"
    and "concat (map (drop VSPD_HEADER_SIZE) (packet_frames ty rid port mid t data)) = data"
proof -
  let ?fs = "packet_frames ty rid port mid t data"
  show "\<forall>f \<in> set ?fs. received_header f \<noteq> None"
    using packet_frames_nth [OF assms] packet_frames_length by (metis in_set_conv_nth option.distinct(1))
  have "map (drop 40) ?fs = map (fragment_bytes data) [0..<fragment_total (length data)]"
  proof (rule nth_equalityI)
    fix i assume "i < length (map (drop 40) ?fs)"
    then have i: "i < fragment_total (length data)" by simp
    from packet_frames_nth [OF assms i, of port t] obtain f where "?fs ! i = f" "drop 40 f = fragment_bytes data i" .
    with i show "map (drop 40) ?fs ! i = map (fragment_bytes data) [0..<fragment_total (length data)] ! i" by simp
  qed simp
  then show "concat (map (drop VSPD_HEADER_SIZE) ?fs) = data" using fragments_cover [of data] by simp
qed

lemma receive_record_next:
  "hs_receives d = Received f # rs \<Longrightarrow> f \<noteq> [] \<Longrightarrow> length f \<le> FRAME_CAPACITY \<Longrightarrow>
     receive_record dl d = (SPW_OK, f, d\<lparr>hs_receives := rs\<rparr>)"
  by (simp add: receive_record_def)

lemma receiving_host: "receiving mid data k (d\<lparr>hs_receives := rs\<rparr>) \<longleftrightarrow> receiving mid data k d"
  by (simp add: receiving_def)

lemma service_fragments:
  assumes "length data \<le> VSPD_MAX_LOGICAL_PACKET" and "mid \<noteq> 0" and "k < fragment_total (length data)"
    and "receiving mid data k d"
    and "hs_receives d = map Received (drop k (packet_frames VSPD_MSG_DATA_RX 0 port mid t data)) @ rs"
  shows "\<exists>d'. service_until_packet dl d = (SPW_OK, d') \<and> received t data d' \<and> hs_receives d' = rs \<and> outside d' = outside d"
  using assms(3-5)
proof (induction "fragment_total (length data) - k" arbitrary: k d)
  case 0
  then show ?case by simp
next
  case (Suc n)
  let ?frames = "packet_frames VSPD_MSG_DATA_RX 0 port mid t data"
  let ?h = "fragment_header VSPD_MSG_DATA_RX 0 port mid t data k"
  obtain f where f: "vspd_frame ?h (fragment_bytes data k) = Some f"
      "vspd_validate_frame (Some f) (Some zero_vspd_header) = (VSPD_CODEC_OK, Some ?h)"
      "length f = 40 + length (fragment_bytes data k)" "drop 40 f = fragment_bytes data k"
    using fragment_accepted [OF assms(1) Suc.prems(1) assms(2)] by blast
  have "?frames ! k = f" "length ?frames = fragment_total (length data)"
    using f(1) Suc.prems(1) by (simp_all add: packet_frames_def)
  then have drop: "drop k ?frames = f # drop (Suc k) ?frames"
    using Suc.prems(1) by (simp add: Cons_nth_drop_Suc [symmetric])
  define d1 where "d1 = d\<lparr>hs_receives := map Received (drop (Suc k) ?frames) @ rs\<rparr>"
  have rec: "receive_record dl d = (SPW_OK, f, d1)"
    unfolding d1_def using Suc.prems(3) f(3) drop by (intro receive_record_next) (auto simp: fragment_bytes_def)
  obtain r d2 where e: "process_event ?h (received_payload ?h f) d1 = (r, d2)" by fastforce
  have "vh_payload_size ?h = chunk_at (of_nat (length data)) (of_nat (VSPD_MAX_FRAME_PAYLOAD * k))"
    by (simp only: fragment_header_def data_header_fields)
  then have "fragment_bytes data k \<noteq> [] \<Longrightarrow> received_payload ?h f = Some (fragment_bytes data k)"
    using fragment_chunk(1) [OF assms(1) Suc.prems(1)] f(4) by (auto simp: received_payload_def)
  note got = receive_fragment [OF assms(1) Suc.prems(1) _ e this, unfolded d1_def receiving_host, OF Suc.prems(2)]
  have "service_record dl d = (SPW_OK, d2)"
    using rec f(2) e got(1) by (simp add: service_record_def received_header_def fragment_header_def)
  moreover have "\<not> rx_ready d" using Suc.prems(2) by (simp add: receiving_def)
  ultimately have run: "service_until_packet dl d = service_until_packet dl d2"
    by (simp add: service_until_packet.simps [of dl d])
  have d2: "hs_receives d2 = map Received (drop (Suc k) ?frames) @ rs" "outside d2 = outside d"
    using process_event_receives' [OF e] process_event_outside [of ?h "received_payload ?h f" d1, unfolded e snd_conv]
    by (simp_all add: d1_def)
  show ?case
  proof (cases "Suc k = fragment_total (length data)")
    case True
    then have "received t data d2" "hs_receives d2 = rs" using got(2) d2 by (simp_all add: packet_frames_def)
    then show ?thesis using run d2(2) by (simp add: service_until_packet.simps [of dl d2] received_def)
  next
    case False
    with got(2) have "receiving mid data (Suc k) d2" by simp
    from Suc.hyps(1) [OF _ _ this d2(1)] Suc.hyps(2) False Suc.prems(1)
    obtain d' where "service_until_packet dl d2 = (SPW_OK, d')" "received t data d'" "hs_receives d' = rs"
        "outside d' = outside d2" by (metis Suc_leI diff_Suc_Suc Suc_diff_Suc le_neq_implies_less nat.inject)
    then show ?thesis using run d2(2) by simp
  qed
qed

section \<open>A host that takes every record\<close>

definition takes :: "bytes list \<Rightarrow> send_outcome list" where
  "takes fs = map (\<lambda>f. Sent (length f)) fs"

text \<open>The header of a response without payload.\<close>

definition answers :: "u8 \<Rightarrow> u32 \<Rightarrow> u32 \<Rightarrow> bytes \<Rightarrow> bool" where
  "answers type request_id status f \<longleftrightarrow> (case received_header f of None \<Rightarrow> False
     | Some h \<Rightarrow> vh_flags h AND VSPD_FLAG_RESPONSE \<noteq> 0 \<and> vh_type h = type \<and> vh_request_id h = request_id \<and>
         vh_status h = status \<and> vh_payload_size h = 0)"

lemma answers_some:
  assumes "answers ty rid st f"
  obtains h where "received_header f = Some h" "vh_flags h AND VSPD_FLAG_RESPONSE \<noteq> 0" "vh_type h = ty"
    "vh_request_id h = rid" "vh_status h = st" "vh_payload_size h = 0" "length f = 40"
proof -
  obtain h where h: "received_header f = Some h" using assms by (auto simp: answers_def split: option.splits)
  then have "length f = 40 + unat (vh_payload_size h)" using validate_frame_ok(1) [OF received_header_some] by blast
  with h assms that show thesis by (auto simp: answers_def)
qed

lemma send_record_taken:
  "hs_sends d = Sent (length f) # ss \<Longrightarrow> send_record f dl d = (SPW_OK, d\<lparr>hs_sends := ss, hs_sent := hs_sent d @ [f]\<rparr>)"
  by (simp add: send_record_def)

lemma wait_response_answered:
  assumes "answers ty rid st f" and "hs_receives d = Received f # rs"
  shows "wait_response ty rid st0 None 0 n dl d = (SPW_OK, st, None, 0, d\<lparr>hs_receives := rs\<rparr>)"
proof -
  from answers_some [OF assms(1)] obtain h where h: "received_header f = Some h" "vh_flags h AND VSPD_FLAG_RESPONSE \<noteq> 0"
      "vh_type h = ty" "vh_request_id h = rid" "vh_status h = st" "vh_payload_size h = 0" "length f = 40" .
  then have "receive_record dl d = (SPW_OK, f, d\<lparr>hs_receives := rs\<rparr>)"
    using assms(2) by (intro receive_record_next) auto
  with h show ?thesis by (simp add: wait_response.simps [of ty rid st0 None 0 n dl d])
qed

lemma wait_response_mismatch:
  assumes "answers ty' rid' st' f" and "rid' \<noteq> rid" and "hs_receives d = Received f # rs"
  shows "wait_response ty rid st resp cap n dl d = (SPW_ERR_BACKEND, st, resp, n, mark_disconnected (d\<lparr>hs_receives := rs\<rparr>))"
proof -
  from answers_some [OF assms(1)] obtain h where h: "received_header f = Some h" "vh_flags h AND VSPD_FLAG_RESPONSE \<noteq> 0"
      "vh_request_id h = rid'" "length f = 40" .
  then have "receive_record dl d = (SPW_OK, f, d\<lparr>hs_receives := rs\<rparr>)"
    using assms(3) by (intro receive_record_next) auto
  with h assms(2) show ?thesis by (simp add: wait_response.simps [of ty rid st resp cap n dl d])
qed

lemma vspd_type_valid_data: "vspd_type_valid VSPD_MSG_DATA_TX" "vspd_type_valid VSPD_MSG_DATA_RX"
  by (simp_all add: vspd_type_valid_def)

text \<open>The loop of \<open>device_send\<close> on a host that takes the fragments.\<close>

lemma send_fragments_taken:
  assumes "pk_data pk = Some out" and "pk_length pk \<le> length out" and "pk_length pk \<le> VSPD_MAX_LOGICAL_PACKET"
    and "k < fragment_total (pk_length pk)"
    and "hs_sends d = takes (drop k (packet_frames VSPD_MSG_DATA_TX rid (dev_port_id (dc_config d)) mid
      (pk_terminator pk) (take (pk_length pk) out))) @ ss"
  shows "send_fragments pk rid mid (of_nat (VSPD_MAX_FRAME_PAYLOAD * k)) dl d =
    (let (result, status, _, _, d) = wait_response VSPD_MSG_DATA_TX rid VSPD_STATUS_BACKEND None 0 0 dl
       (d\<lparr>hs_sends := ss, hs_sent := hs_sent d @ drop k (packet_frames VSPD_MSG_DATA_TX rid (dev_port_id (dc_config d)) mid
      (pk_terminator pk) (take (pk_length pk) out))\<rparr>)
     in (if result = SPW_OK then status_to_result status else result, d))"
  using assms(4,5)
proof (induction "fragment_total (pk_length pk) - k" arbitrary: k d)
  case 0
  then show ?case by simp
next
  case (Suc n)
  note of_nat_mult [simp del] mult_Suc_right [simp del]
  let ?port = "dev_port_id (dc_config d)" let ?data = "take (pk_length pk) out"
  let ?frames = "packet_frames VSPD_MSG_DATA_TX rid ?port mid (pk_terminator pk) ?data"
  have len: "length ?data = pk_length pk" "length ?frames = fragment_total (pk_length pk)"
    using assms(2) by (simp_all add: packet_frames_def)
  have "fragment_position (of_nat (length ?data)) (of_nat (VSPD_MAX_FRAME_PAYLOAD * k))"
    using fragment_position_nat(3) assms(3) Suc.prems(1) len(1) by metis
  then obtain f where f: "vspd_frame (fragment_header VSPD_MSG_DATA_TX rid ?port mid (pk_terminator pk) ?data k)
      (fragment_bytes ?data k) = Some f"
    using data_header_common vspd_frame_ok unfolding fragment_header_def by (metis vspd_type_valid_data)
  have "?frames ! k = f" using f Suc.prems(1) len(1) by (simp add: packet_frames_def)
  then have drop: "drop k ?frames = f # drop (Suc k) ?frames"
    using Suc.prems(1) len(2) by (simp add: Cons_nth_drop_Suc [symmetric])
  let ?d1 = "d\<lparr>hs_sends := takes (drop (Suc k) ?frames) @ ss, hs_sent := hs_sent d @ [f]\<rparr>"
  have s: "send_record f dl d = (SPW_OK, ?d1)"
    using Suc.prems(2) drop by (intro send_record_taken) (simp add: takes_def)
  note step = send_fragments_step [OF assms(1-3) Suc.prems(1), of rid mid dl d, unfolded f option.case s Let_def prod.case]
  show ?case
  proof (cases "Suc k = fragment_total (pk_length pk)")
    case True
    then show ?thesis using len(2) by (simp add: step drop takes_def)
  next
    case False
    with Suc.hyps(1) [of "Suc k" ?d1] Suc.hyps(2) Suc.prems(1) show ?thesis
      by (simp add: step drop)
  qed
qed

section \<open>Operations on a connected context\<close>

lemma deadline_for_clock: "\<exists>c. snd (deadline_for t d) = d\<lparr>hs_clock := c\<rparr>"
proof -
  have "d = d\<lparr>hs_clock := hs_clock d\<rparr>" by simp
  moreover have "\<exists>c. snd (monotonic_us d) = d\<lparr>hs_clock := c\<rparr>"
    by (auto simp: monotonic_us_def split: list.splits option.splits intro: exI [of _ "hs_clock d"])
  ultimately show ?thesis
    by (auto simp: deadline_for_def case_prod_beta Let_def intro: exI [of _ "hs_clock d"])
qed

lemma send_connected:
  assumes "dc_fd d \<ge> 0"
  obtains c dl where "send_on_context pk t d = send_fragments pk (dc_next_request_id d) (dc_next_message_id d) 0 dl
    (d\<lparr>hs_clock := c, dc_next_request_id := dc_next_request_id d + 1, dc_next_message_id := dc_next_message_id d + 1\<rparr>)"
proof -
  obtain c where "snd (deadline_for t d) = d\<lparr>hs_clock := c\<rparr>" using deadline_for_clock by blast
  with assms that [of "fst (deadline_for t d)" c] show thesis
    by (simp add: send_on_context_def ensure_connected_def case_prod_beta Let_def)
qed

abbreviation sent_frames :: "spw_packet \<Rightarrow> bytes \<Rightarrow> device \<Rightarrow> bytes list" where
  "sent_frames pk out d \<equiv> packet_frames VSPD_MSG_DATA_TX (dc_next_request_id d) (dev_port_id (dc_config d))
     (dc_next_message_id d) (pk_terminator pk) (take (pk_length pk) out)"

lemma fragment_total_pos: "0 < fragment_total n"
  by (simp add: fragment_total_def)

lemma send_connected_ok:
  assumes "dc_fd d \<ge> 0" and "pk_data pk = Some out" and "pk_length pk \<le> length out"
    and "pk_length pk \<le> VSPD_MAX_LOGICAL_PACKET" and "send_on_context pk t d = (SPW_OK, d')"
  shows "hs_sent d' = hs_sent d @ sent_frames pk out d"
proof -
  from send_connected [OF assms(1)] obtain c dl where
    "send_on_context pk t d = send_fragments pk (dc_next_request_id d) (dc_next_message_id d) 0 dl
      (d\<lparr>hs_clock := c, dc_next_request_id := dc_next_request_id d + 1, dc_next_message_id := dc_next_message_id d + 1\<rparr>)" .
  with send_fragments_ok [OF assms(2-4) fragment_total_pos, of "dc_next_request_id d" "dc_next_message_id d" dl] assms(5)
  show ?thesis by simp
qed

lemma send_connected_taken:
  assumes "dc_fd d \<ge> 0" and "pk_data pk = Some out" and "pk_length pk \<le> length out"
    and "pk_length pk \<le> VSPD_MAX_LOGICAL_PACKET" and "hs_sends d = takes (sent_frames pk out d) @ ss"
  obtains c dl where "send_on_context pk t d = (let (result, status, _, _, d) =
      wait_response VSPD_MSG_DATA_TX (dc_next_request_id d) VSPD_STATUS_BACKEND None 0 0 dl
        (d\<lparr>hs_clock := c, dc_next_request_id := dc_next_request_id d + 1, dc_next_message_id := dc_next_message_id d + 1,
          hs_sends := ss, hs_sent := hs_sent d @ sent_frames pk out d\<rparr>)
    in (if result = SPW_OK then status_to_result status else result, d))"
proof -
  from send_connected [OF assms(1)] obtain c dl where
    "send_on_context pk t d = send_fragments pk (dc_next_request_id d) (dc_next_message_id d) 0 dl
      (d\<lparr>hs_clock := c, dc_next_request_id := dc_next_request_id d + 1, dc_next_message_id := dc_next_message_id d + 1\<rparr>)" .
  with send_fragments_taken [OF assms(2-4) fragment_total_pos, of
      "d\<lparr>hs_clock := c, dc_next_request_id := dc_next_request_id d + 1, dc_next_message_id := dc_next_message_id d + 1\<rparr>"
      "dc_next_request_id d" "dc_next_message_id d" ss dl] assms(5) that [of dl c]
  show thesis by simp
qed

lemma send_connected_answered:
  assumes "dc_fd d \<ge> 0" and "pk_data pk = Some out" and "pk_length pk \<le> length out"
    and "pk_length pk \<le> VSPD_MAX_LOGICAL_PACKET" and "hs_sends d = takes (sent_frames pk out d) @ ss"
    and "hs_receives d = Received f # rs" and "answers VSPD_MSG_DATA_TX (dc_next_request_id d) st f"
  obtains c where "send_on_context pk t d = (status_to_result st, d\<lparr>hs_clock := c,
    dc_next_request_id := dc_next_request_id d + 1, dc_next_message_id := dc_next_message_id d + 1,
    hs_sends := ss, hs_receives := rs, hs_sent := hs_sent d @ sent_frames pk out d\<rparr>)"
proof -
  from send_connected_taken [OF assms(1-5), of t] obtain c dl where run: "send_on_context pk t d = (let (result, status, _, _, d) =
      wait_response VSPD_MSG_DATA_TX (dc_next_request_id d) VSPD_STATUS_BACKEND None 0 0 dl
        (d\<lparr>hs_clock := c, dc_next_request_id := dc_next_request_id d + 1, dc_next_message_id := dc_next_message_id d + 1,
          hs_sends := ss, hs_sent := hs_sent d @ sent_frames pk out d\<rparr>)
    in (if result = SPW_OK then status_to_result status else result, d))" .
  show thesis by (rule that [of c]) (simp add: run wait_response_answered [OF assms(7)] assms(6))
qed

section \<open>Properties\<close>

text \<open>
  Property C11. When \<open>device_send\<close> of a packet of at most one mebibyte on a connected context succeeds,
  the records it has sent are exactly the fragments of the packet, in order, each a frame that
  the protocol's validation accepts, and their payloads make up the packet. It does succeed when
  the socket takes the fragments and the daemon answers the request with success.
\<close>

theorem device_send_emits_packet:
  assumes "dc_fd d \<ge> 0" and "pk_data pk = Some out" and "pk_length pk \<le> length out"
    and "pk_length pk \<le> VSPD_MAX_LOGICAL_PACKET" and "dc_next_request_id d \<noteq> 0" and "dc_next_message_id d \<noteq> 0"
  shows "(fst (send_on_context pk t d) = SPW_OK \<longrightarrow>
      hs_sent (snd (send_on_context pk t d)) = hs_sent d @ sent_frames pk out d) \<and>
    (\<forall>f \<in> set (sent_frames pk out d). received_header f \<noteq> None) \<and>
    concat (map (drop VSPD_HEADER_SIZE) (sent_frames pk out d)) = take (pk_length pk) out \<and>
    (hs_sends d = takes (sent_frames pk out d) @ ss \<and> hs_receives d = Received f # rs \<and>
       answers VSPD_MSG_DATA_TX (dc_next_request_id d) VSPD_STATUS_OK f \<longrightarrow> fst (send_on_context pk t d) = SPW_OK)"
proof -
  let ?data = "take (pk_length pk) out"
  have len: "length ?data = pk_length pk" using assms(3) by simp
  have ids: "VSPD_MSG_DATA_TX = VSPD_MSG_DATA_TX \<and> dc_next_request_id d \<noteq> 0 \<or> VSPD_MSG_DATA_TX = VSPD_MSG_DATA_RX \<and> dc_next_request_id d = 0"
    using assms(5) by simp
  have "length ?data \<le> VSPD_MAX_LOGICAL_PACKET" using assms(4) len by simp
  note frames = packet_frames_ok [OF this assms(6) ids]
  have "fst (send_on_context pk t d) = SPW_OK \<longrightarrow>
      hs_sent (snd (send_on_context pk t d)) = hs_sent d @ sent_frames pk out d"
    using send_connected_ok [OF assms(1-4)] by (metis prod.collapse)
  moreover have "hs_sends d = takes (sent_frames pk out d) @ ss \<and> hs_receives d = Received f # rs \<and>
      answers VSPD_MSG_DATA_TX (dc_next_request_id d) VSPD_STATUS_OK f \<longrightarrow> fst (send_on_context pk t d) = SPW_OK"
  proof
    assume a: "hs_sends d = takes (sent_frames pk out d) @ ss \<and> hs_receives d = Received f # rs \<and>
      answers VSPD_MSG_DATA_TX (dc_next_request_id d) VSPD_STATUS_OK f"
    then have a1: "hs_sends d = takes (sent_frames pk out d) @ ss" and a2: "hs_receives d = Received f # rs"
      and a3: "answers VSPD_MSG_DATA_TX (dc_next_request_id d) VSPD_STATUS_OK f" by simp_all
    show "fst (send_on_context pk t d) = SPW_OK"
      by (rule send_connected_answered [OF assms(1-4) a1 a2 a3, of t]) (simp add: status_ok)
  qed
  ultimately show ?thesis using frames by blast
qed


definition sample_answer :: "u8 \<Rightarrow> u32 \<Rightarrow> bytes" where
  "sample_answer type request_id = the (vspd_frame ((base_header type)\<lparr>vh_flags := VSPD_FLAG_RESPONSE, vh_request_id := request_id\<rparr>) [])"

definition sample_device_packet :: spw_packet where
  "sample_device_packet = \<lparr>pk_data = Some [170, 187, 204], pk_length = 2, pk_capacity = 3, pk_terminator = SPW_TERMINATOR_EEP\<rparr>"

definition sample_connected :: device where
  "sample_connected = blank_device\<lparr>dc_fd := 3, dc_next_request_id := 1, dc_next_message_id := 1\<rparr>"

definition sample_sending :: device where
  "sample_sending = sample_connected\<lparr>hs_sends := takes (sent_frames sample_device_packet [170, 187, 204] sample_connected),
     hs_receives := [Received (sample_answer VSPD_MSG_DATA_TX 1)]\<rparr>"

lemma sample_answer_ok: "answers VSPD_MSG_DATA_TX 1 VSPD_STATUS_OK (sample_answer VSPD_MSG_DATA_TX 1)"
proof -
  let ?h = "(base_header VSPD_MSG_DATA_TX)\<lparr>vh_flags := VSPD_FLAG_RESPONSE, vh_request_id := 1\<rparr>"
  have "vspd_validate_common (Some ?h) = VSPD_CODEC_OK"
    by (simp add: vspd_validate_common_def base_header_def zero_vspd_header_def vspd_type_valid_def)
  then have f: "vspd_frame ?h [] = Some (sample_answer VSPD_MSG_DATA_TX 1)" by (simp add: sample_answer_def vspd_frame_ok)
  have "vspd_validate_payload_shape ?h None = VSPD_CODEC_OK"
    by (simp add: vspd_validate_payload_shape_def header_shape_def base_header_def zero_vspd_header_def
        vspd_type_is_event_def vspd_type_allows_response_def fixed_payload_size_def
        vspd_success_response_payload_size_def vspd_has_data_flags_def vspd_status_valid_def)
  then have "received_header (sample_answer VSPD_MSG_DATA_TX 1) = Some ?h"
    using validate_vspd_frame(1) [OF f, of zero_vspd_header]
    by (simp add: received_header_def base_header_def zero_vspd_header_def)
  then show ?thesis by (simp add: answers_def base_header_def zero_vspd_header_def)
qed

theorem device_send_emits_packet_witness:
  "fst (send_on_context sample_device_packet SPW_TIMEOUT_INFINITE sample_sending) = SPW_OK \<and>
   hs_sent (snd (send_on_context sample_device_packet SPW_TIMEOUT_INFINITE sample_sending)) =
     sent_frames sample_device_packet [170, 187, 204] sample_connected"
  using device_send_emits_packet [of sample_sending sample_device_packet "[170, 187, 204]" SPW_TIMEOUT_INFINITE "[]"
      "sample_answer VSPD_MSG_DATA_TX 1" "[]"] sample_answer_ok
  by (simp add: sample_sending_def sample_connected_def sample_device_packet_def blank_device_def)

text \<open>
  Property C12. A packet whose fragments arrive on a connected context that is not already receiving is
  handed to the application by \<open>device_receive\<close> with its bytes, its length and its terminator; the
  bytes of the application's buffer behind the packet, and the records that follow, are untouched, and
  the context is ready for the next packet.
\<close>

theorem device_receive_delivers:
  assumes "dc_fd d \<ge> 0" and "\<not> rx_active d" and "\<not> rx_ready d" and "length data \<le> VSPD_MAX_LOGICAL_PACKET"
    and "mid \<noteq> 0" and "hs_receives d = map Received (packet_frames VSPD_MSG_DATA_RX 0 port mid terminator data) @ rs"
    and "pk_data pk = Some out" and "length data \<le> pk_capacity pk" and "length data \<le> length out"
  shows "fst (receive_on_context pk t d) = SPW_OK \<and>
    fst (snd (receive_on_context pk t d)) = pk\<lparr>pk_length := length data, pk_data := Some (data @ drop (length data) out),
      pk_terminator := (if terminator = SPW_TERMINATOR_EEP then SPW_TERMINATOR_EEP else SPW_TERMINATOR_EOP)\<rparr> \<and>
    hs_receives (snd (snd (receive_on_context pk t d))) = rs \<and>
    \<not> rx_active (snd (snd (receive_on_context pk t d))) \<and> \<not> rx_ready (snd (snd (receive_on_context pk t d)))"
proof -
  obtain c where c: "snd (deadline_for t d) = d\<lparr>hs_clock := c\<rparr>" using deadline_for_clock by blast
  let ?d = "d\<lparr>hs_clock := c\<rparr>"
  have "receiving mid data 0 ?d" using assms(2,3) by (simp add: receiving_def)
  from service_fragments [OF assms(4,5) fragment_total_pos this, of port terminator rs "fst (deadline_for t d)"] assms(6)
  obtain d' where d': "service_until_packet (fst (deadline_for t d)) ?d = (SPW_OK, d')" "received terminator data d'"
      "hs_receives d' = rs" by auto
  have n: "unat (rx_total_size d') = length data"
    using d'(2) fragment_position_nat(1) [OF assms(4) fragment_total_pos] by (simp add: received_def)
  have "map (rx_data d') [0..<length data] = data"
    using d'(2) by (intro nth_equalityI) (simp_all add: received_def)
  moreover have "rx_total_size d' = 0 \<longleftrightarrow> data = []" using n by (metis length_0_conv unat_eq_0)
  ultimately show ?thesis
    using assms(1,3,7-9) c d' n
    by (simp add: receive_on_context_def case_prod_beta Let_def ensure_connected_def received_def clear_rx_def)
qed

definition sample_receiving :: device where
  "sample_receiving = sample_connected\<lparr>hs_receives :=
     map Received (packet_frames VSPD_MSG_DATA_RX 0 1 9 SPW_TERMINATOR_EEP [1, 2]) @ [Received (sample_answer VSPD_MSG_DATA_TX 1)]\<rparr>"

theorem device_receive_delivers_witness:
  "fst (receive_on_context sample_device_packet 0 sample_receiving) = SPW_OK \<and>
   pk_data (fst (snd (receive_on_context sample_device_packet 0 sample_receiving))) = Some [1, 2, 204] \<and>
   pk_length (fst (snd (receive_on_context sample_device_packet 0 sample_receiving))) = 2"
  using device_receive_delivers [of sample_receiving "[1, 2]" 9 1 SPW_TERMINATOR_EEP
      "[Received (sample_answer VSPD_MSG_DATA_TX 1)]" sample_device_packet "[170, 187, 204]" 0]
  by (simp add: sample_receiving_def sample_connected_def sample_device_packet_def blank_device_def)

text \<open>
  Property C28. When a further packet arrives while a received packet waits for the application, a send
  that the daemon accepts fails: \<open>device_send\<close> transmits the whole packet and reports
  \<open>SPW_ERR_RESOURCE_EXHAUSTED\<close>, the fragment that arrived is lost, and the daemon's answer stays in the socket,
  where the next request takes it for its own, reports \<open>SPW_ERR_BACKEND\<close> and drops the connection.
\<close>

theorem device_event_during_send:
  assumes "dc_fd d \<ge> 0" and "rx_ready d" and "pk_data pk = Some out" and "pk_length pk \<le> length out"
    and "pk_length pk \<le> VSPD_MAX_LOGICAL_PACKET" and "hs_sends d = takes (sent_frames pk out d) @ Sent 40 # ss"
    and "hs_receives d = Received g # Received f # rs" and "received_header g = Some h"
    and "vh_type h = VSPD_MSG_DATA_RX" and "vh_flags h AND VSPD_FLAG_RESPONSE = 0"
    and "answers VSPD_MSG_DATA_TX (dc_next_request_id d) VSPD_STATUS_OK f"
  shows "fst (send_on_context pk t d) = SPW_ERR_RESOURCE_EXHAUSTED \<and>
    hs_sent (snd (send_on_context pk t d)) = hs_sent d @ sent_frames pk out d \<and>
    hs_receives (snd (send_on_context pk t d)) = Received f # rs \<and>
    fst (start_context (snd (send_on_context pk t d))) = SPW_ERR_BACKEND \<and>
    dc_fd (snd (start_context (snd (send_on_context pk t d)))) < 0"
proof -
  from send_connected_taken [OF assms(1,3-6), of t] obtain c dl where run: "send_on_context pk t d = (let (result, status, _, _, d) =
      wait_response VSPD_MSG_DATA_TX (dc_next_request_id d) VSPD_STATUS_BACKEND None 0 0 dl
        (d\<lparr>hs_clock := c, dc_next_request_id := dc_next_request_id d + 1, dc_next_message_id := dc_next_message_id d + 1,
          hs_sends := Sent 40 # ss, hs_sent := hs_sent d @ sent_frames pk out d\<rparr>)
    in (if result = SPW_OK then status_to_result status else result, d))" .
  define d1 where "d1 = d\<lparr>hs_clock := c, dc_next_request_id := dc_next_request_id d + 1, dc_next_message_id := dc_next_message_id d + 1,
    hs_sends := Sent 40 # ss, hs_sent := hs_sent d @ sent_frames pk out d\<rparr>"
  define d2 where "d2 = d1\<lparr>hs_receives := Received f # rs\<rparr>"
  have "length g = 40 + unat (vh_payload_size h)" "unat (vh_payload_size h) \<le> VSPD_MAX_FRAME_PAYLOAD"
    using validate_frame_ok(1,3) [OF received_header_some [OF assms(8)]] by (auto simp: vspd_validate_common_def split: if_splits)
  then have "receive_record dl d1 = (SPW_OK, g, d2)"
    unfolding d2_def using assms(7) by (intro receive_record_next) (auto simp: d1_def)
  moreover have "process_event h p d2 = (SPW_ERR_RESOURCE_EXHAUSTED, d2)" for p
    using assms(2,9) by (simp add: process_event_def process_data_event_def d2_def d1_def)
  ultimately have send: "send_on_context pk t d = (SPW_ERR_RESOURCE_EXHAUSTED, d2)"
    unfolding run d1_def [symmetric] using assms(8,10)
    by (simp add: wait_response.simps [of VSPD_MSG_DATA_TX _ VSPD_STATUS_BACKEND None 0 0 dl d1])
  have "vspd_validate_common (Some ((base_header VSPD_MSG_START)\<lparr>vh_payload_size := 0, vh_request_id := i, vh_port_id := q\<rparr>)) = VSPD_CODEC_OK" for i q
    by (simp add: vspd_validate_common_def base_header_def zero_vspd_header_def vspd_type_valid_def)
  note frame = vspd_frame_ok [OF this]
  have "fst (start_context d2) = SPW_ERR_BACKEND \<and> dc_fd (snd (start_context d2)) < 0"
    using assms(1)
    by (simp add: start_context_def request_simple_def deadline_for_def ensure_connected_def send_empty_request_def
        send_request_def Let_def frame send_record_def d2_def d1_def wait_response_mismatch [OF assms(11)]
        mark_disconnected_fd)
  with send show ?thesis by (simp add: d2_def d1_def)
qed

definition sample_event :: bytes where
  "sample_event = packet_frames VSPD_MSG_DATA_RX 0 1 9 SPW_TERMINATOR_EOP [1] ! 0"

definition sample_waiting :: device where
  "sample_waiting = sample_connected\<lparr>rx_ready := True,
     hs_sends := takes (sent_frames sample_device_packet [170, 187, 204] sample_connected) @ [Sent 40],
     hs_receives := [Received sample_event, Received (sample_answer VSPD_MSG_DATA_TX 1)]\<rparr>"

lemma sample_event_header:
  "received_header sample_event = Some (fragment_header VSPD_MSG_DATA_RX 0 1 9 SPW_TERMINATOR_EOP [1] 0)"
proof -
  have "length [1 :: u8] \<le> VSPD_MAX_LOGICAL_PACKET" "(9 :: u32) \<noteq> 0"
      "VSPD_MSG_DATA_RX = VSPD_MSG_DATA_TX \<and> (0 :: u32) \<noteq> 0 \<or> VSPD_MSG_DATA_RX = VSPD_MSG_DATA_RX \<and> (0 :: u32) = 0" by simp_all
  from packet_frames_nth [OF this fragment_total_pos, of 1 SPW_TERMINATOR_EOP] show ?thesis
    by (simp add: sample_event_def)
qed

theorem device_event_during_send_witness:
  "fst (send_on_context sample_device_packet SPW_TIMEOUT_INFINITE sample_waiting) = SPW_ERR_RESOURCE_EXHAUSTED \<and>
   fst (start_context (snd (send_on_context sample_device_packet SPW_TIMEOUT_INFINITE sample_waiting))) = SPW_ERR_BACKEND"
  using device_event_during_send [of sample_waiting sample_device_packet "[170, 187, 204]" "[]" sample_event
      "sample_answer VSPD_MSG_DATA_TX 1" "[]" _ SPW_TIMEOUT_INFINITE, OF _ _ _ _ _ _ _ sample_event_header] sample_answer_ok
  by (simp add: sample_waiting_def sample_connected_def sample_device_packet_def blank_device_def fragment_header_def)

section \<open>The send loop ends\<close>

text \<open>
  One round of the loop of \<open>device_send\<close>, and the loop as it is written, without a measure: \<open>Inl\<close> is a
  return, \<open>Inr\<close> the offset of the next round, and \<open>None\<close> a loop that never ends.
\<close>

definition send_round :: "spw_packet \<Rightarrow> u32 \<Rightarrow> u32 \<Rightarrow> u32 \<Rightarrow> u64 \<Rightarrow> device \<Rightarrow> (spw_result \<times> device) + (u32 \<times> device)" where
  "send_round packet request_id message_id offset deadline d =
     (let len = of_nat (pk_length packet); chunk = chunk_at len offset;
          fin = (pk_length packet = 0 \<or> offset + chunk = len);
          flags = (if offset = 0 then VSPD_FLAG_FRAGMENT_START else 0);
          header = (base_header VSPD_MSG_DATA_TX)\<lparr>vh_payload_size := chunk, vh_request_id := request_id,
            vh_port_id := dev_port_id (dc_config d), vh_message_id := message_id,
            vh_fragment_offset := offset, vh_total_size := len,
            vh_flags := (if fin then flags OR VSPD_FLAG_FRAGMENT_END OR
              (if pk_terminator packet = SPW_TERMINATOR_EEP then VSPD_FLAG_EEP else VSPD_FLAG_EOP) else flags)\<rparr>;
          data = (if chunk \<noteq> 0 then take (unat chunk) (drop (unat offset) (the (pk_data packet))) else []) in
      case vspd_frame header data of None \<Rightarrow> Inl (SPW_ERR_BACKEND, d)
      | Some frame \<Rightarrow>
          let (result, d) = send_record frame deadline d in
          if result \<noteq> SPW_OK then Inl (result, d)
          else if fin
          then let (result, status, _, _, d) =
                 wait_response VSPD_MSG_DATA_TX request_id VSPD_STATUS_BACKEND None 0 0 deadline d
            in Inl (if result = SPW_OK then status_to_result status else result, d)
          else if unat (offset + chunk) < pk_length packet then Inr (offset + chunk, d)
          else Inl (SPW_ERR_BACKEND, d))"

partial_function (option) send_loop ::
    "spw_packet \<Rightarrow> u32 \<Rightarrow> u32 \<Rightarrow> u32 \<Rightarrow> u64 \<Rightarrow> device \<Rightarrow> (spw_result \<times> device) option" where
  "send_loop packet request_id message_id offset deadline d =
     (case send_round packet request_id message_id offset deadline d of Inl r \<Rightarrow> Some r
      | Inr (next, d) \<Rightarrow> send_loop packet request_id message_id next deadline d)"

lemma round_shape:
  "(case x of None \<Rightarrow> e | Some f \<Rightarrow> (case s f of (r, d) \<Rightarrow> if b r then g r d else if fin
      then (case w d of (r2, st, _, _, d2) \<Rightarrow> k r2 st d2) else if c then F nx d else h d)) =
   (case (case x of None \<Rightarrow> Inl e | Some f \<Rightarrow> (case s f of (r, d) \<Rightarrow> if b r then Inl (g r d) else if fin
      then (case w d of (r2, st, _, _, d2) \<Rightarrow> Inl (k r2 st d2)) else if c then Inr (nx, d) else Inl (h d))) of
    Inl r \<Rightarrow> r | Inr (n, d) \<Rightarrow> F n d)"
  by (simp split: option.split prod.split)

lemma round_next:
  "(case x of None \<Rightarrow> Inl e | Some f \<Rightarrow> (case s f of (r, d) \<Rightarrow> if b r then Inl (g r d) else if fin
      then (case w d of (r2, st, _, _, d2) \<Rightarrow> Inl (k r2 st d2)) else if c then Inr (nx, d) else Inl (h d))) = Inr (n, d') \<Longrightarrow>
   \<not> fin \<and> n = nx"
  by (auto split: option.splits prod.splits if_splits)

lemma send_round_next:
  assumes "send_round packet rid mid offset dl d = Inr (n, d')"
  shows "n = offset + chunk_at (of_nat (pk_length packet)) offset" and "n \<noteq> of_nat (pk_length packet)"
  using round_next [OF assms [unfolded send_round_def Let_def]] by auto

lemma send_fragments_round:
  "send_fragments packet rid mid offset dl d =
     (case send_round packet rid mid offset dl d of Inl r \<Rightarrow> r
      | Inr (next, d) \<Rightarrow> send_fragments packet rid mid next dl d)"
  unfolding send_fragments.simps [of packet rid mid offset dl d] send_round_def Let_def
  by (rule round_shape)


end
