(* ===== verification/Vspwd_Server.thy ===== *)
theory Vspwd_Server
  imports Device_Backend Spw_Ring
begin

text \<open>
  The virtual device daemon (\<open>src/vspwd/server.c\<close>): two ports that form a link, up to four clients on a
  local socket, queues between the ports, and an optional bridge of one port to a UDP port of the
  library.

  The ports of the library are those of \<open>spw_port_send\<close> and its siblings on an arbitrary \<open>world\<close>, so the
  bridge is modelled for every backend behind it. What the operating system answers to \<open>send\<close>,
  \<open>recvmsg\<close>, \<open>accept4\<close> and \<open>poll\<close> is a script, as for the device backend; a run of the main loop ends
  when its script of \<open>poll\<close> results does, which is where the stop signal arrives. Messages to standard
  error are left out.
\<close>

unbundle bit_operations_syntax

section \<open>State\<close>

abbreviation VSPWD_PORT_COUNT :: nat where "VSPWD_PORT_COUNT \<equiv> 2"
abbreviation VSPWD_CLIENT_COUNT :: nat where "VSPWD_CLIENT_COUNT \<equiv> 4"
abbreviation VSPWD_PACKET_QUEUE_DEPTH :: nat where "VSPWD_PACKET_QUEUE_DEPTH \<equiv> 2"
abbreviation VSPWD_TIME_CODE_QUEUE_DEPTH :: nat where "VSPWD_TIME_CODE_QUEUE_DEPTH \<equiv> 8"
abbreviation VSPWD_FRAME_MAX :: nat where "VSPWD_FRAME_MAX \<equiv> VSPD_HEADER_SIZE + VSPD_MAX_FRAME_PAYLOAD"

record vspwd_packet_slot =
  vs_data :: "nat \<Rightarrow> u8"
  vs_length :: u32
  vs_offset :: u32
  vs_message_id :: u32
  vs_terminator :: u8

record vspwd_port =
  po_client_index :: int
  po_started :: bool
  po_reset_latched :: bool
  po_ever_attached :: bool
  po_bridged :: bool
  po_state :: u8
  po_state_event_pending :: bool
  po_next_message_id :: u32
  po_packets :: "vspwd_packet_slot ring"
  po_time_codes :: "spw_time_code ring"
  po_statistics :: spw_statistics

record vspwd_reassembly =
  re_active :: bool
  re_request_id :: u32
  re_message_id :: u32
  re_total_size :: u32
  re_next_offset :: u32
  re_terminator :: u8
  re_data :: "nat \<Rightarrow> u8"

text \<open>\<open>cl_response\<close> holds the first \<open>response_size\<close> bytes of \<open>response\<close>.\<close>

record vspwd_client =
  cl_fd :: int
  cl_hello_done :: bool
  cl_port_id :: int
  cl_monitor_mask :: u32
  cl_monitor_pending_mask :: u32
  cl_response_pending :: bool
  cl_response :: bytes
  cl_reassembly :: vspwd_reassembly

record vspwd_udp_bridge =
  br_enabled :: bool
  br_port_id :: int
  br_udp_port :: "addr option"
  br_state :: u8
  br_rx_packet :: bytes

datatype recvmsg_outcome = Message bytes bool | Message_error errno
datatype accept_outcome = Accepted int | Accept_error errno

record 's vspwd_server =
  sv_listener_fd :: int
  sv_socket_path :: bytes
  sv_clients :: "vspwd_client list"
  sv_ports :: "vspwd_port list"
  sv_bridge :: vspwd_udp_bridge
  sv_world :: "'s world"
  sv_errno :: errno
  sv_sends :: "send_outcome list"
  sv_messages :: "recvmsg_outcome list"
  sv_sent :: "(int \<times> bytes) list"
  sv_closed :: "int list"

definition zero_reassembly :: vspwd_reassembly where
  "zero_reassembly = \<lparr>re_active = False, re_request_id = 0, re_message_id = 0, re_total_size = 0,
     re_next_offset = 0, re_terminator = 0, re_data = (\<lambda>_. 0)\<rparr>"

definition zero_client :: vspwd_client where
  "zero_client = \<lparr>cl_fd = 0, cl_hello_done = False, cl_port_id = 0, cl_monitor_mask = 0,
     cl_monitor_pending_mask = 0, cl_response_pending = False, cl_response = [], cl_reassembly = zero_reassembly\<rparr>"

definition zero_packet_slot :: vspwd_packet_slot where
  "zero_packet_slot = \<lparr>vs_data = (\<lambda>_. 0), vs_length = 0, vs_offset = 0, vs_message_id = 0, vs_terminator = 0\<rparr>"

definition zero_vspwd_port :: vspwd_port where
  "zero_vspwd_port = \<lparr>po_client_index = 0, po_started = False, po_reset_latched = False, po_ever_attached = False,
     po_bridged = False, po_state = 0, po_state_event_pending = False, po_next_message_id = 0,
     po_packets = ring_empty VSPWD_PACKET_QUEUE_DEPTH zero_packet_slot,
     po_time_codes = ring_empty VSPWD_TIME_CODE_QUEUE_DEPTH \<lparr>time_count = 0, control_flags = 0\<rparr>,
     po_statistics = zero_statistics\<rparr>"

definition the_vport :: "int \<Rightarrow> 's vspwd_server \<Rightarrow> vspwd_port" where
  "the_vport p s = sv_ports s ! nat p"

definition set_vport :: "int \<Rightarrow> (vspwd_port \<Rightarrow> vspwd_port) \<Rightarrow> 's vspwd_server \<Rightarrow> 's vspwd_server" where
  "set_vport p f s = s\<lparr>sv_ports := (sv_ports s)[nat p := f (sv_ports s ! nat p)]\<rparr>"

definition the_client :: "nat \<Rightarrow> 's vspwd_server \<Rightarrow> vspwd_client" where
  "the_client i s = sv_clients s ! i"

definition set_client :: "nat \<Rightarrow> (vspwd_client \<Rightarrow> vspwd_client) \<Rightarrow> 's vspwd_server \<Rightarrow> 's vspwd_server" where
  "set_client i f s = s\<lparr>sv_clients := (sv_clients s)[i := f (sv_clients s ! i)]\<rparr>"

section \<open>Ports\<close>

definition vspwd_next_message_id :: "vspwd_port \<Rightarrow> u32 \<times> vspwd_port" where
  "vspwd_next_message_id port =
     (let result = po_next_message_id port; port = port\<lparr>po_next_message_id := result + 1\<rparr>;
          (result, port) = (if result = 0
             then (po_next_message_id port, port\<lparr>po_next_message_id := po_next_message_id port + 1\<rparr>)
             else (result, port));
          port = (if po_next_message_id port = 0 then port\<lparr>po_next_message_id := 1\<rparr> else port)
      in (result, port))"

definition vspwd_peer_port :: "int \<Rightarrow> int" where
  "vspwd_peer_port port_id = (if port_id = 0 then 1 else 0)"

definition ring_clear :: "'a ring \<Rightarrow> 'a ring" where
  "ring_clear queue = queue\<lparr>rb_head := 0, rb_tail := 0, rb_count := 0\<rparr>"

definition vspwd_clear_reassembly :: "vspwd_reassembly \<Rightarrow> vspwd_reassembly" where
  "vspwd_clear_reassembly r = r\<lparr>re_active := False, re_request_id := 0, re_message_id := 0, re_total_size := 0,
     re_next_offset := 0, re_terminator := SPW_TERMINATOR_EOP\<rparr>"

definition vspwd_clear_port_queues :: "vspwd_port \<Rightarrow> vspwd_port" where
  "vspwd_clear_port_queues port =
     port\<lparr>po_packets := ring_clear (po_packets port), po_time_codes := ring_clear (po_time_codes port)\<rparr>"

definition vspwd_calculate_state :: "'s vspwd_server \<Rightarrow> int \<Rightarrow> u8" where
  "vspwd_calculate_state s port_id =
     (let port = the_vport port_id s; peer = the_vport (vspwd_peer_port port_id) s in
      if po_bridged port then br_state (sv_bridge s)
      else if po_client_index port < 0 then SPW_LINK_ERROR_RESET
      else if po_reset_latched port then SPW_LINK_ERROR_RESET
      else if \<not> po_started port then SPW_LINK_READY
      else if po_bridged peer
      then if po_state peer = SPW_LINK_RUN then SPW_LINK_RUN
        else if po_state peer = SPW_LINK_ERROR_WAIT then SPW_LINK_ERROR_WAIT
        else SPW_LINK_CONNECTING
      else if po_client_index peer \<ge> 0 \<and> po_started peer \<and> \<not> po_reset_latched peer then SPW_LINK_RUN
      else if po_client_index peer \<ge> 0 then SPW_LINK_CONNECTING
      else if po_ever_attached peer then SPW_LINK_ERROR_WAIT else SPW_LINK_CONNECTING)"

definition vspwd_mark_port_changed :: "int \<Rightarrow> 's vspwd_server \<Rightarrow> 's vspwd_server" where
  "vspwd_mark_port_changed port_id s =
     (if port_id < 0 \<or> port_id \<ge> int VSPWD_PORT_COUNT then s
      else let bit = push_bit (nat port_id) 1
        in s\<lparr>sv_clients := List.map (\<lambda>c. if cl_fd c \<ge> 0 \<and> cl_hello_done c \<and> cl_port_id c < 0 \<and> cl_monitor_mask c AND bit \<noteq> 0
             then c\<lparr>cl_monitor_pending_mask := cl_monitor_pending_mask c OR bit\<rparr> else c) (sv_clients s)\<rparr>)"

text \<open>One round of the loop of \<open>vspwd_update_states\<close>.\<close>

definition update_state :: "int \<Rightarrow> 's vspwd_server \<Rightarrow> 's vspwd_server" where
  "update_state port_id s =
     (if po_client_index (the_vport port_id s) < 0 \<and> \<not> po_bridged (the_vport port_id s)
      then set_vport port_id (\<lambda>port. port\<lparr>po_state := SPW_LINK_ERROR_RESET, po_state_event_pending := False\<rparr>) s
      else let next_state = vspwd_calculate_state s port_id in
        if next_state \<noteq> po_state (the_vport port_id s)
        then vspwd_mark_port_changed port_id (set_vport port_id (\<lambda>port. port\<lparr>
            po_statistics := (if next_state = SPW_LINK_ERROR_WAIT
              then (po_statistics port)\<lparr>link_errors := link_errors (po_statistics port) + 1\<rparr> else po_statistics port),
            po_state := next_state, po_state_event_pending := True\<rparr>) s)
        else s)"

definition vspwd_update_states :: "'s vspwd_server \<Rightarrow> 's vspwd_server" where
  "vspwd_update_states s = fold update_state [0, 1] s"

text \<open>The structure is zeroed; the world and the host are not part of it.\<close>

definition vspwd_init_server :: "'s vspwd_server \<Rightarrow> 's vspwd_server" where
  "vspwd_init_server s = s\<lparr>sv_listener_fd := - 1, sv_socket_path := replicate 108 0,
     sv_clients := replicate VSPWD_CLIENT_COUNT (zero_client\<lparr>cl_fd := - 1, cl_port_id := - 1\<rparr>),
     sv_ports := replicate VSPWD_PORT_COUNT (zero_vspwd_port\<lparr>po_client_index := - 1,
       po_state := SPW_LINK_ERROR_RESET, po_next_message_id := 1\<rparr>),
     sv_bridge := \<lparr>br_enabled = False, br_port_id = - 1, br_udp_port = None, br_state = SPW_LINK_ERROR_RESET,
       br_rx_packet = replicate VSPD_MAX_LOGICAL_PACKET 0\<rparr>\<rparr>"

section \<open>Responses\<close>

definition vspwd_send_record :: "int \<Rightarrow> bytes \<Rightarrow> 's vspwd_server \<Rightarrow> bool \<times> 's vspwd_server" where
  "vspwd_send_record fd data s =
     (case sv_sends s of [] \<Rightarrow> (False, s\<lparr>sv_errno := EOTHER\<rparr>)
      | Sent n # ss \<Rightarrow>
          if n = length data then (True, s\<lparr>sv_sends := ss, sv_sent := sv_sent s @ [(fd, data)]\<rparr>)
          else (False, s\<lparr>sv_sends := ss\<rparr>)
      | Send_error e # ss \<Rightarrow> (False, s\<lparr>sv_sends := ss, sv_errno := e\<rparr>))"

definition vspwd_queue_response :: "vspd_header \<Rightarrow> u32 \<Rightarrow> bytes option \<Rightarrow> u32 \<Rightarrow> vspwd_client \<Rightarrow> bool \<times> vspwd_client" where
  "vspwd_queue_response request status payload payload_size c =
     (if cl_response_pending c \<or> payload_size > VSPD_STATISTICS_PAYLOAD_SIZE then (False, c)
      else let n = (if status = VSPD_STATUS_OK then payload_size else 0);
             response = (base_header (vh_type request))\<lparr>vh_flags := VSPD_FLAG_RESPONSE, vh_payload_size := n,
               vh_request_id := vh_request_id request, vh_port_id := vh_port_id request, vh_status := status\<rparr> in
        case vspd_frame response (if n \<noteq> 0 then take (unat n) (the payload) else []) of
          None \<Rightarrow> (False, c)
        | Some frame \<Rightarrow>
            if n \<noteq> 0 \<and> payload = None then (False, c)
            else (True, c\<lparr>cl_response := frame, cl_response_pending := True\<rparr>))"

text \<open>\<open>return vspwd_queue_response (...)\<close> at the end of a request.\<close>

definition respond :: "nat \<Rightarrow> vspd_header \<Rightarrow> u32 \<Rightarrow> bytes option \<Rightarrow> u32 \<Rightarrow> 's vspwd_server \<Rightarrow> bool \<times> 's vspwd_server" where
  "respond i header status payload payload_size s =
     (let (queued, c) = vspwd_queue_response header status payload payload_size (the_client i s)
      in (queued, set_client i (\<lambda>_. c) s))"

definition vspwd_flush_response :: "nat \<Rightarrow> 's vspwd_server \<Rightarrow> bool \<times> 's vspwd_server" where
  "vspwd_flush_response i s =
     (if \<not> cl_response_pending (the_client i s) then (True, s)
      else let (sent, s) = vspwd_send_record (cl_fd (the_client i s)) (cl_response (the_client i s)) s in
        if \<not> sent then (False, s)
        else (True, set_client i (\<lambda>c. c\<lparr>cl_response_pending := False, cl_response := []\<rparr>) s))"

definition vspwd_validate_attached_request :: "vspwd_client \<Rightarrow> vspd_header \<Rightarrow> u32" where
  "vspwd_validate_attached_request c header =
     (if \<not> cl_hello_done c \<or> cl_port_id c < 0 then VSPD_STATUS_INVALID_STATE
      else if vh_port_id header \<noteq> of_int (cl_port_id c) then VSPD_STATUS_INVALID_ARGUMENT
      else VSPD_STATUS_OK)"

definition vspwd_validate_management_request :: "vspwd_client \<Rightarrow> vspd_header \<Rightarrow> bool \<Rightarrow> u32" where
  "vspwd_validate_management_request c header requires_port =
     (if \<not> cl_hello_done c \<or> cl_port_id c \<ge> 0 then VSPD_STATUS_INVALID_STATE
      else if requires_port \<and> unat (vh_port_id header) \<ge> VSPWD_PORT_COUNT then VSPD_STATUS_INVALID_ARGUMENT
      else VSPD_STATUS_OK)"

definition vspwd_statistics_to_wire :: "spw_statistics \<Rightarrow> vspd_statistics_payload" where
  "vspwd_statistics_to_wire source = \<lparr>tx_packets = tx_packets source, rx_packets = rx_packets source,
     tx_bytes = tx_bytes source, rx_bytes = rx_bytes source, tx_time_codes = tx_time_codes source,
     rx_time_codes = rx_time_codes source, eep_packets = eep_packets source,
     link_errors = link_errors source, dropped_packets = dropped_packets source\<rparr>"

definition vspwd_port_info_to_wire :: "vspwd_port \<Rightarrow> vspd_port_info_payload" where
  "vspwd_port_info_to_wire port = \<lparr>
     vp_flags = (if po_client_index port \<ge> 0 then VSPD_PORT_INFO_ATTACHED else 0) OR
       (if po_started port then VSPD_PORT_INFO_STARTED else 0) OR
       (if po_reset_latched port then VSPD_PORT_INFO_RESET_LATCHED else 0) OR
       (if po_ever_attached port then VSPD_PORT_INFO_EVER_ATTACHED else 0) OR
       (if po_bridged port then VSPD_PORT_INFO_BRIDGED else 0),
     vp_link_state = ucast (po_state port), vp_packet_queue_count = of_nat (rb_count (po_packets port)),
     vp_time_code_queue_count = of_nat (rb_count (po_time_codes port))\<rparr>"

definition vspwd_port_snapshot_to_wire :: "vspwd_port \<Rightarrow> vspd_port_snapshot_payload" where
  "vspwd_port_snapshot_to_wire port = \<lparr>vn_info = vspwd_port_info_to_wire port,
     vn_statistics = vspwd_statistics_to_wire (po_statistics port)\<rparr>"

section \<open>Clients\<close>

definition vspwd_detach_client :: "nat \<Rightarrow> 's vspwd_server \<Rightarrow> 's vspwd_server" where
  "vspwd_detach_client i s =
     (let p = cl_port_id (the_client i s);
          s = (if p \<ge> 0 \<and> p < int VSPWD_PORT_COUNT \<and> po_client_index (the_vport p s) = int i
               then vspwd_mark_port_changed p (set_vport p (\<lambda>port. vspwd_clear_port_queues (port\<lparr>po_client_index := - 1,
                   po_started := False, po_reset_latched := False, po_state := SPW_LINK_ERROR_RESET,
                   po_state_event_pending := False\<rparr>)) s)
               else s)
      in vspwd_update_states (set_client i (\<lambda>c. c\<lparr>cl_port_id := - 1,
           cl_reassembly := vspwd_clear_reassembly (cl_reassembly c)\<rparr>) s))"

definition vspwd_close_client :: "nat \<Rightarrow> 's vspwd_server \<Rightarrow> 's vspwd_server" where
  "vspwd_close_client i s =
     (let s = vspwd_detach_client i s; fd = cl_fd (the_client i s);
          s = (if fd \<ge> 0 then s\<lparr>sv_closed := sv_closed s @ [fd]\<rparr> else s)
      in set_client i (\<lambda>_. zero_client\<lparr>cl_fd := - 1, cl_port_id := - 1\<rparr>) s)"

section \<open>Packets and time-codes\<close>

text \<open>The slot written by \<open>vspwd_enqueue_packet\<close> and \<open>vspwd_bridge_push_packet\<close>.\<close>

definition fill_slot :: "(nat \<Rightarrow> u8) \<Rightarrow> u32 \<Rightarrow> u8 \<Rightarrow> u32 \<Rightarrow> vspwd_packet_slot \<Rightarrow> vspwd_packet_slot" where
  "fill_slot data len terminator message_id slot =
     slot\<lparr>vs_data := (\<lambda>i. if i < unat len then data i else vs_data slot i), vs_length := len, vs_offset := 0,
       vs_terminator := terminator, vs_message_id := message_id\<rparr>"

definition put_packet :: "(nat \<Rightarrow> u8) \<Rightarrow> u32 \<Rightarrow> u8 \<Rightarrow> vspwd_port \<Rightarrow> vspwd_port" where
  "put_packet data len terminator port =
     (let (message_id, port) = vspwd_next_message_id port
      in port\<lparr>po_packets := ring_put VSPWD_PACKET_QUEUE_DEPTH (fill_slot data len terminator message_id) (po_packets port)\<rparr>)"

definition vspwd_enqueue_packet :: "int \<Rightarrow> vspwd_reassembly \<Rightarrow> 's vspwd_server \<Rightarrow> bool \<times> 's vspwd_server" where
  "vspwd_enqueue_packet source_port_id r s =
     (let peer = vspwd_peer_port source_port_id in
      if po_state (the_vport source_port_id s) \<noteq> SPW_LINK_RUN \<or> po_state (the_vport peer s) \<noteq> SPW_LINK_RUN then (False, s)
      else if rb_count (po_packets (the_vport peer s)) \<ge> VSPWD_PACKET_QUEUE_DEPTH then (False, s)
      else let s = set_vport peer (put_packet (re_data r) (re_total_size r) (re_terminator r)) s;
             s = set_vport source_port_id (\<lambda>port. port\<lparr>po_statistics := (let st = po_statistics port in
               st\<lparr>tx_packets := tx_packets st + 1, tx_bytes := tx_bytes st + ucast (re_total_size r),
                 eep_packets := (if re_terminator r = SPW_TERMINATOR_EEP then eep_packets st + 1 else eep_packets st)\<rparr>)\<rparr>) s
        in (True, vspwd_mark_port_changed peer (vspwd_mark_port_changed source_port_id s)))"

definition vspwd_accept_data_fragment :: "nat \<Rightarrow> vspd_header \<Rightarrow> bytes option \<Rightarrow> 's vspwd_server \<Rightarrow> u32 \<times> 's vspwd_server" where
  "vspwd_accept_data_fragment i header payload s =
     (let start = vh_flags header AND VSPD_FLAG_FRAGMENT_START \<noteq> 0;
          fin = vh_flags header AND VSPD_FLAG_FRAGMENT_END \<noteq> 0;
          r = cl_reassembly (the_client i s); p = cl_port_id (the_client i s) in
      if \<not> re_active r \<and> (\<not> start \<or> vh_fragment_offset header \<noteq> 0) then (VSPD_STATUS_INVALID_PACKET, s)
      else if re_active r \<and> (start \<or> re_request_id r \<noteq> vh_request_id header \<or> re_message_id r \<noteq> vh_message_id header \<or>
        re_total_size r \<noteq> vh_total_size header \<or> re_next_offset r \<noteq> vh_fragment_offset header)
      then (VSPD_STATUS_INVALID_PACKET, s)
      else let r = (if re_active r then r else r\<lparr>re_active := True, re_request_id := vh_request_id header,
                 re_message_id := vh_message_id header, re_total_size := vh_total_size header, re_next_offset := 0\<rparr>);
             r = (if vh_payload_size header \<noteq> 0
                  then r\<lparr>re_data := copy_to (re_data r) (unat (vh_fragment_offset header)) (the payload)
                         (unat (vh_payload_size header))\<rparr> else r);
             r = r\<lparr>re_next_offset := vh_fragment_offset header + vh_payload_size header\<rparr>;
             s = set_client i (\<lambda>c. c\<lparr>cl_reassembly := r\<rparr>) s in
        if \<not> fin then (VSPD_STATUS_OK, s)
        else if re_next_offset r \<noteq> re_total_size r then (VSPD_STATUS_INVALID_PACKET, s)
        else let r = r\<lparr>re_terminator := (if vh_flags header AND VSPD_FLAG_EEP \<noteq> 0 then SPW_TERMINATOR_EEP
                   else SPW_TERMINATOR_EOP)\<rparr>;
               s = set_client i (\<lambda>c. c\<lparr>cl_reassembly := r\<rparr>) s in
          if po_state (the_vport p s) \<noteq> SPW_LINK_RUN then (VSPD_STATUS_LINK_UNAVAILABLE, s)
          else if rb_count (po_packets (the_vport (vspwd_peer_port p) s)) \<ge> VSPWD_PACKET_QUEUE_DEPTH
          then (VSPD_STATUS_RESOURCE_EXHAUSTED, vspwd_mark_port_changed p (set_vport p (\<lambda>port. port\<lparr>po_statistics :=
              (po_statistics port)\<lparr>dropped_packets := dropped_packets (po_statistics port) + 1\<rparr>\<rparr>) s))
          else let (queued, s) = vspwd_enqueue_packet p r s
            in (if queued then VSPD_STATUS_OK else VSPD_STATUS_LINK_UNAVAILABLE, s))"

definition vspwd_enqueue_time_code :: "int \<Rightarrow> spw_time_code \<Rightarrow> 's vspwd_server \<Rightarrow> bool \<times> 's vspwd_server" where
  "vspwd_enqueue_time_code source_port_id time_code s =
     (let peer = vspwd_peer_port source_port_id in
      if po_state (the_vport source_port_id s) \<noteq> SPW_LINK_RUN \<or> po_state (the_vport peer s) \<noteq> SPW_LINK_RUN then (False, s)
      else if rb_count (po_time_codes (the_vport peer s)) \<ge> VSPWD_TIME_CODE_QUEUE_DEPTH then (False, s)
      else let s = set_vport peer (\<lambda>port. port\<lparr>po_time_codes :=
               ring_put VSPWD_TIME_CODE_QUEUE_DEPTH (\<lambda>_. time_code) (po_time_codes port)\<rparr>) s;
             s = set_vport source_port_id (\<lambda>port. port\<lparr>po_statistics :=
               (po_statistics port)\<lparr>tx_time_codes := tx_time_codes (po_statistics port) + 1\<rparr>\<rparr>) s
        in (True, vspwd_mark_port_changed peer (vspwd_mark_port_changed source_port_id s)))"

section \<open>The bridge\<close>

abbreviation bridge_port :: "'s vspwd_server \<Rightarrow> int" where "bridge_port s \<equiv> br_port_id (sv_bridge s)"

definition vspwd_bridge_refresh_state :: "'s vspwd_server \<Rightarrow> 's vspwd_server" where
  "vspwd_bridge_refresh_state s =
     (if \<not> br_enabled (sv_bridge s) \<or> br_udp_port (sv_bridge s) = None then s
      else let (result, out, w) = spw_port_get_link_state (br_udp_port (sv_bridge s)) (Some SPW_LINK_ERROR_WAIT) (sv_world s);
             s = s\<lparr>sv_world := w\<rparr>;
             st = (if result \<noteq> SPW_OK then SPW_LINK_ERROR_WAIT else the out) in
        if st \<noteq> br_state (sv_bridge s)
        then let b = bridge_port s; old = po_state (the_vport b s);
               s = s\<lparr>sv_bridge := (sv_bridge s)\<lparr>br_state := st\<rparr>\<rparr>;
               s = (if old \<noteq> st
                    then vspwd_mark_port_changed b (set_vport b (\<lambda>port. port\<lparr>po_state := st, po_statistics :=
                      (if st = SPW_LINK_ERROR_WAIT
                       then (po_statistics port)\<lparr>link_errors := link_errors (po_statistics port) + 1\<rparr>
                       else po_statistics port)\<rparr>) s)
                    else s)
          in vspwd_update_states s
        else s)"

text \<open>The contents of an array of the given size.\<close>

definition array_bytes :: "nat \<Rightarrow> (nat \<Rightarrow> u8) \<Rightarrow> bytes" where
  "array_bytes n data = List.map data [0..<n]"

definition vspwd_bridge_pop_packet :: "'s vspwd_server \<Rightarrow> 's vspwd_server" where
  "vspwd_bridge_pop_packet s =
     (let b = bridge_port s; port = the_vport b s in
      if rb_count (po_packets port) = 0 \<or> br_state (sv_bridge s) \<noteq> SPW_LINK_RUN then s
      else let slot = ring_front (po_packets port); n = unat (vs_length slot);
             packet = \<lparr>pk_data = Some (array_bytes VSPD_MAX_LOGICAL_PACKET (vs_data slot)), pk_length = n,
               pk_capacity = n, pk_terminator = vs_terminator slot\<rparr>;
             (result, w) = spw_port_send (br_udp_port (sv_bridge s)) (Some packet) SPW_TIMEOUT_IMMEDIATE (sv_world s);
             s = s\<lparr>sv_world := w\<rparr> in
        if result \<noteq> SPW_OK then s
        else vspwd_mark_port_changed b (set_vport b (\<lambda>port. port\<lparr>
            po_statistics := (let st = po_statistics port in
              st\<lparr>rx_packets := rx_packets st + 1, rx_bytes := rx_bytes st + ucast (vs_length slot)\<rparr>),
            po_packets := ring_drop VSPWD_PACKET_QUEUE_DEPTH (po_packets port)\<rparr>) s))"

definition vspwd_bridge_pop_time_code :: "'s vspwd_server \<Rightarrow> 's vspwd_server" where
  "vspwd_bridge_pop_time_code s =
     (let b = bridge_port s; port = the_vport b s in
      if rb_count (po_time_codes port) = 0 \<or> br_state (sv_bridge s) \<noteq> SPW_LINK_RUN then s
      else let (result, w) = spw_port_send_time_code (br_udp_port (sv_bridge s)) (Some (ring_front (po_time_codes port)))
               SPW_TIMEOUT_IMMEDIATE (sv_world s);
             s = s\<lparr>sv_world := w\<rparr> in
        if result \<noteq> SPW_OK then s
        else vspwd_mark_port_changed b (set_vport b (\<lambda>port. port\<lparr>
            po_statistics := (po_statistics port)\<lparr>rx_time_codes := rx_time_codes (po_statistics port) + 1\<rparr>,
            po_time_codes := ring_drop VSPWD_TIME_CODE_QUEUE_DEPTH (po_time_codes port)\<rparr>) s))"

definition vspwd_bridge_push_packet :: "'s vspwd_server \<Rightarrow> 's vspwd_server" where
  "vspwd_bridge_push_packet s =
     (let b = bridge_port s; local = vspwd_peer_port b in
      if br_state (sv_bridge s) \<noteq> SPW_LINK_RUN \<or> po_state (the_vport local s) \<noteq> SPW_LINK_RUN \<or>
        rb_count (po_packets (the_vport local s)) \<ge> VSPWD_PACKET_QUEUE_DEPTH then s
      else let packet = \<lparr>pk_data = Some (br_rx_packet (sv_bridge s)), pk_length = 0, pk_capacity = VSPD_MAX_LOGICAL_PACKET,
               pk_terminator = SPW_TERMINATOR_EOP\<rparr>;
             (result, out, w) = spw_port_receive (br_udp_port (sv_bridge s)) (Some packet) SPW_TIMEOUT_IMMEDIATE (sv_world s);
             packet = the out; data = the (pk_data packet); n = pk_length packet;
             s = s\<lparr>sv_world := w, sv_bridge := (sv_bridge s)\<lparr>br_rx_packet := data\<rparr>\<rparr> in
        if result \<noteq> SPW_OK then s
        else let s = set_vport local (put_packet (\<lambda>i. data ! i) (of_nat n) (pk_terminator packet)) s;
               s = set_vport b (\<lambda>port. port\<lparr>po_statistics := (let st = po_statistics port in
                 st\<lparr>tx_packets := tx_packets st + 1, tx_bytes := tx_bytes st + of_nat n,
                   eep_packets := (if pk_terminator packet = SPW_TERMINATOR_EEP then eep_packets st + 1 else eep_packets st)\<rparr>)\<rparr>) s
          in vspwd_mark_port_changed local (vspwd_mark_port_changed b s))"

definition vspwd_bridge_push_time_code :: "'s vspwd_server \<Rightarrow> 's vspwd_server" where
  "vspwd_bridge_push_time_code s =
     (let b = bridge_port s; local = vspwd_peer_port b in
      if br_state (sv_bridge s) \<noteq> SPW_LINK_RUN \<or> po_state (the_vport local s) \<noteq> SPW_LINK_RUN \<or>
        rb_count (po_time_codes (the_vport local s)) \<ge> VSPWD_TIME_CODE_QUEUE_DEPTH then s
      else let (result, out, w) = spw_port_receive_time_code (br_udp_port (sv_bridge s))
               (Some \<lparr>time_count = 0, control_flags = 0\<rparr>) SPW_TIMEOUT_IMMEDIATE (sv_world s);
             s = s\<lparr>sv_world := w\<rparr> in
        if result \<noteq> SPW_OK then s
        else let s = set_vport local (\<lambda>port. port\<lparr>po_time_codes :=
                 ring_put VSPWD_TIME_CODE_QUEUE_DEPTH (\<lambda>_. the out) (po_time_codes port)\<rparr>) s;
               s = set_vport b (\<lambda>port. port\<lparr>po_statistics :=
                 (po_statistics port)\<lparr>tx_time_codes := tx_time_codes (po_statistics port) + 1\<rparr>\<rparr>) s
          in vspwd_mark_port_changed local (vspwd_mark_port_changed b s))"

definition vspwd_service_bridge :: "'s vspwd_server \<Rightarrow> 's vspwd_server" where
  "vspwd_service_bridge s =
     (if \<not> br_enabled (sv_bridge s) then s
      else let s = vspwd_bridge_refresh_state s in
        if br_state (sv_bridge s) \<noteq> SPW_LINK_RUN then s
        else vspwd_bridge_refresh_state (vspwd_bridge_push_time_code (vspwd_bridge_push_packet
               (vspwd_bridge_pop_time_code (vspwd_bridge_pop_packet s)))))"

record vspwd_udp_bridge_config =
  bc_enabled :: bool
  bc_port_id :: u32
  bc_udp :: spw_udp_config

text \<open>\<open>views\<close> is what the bytes of the UDP configuration would be as another configuration structure.\<close>

definition bridge_port_config :: "'d backend_config \<Rightarrow> vspwd_udp_bridge_config \<Rightarrow> 'd spw_port_config" where
  "bridge_port_config views config = \<lparr>pc_struct_size = of_nat sizeof_port_config, pc_version = 1, pc_backend = SPW_BACKEND_UDP,
     pc_flags = 0, pc_backend_config = Some (views\<lparr>as_udp := bc_udp config\<rparr>), pc_backend_config_size = sizeof_udp_config\<rparr>"

definition vspwd_open_bridge ::
    "('s, 'd) backends \<Rightarrow> (u64 \<Rightarrow> u64 \<Rightarrow> addr option) \<Rightarrow> 'd backend_config \<Rightarrow> vspwd_udp_bridge_config \<Rightarrow>
     's vspwd_server \<Rightarrow> int \<times> 's vspwd_server" where
  "vspwd_open_bridge bs allocate views config s =
     (if \<not> bc_enabled config then (0, s)
      else if unat (bc_port_id config) \<ge> VSPWD_PORT_COUNT then (- 1, s)
      else let (result, out, w) = spw_port_open bs allocate (Some (bridge_port_config views config)) (Some (br_udp_port (sv_bridge s))) (sv_world s);
             s = s\<lparr>sv_world := w, sv_bridge := (sv_bridge s)\<lparr>br_udp_port := the out\<rparr>\<rparr> in
        if result \<noteq> SPW_OK \<or> br_udp_port (sv_bridge s) = None then (- 1, s)
        else let (result, w) = spw_port_start (br_udp_port (sv_bridge s)) (sv_world s); s = s\<lparr>sv_world := w\<rparr> in
          if result \<noteq> SPW_OK
          then (- 1, s\<lparr>sv_world := snd (spw_port_close (br_udp_port (sv_bridge s)) (sv_world s)),
                       sv_bridge := (sv_bridge s)\<lparr>br_udp_port := None\<rparr>\<rparr>)
          else let b = uint (bc_port_id config);
                 s = s\<lparr>sv_bridge := (sv_bridge s)\<lparr>br_enabled := True, br_port_id := b, br_state := SPW_LINK_CONNECTING\<rparr>\<rparr>;
                 s = set_vport b (\<lambda>port. port\<lparr>po_bridged := True, po_started := True, po_reset_latched := False,
                   po_state := SPW_LINK_CONNECTING, po_next_message_id := 1\<rparr>) s
            in (0, vspwd_bridge_refresh_state s))"

section \<open>Requests\<close>

definition with_status_ok :: "u32 \<Rightarrow> ('s vspwd_server \<Rightarrow> 's vspwd_server) \<Rightarrow> 's vspwd_server \<Rightarrow> 's vspwd_server" where
  "with_status_ok status f s = (if status = VSPD_STATUS_OK then f s else s)"

text \<open>The buffer \<open>response_payload\<close>; only the bytes that were encoded into it are sent.\<close>

abbreviation response_buffer :: "bytes option" where "response_buffer \<equiv> Some (replicate 72 0)"

definition handle_hello :: "nat \<Rightarrow> vspd_header \<Rightarrow> 's vspwd_server \<Rightarrow> bool \<times> 's vspwd_server" where
  "handle_hello i header s =
     (if cl_port_id (the_client i s) \<ge> 0
      then respond i header VSPD_STATUS_INVALID_STATE (Some hello_payload) VSPD_HELLO_PAYLOAD_SIZE s
      else respond i header VSPD_STATUS_OK (Some hello_payload) VSPD_HELLO_PAYLOAD_SIZE
        (set_client i (\<lambda>c. c\<lparr>cl_hello_done := True\<rparr>) s))"

text \<open>\<open>(int) header.port_id\<close> is the signed reading of the field.\<close>

definition handle_attach :: "nat \<Rightarrow> vspd_header \<Rightarrow> 's vspwd_server \<Rightarrow> bool \<times> 's vspwd_server" where
  "handle_attach i header s =
     (let c = the_client i s; p = sint (vh_port_id header) in
      if \<not> cl_hello_done c \<or> cl_port_id c \<ge> 0 then respond i header VSPD_STATUS_INVALID_STATE None 0 s
      else if p < 0 \<or> p \<ge> int VSPWD_PORT_COUNT then respond i header VSPD_STATUS_INVALID_ARGUMENT None 0 s
      else if po_bridged (the_vport p s) then respond i header VSPD_STATUS_RESOURCE_EXHAUSTED None 0 s
      else if po_client_index (the_vport p s) \<ge> 0 then respond i header VSPD_STATUS_RESOURCE_EXHAUSTED None 0 s
      else respond i header VSPD_STATUS_OK None 0 (vspwd_update_states
        (set_vport p (\<lambda>port. (vspwd_clear_port_queues (port\<lparr>po_client_index := int i, po_started := False,
            po_reset_latched := False, po_ever_attached := True, po_state := SPW_LINK_ERROR_RESET,
            po_state_event_pending := False, po_next_message_id := 1\<rparr>))\<lparr>po_statistics := zero_statistics\<rparr>)
          (set_client i (\<lambda>c. c\<lparr>cl_port_id := p\<rparr>) s))))"

definition handle_detach :: "nat \<Rightarrow> vspd_header \<Rightarrow> 's vspwd_server \<Rightarrow> bool \<times> 's vspwd_server" where
  "handle_detach i header s =
     (let status = vspwd_validate_attached_request (the_client i s) header;
          (queued, s) = respond i header status None 0 s in
      if \<not> queued then (False, s)
      else (True, with_status_ok status (vspwd_detach_client i) s))"

definition handle_start :: "nat \<Rightarrow> vspd_header \<Rightarrow> 's vspwd_server \<Rightarrow> bool \<times> 's vspwd_server" where
  "handle_start i header s =
     (let status = vspwd_validate_attached_request (the_client i s) header
      in respond i header status None 0 (with_status_ok status (\<lambda>s. vspwd_update_states
           (set_vport (cl_port_id (the_client i s)) (\<lambda>port. port\<lparr>po_started := True, po_reset_latched := False\<rparr>) s)) s))"

definition handle_stop :: "nat \<Rightarrow> vspd_header \<Rightarrow> 's vspwd_server \<Rightarrow> bool \<times> 's vspwd_server" where
  "handle_stop i header s =
     (let status = vspwd_validate_attached_request (the_client i s) header
      in respond i header status None 0 (with_status_ok status (\<lambda>s. vspwd_update_states
           (set_vport (cl_port_id (the_client i s)) (\<lambda>port. port\<lparr>po_started := False, po_reset_latched := False\<rparr>) s)) s))"

definition handle_reset :: "nat \<Rightarrow> vspd_header \<Rightarrow> 's vspwd_server \<Rightarrow> bool \<times> 's vspwd_server" where
  "handle_reset i header s =
     (let status = vspwd_validate_attached_request (the_client i s) header
      in respond i header status None 0 (with_status_ok status (\<lambda>s. vspwd_update_states
           (set_client i (\<lambda>c. c\<lparr>cl_reassembly := vspwd_clear_reassembly (cl_reassembly c)\<rparr>)
             (set_vport (cl_port_id (the_client i s)) (\<lambda>port. vspwd_clear_port_queues
               (port\<lparr>po_started := False, po_reset_latched := True\<rparr>)) s))) s))"

definition handle_get_link_state :: "nat \<Rightarrow> vspd_header \<Rightarrow> 's vspwd_server \<Rightarrow> bool \<times> 's vspwd_server" where
  "handle_get_link_state i header s =
     (let c = the_client i s; status = vspwd_validate_attached_request c header
      in respond i header status (if status = VSPD_STATUS_OK
           then vspd_encode_u32_payload (ucast (po_state (the_vport (cl_port_id c) s))) response_buffer
           else response_buffer) VSPD_LINK_STATE_PAYLOAD_SIZE s)"

definition handle_get_capabilities :: "nat \<Rightarrow> vspd_header \<Rightarrow> 's vspwd_server \<Rightarrow> bool \<times> 's vspwd_server" where
  "handle_get_capabilities i header s =
     (let status = vspwd_validate_attached_request (the_client i s) header
      in respond i header status (if status = VSPD_STATUS_OK
           then vspd_encode_capabilities (Some \<lparr>vc_bits = SPW_CAP_EEP OR SPW_CAP_TIME_CODE OR SPW_CAP_LINK_CONTROL OR
               SPW_CAP_STATISTICS, vc_max_packet_size = of_nat VSPD_MAX_LOGICAL_PACKET,
               vc_tx_queue_depth = of_nat VSPWD_PACKET_QUEUE_DEPTH, vc_rx_queue_depth = of_nat VSPWD_PACKET_QUEUE_DEPTH,
               vc_buffer_alignment = 1\<rparr>) response_buffer
           else response_buffer) VSPD_CAPABILITIES_PAYLOAD_SIZE s)"

definition clear_client_reassembly :: "nat \<Rightarrow> 's vspwd_server \<Rightarrow> 's vspwd_server" where
  "clear_client_reassembly i = set_client i (\<lambda>c. c\<lparr>cl_reassembly := vspwd_clear_reassembly (cl_reassembly c)\<rparr>)"

definition handle_data :: "nat \<Rightarrow> vspd_header \<Rightarrow> bytes option \<Rightarrow> 's vspwd_server \<Rightarrow> bool \<times> 's vspwd_server" where
  "handle_data i header payload s =
     (let fin = vh_flags header AND VSPD_FLAG_FRAGMENT_END \<noteq> 0;
          status = vspwd_validate_attached_request (the_client i s) header;
          (status, s) = (if status = VSPD_STATUS_OK then vspwd_accept_data_fragment i header payload s else (status, s)) in
      if status = VSPD_STATUS_INVALID_PACKET then (False, clear_client_reassembly i s)
      else if \<not> fin then (status = VSPD_STATUS_OK, s)
      else respond i header status None 0 (clear_client_reassembly i s))"

definition handle_time_code :: "nat \<Rightarrow> vspd_header \<Rightarrow> bytes option \<Rightarrow> 's vspwd_server \<Rightarrow> bool \<times> 's vspwd_server" where
  "handle_time_code i header payload s =
     (let p = cl_port_id (the_client i s);
          status = vspwd_validate_attached_request (the_client i s) header;
          status = (if status = VSPD_STATUS_OK \<and> po_state (the_vport p s) \<noteq> SPW_LINK_RUN
                    then VSPD_STATUS_LINK_UNAVAILABLE else status) in
      if status \<noteq> VSPD_STATUS_OK then respond i header status None 0 s
      else if rb_count (po_time_codes (the_vport (vspwd_peer_port p) s)) \<ge> VSPWD_TIME_CODE_QUEUE_DEPTH
      then respond i header VSPD_STATUS_RESOURCE_EXHAUSTED None 0
        (vspwd_mark_port_changed p (set_vport p (\<lambda>port. port\<lparr>po_statistics :=
          (po_statistics port)\<lparr>dropped_packets := dropped_packets (po_statistics port) + 1\<rparr>\<rparr>) s))
      else let (queued, s) = vspwd_enqueue_time_code p \<lparr>time_count = the payload ! 0, control_flags = the payload ! 1\<rparr> s
        in respond i header (if queued then VSPD_STATUS_OK else VSPD_STATUS_LINK_UNAVAILABLE) None 0 s)"

definition handle_get_statistics :: "nat \<Rightarrow> vspd_header \<Rightarrow> 's vspwd_server \<Rightarrow> bool \<times> 's vspwd_server" where
  "handle_get_statistics i header s =
     (let c = the_client i s; status = vspwd_validate_attached_request c header
      in respond i header status (if status = VSPD_STATUS_OK
           then vspd_encode_statistics (Some (vspwd_statistics_to_wire (po_statistics (the_vport (cl_port_id c) s)))) response_buffer
           else response_buffer) VSPD_STATISTICS_PAYLOAD_SIZE s)"

definition zero_port_statistics :: "int \<Rightarrow> 's vspwd_server \<Rightarrow> 's vspwd_server" where
  "zero_port_statistics p s =
     vspwd_mark_port_changed p (set_vport p (\<lambda>port. port\<lparr>po_statistics := zero_statistics\<rparr>) s)"

definition handle_clear_statistics :: "nat \<Rightarrow> vspd_header \<Rightarrow> 's vspwd_server \<Rightarrow> bool \<times> 's vspwd_server" where
  "handle_clear_statistics i header s =
     (let status = vspwd_validate_attached_request (the_client i s) header
      in respond i header status None 0 (with_status_ok status (zero_port_statistics (cl_port_id (the_client i s))) s))"

definition handle_get_server_info :: "nat \<Rightarrow> vspd_header \<Rightarrow> 's vspwd_server \<Rightarrow> bool \<times> 's vspwd_server" where
  "handle_get_server_info i header s =
     (let status = vspwd_validate_management_request (the_client i s) header False
      in respond i header status (if status = VSPD_STATUS_OK
           then vspd_encode_server_info (Some \<lparr>vs_port_count = of_nat VSPWD_PORT_COUNT,
               vs_client_capacity = of_nat VSPWD_CLIENT_COUNT, vs_packet_queue_depth = of_nat VSPWD_PACKET_QUEUE_DEPTH,
               vs_time_code_queue_depth = of_nat VSPWD_TIME_CODE_QUEUE_DEPTH,
               vs_max_logical_packet = of_nat VSPD_MAX_LOGICAL_PACKET\<rparr>) response_buffer
           else response_buffer) VSPD_SERVER_INFO_PAYLOAD_SIZE s)"

definition handle_get_port_info :: "nat \<Rightarrow> vspd_header \<Rightarrow> 's vspwd_server \<Rightarrow> bool \<times> 's vspwd_server" where
  "handle_get_port_info i header s =
     (let status = vspwd_validate_management_request (the_client i s) header True
      in respond i header status (if status = VSPD_STATUS_OK
           then vspd_encode_port_info (Some (vspwd_port_info_to_wire (the_vport (uint (vh_port_id header)) s))) response_buffer
           else response_buffer) VSPD_PORT_INFO_PAYLOAD_SIZE s)"

definition handle_get_port_statistics :: "nat \<Rightarrow> vspd_header \<Rightarrow> 's vspwd_server \<Rightarrow> bool \<times> 's vspwd_server" where
  "handle_get_port_statistics i header s =
     (let status = vspwd_validate_management_request (the_client i s) header True
      in respond i header status (if status = VSPD_STATUS_OK
           then vspd_encode_statistics (Some (vspwd_statistics_to_wire (po_statistics (the_vport (uint (vh_port_id header)) s)))) response_buffer
           else response_buffer) VSPD_STATISTICS_PAYLOAD_SIZE s)"

definition handle_clear_port_statistics :: "nat \<Rightarrow> vspd_header \<Rightarrow> 's vspwd_server \<Rightarrow> bool \<times> 's vspwd_server" where
  "handle_clear_port_statistics i header s =
     (let status = vspwd_validate_management_request (the_client i s) header True
      in respond i header status None 0 (with_status_ok status (zero_port_statistics (uint (vh_port_id header))) s))"

definition handle_subscribe :: "nat \<Rightarrow> vspd_header \<Rightarrow> 's vspwd_server \<Rightarrow> bool \<times> 's vspwd_server" where
  "handle_subscribe i header s =
     (let status = vspwd_validate_management_request (the_client i s) header True; bit = push_bit (unat (vh_port_id header)) 1
      in respond i header status None 0 (with_status_ok status (set_client i (\<lambda>c. c\<lparr>
           cl_monitor_mask := cl_monitor_mask c OR bit, cl_monitor_pending_mask := cl_monitor_pending_mask c OR bit\<rparr>)) s))"

definition handle_unsubscribe :: "nat \<Rightarrow> vspd_header \<Rightarrow> 's vspwd_server \<Rightarrow> bool \<times> 's vspwd_server" where
  "handle_unsubscribe i header s =
     (let status = vspwd_validate_management_request (the_client i s) header True; bit = push_bit (unat (vh_port_id header)) 1
      in respond i header status None 0 (with_status_ok status (set_client i (\<lambda>c. c\<lparr>
           cl_monitor_mask := cl_monitor_mask c AND NOT bit,
           cl_monitor_pending_mask := cl_monitor_pending_mask c AND NOT bit\<rparr>)) s))"

text \<open>The \<open>switch\<close> of \<open>vspwd_handle_request\<close>.\<close>

definition dispatch_request :: "nat \<Rightarrow> vspd_header \<Rightarrow> bytes option \<Rightarrow> 's vspwd_server \<Rightarrow> bool \<times> 's vspwd_server" where
  "dispatch_request i header payload s =
     (let ty = vh_type header in
      if ty = VSPD_MSG_HELLO then handle_hello i header s
      else if ty = VSPD_MSG_ATTACH then handle_attach i header s
      else if ty = VSPD_MSG_DETACH then handle_detach i header s
      else if ty = VSPD_MSG_START then handle_start i header s
      else if ty = VSPD_MSG_STOP then handle_stop i header s
      else if ty = VSPD_MSG_RESET then handle_reset i header s
      else if ty = VSPD_MSG_GET_LINK_STATE then handle_get_link_state i header s
      else if ty = VSPD_MSG_GET_CAPABILITIES then handle_get_capabilities i header s
      else if ty = VSPD_MSG_DATA_TX then handle_data i header payload s
      else if ty = VSPD_MSG_TIME_CODE_TX then handle_time_code i header payload s
      else if ty = VSPD_MSG_GET_STATISTICS then handle_get_statistics i header s
      else if ty = VSPD_MSG_CLEAR_STATISTICS then handle_clear_statistics i header s
      else if ty = VSPD_MSG_GET_SERVER_INFO then handle_get_server_info i header s
      else if ty = VSPD_MSG_GET_PORT_INFO then handle_get_port_info i header s
      else if ty = VSPD_MSG_GET_PORT_STATISTICS then handle_get_port_statistics i header s
      else if ty = VSPD_MSG_CLEAR_PORT_STATISTICS then handle_clear_port_statistics i header s
      else if ty = VSPD_MSG_SUBSCRIBE_PORT then handle_subscribe i header s
      else if ty = VSPD_MSG_UNSUBSCRIBE_PORT then handle_unsubscribe i header s
      else (False, s))"

definition vspwd_handle_request :: "nat \<Rightarrow> bytes \<Rightarrow> 's vspwd_server \<Rightarrow> bool \<times> 's vspwd_server" where
  "vspwd_handle_request i frame s =
     (if cl_response_pending (the_client i s) then (False, s)
      else case received_header frame of None \<Rightarrow> (False, s)
      | Some header \<Rightarrow>
          if vh_flags header AND VSPD_FLAG_RESPONSE \<noteq> 0 \<or> vh_type header = VSPD_MSG_DATA_RX \<or>
            vh_type header = VSPD_MSG_TIME_CODE_RX \<or> vh_type header = VSPD_MSG_LINK_STATE_EVENT \<or>
            vh_type header = VSPD_MSG_PORT_SNAPSHOT_EVENT then (False, s)
          else if \<not> cl_hello_done (the_client i s) \<and> vh_type header \<noteq> VSPD_MSG_HELLO then (False, s)
          else dispatch_request i header (received_payload header frame) s)"

section \<open>Output\<close>

definition event_header :: "u8 \<Rightarrow> u32 \<Rightarrow> u32 \<Rightarrow> vspd_header" where
  "event_header type payload_size port_id = (base_header type)\<lparr>vh_payload_size := payload_size, vh_port_id := port_id\<rparr>"

definition vspwd_flush_state_event :: "nat \<Rightarrow> 's vspwd_server \<Rightarrow> bool \<times> 's vspwd_server" where
  "vspwd_flush_state_event i s =
     (let c = the_client i s; p = cl_port_id c in
      if p < 0 then (True, s)
      else if \<not> po_state_event_pending (the_vport p s) then (True, s)
      else case vspd_frame (event_header VSPD_MSG_LINK_STATE_EVENT VSPD_LINK_STATE_PAYLOAD_SIZE (of_int p))
          (the (vspd_encode_u32_payload (ucast (po_state (the_vport p s))) (Some (replicate 4 0)))) of
          None \<Rightarrow> (False, s)
        | Some frame \<Rightarrow>
            let (sent, s) = vspwd_send_record (cl_fd c) frame s in
            if \<not> sent then (False, s)
            else (True, set_vport p (\<lambda>port. port\<lparr>po_state_event_pending := False\<rparr>) s))"

definition advance_slot :: "u32 \<Rightarrow> vspwd_packet_slot ring \<Rightarrow> vspwd_packet_slot ring" where
  "advance_slot chunk q = q\<lparr>rb_slots := (rb_slots q)[rb_head q :=
     (rb_slots q ! rb_head q)\<lparr>vs_offset := vs_offset (rb_slots q ! rb_head q) + chunk\<rparr>]\<rparr>"

definition vspwd_flush_packet_event :: "nat \<Rightarrow> 's vspwd_server \<Rightarrow> bool \<times> 's vspwd_server" where
  "vspwd_flush_packet_event i s =
     (let c = the_client i s; p = cl_port_id c in
      if p < 0 then (True, s)
      else if rb_count (po_packets (the_vport p s)) = 0 then (True, s)
      else let slot = ring_front (po_packets (the_vport p s)); chunk = chunk_at (vs_length slot) (vs_offset slot);
             header = data_header VSPD_MSG_DATA_RX 0 (of_int p) (vs_message_id slot) (vs_length slot) (vs_offset slot)
               (vs_terminator slot);
             data = array_bytes (unat chunk) (\<lambda>i. vs_data slot (unat (vs_offset slot) + i)) in
        case vspd_frame header data of None \<Rightarrow> (False, s)
        | Some frame \<Rightarrow>
            let (sent, s) = vspwd_send_record (cl_fd c) frame s in
            if \<not> sent then (False, s)
            else if \<not> final_at (vs_length slot) (vs_offset slot)
            then (True, set_vport p (\<lambda>port. port\<lparr>po_packets := advance_slot chunk (po_packets port)\<rparr>) s)
            else (True, vspwd_mark_port_changed p (set_vport p (\<lambda>port. port\<lparr>
                po_statistics := (let st = po_statistics port in
                  st\<lparr>rx_packets := rx_packets st + 1, rx_bytes := rx_bytes st + ucast (vs_length slot)\<rparr>),
                po_packets := ring_drop VSPWD_PACKET_QUEUE_DEPTH (po_packets port)\<rparr>) s)))"

definition vspwd_flush_time_code_event :: "nat \<Rightarrow> 's vspwd_server \<Rightarrow> bool \<times> 's vspwd_server" where
  "vspwd_flush_time_code_event i s =
     (let c = the_client i s; p = cl_port_id c in
      if p < 0 then (True, s)
      else if rb_count (po_time_codes (the_vport p s)) = 0 then (True, s)
      else let code = ring_front (po_time_codes (the_vport p s)) in
        case vspd_frame (event_header VSPD_MSG_TIME_CODE_RX VSPD_TIME_CODE_PAYLOAD_SIZE (of_int p))
          [time_count code, control_flags code] of None \<Rightarrow> (False, s)
        | Some frame \<Rightarrow>
            let (sent, s) = vspwd_send_record (cl_fd c) frame s in
            if \<not> sent then (False, s)
            else (True, vspwd_mark_port_changed p (set_vport p (\<lambda>port. port\<lparr>
                po_time_codes := ring_drop VSPWD_TIME_CODE_QUEUE_DEPTH (po_time_codes port),
                po_statistics := (po_statistics port)\<lparr>rx_time_codes := rx_time_codes (po_statistics port) + 1\<rparr>\<rparr>) s)))"

text \<open>The loop of \<open>vspwd_flush_monitor_event\<close> over the ports.\<close>

fun flush_snapshot :: "int list \<Rightarrow> nat \<Rightarrow> 's vspwd_server \<Rightarrow> bool \<times> 's vspwd_server" where
  "flush_snapshot [] i s = (True, s)"
| "flush_snapshot (p # ps) i s =
     (let c = the_client i s; bit = push_bit (nat p) 1 in
      if cl_monitor_pending_mask c AND bit \<noteq> 0
      then case vspd_frame (event_header VSPD_MSG_PORT_SNAPSHOT_EVENT VSPD_PORT_SNAPSHOT_PAYLOAD_SIZE (of_int p))
          (the (vspd_encode_port_snapshot (Some (vspwd_port_snapshot_to_wire (the_vport p s))) (Some (replicate 88 0)))) of
          None \<Rightarrow> (False, s)
        | Some frame \<Rightarrow>
            let (sent, s) = vspwd_send_record (cl_fd c) frame s in
            if \<not> sent then (False, s)
            else (True, set_client i (\<lambda>c. c\<lparr>cl_monitor_pending_mask := cl_monitor_pending_mask c AND NOT bit\<rparr>) s)
      else flush_snapshot ps i s)"

definition vspwd_flush_monitor_event :: "nat \<Rightarrow> 's vspwd_server \<Rightarrow> bool \<times> 's vspwd_server" where
  "vspwd_flush_monitor_event i s =
     (if cl_port_id (the_client i s) \<ge> 0 \<or> cl_monitor_pending_mask (the_client i s) = 0 then (True, s)
      else flush_snapshot [0, 1] i s)"

definition vspwd_client_has_output :: "'s vspwd_server \<Rightarrow> nat \<Rightarrow> bool" where
  "vspwd_client_has_output s i =
     (let c = the_client i s in
      if cl_response_pending c then True
      else if cl_port_id c < 0 then cl_monitor_pending_mask c \<noteq> 0
      else let port = the_vport (cl_port_id c) s
        in po_state_event_pending port \<or> rb_count (po_packets port) \<noteq> 0 \<or> rb_count (po_time_codes port) \<noteq> 0)"

definition vspwd_flush_client :: "nat \<Rightarrow> 's vspwd_server \<Rightarrow> bool \<times> 's vspwd_server" where
  "vspwd_flush_client i s =
     (if cl_response_pending (the_client i s) then vspwd_flush_response i s
      else if cl_port_id (the_client i s) < 0 then vspwd_flush_monitor_event i s
      else let (flushed, s) = vspwd_flush_state_event i s in
        if \<not> flushed then (False, s)
        else if cl_port_id (the_client i s) \<ge> 0 \<and> po_state_event_pending (the_vport (cl_port_id (the_client i s)) s) then (True, s)
        else let (flushed, s) = vspwd_flush_packet_event i s in
          if \<not> flushed then (False, s) else vspwd_flush_time_code_event i s)"

section \<open>Input and the main loop\<close>

definition vspwd_receive_one :: "nat \<Rightarrow> 's vspwd_server \<Rightarrow> int \<times> 's vspwd_server" where
  "vspwd_receive_one i s =
     (case sv_messages s of [] \<Rightarrow> (- 1, s\<lparr>sv_errno := EOTHER\<rparr>)
      | Message_error e # ms \<Rightarrow> (if e = EAGAIN then 0 else - 1, s\<lparr>sv_messages := ms, sv_errno := e\<rparr>)
      | Message data truncated # ms \<Rightarrow>
          let s = s\<lparr>sv_messages := ms\<rparr> in
          if data = [] then (- 1, s)
          else if truncated \<or> length data > VSPWD_FRAME_MAX then (- 1, s)
          else let (handled, s) = vspwd_handle_request i data s in (if handled then 1 else - 1, s))"

definition free_client :: "'s vspwd_server \<Rightarrow> nat option" where
  "free_client s = List.find (\<lambda>i. cl_fd (the_client i s) < 0) [0..<VSPWD_CLIENT_COUNT]"

fun vspwd_accept_clients :: "accept_outcome list \<Rightarrow> 's vspwd_server \<Rightarrow> 's vspwd_server" where
  "vspwd_accept_clients [] s = s"
| "vspwd_accept_clients (Accept_error e # as) s = s\<lparr>sv_errno := e\<rparr>"
| "vspwd_accept_clients (Accepted fd # as) s =
     (if fd < 0 then s
      else vspwd_accept_clients as (case free_client s of
          None \<Rightarrow> s\<lparr>sv_closed := sv_closed s @ [fd]\<rparr>
        | Some i \<Rightarrow> set_client i (\<lambda>_. zero_client\<lparr>cl_fd := fd, cl_port_id := - 1\<rparr>) s))"

record listener_host =
  lh_socket :: int
  lh_bind :: bool
  lh_chmod :: bool
  lh_listen :: bool

text \<open>The path is given without its terminating NUL.\<close>

definition vspwd_open_listener :: "listener_host \<Rightarrow> bytes option \<Rightarrow> 's vspwd_server \<Rightarrow> int \<times> 's vspwd_server" where
  "vspwd_open_listener lh path s =
     (case path of None \<Rightarrow> (- 1, s)
      | Some path \<Rightarrow>
          if path = [] then (- 1, s)
          else if length path \<ge> 108 then (- 1, s)
          else let s = s\<lparr>sv_listener_fd := lh_socket lh\<rparr> in
            if sv_listener_fd s < 0 then (- 1, s)
            else let s = s\<lparr>sv_socket_path := memcpy (sv_socket_path s) 0 (path @ [0]) (length path + 1)\<rparr>
              in (if \<not> lh_bind lh \<or> \<not> lh_chmod lh \<or> \<not> lh_listen lh then - 1 else 0, s))"

text \<open>Removing the socket file is left out.\<close>

definition vspwd_cleanup :: "'s vspwd_server \<Rightarrow> 's vspwd_server" where
  "vspwd_cleanup s =
     (let s = (if br_udp_port (sv_bridge s) \<noteq> None
               then s\<lparr>sv_world := snd (spw_port_close (br_udp_port (sv_bridge s)) (sv_world s)),
                      sv_bridge := (sv_bridge s)\<lparr>br_udp_port := None\<rparr>\<rparr> else s);
          s = s\<lparr>sv_closed := sv_closed s @ filter (\<lambda>fd. fd \<ge> 0) (List.map cl_fd (sv_clients s))\<rparr>
      in if sv_listener_fd s \<ge> 0 then s\<lparr>sv_closed := sv_closed s @ [sv_listener_fd s]\<rparr> else s)"

text \<open>The events that \<open>poll\<close> reports for one client, as the body of the loop treats them.\<close>

definition serve_client :: "nat \<Rightarrow> u16 \<Rightarrow> 's vspwd_server \<Rightarrow> 's vspwd_server" where
  "serve_client i revents s =
     (if cl_fd (the_client i s) < 0 then s
      else let close = (revents AND (POLLERR OR POLLHUP OR POLLNVAL) \<noteq> 0);
             (close, s) = (if \<not> close \<and> revents AND POLLIN \<noteq> 0
               then let (r, s) = vspwd_receive_one i s in (r < 0, s) else (close, s));
             (close, s) = (if \<not> close \<and> revents AND POLLOUT \<noteq> 0
               then let (flushed, s) = vspwd_flush_client i s in (\<not> flushed \<and> sv_errno s \<noteq> EAGAIN, s) else (close, s))
        in if close then vspwd_close_client i s else s)"

text \<open>
  One result of \<open>poll\<close>: the events of the listener with the connections it accepts, and the events of
  the clients that were polled, in order.
\<close>

datatype server_poll = Poll_events u16 "accept_outcome list" "u16 list" | Poll_idle | Poll_failed errno

definition polled_clients :: "'s vspwd_server \<Rightarrow> nat list" where
  "polled_clients s = filter (\<lambda>i. cl_fd (the_client i s) \<ge> 0) [0..<VSPWD_CLIENT_COUNT]"

definition serve_events :: "nat list \<Rightarrow> u16 \<Rightarrow> accept_outcome list \<Rightarrow> u16 list \<Rightarrow> 's vspwd_server \<Rightarrow> 's vspwd_server" where
  "serve_events polled listener accepts revents s =
     fold (\<lambda>(i, events). serve_client i events) (zip polled revents)
       (if listener AND POLLIN \<noteq> 0 then vspwd_accept_clients accepts s else s)"

fun vspwd_loop :: "server_poll list \<Rightarrow> 's vspwd_server \<Rightarrow> int \<times> 's vspwd_server" where
  "vspwd_loop [] s = (0, s)"
| "vspwd_loop (poll # polls) s =
     (let s = vspwd_service_bridge s in
      case poll of
        Poll_events listener accepts revents \<Rightarrow>
          vspwd_loop polls (serve_events (polled_clients s) listener accepts revents s)
      | Poll_idle \<Rightarrow> vspwd_loop polls s
      | Poll_failed e \<Rightarrow> if e = EINTR then vspwd_loop polls (s\<lparr>sv_errno := e\<rparr>) else (1, s\<lparr>sv_errno := e\<rparr>))"

record vspwd_config =
  vc_socket_path :: "bytes option"
  vc_udp_bridge :: vspwd_udp_bridge_config

text \<open>The server structure lives in the memory \<open>s\<close>; \<open>None\<close> is a failed allocation.\<close>

definition vspwd_run_config ::
    "('s, 'd) backends \<Rightarrow> (u64 \<Rightarrow> u64 \<Rightarrow> addr option) \<Rightarrow> 'd backend_config \<Rightarrow> listener_host \<Rightarrow> server_poll list \<Rightarrow>
     vspwd_config option \<Rightarrow> 's vspwd_server option \<Rightarrow> int \<times> 's vspwd_server option" where
  "vspwd_run_config bs allocate views lh polls config server =
     (case config of None \<Rightarrow> (1, server)
      | Some config \<Rightarrow>
          if vc_socket_path config = None then (1, server)
          else case server of None \<Rightarrow> (1, None)
          | Some s \<Rightarrow>
              let (r, s) = vspwd_open_bridge bs allocate views (vc_udp_bridge config) (vspwd_init_server s) in
              if r \<noteq> 0 then (1, Some (vspwd_cleanup s))
              else let (r, s) = vspwd_open_listener lh (vc_socket_path config) s in
                if r \<noteq> 0 then (1, Some (vspwd_cleanup s))
                else let (result, s) = vspwd_loop polls s in (result, Some (vspwd_cleanup s)))"

end
