(* ===== verification/Spec2Isabelle.thy ===== *)
theory Spec2Isabelle
  imports Vspw_Tp Fragment_Reassembler Link_Timing Fault_Injector Spw_Ring Spw_Config Spw_Port Port_Layout
    Port_Calls Packet_Channel Loopback Simulator Simulator_Inv Simulator_Links Simulator_Delivery Simulator_Samples
    Vspd_Protocol Driver_Backend Driver_Slots Driver_Contract
    Vspd_Frames Device_Backend Device_Session Device_Transfer Vspwd_Server
begin

text \<open>
  A verification development for \<open>spwkit\<close>, a C library for SpaceWire ports with interchangeable
  backends (\<open>src/\<close>). All paths below are those of the repository.

  \<^bold>\<open>The program.\<close> An application opens a port (\<open>src/core/port.c\<close>), which validates the configuration,
  lays the backend's context out in a workspace and forwards every call to a table of backend
  operations (\<open>src/core/backend_c.h\<close>). The backends are: loopback, the in-process simulator, a driver
  written by the application, the virtual device daemon reached over a local socket, and UDP. The UDP
  transport is built from a header codec, a reassembler, a fault injector and a timing model; the
  device backend and the daemon speak the VSPD protocol.

  \<^bold>\<open>Conventions.\<close> \<open>uintN_t\<close> is \<open>N word\<close>, with the wrap-around of the C code; sizes that are only compared are
  \<open>nat\<close>. A buffer with its size is a list of bytes. A pointer that may be null is an option. An output
  parameter is passed with its old contents and returned. Every error code is a value of \<open>spw_result\<close>.
  The memory seen by the port layer is a \<open>world\<close>: the ports, the public buffer descriptors and a backend
  part whose type is a parameter. A backend is the record \<open>spw_backend_ops\<close> of its operations, as in C,
  so the port layer is modelled once, for every table.

  \<^bold>\<open>Theories, in the order of the code.\<close>

  \<^item> \<open>Spw_Prelude\<close>, \<open>Spw_Types\<close>: integer types, byte buffers, shared list and word facts; the public data
    model of \<open>include/spwkit/types.h\<close>.
  \<^item> \<open>Vspw_Tp\<close> (\<open>vspw_tp.c\<close>): the datagram header codec. Both round trips of the header, and of the
    acknowledgement payload.
  \<^item> \<open>Fragment_Reassembler\<close> (\<open>fragment_reassembler.c\<close>): the coverage bitmap at word level. A push refines the
    update of a finite map of bytes; the order of the fragments does not matter; a reset leaves no
    coverage behind.
  \<^item> \<open>Link_Timing\<close>, \<open>Fault_Injector\<close> (\<open>virtual_link_timing.c\<close>, \<open>deterministic_faults.c\<close>): the delay is exact and
    never wraps; decisions are those of the first rule that fires, a reset replays them, generators and
    budgets are safe.
  \<^item> \<open>Spw_Config\<close> (\<open>config.h\<close> and the validation in \<open>port.c\<close>): what an accepted configuration guarantees.
  \<^item> \<open>Spw_Port\<close>, \<open>Port_Layout\<close>, \<open>Port_Calls\<close> (\<open>port.c\<close>): every public operation; the workspace arithmetic; what
    sequences of calls can do. The interface \<open>binding_frame\<close> states what a table of operations may do to the
    ownership of buffers; a closed port stays closed, a stopped port moves nothing, and a reset revokes
    buffers for every table that satisfies it.
  \<^item> \<open>Spw_Ring\<close>, \<open>Packet_Channel\<close>: the ring buffers of the backends behind the interface \<open>bounded_queue\<close>, and the
    contract \<open>packet_channel\<close> of a transport: accepted packets arrive unchanged, once and in order.
  \<^item> \<open>Loopback\<close> (\<open>loopback_backend.c\<close>): implements \<open>packet_channel\<close>; every result follows from the history.
  \<^item> \<open>Simulator\<close>, \<open>Simulator_Inv\<close>, \<open>Simulator_Links\<close>, \<open>Simulator_Delivery\<close>, \<open>Simulator_Samples\<close>
    (\<open>simulator_backend.c\<close>): links, endpoints and waiting. Mutexes and condition variables appear as a
    schedule: where the code gives the mutex up, other threads change the shared state, and the
    interface \<open>rely\<close> says what they keep. Link states agree, endpoints have one owner, delivery is in order
    with threads interleaved, and a blocked receive returns once a packet is queued.
  \<^item> \<open>Driver_Backend\<close>, \<open>Driver_Slots\<close>, \<open>Driver_Contract\<close> (\<open>driver_backend.c\<close>): for arbitrary callbacks of the driver. The
    loans of buffers, what reaches the driver, honest capabilities, the size of the structure.
  \<^item> \<open>Vspd_Protocol\<close>, \<open>Vspd_Frames\<close> (\<open>vspw_device_protocol.c\<close> and the frame building of \<open>device_backend.c\<close>): the wire
    format and its validation; the fragments of a packet as \<open>packet_frames\<close>.
  \<^item> \<open>Device_Backend\<close>, \<open>Device_Session\<close>, \<open>Device_Transfer\<close> (\<open>device_backend.c\<close>): sessions, requests, events and
    waiting. The interface \<open>device_invariant\<close> reduces an invariant of a context to its primitive steps; it is
    interpreted for well-formedness and for the use of file descriptors. A packet is sent as exactly its
    fragments and received from exactly its fragments.

  \<^bold>\<open>Bounds and loops.\<close> Loops are structural recursion or \<open>function\<close> with a measure. Where a loop of the code
  waits for the outside world (\<open>wait_condition\<close> of the simulator, \<open>poll\<close>, \<open>send\<close> and \<open>recv\<close> of the device backend),
  what the outside world does is a finite script that the theorems quantify over: a run in which
  every call of the system returns consumes only finitely many answers, so every such run is covered,
  and no fuel is chosen. After the last answer a wait times out and a socket is broken. That a daemon
  which never stops sending events ends a wait is therefore not claimed. The loop of \<open>device_send\<close>
  depends on no script; it is also stated as \<open>send_loop\<close>, which need not return, and shown to return.

  \<^bold>\<open>Not modelled.\<close> The UDP backend (\<open>udp_backend.c\<close>): its codec, reassembler, fault injector and timing are
  modelled, the socket loop that connects them is not. The daemon (\<open>src/vspwd\<close>), the CUSE device
  (\<open>src/cuse\<close>) and the command line tools (\<open>src/tools\<close>): event loops over sockets, libfuse and terminals. The
  platform layer (\<open>src/platform\<close>) is the operating system's side of the schedules above. The profiling
  hooks (\<open>src/profiling\<close>) expand to nothing in a normal build. The C++ headers forward to the C functions.
  Integrations, examples and benchmarks are programs on top of the library.
\<close>

end
